(* ===== verification/Clusdr_Prelude.thy ===== *)
theory Clusdr_Prelude
  imports Main "HOL-Library.Word" "HOL-Library.Finite_Map" "HOL-Library.List_Lexorder"
    "HOL-Library.Char_ord" "HOL-Library.Signed_Division"
begin

text \<open>
  Shared vocabulary of the development: the machine integers, clock values and durations of
  the Go sources, the environment a call runs in, the treatment of \<^verbatim>\<open>map\<close> values and
  their unspecified iteration order, and the theorem collections the components add to.

  Go values are represented as follows.
  \<^item> \<^verbatim>\<open>string\<close> and \<^verbatim>\<open>[]byte\<close> are byte lists, that is the type \<^typ>\<open>string\<close>; the order
    \<^verbatim>\<open><\<close> on strings is the bytewise lexicographic order of List_Lexorder.
  \<^item> \<^verbatim>\<open>uint64\<close> is \<^typ>\<open>64 word\<close>; \<^verbatim>\<open>int64\<close> values are integers whose wrap-around is
    written out with the function \<open>i64\<close> below.
  \<^item> \<^verbatim>\<open>time.Time\<close> is an integer number of nanoseconds since Go's zero time (1 January of
    year 1, UTC), so the zero value is 0; \<^verbatim>\<open>time.Duration\<close> is an int64 of nanoseconds.
  \<^item> \<^verbatim>\<open>map[K]V\<close> is a finite map; a \<^verbatim>\<open>range\<close> loop visits the keys in some order, which is a
    distinct list of exactly the keys.
\<close>

named_theorems op_defs \<open>definitions of operations, unfolded in the component proofs\<close>
named_theorems inv_intros \<open>preservation of the component invariants\<close>

section \<open>Machine integers\<close>

type_synonym u64 = "64 word"

definition i64 :: "int \<Rightarrow> int" where
  "i64 x = (x + 2 ^ 63) mod 2 ^ 64 - 2 ^ 63"

definition in_i64 :: "int \<Rightarrow> bool" where
  "in_i64 x \<longleftrightarrow> - (2 ^ 63) \<le> x \<and> x < 2 ^ 63"

section \<open>Time\<close>

type_synonym gotime = int
type_synonym duration = int

definition Millisecond :: duration where
  "Millisecond = 1000000"

definition Second :: duration where
  "Second = 1000000000"

definition Hour :: duration where
  "Hour = 3600 * 1000000000"

definition unix_epoch :: gotime where
  "unix_epoch = 62135596800 * 1000000000"

definition IsZero :: "gotime \<Rightarrow> bool" where
  "IsZero t \<longleftrightarrow> t = 0"

definition UnixMilli :: "int \<Rightarrow> gotime" where
  "UnixMilli ms = unix_epoch + ms * 1000000"

definition to_UnixMilli :: "gotime \<Rightarrow> int" where
  "to_UnixMilli t = i64 ((t - unix_epoch) div 1000000)"

definition Milliseconds :: "duration \<Rightarrow> int" where
  "Milliseconds d = d sdiv 1000000"

text \<open>
  The environment of a call: the reading of the wall clock, and the parts of the Unicode
  tables beyond Latin-1 that \<^verbatim>\<open>unicode.IsLetter\<close> and \<^verbatim>\<open>unicode.IsDigit\<close> consult, and
  beyond ASCII that \<^verbatim>\<open>unicode.ToLower\<close> consults. The tables depend on the Go release, so they are a
  parameter.
\<close>

record env =
  env_now :: gotime
  letter_table :: "nat \<Rightarrow> bool"
  digit_table :: "nat \<Rightarrow> bool"
  lower_table :: "nat \<Rightarrow> nat"

definition same_tables :: "env \<Rightarrow> env \<Rightarrow> bool" where
  "same_tables e e' \<longleftrightarrow> letter_table e = letter_table e' \<and> digit_table e = digit_table e' \<and>
     lower_table e = lower_table e'"

definition ascii_env :: "gotime \<Rightarrow> env" where
  "ascii_env t = \<lparr>env_now = t, letter_table = (\<lambda>_. False), digit_table = (\<lambda>_. False),
     lower_table = (\<lambda>r. r)\<rparr>"

section \<open>Maps and range loops\<close>

definition is_range :: "('k, 'v) fmap \<Rightarrow> 'k list \<Rightarrow> bool" where
  "is_range m ks \<longleftrightarrow> distinct ks \<and> set ks = fmdom' m"

definition range_vals :: "('k, 'v) fmap \<Rightarrow> 'k list \<Rightarrow> 'v list" where
  "range_vals m ks = map (\<lambda>k. the (fmlookup m k)) ks"

definition map_keys :: "('k::linorder, 'v) fmap \<Rightarrow> 'k list" where
  "map_keys m = sorted_list_of_fset (fmdom m)"

definition map_len :: "('k, 'v) fmap \<Rightarrow> nat" where
  "map_len m = fcard (fmdom m)"

definition keyed :: "('v \<Rightarrow> 'k) \<Rightarrow> ('k, 'v) fmap \<Rightarrow> bool" where
  "keyed key m \<longleftrightarrow> (\<forall>k v. fmlookup m k = Some v \<longrightarrow> key v = k)"

section \<open>Lemmas\<close>

subsection \<open>Machine integers and time\<close>

lemma i64_id [simp]: "in_i64 x \<Longrightarrow> i64 x = x"
  unfolding in_i64_def i64_def by (simp add: mod_pos_pos_trivial)

lemma in_i64_i64 [simp]: "in_i64 (i64 x)"
proof -
  have "0 \<le> (x + 2 ^ 63) mod 2 ^ 64" "(x + 2 ^ 63) mod 2 ^ 64 < (2 :: int) ^ 64"
    by simp_all
  then show ?thesis unfolding in_i64_def i64_def by simp
qed

lemma UnixMilli_not_zero: "in_i64 ms \<Longrightarrow> UnixMilli ms = 0 \<longleftrightarrow> ms = - 62135596800000"
  unfolding UnixMilli_def unix_epoch_def in_i64_def by auto

lemma to_UnixMilli_UnixMilli [simp]: "in_i64 ms \<Longrightarrow> to_UnixMilli (UnixMilli ms) = ms"
  unfolding to_UnixMilli_def UnixMilli_def by simp

lemma Milliseconds_nonneg: "0 \<le> d \<Longrightarrow> Milliseconds d = d div 1000000"
  unfolding Milliseconds_def by (simp add: signed_divide_int_def sgn_if)

lemma same_tables_refl [simp]: "same_tables e e"
  by (simp add: same_tables_def)

lemma same_tables_now [simp]:
  "same_tables (e\<lparr>env_now := t\<rparr>) e' = same_tables e e'"
  "same_tables e (e'\<lparr>env_now := t\<rparr>) = same_tables e e'"
  by (simp_all add: same_tables_def)

lemma ascii_env_simps [simp]: "env_now (ascii_env t) = t" "same_tables (ascii_env t) (ascii_env t')"
  by (simp_all add: ascii_env_def same_tables_def)

lemma u64_next_unat: "(n :: u64) \<noteq> - 1 \<Longrightarrow> unat (n + 1) = unat n + 1"
  by (metis Suc_eq_plus1 add.commute add_eq_0_iff unatSuc)

lemma u64_next_unat_lt: "unat (n :: u64) + 1 < 2 ^ 64 \<Longrightarrow> unat (n + 1) = unat n + 1"
  by (simp add: unat_word_ariths)

lemma unat_u64_inject [simp]: "unat (a :: u64) = unat b \<longleftrightarrow> a = b"
  by (simp add: word_unat_eq_iff)

lemma unat_u64_lt: "unat (n :: u64) < 2 ^ 64"
proof -
  have "unat n < 2 ^ LENGTH(64)" by (rule unsigned_less)
  then show ?thesis by simp
qed

subsection \<open>Maps and range loops\<close>

lemma range_map_keys [simp, intro]: "is_range m (map_keys m)"
  unfolding is_range_def map_keys_def
  by (simp add: fmdom'_alt_def sorted_list_of_fset.rep_eq)

lemma set_map_keys [simp]: "set (map_keys m) = fmdom' m"
  using range_map_keys [of m] by (simp add: is_range_def)

lemma distinct_map_keys [simp]: "distinct (map_keys m)"
  using range_map_keys [of m] by (simp add: is_range_def)

lemma sorted_map_keys [simp]: "sorted (map_keys m)"
  by (simp add: map_keys_def sorted_list_of_fset.rep_eq)

lemma is_range_sort: "is_range m ks \<Longrightarrow> sort ks = map_keys m"
  by (rule sorted_distinct_set_unique) (auto simp: is_range_def)

lemma insort_key_map:
  assumes "key (f x) = x" and "\<And>y. y \<in> set ys \<Longrightarrow> key (f y) = y"
  shows "insort_key key (f x) (map f ys) = map f (insort x ys)"
  using assms(2) by (induction ys) (auto simp: assms(1))

lemma sort_key_map:
  assumes "\<And>y. y \<in> set ys \<Longrightarrow> key (f y) = y"
  shows "sort_key key (map f ys) = map f (sort ys)"
  using assms
proof (induction ys)
  case (Cons a ys)
  then have "sort_key key (map f (a # ys)) = insort_key key (f a) (map f (sort ys))"
    by simp
  also have "\<dots> = map f (insort a (sort ys))"
    by (rule insort_key_map) (use Cons.prems in auto)
  finally show ?case by simp
qed simp

text \<open>
  A slice filled by a range loop over a keyed map and then sorted by the key is the same for
  every iteration order.
\<close>

lemma sorted_range_unique:
  assumes "keyed key m" and "is_range m ks"
  shows "sort_key key (range_vals m ks) = range_vals m (map_keys m)"
proof -
  have "key (the (fmlookup m k)) = k" if "k \<in> set ks" for k
    using that assms by (auto simp: is_range_def keyed_def fmlookup_dom'_iff)
  then show ?thesis
    unfolding range_vals_def by (simp add: sort_key_map is_range_sort [OF assms(2)])
qed

lemma keyed_range_vals:
  assumes "keyed key m" and "is_range m ks"
  shows "map key (range_vals m ks) = ks"
proof -
  have "key (the (fmlookup m k)) = k" if "k \<in> set ks" for k
    using that assms by (auto simp: is_range_def keyed_def fmlookup_dom'_iff)
  then show ?thesis unfolding range_vals_def by (simp add: map_idI)
qed

lemma sorted_filter_range_unique:
  assumes "keyed key m" and "is_range m ks"
  shows "sort_key key (filter P (range_vals m ks)) = filter P (range_vals m (map_keys m))"
  by (metis assms filter_sort sorted_range_unique)

lemma keyed_empty [simp]: "keyed key fmempty"
  by (simp add: keyed_def)

lemma keyed_upd [intro]: "keyed key m \<Longrightarrow> key v = k \<Longrightarrow> keyed key (fmupd k v m)"
  by (auto simp: keyed_def)

lemma keyed_drop [intro]: "keyed key m \<Longrightarrow> keyed key (fmdrop k m)"
  by (auto simp: keyed_def)

lemma map_len_empty [simp]: "map_len fmempty = 0"
  by (simp add: map_len_def)

lemma map_len_upd:
  "map_len (fmupd k v m) = (if fmlookup m k = None then map_len m + 1 else map_len m)"
proof (cases "k |\<in>| fmdom m")
  case True
  then show ?thesis by (auto simp: map_len_def finsert_absorb)
next
  case False
  then show ?thesis by (auto simp: map_len_def fcard_finsert_disjoint)
qed

lemma map_len_map [simp]: "map_len (fmmap f m) = map_len m"
  by (simp add: map_len_def)

declare fmmap_fmupd [simp]

lemma fmupd_same: "fmlookup m k = Some v \<Longrightarrow> fmupd k v m = m"
  by (rule fmap_ext) auto

text \<open>Rebuilding a keyed map from a slice that a range loop filled gives the map back.\<close>

lemma fold_upd_range:
  assumes "keyed key m" and "is_range m ks"
  shows "fold (\<lambda>v. fmupd (key v) v) (range_vals m ks) fmempty = m"
proof (rule fmap_ext)
  fix k
  have key: "key (the (fmlookup m k)) = k" if "k \<in> set ks" for k
    using that assms by (auto simp: is_range_def keyed_def fmlookup_dom'_iff)
  have "fmlookup (fold (\<lambda>v. fmupd (key v) v) (map (\<lambda>k. the (fmlookup m k)) xs) m0) k =
      (if k \<in> set xs then fmlookup m k else fmlookup m0 k)" if "set xs \<subseteq> set ks" for xs m0
    using that
  proof (induction xs arbitrary: m0)
    case (Cons x xs)
    then have "fmlookup m x \<noteq> None"
      using assms(2) by (auto simp: is_range_def fmlookup_dom'_iff)
    then show ?case using Cons key [of x] by auto
  qed simp
  from this [of ks fmempty]
  show "fmlookup (fold (\<lambda>v. fmupd (key v) v) (range_vals m ks) fmempty) k = fmlookup m k"
    using assms(2) by (auto simp: range_vals_def is_range_def fmdom'_notD)
qed

lemma map_len_drop_le [simp]: "map_len (fmdrop k m) \<le> map_len m"
  by (auto simp: map_len_def intro!: fcard_mono)

lemma range_vals_lookup:
  "is_range m ks \<Longrightarrow> v \<in> set (range_vals m ks) \<longleftrightarrow> (\<exists>k. fmlookup m k = Some v)"
  by (force simp: range_vals_def is_range_def fmlookup_dom'_iff)

end
