(* ===== verification/Go_Strings.thy ===== *)
theory Go_Strings
  imports Clusdr_Prelude
begin

text \<open>
  What the sources use of Go's strings: decoding a string into runes (the \<^verbatim>\<open>range\<close> loop over a
  string), the character classes of package unicode, and the prefix functions of package
  strings. Decoding follows the UTF-8 rules of the language: an invalid byte yields the rune
  U+FFFD and advances by one byte.
\<close>

section \<open>UTF-8\<close>

definition byte :: "char \<Rightarrow> nat" where
  "byte c = of_char c"

definition rune_error :: nat where
  "rune_error = 65533"

definition is_cont :: "nat \<Rightarrow> bool" where
  "is_cont b \<longleftrightarrow> 128 \<le> b \<and> b \<le> 191"

definition second_range :: "nat \<Rightarrow> nat \<times> nat" where
  "second_range b =
     (if b = 224 then (160, 191) else if b = 237 then (128, 159)
      else if b = 240 then (144, 191) else if b = 244 then (128, 143) else (128, 191))"

definition second_ok :: "nat \<Rightarrow> nat \<Rightarrow> bool" where
  "second_ok b b1 \<longleftrightarrow> fst (second_range b) \<le> b1 \<and> b1 \<le> snd (second_range b)"

text \<open>The first rune of a byte list and the number of bytes it takes.\<close>

fun decode_rune :: "nat list \<Rightarrow> nat \<times> nat" where
  "decode_rune [] = (rune_error, 0)"
| "decode_rune (b # bs) =
     (if b < 128 then (b, 1)
      else if 194 \<le> b \<and> b \<le> 223 then
        (case bs of
           b1 # _ \<Rightarrow> if is_cont b1 then ((b - 192) * 64 + (b1 - 128), 2) else (rune_error, 1)
         | [] \<Rightarrow> (rune_error, 1))
      else if 224 \<le> b \<and> b \<le> 239 then
        (case bs of
           b1 # b2 # _ \<Rightarrow>
             if second_ok b b1 \<and> is_cont b2
             then ((b - 224) * 4096 + (b1 - 128) * 64 + (b2 - 128), 3) else (rune_error, 1)
         | _ \<Rightarrow> (rune_error, 1))
      else if 240 \<le> b \<and> b \<le> 244 then
        (case bs of
           b1 # b2 # b3 # _ \<Rightarrow>
             if second_ok b b1 \<and> is_cont b2 \<and> is_cont b3
             then ((b - 240) * 262144 + (b1 - 128) * 4096 + (b2 - 128) * 64 + (b3 - 128), 4)
             else (rune_error, 1)
         | _ \<Rightarrow> (rune_error, 1))
      else (rune_error, 1))"

function runes_of_bytes :: "nat list \<Rightarrow> nat list" where
  "runes_of_bytes [] = []"
| "runes_of_bytes (b # bs) =
     fst (decode_rune (b # bs)) # runes_of_bytes (drop (snd (decode_rune (b # bs)) - 1) bs)"
  by pat_completeness auto
termination
  by (relation "measure length") (simp_all del: decode_rune.simps)

definition runes :: "string \<Rightarrow> nat list" where
  "runes s = runes_of_bytes (map byte s)"

section \<open>Package unicode\<close>

definition latin1_letter :: "nat \<Rightarrow> bool" where
  "latin1_letter r \<longleftrightarrow>
     (65 \<le> r \<and> r \<le> 90) \<or> (97 \<le> r \<and> r \<le> 122) \<or> r = 170 \<or> r = 181 \<or> r = 186 \<or>
     (192 \<le> r \<and> r \<le> 214) \<or> (216 \<le> r \<and> r \<le> 246) \<or> (248 \<le> r \<and> r \<le> 255)"

definition IsLetter :: "env \<Rightarrow> nat \<Rightarrow> bool" where
  "IsLetter e r = (if r \<le> 255 then latin1_letter r else letter_table e r)"

definition IsDigit :: "env \<Rightarrow> nat \<Rightarrow> bool" where
  "IsDigit e r = (if r \<le> 255 then 48 \<le> r \<and> r \<le> 57 else digit_table e r)"

text \<open>
  The character test that lock names, lease names and topics share:
  \<^verbatim>\<open>unicode.IsLetter(r) || unicode.IsDigit(r) || r == '.' || r == '_' || r == '-'\<close>.
\<close>

definition name_rune :: "env \<Rightarrow> nat \<Rightarrow> bool" where
  "name_rune e r \<longleftrightarrow> IsLetter e r \<or> IsDigit e r \<or> r = 46 \<or> r = 95 \<or> r = 45"

section \<open>Package strings\<close>

fun HasPrefix :: "string \<Rightarrow> string \<Rightarrow> bool" where
  "HasPrefix s [] = True"
| "HasPrefix [] (p # ps) = False"
| "HasPrefix (c # s) (p # ps) = (c = p \<and> HasPrefix s ps)"

definition TrimPrefix :: "string \<Rightarrow> string \<Rightarrow> string" where
  "TrimPrefix s p = (if HasPrefix s p then drop (length p) s else s)"

section \<open>Lemmas\<close>

lemma HasPrefix_iff: "HasPrefix s p \<longleftrightarrow> (\<exists>t. s = p @ t)"
  by (induction s p rule: HasPrefix.induct) auto

lemma HasPrefix_append [simp]: "HasPrefix (p @ t) p"
  by (auto simp: HasPrefix_iff)

lemma TrimPrefix_append [simp]: "TrimPrefix (p @ t) p = t"
  by (simp add: TrimPrefix_def)

lemma decode_rune_ascii [simp]: "b < 128 \<Longrightarrow> decode_rune (b # bs) = (b, 1)"
  by simp

text \<open>On ASCII text the runes are the bytes.\<close>

lemma runes_of_bytes_ascii: "(\<And>b. b \<in> set bs \<Longrightarrow> b < 128) \<Longrightarrow> runes_of_bytes bs = bs"
  by (induction bs rule: runes_of_bytes.induct) auto

lemma runes_ascii: "(\<And>c. c \<in> set s \<Longrightarrow> byte c < 128) \<Longrightarrow> runes s = map byte s"
  unfolding runes_def by (rule runes_of_bytes_ascii) auto

lemma runes_Nil [simp]: "runes [] = []"
  by (simp add: runes_def)

lemma runes_eq_Nil [simp]: "runes s = [] \<longleftrightarrow> s = []"
  by (cases s) (auto simp: runes_def)

lemma IsLetter_tables: "same_tables e e' \<Longrightarrow> IsLetter e r = IsLetter e' r"
  by (simp add: IsLetter_def same_tables_def)

lemma IsDigit_tables: "same_tables e e' \<Longrightarrow> IsDigit e r = IsDigit e' r"
  by (simp add: IsDigit_def same_tables_def)

lemma name_rune_tables: "same_tables e e' \<Longrightarrow> name_rune e r = name_rune e' r"
  by (simp add: name_rune_def IsLetter_tables [of e e'] IsDigit_tables [of e e'])

lemma name_rune_now [simp]: "name_rune (e\<lparr>env_now := t\<rparr>) r = name_rune e r"
  by (rule name_rune_tables) simp

end
