(* ===== verification/Go_Json.thy ===== *)
theory Go_Json
  imports Go_Strings
begin

text \<open>
  The values of package encoding/json as the sources use it: the value a struct or map is
  marshalled to, its text (used for event payloads), and the decoding of object fields.
  Struct fields are emitted in declaration order, map keys in sorted order; decoding visits
  the members of an object in order, so a later duplicate wins, and an unknown key is skipped.
\<close>

datatype json =
    JNull
  | JBool bool
  | JInt int
  | JFloat string
  | JStr string
  | JArr "json list"
  | JObj "(string \<times> json) list"

section \<open>Text of a value\<close>

definition chr_of :: "nat \<Rightarrow> char" where
  "chr_of n = char_of n"

fun decimal :: "nat \<Rightarrow> string" where
  "decimal n =
     (if n < 10 then [chr_of (48 + n)] else decimal (n div 10) @ [chr_of (48 + n mod 10)])"

declare decimal.simps [simp del]

definition decimal_int :: "int \<Rightarrow> string" where
  "decimal_int i = (if i < 0 then ''-'' @ decimal (nat (- i)) else decimal (nat i))"

definition hex_digit :: "nat \<Rightarrow> char" where
  "hex_digit n = (if n < 10 then chr_of (48 + n) else chr_of (87 + n))"

text \<open>
  The escapes of an ASCII byte in a JSON string, with HTML escaping on, as
  \<^verbatim>\<open>json.Marshal\<close> has it.
\<close>

definition json_escape_byte :: "nat \<Rightarrow> string" where
  "json_escape_byte b =
     (if b = 34 \<or> b = 92 then [chr_of 92, chr_of b]
      else if b = 8 then [chr_of 92, CHR ''b'']
      else if b = 12 then [chr_of 92, CHR ''f'']
      else if b = 10 then [chr_of 92, CHR ''n'']
      else if b = 13 then [chr_of 92, CHR ''r'']
      else if b = 9 then [chr_of 92, CHR ''t'']
      else if b < 32 \<or> b = 60 \<or> b = 62 \<or> b = 38
        then [chr_of 92] @ ''u00'' @ [hex_digit (b div 16), hex_digit (b mod 16)]
      else [chr_of b])"

fun json_string_bytes :: "nat list \<Rightarrow> string" where
  "json_string_bytes [] = ''''"
| "json_string_bytes (b # bs) =
     (if b < 128 then json_escape_byte b @ json_string_bytes bs
      else case decode_rune (b # bs) of (r, w) \<Rightarrow>
        if r = rune_error \<and> w = 1 then [chr_of 92] @ ''ufffd'' @ json_string_bytes bs
        else if r = 8232 then [chr_of 92] @ ''u2028'' @ json_string_bytes (drop (w - 1) bs)
        else if r = 8233 then [chr_of 92] @ ''u2029'' @ json_string_bytes (drop (w - 1) bs)
        else map chr_of (take w (b # bs)) @ json_string_bytes (drop (w - 1) bs))"

definition json_string :: "string \<Rightarrow> string" where
  "json_string s = [chr_of 34] @ json_string_bytes (map byte s) @ [chr_of 34]"

fun comma_sep :: "string list \<Rightarrow> string" where
  "comma_sep [] = ''''"
| "comma_sep [x] = x"
| "comma_sep (x # xs) = x @ '','' @ comma_sep xs"

fun json_text :: "json \<Rightarrow> string" where
  "json_text JNull = ''null''"
| "json_text (JBool b) = (if b then ''true'' else ''false'')"
| "json_text (JInt i) = decimal_int i"
| "json_text (JFloat s) = s"
| "json_text (JStr s) = json_string s"
| "json_text (JArr xs) = ''['' @ comma_sep (map json_text xs) @ '']''"
| "json_text (JObj fs) =
     ''{'' @ comma_sep (map (\<lambda>(k, v). json_string k @ '':'' @ json_text v) fs) @ ''}''"

text \<open>
  \<^verbatim>\<open>json.Marshal\<close> replaces every byte that is not part of a well-formed rune by U+FFFD, so this is
  the string that a reader of the text gets back.
\<close>

function coerce_bytes :: "nat list \<Rightarrow> nat list" where
  "coerce_bytes [] = []"
| "coerce_bytes (b # bs) =
     (if b < 128 then b # coerce_bytes bs
      else case decode_rune (b # bs) of (r, w) \<Rightarrow>
        if r = rune_error \<and> w = 1 then [239, 191, 189] @ coerce_bytes bs
        else take w (b # bs) @ coerce_bytes (drop (w - 1) bs))"
  by pat_completeness auto
termination
  by (relation "measure length") (simp_all del: decode_rune.simps)

definition coerce_utf8 :: "string \<Rightarrow> string" where
  "coerce_utf8 s = map chr_of (coerce_bytes (map byte s))"

definition valid_utf8 :: "string \<Rightarrow> bool" where
  "valid_utf8 s \<longleftrightarrow> coerce_utf8 s = s"

section \<open>Marshalling struct fields\<close>

definition omit_str :: "string \<Rightarrow> string \<Rightarrow> (string \<times> json) list" where
  "omit_str k s = (if s = '''' then [] else [(k, JStr (coerce_utf8 s))])"

definition omit_int :: "string \<Rightarrow> int \<Rightarrow> (string \<times> json) list" where
  "omit_int k i = (if i = 0 then [] else [(k, JInt i)])"

definition omit_u64 :: "string \<Rightarrow> u64 \<Rightarrow> (string \<times> json) list" where
  "omit_u64 k w = (if w = 0 then [] else [(k, JInt (uint w))])"

section \<open>Unmarshalling into a field\<close>

text \<open>
  A JSON null leaves a field unchanged; a value of the wrong type or out of range is an error.
\<close>

definition into_str :: "json \<Rightarrow> string \<Rightarrow> string option" where
  "into_str v old = (case v of JStr s \<Rightarrow> Some s | JNull \<Rightarrow> Some old | _ \<Rightarrow> None)"

definition into_i64 :: "json \<Rightarrow> int \<Rightarrow> int option" where
  "into_i64 v old =
     (case v of JInt i \<Rightarrow> if in_i64 i then Some i else None | JNull \<Rightarrow> Some old | _ \<Rightarrow> None)"

definition into_u64 :: "json \<Rightarrow> u64 \<Rightarrow> u64 option" where
  "into_u64 v old =
     (case v of
        JInt i \<Rightarrow> if 0 \<le> i \<and> i < 2 ^ 64 then Some (word_of_int i) else None
      | JNull \<Rightarrow> Some old | _ \<Rightarrow> None)"

section \<open>Lemmas\<close>

lemma chr_of_byte [simp]: "chr_of (byte c) = c"
  by (simp add: chr_of_def byte_def)

lemma coerce_bytes_ascii: "list_all (\<lambda>b. b < 128) bs \<Longrightarrow> coerce_bytes bs = bs"
  by (induction bs) simp_all

lemma valid_utf8_ascii: "list_all (\<lambda>c. byte c < 128) s \<Longrightarrow> valid_utf8 s"
  unfolding valid_utf8_def coerce_utf8_def
  by (simp add: coerce_bytes_ascii list.pred_map comp_def map_idI)

lemma into_str_JStr [simp]: "into_str (JStr s) old = Some s"
  by (simp add: into_str_def)

lemma into_i64_JInt [simp]: "in_i64 i \<Longrightarrow> into_i64 (JInt i) old = Some i"
  by (simp add: into_i64_def)

lemma into_u64_JInt [simp]: "into_u64 (JInt (uint w)) old = Some (w :: u64)"
  using uint_lt2p [of w] by (simp add: into_u64_def)

end
