(* ===== verification/Events.thy ===== *)
theory Events
  imports Go_Json
begin

text \<open>
  Package internal/events: the event type that all engines emit, the built-in type strings, and
  the naming rules of custom topics. An \<^verbatim>\<open>error\<close> result is an option, \<^term>\<open>None\<close> for nil.
\<close>

definition TypeMemberJoin :: string where "TypeMemberJoin = ''member.join''"
definition TypeMemberDead :: string where "TypeMemberDead = ''member.dead''"
definition TypeMemberLeft :: string where "TypeMemberLeft = ''member.left''"
definition TypeLeaderChanged :: string where "TypeLeaderChanged = ''leader.changed''"
definition TypeLockExpired :: string where "TypeLockExpired = ''lock.expired''"
definition TypeLeaseGranted :: string where "TypeLeaseGranted = ''lease.granted''"
definition TypeLeaseExpired :: string where "TypeLeaseExpired = ''lease.expired''"
definition TypeLeaseRevoked :: string where "TypeLeaseRevoked = ''lease.revoked''"
definition TypeWatchSync :: string where "TypeWatchSync = ''watch.sync''"
definition TypeWatchGap :: string where "TypeWatchGap = ''watch.gap''"
definition TypeCustomPrefix :: string where "TypeCustomPrefix = ''custom.''"

record event =
  ev_type :: string
  ev_source :: string
  ev_payload :: string
  ev_timestamp :: gotime
  ev_seq :: u64

text \<open>An event as an engine fills it in: the bus sets the time stamp and the sequence number.\<close>

definition mk_event :: "string \<Rightarrow> string \<Rightarrow> string \<Rightarrow> event" where
  "mk_event typ src payload =
     \<lparr>ev_type = typ, ev_source = src, ev_payload = payload, ev_timestamp = 0, ev_seq = 0\<rparr>"

section \<open>Topics\<close>

datatype topic_error = TopicRequired | TopicTooLong | TopicBadRune nat

definition MaxTopicLen :: nat where "MaxTopicLen = 128"

definition MaxPayloadBytes :: nat where "MaxPayloadBytes = 65536"

definition CustomType :: "string \<Rightarrow> string" where
  "CustomType topic = TypeCustomPrefix @ topic"

definition NormalizeTopic :: "string \<Rightarrow> string" where
  "NormalizeTopic topic = TrimPrefix topic TypeCustomPrefix"

definition TopicFromType :: "string \<Rightarrow> string option" where
  "TopicFromType eventType =
     (if \<not> HasPrefix eventType TypeCustomPrefix then None
      else let topic = drop (length TypeCustomPrefix) eventType in
        if topic = '''' then None else Some topic)"

definition isTopicChar :: "env \<Rightarrow> nat \<Rightarrow> bool" where
  "isTopicChar e r \<longleftrightarrow> IsLetter e r \<or> IsDigit e r \<or> r = 46 \<or> r = 95 \<or> r = 45"

definition ValidTopic :: "env \<Rightarrow> string \<Rightarrow> topic_error option" where
  "ValidTopic e topic0 =
     (let topic = NormalizeTopic topic0 in
      if topic = '''' then Some TopicRequired
      else if length topic > MaxTopicLen then Some TopicTooLong
      else case find (\<lambda>r. \<not> isTopicChar e r) (runes topic) of
        Some r \<Rightarrow> Some (TopicBadRune r)
      | None \<Rightarrow> None)"

lemmas type_defs = TypeMemberJoin_def TypeMemberDead_def TypeMemberLeft_def
  TypeLeaderChanged_def TypeLockExpired_def TypeLeaseGranted_def TypeLeaseExpired_def
  TypeLeaseRevoked_def TypeWatchSync_def TypeWatchGap_def TypeCustomPrefix_def

section \<open>Lemmas\<close>

lemma NormalizeTopic_CustomType [simp]: "NormalizeTopic (CustomType t) = t"
  by (simp add: NormalizeTopic_def CustomType_def)

lemma TopicFromType_CustomType [simp]: "t \<noteq> '''' \<Longrightarrow> TopicFromType (CustomType t) = Some t"
  by (simp add: TopicFromType_def CustomType_def)

lemma TopicFromType_SomeD: "TopicFromType ty = Some t \<Longrightarrow> ty = CustomType t \<and> t \<noteq> ''''"
  by (auto simp: TopicFromType_def CustomType_def HasPrefix_iff Let_def split: if_splits)

lemma ValidTopic_tables: "same_tables e e' \<Longrightarrow> ValidTopic e t = ValidTopic e' t"
  unfolding ValidTopic_def isTopicChar_def
  using IsLetter_tables [of e e'] IsDigit_tables [of e e'] by presburger

lemma ValidTopic_None_iff:
  "ValidTopic e t = None \<longleftrightarrow>
     NormalizeTopic t \<noteq> '''' \<and> length (NormalizeTopic t) \<le> MaxTopicLen \<and>
     (\<forall>r \<in> set (runes (NormalizeTopic t)). isTopicChar e r)"
  by (auto simp: ValidTopic_def Let_def find_None_iff find_Some_iff split: option.splits)

end
