(* ===== verification/Fenced_Table.thy ===== *)
theory Fenced_Table
  imports Events
begin

text \<open>
  The contract that the lock table (internal/locks) and the lease table (internal/leases) share:
  named exclusive grants, each carrying a fencing token drawn from a counter. The contract is an
  abstract machine with unbounded tokens; the locale \<open>fenced_table\<close> says that a concrete
  table implements it as long as its 64-bit counter does not run out, and the facts a client
  relies on are proved once inside the locale.
\<close>

datatype grant_error =
    NameRequired | NameTooLong | NameBadRune nat | HolderRequired | TooMany
  | NotHeld string | TokenMismatch string

text \<open>
  One operation on a table, as the state machine issues it: take a name for a holder, release
  it, extend its deadline, expire it.
\<close>

datatype grant_op =
    Take string string gotime duration
  | Give string string u64
  | Extend string string u64 gotime duration
  | Lapse string u64

section \<open>The abstract machine\<close>

record grant_spec =
  held :: "(string, string \<times> nat) fmap"
  issued :: nat

definition spec_init :: grant_spec where
  "spec_init = \<lparr>held = fmempty, issued = 0\<rparr>"

fun spec_step :: "(string \<Rightarrow> bool) \<Rightarrow> nat \<Rightarrow> grant_op \<Rightarrow> grant_spec \<Rightarrow> grant_spec" where
  "spec_step valid cap (Take n h dl ttl) s =
     (if \<not> valid n \<or> h = '''' \<or> fmlookup (held s) n \<noteq> None \<or> cap \<le> map_len (held s) then s
      else \<lparr>held = fmupd n (h, issued s + 1) (held s), issued = issued s + 1\<rparr>)"
| "spec_step valid cap (Give n h k) s =
     (if valid n \<and> fmlookup (held s) n = Some (h, unat k)
      then s\<lparr>held := fmdrop n (held s)\<rparr> else s)"
| "spec_step valid cap (Extend n h k dl ttl) s = s"
| "spec_step valid cap (Lapse n k) s =
     (if valid n \<and> map_option snd (fmlookup (held s) n) = Some (unat k)
      then s\<lparr>held := fmdrop n (held s)\<rparr> else s)"

fun spec_run :: "nat \<Rightarrow> ((string \<Rightarrow> bool) \<times> grant_op) list \<Rightarrow> grant_spec \<Rightarrow> grant_spec" where
  "spec_run cap [] s = s"
| "spec_run cap ((v, op) # ops) s = spec_run cap ops (spec_step v cap op s)"

definition spec_inv :: "nat \<Rightarrow> grant_spec \<Rightarrow> bool" where
  "spec_inv cap s \<longleftrightarrow>
     map_len (held s) \<le> cap \<and>
     (\<forall>n h k. fmlookup (held s) n = Some (h, k) \<longrightarrow> h \<noteq> '''' \<and> 0 < k \<and> k \<le> issued s) \<and>
     (\<forall>n n' h h' k. fmlookup (held s) n = Some (h, k) \<longrightarrow>
        fmlookup (held s) n' = Some (h', k) \<longrightarrow> n = n')"

section \<open>Properties of the abstract machine\<close>

lemma spec_inv_init: "spec_inv cap spec_init"
  by (simp add: spec_inv_def spec_init_def)

lemma spec_inv_step: "spec_inv cap s \<Longrightarrow> spec_inv cap (spec_step v cap op s)"
proof (induction v cap op s rule: spec_step.induct)
  case (1 valid cap n h dl ttl s)
  then show ?case by (fastforce simp: spec_inv_def map_len_upd split: if_splits)
next
  case (2 valid cap n h k s)
  then show ?case
    by (auto simp: spec_inv_def intro: order_trans [OF map_len_drop_le] split: if_splits)
next
  case (4 valid cap n k s)
  then show ?case
    by (auto simp: spec_inv_def intro: order_trans [OF map_len_drop_le] split: if_splits)
qed simp

lemma spec_inv_run: "spec_inv cap s \<Longrightarrow> spec_inv cap (spec_run cap ops s)"
  by (induction cap ops s rule: spec_run.induct) (simp_all add: spec_inv_step)

lemma spec_step_issued:
  "issued s \<le> issued (spec_step v cap op s)"
  "issued (spec_step v cap op s) \<le> issued s + 1"
  by (induction v cap op s rule: spec_step.induct) auto

lemma spec_run_issued_mono: "issued s \<le> issued (spec_run cap ops s)"
  by (induction cap ops s rule: spec_run.induct)
    (auto intro: order_trans spec_step_issued(1))

lemma spec_run_issued_le: "issued (spec_run cap ops s) \<le> issued s + length ops"
proof (induction cap ops s rule: spec_run.induct)
  case (2 cap v op ops s)
  then show ?case using spec_step_issued(2) [of v cap op s] by simp
qed simp

text \<open>A step keeps a grant, ends it, or hands out the next token.\<close>

lemma spec_step_grant:
  assumes "fmlookup (held (spec_step v cap op s)) n = Some (h, k)"
  shows "fmlookup (held s) n = Some (h, k) \<or>
    fmlookup (held s) n = None \<and> k = issued s + 1 \<and> issued (spec_step v cap op s) = k"
  using assms
  by (induction v cap op s rule: spec_step.induct) (auto simp del: not_None_eq split: if_splits)

text \<open>
  Along any run, the grant of a name found at the end is the one it had at the start or one with
  a token handed out in between.
\<close>

lemma spec_run_grant:
  assumes "fmlookup (held (spec_run cap ops s)) n = Some (h, k)"
  shows "fmlookup (held s) n = Some (h, k) \<or> issued s < k"
  using assms
proof (induction cap ops s rule: spec_run.induct)
  case (2 cap v op ops s)
  then have "fmlookup (held (spec_step v cap op s)) n = Some (h, k) \<or>
      issued (spec_step v cap op s) < k"
    by simp
  then show ?case
    using spec_step_grant [of v cap op s n h k] spec_step_issued(1) [of s v cap op]
    by (elim disjE) auto
qed simp

lemma spec_run_fencing:
  assumes "spec_inv cap s" and "fmlookup (held s) n = Some (h, k)"
    and "fmlookup (held (spec_run cap ops s)) n = Some (h', k')"
  shows "(h', k') = (h, k) \<or> k < k'"
proof -
  have "k \<le> issued s" using assms(1,2) by (auto simp: spec_inv_def)
  with spec_run_grant [OF assms(3)] assms(2) show ?thesis by auto
qed

text \<open>A token that is spent, or was never the grant of that name, stays rejected for ever.\<close>

lemma spec_run_stale:
  assumes "k \<le> issued s" and "\<And>h. fmlookup (held s) n \<noteq> Some (h, k)"
  shows "fmlookup (held (spec_run cap ops s)) n \<noteq> Some (h, k)"
  using assms spec_run_grant [of cap ops s n h k] by auto

section \<open>The interface\<close>

text \<open>A sequence of operations, each in its own environment.\<close>

fun run_ops :: "(env \<Rightarrow> grant_op \<Rightarrow> 't \<Rightarrow> 't) \<Rightarrow> (env \<times> grant_op) list \<Rightarrow> 't \<Rightarrow> 't" where
  "run_ops step [] t = t"
| "run_ops step ((e, op) # ops) t = run_ops step ops (step e op t)"

lemma run_ops_append [simp]: "run_ops step (ops @ ops') t = run_ops step ops' (run_ops step ops t)"
  by (induction step ops t rule: run_ops.induct) simp_all

text \<open>The operations of a run as the contract sees them.\<close>

definition spec_ops ::
  "(env \<Rightarrow> string \<Rightarrow> bool) \<Rightarrow> (env \<times> grant_op) list \<Rightarrow> ((string \<Rightarrow> bool) \<times> grant_op) list" where
  "spec_ops valid ops = map (\<lambda>(e, op). (valid e, op)) ops"

text \<open>
  A table with operation \<open>step\<close>, empty table \<open>init\<close>, invariant \<open>inv\<close> and capacity \<open>cap\<close> implements the contract
  through the abstraction \<open>absf\<close>.
\<close>

locale fenced_table =
  fixes step :: "env \<Rightarrow> grant_op \<Rightarrow> 't \<Rightarrow> 't"
    and absf :: "'t \<Rightarrow> grant_spec"
    and valid :: "env \<Rightarrow> string \<Rightarrow> bool"
    and cap :: nat
    and inv :: "'t \<Rightarrow> bool"
    and init :: 't
  assumes inv_init: "inv init"
    and abs_init: "absf init = spec_init"
    and inv_step: "inv t \<Longrightarrow> inv (step e op t)"
    and abs_step: "inv t \<Longrightarrow> issued (absf t) + 1 < 2 ^ 64 \<Longrightarrow>
      absf (step e op t) = spec_step (valid e) cap op (absf t)"
    and valid_tables: "same_tables e e' \<Longrightarrow> valid e n = valid e' n"
begin

lemma inv_run: "inv t \<Longrightarrow> inv (run_ops step ops t)"
  by (induction ops arbitrary: t) (auto simp: inv_step)

text \<open>A run that is too short to exhaust the counter implements the run of the contract.\<close>

lemma abs_run:
  assumes "inv t" and "issued (absf t) + length ops < 2 ^ 64"
  shows "absf (run_ops step ops t) = spec_run cap (spec_ops valid ops) (absf t)"
  using assms
proof (induction ops arbitrary: t)
  case (Cons x ops)
  obtain e op where x: "x = (e, op)" by (cases x)
  have step: "absf (step e op t) = spec_step (valid e) cap op (absf t)"
    using Cons.prems by (intro abs_step) auto
  moreover have "issued (absf (step e op t)) + length ops < 2 ^ 64"
    using Cons.prems spec_step_issued(2) [of "valid e" cap op "absf t"] step by auto
  ultimately show ?case
    using Cons.IH Cons.prems inv_step by (simp add: spec_ops_def x)
qed (simp add: spec_ops_def)

lemma run_fencing:
  assumes "inv t" and "spec_inv cap (absf t)" and "issued (absf t) + length ops < 2 ^ 64"
    and "fmlookup (held (absf t)) n = Some (h, k)"
    and "fmlookup (held (absf (run_ops step ops t))) n = Some (h', k')"
  shows "(h', k') = (h, k) \<or> k < k'"
  using assms(5) spec_run_fencing [OF assms(2,4)] by (simp add: abs_run [OF assms(1,3)])

lemma run_stale:
  assumes "inv t" and "issued (absf t) + length ops < 2 ^ 64" and "k \<le> issued (absf t)"
    and "\<And>h. fmlookup (held (absf t)) n \<noteq> Some (h, k)"
  shows "fmlookup (held (absf (run_ops step ops t))) n \<noteq> Some (h, k)"
  unfolding abs_run [OF assms(1,2)] by (rule spec_run_stale [OF assms(3,4)])

lemma run_issued_mono:
  assumes "inv t" and "issued (absf t) + length ops < 2 ^ 64"
  shows "issued (absf t) \<le> issued (absf (run_ops step ops t))"
  by (simp add: abs_run [OF assms] spec_run_issued_mono)

lemma run_spec_inv:
  assumes "inv t" and "issued (absf t) + length ops < 2 ^ 64" and "spec_inv cap (absf t)"
  shows "spec_inv cap (absf (run_ops step ops t))"
  by (simp add: abs_run [OF assms(1,2)] spec_inv_run assms(3))

text \<open>Two replicas that start alike and apply the same operations stay alike.\<close>

lemma run_replicas:
  assumes "inv t" and "inv t'" and "absf t = absf t'"
    and "issued (absf t) + length ops < 2 ^ 64"
    and "list_all2 (\<lambda>(e, op) (e', op'). same_tables e e' \<and> op = op') ops ops'"
  shows "absf (run_ops step ops t) = absf (run_ops step ops' t')"
proof -
  have len: "length ops' = length ops" using assms(5) by (simp add: list_all2_lengthD)
  have v: "same_tables e e' \<Longrightarrow> valid e = valid e'" for e e'
    using valid_tables by blast
  have "spec_ops valid ops = spec_ops valid ops'"
    using assms(5) unfolding spec_ops_def
    by (induction rule: list_all2_induct) (auto dest: v)
  then show ?thesis
    using assms abs_run [of t ops] abs_run [of t' ops'] len by simp
qed

text \<open>The same for runs from the empty table, where nothing but the length is left to assume.\<close>

lemma init_run:
  assumes "length ops < 2 ^ 64"
  shows "absf (run_ops step ops init) = spec_run cap (spec_ops valid ops) spec_init"
  using abs_run [of init ops] assms by (simp add: inv_init abs_init spec_init_def)

lemma init_issued:
  assumes "length ops < 2 ^ 64"
  shows "issued (absf (run_ops step ops init)) \<le> length ops"
  using spec_run_issued_le [of cap "spec_ops valid ops" spec_init]
  by (simp add: init_run [OF assms] spec_ops_def spec_init_def)

lemma init_inv: "inv (run_ops step ops init)"
  by (rule inv_run [OF inv_init])

lemma init_spec_inv:
  assumes "length ops < 2 ^ 64"
  shows "spec_inv cap (absf (run_ops step ops init))"
  by (simp add: init_run [OF assms] spec_inv_run spec_inv_init)

lemma init_fencing:
  assumes "length ops + length ops' < 2 ^ 64"
    and "fmlookup (held (absf (run_ops step ops init))) n = Some (h, k)"
    and "fmlookup (held (absf (run_ops step (ops @ ops') init))) n = Some (h', k')"
  shows "(h', k') = (h, k) \<or> k < k'"
proof (rule run_fencing [OF init_inv init_spec_inv _ assms(2)])
  show "issued (absf (run_ops step ops init)) + length ops' < 2 ^ 64"
    using init_issued [of ops] assms(1) by auto
qed (use assms in auto)

lemma init_stale:
  assumes "length ops + length ops' < 2 ^ 64" and "k \<le> issued (absf (run_ops step ops init))"
    and "\<And>h. fmlookup (held (absf (run_ops step ops init))) n \<noteq> Some (h, k)"
  shows "fmlookup (held (absf (run_ops step (ops @ ops') init))) n \<noteq> Some (h, k)"
proof -
  have "issued (absf (run_ops step ops init)) + length ops' < 2 ^ 64"
    using init_issued [of ops] assms(1) by auto
  from run_stale [OF init_inv this assms(2,3)] show ?thesis by simp
qed

end

end
