(* ===== verification/Locks.thy ===== *)
theory Locks
  imports Fenced_Table
begin

text \<open>
  Package internal/locks: the table of held locks that the replicated state machine mutates
  (table.go) and the leader's expiry loop (expirer.go). Lemmas: the representation invariant, the
  effect of every operation on every branch, the refinement of the contract of Fenced_Table and
  what follows from it, snapshot round trips, and the progress of the expiry loop.
\<close>

definition locks_MaxNameLen :: nat where "locks_MaxNameLen = 128"
definition MaxLocks :: nat where "MaxLocks = 4096"
definition locks_DefaultTTL :: duration where "locks_DefaultTTL = 15 * Second"
definition locks_MinTTL :: duration where "locks_MinTTL = Millisecond"
definition locks_MaxTTL :: duration where "locks_MaxTTL = 24 * Hour"
definition locks_DefaultExpireInterval :: duration where
  "locks_DefaultExpireInterval = 100 * Millisecond"

definition locks_ClampTTL :: "duration \<Rightarrow> duration \<Rightarrow> duration" where
  "locks_ClampTTL requested0 fallback =
     (let requested = (if requested0 \<le> 0 then fallback else requested0);
          requested = (if requested \<le> 0 then locks_DefaultTTL else requested)
      in if requested < locks_MinTTL then locks_MinTTL
         else if requested > locks_MaxTTL then locks_MaxTTL
         else requested)"

record lock_record =
  lk_name :: string
  lk_holder :: string
  lk_token :: u64
  lk_acquired_at :: gotime
  lk_deadline :: gotime
  lk_ttl :: duration

text \<open>
  The condition variable is represented by the number of broadcasts so far: a waiter that went
  to sleep at count \<open>b\<close> has been woken when the count exceeds \<open>b\<close>. The hook \<^verbatim>\<open>Emit\<close> is
  represented by whether it is set; an operation returns the events it passes to the hook.
\<close>

record locks_table =
  tab_locks :: "(string, lock_record) fmap"
  tab_next :: u64
  tab_wait :: nat
  tab_Emit :: bool

definition locks_New :: locks_table where
  "locks_New = \<lparr>tab_locks = fmempty, tab_next = 0, tab_wait = 0, tab_Emit = False\<rparr>"

definition locks_Broadcast :: "locks_table \<Rightarrow> locks_table" where
  "locks_Broadcast t = t\<lparr>tab_wait := tab_wait t + 1\<rparr>"

definition locks_ValidName :: "env \<Rightarrow> string \<Rightarrow> grant_error option" where
  "locks_ValidName e name =
     (if name = '''' then Some NameRequired
      else if length name > locks_MaxNameLen then Some NameTooLong
      else case find (\<lambda>r. \<not> name_rune e r) (runes name) of
        Some r \<Rightarrow> Some (NameBadRune r)
      | None \<Rightarrow> None)"

definition locks_Acquire ::
  "env \<Rightarrow> string \<Rightarrow> string \<Rightarrow> gotime \<Rightarrow> duration \<Rightarrow> locks_table \<Rightarrow>
   (grant_error + u64 \<times> bool) \<times> locks_table" where
  "locks_Acquire e name holder deadline ttl t =
     (case locks_ValidName e name of Some err \<Rightarrow> (Inl err, t)
      | None \<Rightarrow>
        if holder = '''' then (Inl HolderRequired, t)
        else case fmlookup (tab_locks t) name of
          Some rec \<Rightarrow>
            if lk_holder rec = holder then
              let rec' = rec\<lparr>lk_deadline := deadline, lk_ttl := ttl\<rparr> in
              (Inr (lk_token rec', True),
               locks_Broadcast (t\<lparr>tab_locks := fmupd name rec' (tab_locks t)\<rparr>))
            else (Inr (lk_token rec, False), t)
        | None \<Rightarrow>
            if map_len (tab_locks t) \<ge> MaxLocks then (Inl TooMany, t)
            else
              let next = tab_next t + 1;
                  rec = \<lparr>lk_name = name, lk_holder = holder, lk_token = next,
                         lk_acquired_at = env_now e, lk_deadline = deadline, lk_ttl = ttl\<rparr>
              in (Inr (next, True),
                  locks_Broadcast
                    (t\<lparr>tab_locks := fmupd name rec (tab_locks t), tab_next := next\<rparr>)))"

definition locks_Release ::
  "env \<Rightarrow> string \<Rightarrow> string \<Rightarrow> u64 \<Rightarrow> locks_table \<Rightarrow> grant_error option \<times> locks_table" where
  "locks_Release e name holder token t =
     (case locks_ValidName e name of Some err \<Rightarrow> (Some err, t)
      | None \<Rightarrow>
        case fmlookup (tab_locks t) name of
          None \<Rightarrow> (Some (NotHeld name), t)
        | Some rec \<Rightarrow>
            if lk_holder rec \<noteq> holder \<or> lk_token rec \<noteq> token
            then (Some (TokenMismatch name), t)
            else (None, locks_Broadcast (t\<lparr>tab_locks := fmdrop name (tab_locks t)\<rparr>)))"

definition locks_Renew ::
  "env \<Rightarrow> string \<Rightarrow> string \<Rightarrow> u64 \<Rightarrow> gotime \<Rightarrow> duration \<Rightarrow> locks_table \<Rightarrow>
   grant_error option \<times> locks_table" where
  "locks_Renew e name holder token deadline ttl t =
     (case locks_ValidName e name of Some err \<Rightarrow> (Some err, t)
      | None \<Rightarrow>
        case fmlookup (tab_locks t) name of
          None \<Rightarrow> (Some (NotHeld name), t)
        | Some rec \<Rightarrow>
            if lk_holder rec \<noteq> holder \<or> lk_token rec \<noteq> token
            then (Some (TokenMismatch name), t)
            else (None, t\<lparr>tab_locks :=
                   fmupd name (rec\<lparr>lk_deadline := deadline, lk_ttl := ttl\<rparr>) (tab_locks t)\<rparr>))"

definition lock_expired_event :: "string \<Rightarrow> lock_record \<Rightarrow> event" where
  "lock_expired_event name rec =
     mk_event TypeLockExpired name
       (json_text (JObj [(''holder'', JStr (lk_holder rec)),
                         (''token'', JInt (uint (lk_token rec)))]))"

definition locks_Expire ::
  "env \<Rightarrow> string \<Rightarrow> u64 \<Rightarrow> locks_table \<Rightarrow> bool \<times> event list \<times> locks_table" where
  "locks_Expire e name token t =
     (case locks_ValidName e name of Some err \<Rightarrow> (False, [], t)
      | None \<Rightarrow>
        case fmlookup (tab_locks t) name of
          None \<Rightarrow> (False, [], t)
        | Some rec \<Rightarrow>
            if lk_token rec \<noteq> token then (False, [], t)
            else (True,
                  if tab_Emit t then [lock_expired_event name rec] else [],
                  locks_Broadcast (t\<lparr>tab_locks := fmdrop name (tab_locks t)\<rparr>)))"

text \<open>
  \<^verbatim>\<open>Due\<close>, \<^verbatim>\<open>List\<close> and \<^verbatim>\<open>SnapshotCopy\<close> range over the map. The \<open>_range\<close> versions take the
  iteration order; the plain ones fix one order, which is shown not to matter.
\<close>

definition lock_due :: "gotime \<Rightarrow> lock_record \<Rightarrow> bool" where
  "lock_due now rec \<longleftrightarrow> \<not> IsZero (lk_deadline rec) \<and> \<not> lk_deadline rec > now"

definition locks_Due_range :: "string list \<Rightarrow> gotime \<Rightarrow> locks_table \<Rightarrow> lock_record list" where
  "locks_Due_range ks now t =
     sort_key lk_name (filter (lock_due now) (range_vals (tab_locks t) ks))"

definition locks_Due :: "gotime \<Rightarrow> locks_table \<Rightarrow> lock_record list" where
  "locks_Due now t = locks_Due_range (map_keys (tab_locks t)) now t"

definition locks_Get :: "string \<Rightarrow> locks_table \<Rightarrow> lock_record option" where
  "locks_Get name t = fmlookup (tab_locks t) name"

definition locks_List_range :: "string list \<Rightarrow> locks_table \<Rightarrow> lock_record list" where
  "locks_List_range ks t = sort_key lk_name (range_vals (tab_locks t) ks)"

definition locks_List :: "locks_table \<Rightarrow> lock_record list" where
  "locks_List t = locks_List_range (map_keys (tab_locks t)) t"

record locks_snapshot =
  lsn_locks :: "lock_record list"
  lsn_next :: u64

definition locks_SnapshotCopy :: "string list \<Rightarrow> locks_table \<Rightarrow> locks_snapshot" where
  "locks_SnapshotCopy ks t =
     \<lparr>lsn_locks = range_vals (tab_locks t) ks, lsn_next = tab_next t\<rparr>"

definition locks_Restore :: "locks_snapshot \<Rightarrow> locks_table \<Rightarrow> locks_table" where
  "locks_Restore snap t =
     locks_Broadcast
       (t\<lparr>tab_locks := fold (\<lambda>rec. fmupd (lk_name rec) rec) (lsn_locks snap) fmempty,
          tab_next := lsn_next snap\<rparr>)"

text \<open>
  \<^verbatim>\<open>Wait\<close>: entering takes a ticket; the call returns once a broadcast came after the ticket. The
  callback registered for the end of the context broadcasts.
\<close>

definition locks_Wait_enter :: "locks_table \<Rightarrow> nat" where
  "locks_Wait_enter t = tab_wait t"

definition locks_Wait_returns :: "nat \<Rightarrow> locks_table \<Rightarrow> bool" where
  "locks_Wait_returns ticket t \<longleftrightarrow> ticket < tab_wait t"

definition locks_Wait_ctx_done :: "locks_table \<Rightarrow> locks_table" where
  "locks_Wait_ctx_done t = locks_Broadcast t"

text \<open>
  The expiry loop over a state that contains the table. A wake-up of the loop is the end of the
  context or a tick, with the answer of \<^verbatim>\<open>isLeader\<close> (\<^term>\<open>None\<close> when the function is nil) and the
  clock reading of that tick. The callback may fail; the failure is logged and the loop goes on.
  A nil table or a nil callback ends the loop at once.
\<close>

datatype expirer_wake = ExpDone | ExpTick (exp_leader: "bool option") (exp_now: gotime)

definition locks_expirer_interval :: "duration \<Rightarrow> duration" where
  "locks_expirer_interval interval =
     (if interval \<le> 0 then locks_DefaultExpireInterval else interval)"

fun locks_expire_all ::
  "(string \<Rightarrow> u64 \<Rightarrow> 's \<Rightarrow> 'err option \<times> 's) \<Rightarrow> lock_record list \<Rightarrow> 's \<Rightarrow> 's" where
  "locks_expire_all expire [] s = s"
| "locks_expire_all expire (rec # recs) s =
     locks_expire_all expire recs (snd (expire (lk_name rec) (lk_token rec) s))"

fun locks_expirer_loop ::
  "('s \<Rightarrow> locks_table) \<Rightarrow> (string \<Rightarrow> u64 \<Rightarrow> 's \<Rightarrow> 'err option \<times> 's) \<Rightarrow>
   expirer_wake list \<Rightarrow> 's \<Rightarrow> 's" where
  "locks_expirer_loop tab expire [] s = s"
| "locks_expirer_loop tab expire (ExpDone # ws) s = s"
| "locks_expirer_loop tab expire (ExpTick isLeader now # ws) s =
     locks_expirer_loop tab expire ws
       (if isLeader = Some False then s else locks_expire_all expire (locks_Due now (tab s)) s)"

definition locks_RunExpirer ::
  "('s \<Rightarrow> locks_table) option \<Rightarrow> (string \<Rightarrow> u64 \<Rightarrow> 's \<Rightarrow> 'err option \<times> 's) option \<Rightarrow>
   expirer_wake list \<Rightarrow> 's \<Rightarrow> 's" where
  "locks_RunExpirer tab expire ws s =
     (case (tab, expire) of
        (Some tb, Some ex) \<Rightarrow> locks_expirer_loop tb ex ws s
      | _ \<Rightarrow> s)"

section \<open>Invariant and contract\<close>

definition locks_valid :: "env \<Rightarrow> string \<Rightarrow> bool" where
  "locks_valid e name \<longleftrightarrow> locks_ValidName e name = None"

text \<open>One operation on the table, its results dropped.\<close>

fun locks_step :: "env \<Rightarrow> grant_op \<Rightarrow> locks_table \<Rightarrow> locks_table" where
  "locks_step e (Take n h dl ttl) t = snd (locks_Acquire e n h dl ttl t)"
| "locks_step e (Give n h k) t = snd (locks_Release e n h k t)"
| "locks_step e (Extend n h k dl ttl) t = snd (locks_Renew e n h k dl ttl t)"
| "locks_step e (Lapse n k) t = snd (snd (locks_Expire e n k t))"

definition locks_inv :: "locks_table \<Rightarrow> bool" where
  "locks_inv t \<longleftrightarrow>
     keyed lk_name (tab_locks t) \<and> map_len (tab_locks t) \<le> MaxLocks \<and>
     (\<forall>n r. fmlookup (tab_locks t) n = Some r \<longrightarrow> lk_holder r \<noteq> '''')"

definition locks_abs :: "locks_table \<Rightarrow> grant_spec" where
  "locks_abs t =
     \<lparr>held = fmmap (\<lambda>r. (lk_holder r, unat (lk_token r))) (tab_locks t),
      issued = unat (tab_next t)\<rparr>"

lemma locks_ValidName_tables:
  "same_tables e e' \<Longrightarrow> locks_ValidName e n = locks_ValidName e' n"
  unfolding locks_ValidName_def using name_rune_tables [of e e'] by presburger

lemma locks_Broadcast_simps [simp]:
  "tab_locks (locks_Broadcast t) = tab_locks t"
  "tab_next (locks_Broadcast t) = tab_next t"
  "tab_wait (locks_Broadcast t) = tab_wait t + 1"
  "tab_Emit (locks_Broadcast t) = tab_Emit t"
  by (simp_all add: locks_Broadcast_def)

lemma locks_inv_Broadcast [simp]: "locks_inv (locks_Broadcast t) = locks_inv t"
  by (simp add: locks_inv_def)

lemma locks_inv_next [simp]: "locks_inv (t\<lparr>tab_next := k\<rparr>) = locks_inv t"
  by (simp add: locks_inv_def)

lemma locks_inv_New [inv_intros]: "locks_inv locks_New"
  by (simp add: locks_inv_def locks_New_def)

lemma locks_inv_upd:
  assumes "locks_inv t" and "lk_name r = n" and "lk_holder r \<noteq> ''''"
    and "fmlookup (tab_locks t) n = None \<Longrightarrow> map_len (tab_locks t) < MaxLocks"
  shows "locks_inv (t\<lparr>tab_locks := fmupd n r (tab_locks t)\<rparr>)"
  using assms by (auto simp: locks_inv_def map_len_upd)

lemma locks_inv_drop: "locks_inv t \<Longrightarrow> locks_inv (t\<lparr>tab_locks := fmdrop n (tab_locks t)\<rparr>)"
  by (auto simp: locks_inv_def intro: order_trans [OF map_len_drop_le])

lemma locks_inv_record:
  "locks_inv t \<Longrightarrow> fmlookup (tab_locks t) n = Some r \<Longrightarrow> lk_name r = n \<and> lk_holder r \<noteq> ''''"
  by (auto simp: locks_inv_def keyed_def)

lemma locks_inv_Acquire [inv_intros]:
  "locks_inv t \<Longrightarrow> locks_inv (snd (locks_Acquire e n h dl ttl t))"
  using locks_inv_upd [of "t\<lparr>tab_next := tab_next t + 1\<rparr>"]
  by (auto simp: locks_Acquire_def Let_def not_le intro!: locks_inv_upd
      dest: locks_inv_record split: option.splits)

lemma locks_inv_Release [inv_intros]:
  "locks_inv t \<Longrightarrow> locks_inv (snd (locks_Release e n h k t))"
  by (auto simp: locks_Release_def locks_inv_drop split: option.splits)

lemma locks_inv_Renew [inv_intros]:
  "locks_inv t \<Longrightarrow> locks_inv (snd (locks_Renew e n h k dl ttl t))"
  by (auto simp: locks_Renew_def intro!: locks_inv_upd dest: locks_inv_record
      split: option.splits)

lemma locks_inv_Expire [inv_intros]:
  "locks_inv t \<Longrightarrow> locks_inv (snd (snd (locks_Expire e n k t)))"
  by (auto simp: locks_Expire_def locks_inv_drop split: option.splits)

lemma locks_inv_step [inv_intros]: "locks_inv t \<Longrightarrow> locks_inv (locks_step e op t)"
  by (cases op) (simp_all add: inv_intros)

lemma locks_abs_simps [simp]:
  "issued (locks_abs t) = unat (tab_next t)"
  "map_len (held (locks_abs t)) = map_len (tab_locks t)"
  "fmlookup (held (locks_abs t)) n =
     map_option (\<lambda>r. (lk_holder r, unat (lk_token r))) (fmlookup (tab_locks t) n)"
  "locks_abs (locks_Broadcast t) = locks_abs t"
  by (simp_all add: locks_abs_def)

lemma locks_abs_drop:
  "locks_abs (t\<lparr>tab_locks := fmdrop n (tab_locks t)\<rparr>) =
     (locks_abs t)\<lparr>held := fmdrop n (held (locks_abs t))\<rparr>"
  by (simp add: locks_abs_def)

lemma locks_abs_refresh:
  "fmlookup (tab_locks t) n = Some r \<Longrightarrow>
     locks_abs (t\<lparr>tab_locks := fmupd n (r\<lparr>lk_deadline := dl, lk_ttl := ttl\<rparr>) (tab_locks t)\<rparr>) =
     locks_abs t"
  by (simp add: locks_abs_def fmupd_same)

lemma locks_abs_step:
  assumes "unat (tab_next t) + 1 < 2 ^ 64"
  shows "locks_abs (locks_step e op t) = spec_step (locks_valid e) MaxLocks op (locks_abs t)"
proof -
  have nx: "unat (tab_next t + 1) = unat (tab_next t) + 1"
    by (rule u64_next_unat_lt [OF assms])
  show ?thesis
  proof (cases op)
    case (Take n h dl ttl)
    have "locks_abs (t\<lparr>tab_locks := fmupd n r (tab_locks t), tab_next := tab_next t + 1\<rparr>) =
        \<lparr>held = fmupd n (lk_holder r, unat (lk_token r)) (held (locks_abs t)),
         issued = issued (locks_abs t) + 1\<rparr>" for r
      using nx by (simp add: locks_abs_def)
    with Take nx show ?thesis
      by (cases "locks_ValidName e n"; cases "fmlookup (tab_locks t) n")
        (simp_all add: locks_Acquire_def locks_valid_def Let_def locks_abs_refresh)
  next
    case (Give n h k)
    then show ?thesis
      by (cases "locks_ValidName e n"; cases "fmlookup (tab_locks t) n")
        (simp_all add: locks_Release_def locks_valid_def locks_abs_drop)
  next
    case (Extend n h k dl ttl)
    then show ?thesis
      by (cases "locks_ValidName e n"; cases "fmlookup (tab_locks t) n")
        (simp_all add: locks_Renew_def locks_valid_def locks_abs_refresh)
  next
    case (Lapse n k)
    then show ?thesis
      by (cases "locks_ValidName e n"; cases "fmlookup (tab_locks t) n")
        (simp_all add: locks_Expire_def locks_valid_def locks_abs_drop)
  qed
qed

interpretation lk: fenced_table locks_step locks_abs locks_valid MaxLocks locks_inv locks_New
proof unfold_locales
  fix t e e' op n
  show "locks_inv locks_New" by (rule locks_inv_New)
  show "locks_abs locks_New = spec_init" by (simp add: locks_abs_def locks_New_def spec_init_def)
  show "locks_inv t \<Longrightarrow> locks_inv (locks_step e op t)" by (rule locks_inv_step)
  show "issued (locks_abs t) + 1 < 2 ^ 64 \<Longrightarrow>
      locks_abs (locks_step e op t) = spec_step (locks_valid e) MaxLocks op (locks_abs t)"
    by (rule locks_abs_step) simp
  show "same_tables e e' \<Longrightarrow> locks_valid e n = locks_valid e' n"
    by (simp add: locks_valid_def locks_ValidName_tables [of e e'])
qed

section \<open>Helper lemmas for the properties\<close>

lemma locks_List_sorted:
  "keyed lk_name (tab_locks t) \<Longrightarrow> map lk_name (locks_List t) = map_keys (tab_locks t)"
  by (simp add: locks_List_def locks_List_range_def sorted_range_unique keyed_range_vals)

lemma locks_Due_eq:
  "keyed lk_name (tab_locks t) \<Longrightarrow> is_range (tab_locks t) ks \<Longrightarrow>
     locks_Due_range ks now t = filter (lock_due now) (locks_List t)"
  by (simp add: locks_Due_range_def locks_List_def locks_List_range_def
      sorted_filter_range_unique sorted_range_unique)

text \<open>The effect of expiring every record of a list, on a table whose names are all legal.\<close>

definition locks_expire_cb ::
  "env \<Rightarrow> string \<Rightarrow> u64 \<Rightarrow> locks_table \<Rightarrow> unit option \<times> locks_table" where
  "locks_expire_cb e name token t = (None, snd (snd (locks_Expire e name token t)))"

lemma locks_Expire_lookup:
  "fmlookup (tab_locks (snd (snd (locks_Expire e n k t)))) m =
     (if m = n \<and> locks_valid e n \<and> map_option lk_token (fmlookup (tab_locks t) n) = Some k
      then None else fmlookup (tab_locks t) m)"
  by (auto simp: locks_Expire_def locks_valid_def split: option.splits)

lemma locks_expire_all_lookup:
  assumes "\<And>r. r \<in> set rs \<Longrightarrow> locks_valid e (lk_name r)"
  shows "fmlookup (tab_locks (locks_expire_all (locks_expire_cb e) rs t)) n =
     (if \<exists>r \<in> set rs. lk_name r = n \<and>
           map_option lk_token (fmlookup (tab_locks t) n) = Some (lk_token r)
      then None else fmlookup (tab_locks t) n)"
  using assms
  by (induction rs arbitrary: t) (auto simp: locks_expire_cb_def locks_Expire_lookup)

lemma locks_Due_iff:
  assumes "keyed lk_name (tab_locks t)"
  shows "r \<in> set (locks_Due now t) \<longleftrightarrow>
     fmlookup (tab_locks t) (lk_name r) = Some r \<and> lock_due now r"
  using assms range_vals_lookup [OF range_map_keys, of r "tab_locks t"]
  by (auto simp: locks_Due_def locks_Due_range_def keyed_def)

lemma locks_spec_inv_token:
  assumes "spec_inv cap (locks_abs t)" and "fmlookup (tab_locks t) n = Some r"
  shows "0 < lk_token r \<and> lk_token r \<le> tab_next t"
proof -
  have "fmlookup (held (locks_abs t)) n = Some (lk_holder r, unat (lk_token r))"
    using assms(2) by simp
  with assms(1) have "0 < unat (lk_token r) \<and> unat (lk_token r) \<le> issued (locks_abs t)"
    unfolding spec_inv_def by blast
  then show ?thesis by (simp add: word_le_nat_alt word_less_nat_alt)
qed

lemma locks_spec_inv_unique:
  assumes "spec_inv cap (locks_abs t)" and "fmlookup (tab_locks t) n = Some r"
    and "fmlookup (tab_locks t) n' = Some r'" and "lk_token r = lk_token r'"
  shows "n = n'"
proof -
  have "fmlookup (held (locks_abs t)) n = Some (lk_holder r, unat (lk_token r))"
    "fmlookup (held (locks_abs t)) n' = Some (lk_holder r', unat (lk_token r))"
    using assms(2-4) by simp_all
  with assms(1) show ?thesis unfolding spec_inv_def by blast
qed

section \<open>Properties\<close>

text \<open>
  C9. Fencing: take any history of table operations from the empty table, and any continuation of
  it, together shorter than the range of the token counter. If a lock is held at both points, then
  either it is still the same grant (same holder, same token) or the later grant has a strictly
  larger token, whatever was acquired, released, renewed or expired in between.
\<close>

theorem locks_fencing:
  assumes "length ops + length ops' < 2 ^ 64"
    and "locks_Get n (run_ops locks_step ops locks_New) = Some r"
    and "locks_Get n (run_ops locks_step (ops @ ops') locks_New) = Some r'"
  shows "(lk_holder r' = lk_holder r \<and> lk_token r' = lk_token r) \<or> lk_token r < lk_token r'"
  using lk.init_fencing [OF assms(1), of n "lk_holder r" "unat (lk_token r)"
      "lk_holder r'" "unat (lk_token r')"] assms(2,3)
  by (simp add: locks_Get_def word_less_nat_alt)

text \<open>
  A spent token never works again: once the grant of a name no longer carries the token \<open>k\<close>
  that was already handed out, then after every continuation Release and Renew with \<open>k\<close> fail
  without touching the table, and Expire with \<open>k\<close> does nothing.
\<close>

theorem locks_stale_token:
  assumes "length ops + length ops' < 2 ^ 64"
    and "t = run_ops locks_step ops locks_New" and "k \<le> tab_next t"
    and "map_option lk_token (locks_Get n t) \<noteq> Some k"
    and "t' = run_ops locks_step ops' t"
  shows "fst (locks_Release e n h k t') \<noteq> None \<and> snd (locks_Release e n h k t') = t' \<and>
    fst (locks_Renew e n h k dl ttl t') \<noteq> None \<and> snd (locks_Renew e n h k dl ttl t') = t' \<and>
    locks_Expire e n k t' = (False, [], t')"
proof -
  have "fmlookup (held (locks_abs t)) n \<noteq> Some (h, unat k)" for h
    using assms(4) by (cases "fmlookup (tab_locks t) n") (simp_all add: locks_Get_def)
  moreover have "unat k \<le> issued (locks_abs t)"
    using assms(3) by (simp add: word_le_nat_alt)
  ultimately have "fmlookup (held (locks_abs t')) n \<noteq> Some (h, unat k)" for h
    using lk.init_stale [OF assms(1), of "unat k" n h] assms(2,5) by simp
  then have "lk_token r \<noteq> k" if "fmlookup (tab_locks t') n = Some r" for r
    using that by auto
  then show ?thesis
    by (cases "locks_ValidName e n"; cases "fmlookup (tab_locks t') n")
      (simp_all add: locks_Release_def locks_Renew_def locks_Expire_def)
qed

text \<open>
  C22. The table is well formed after any history: at most 4096 locks, each stored under its own
  name with a non-empty holder and a token between 1 and the counter, and no two locks ever share
  a token.
\<close>

theorem locks_reachable_inv:
  assumes "length ops < 2 ^ 64" and "t = run_ops locks_step ops locks_New"
  shows "map_len (tab_locks t) \<le> MaxLocks \<and>
    (\<forall>n r. locks_Get n t = Some r \<longrightarrow>
       lk_name r = n \<and> lk_holder r \<noteq> '''' \<and> 0 < lk_token r \<and> lk_token r \<le> tab_next t) \<and>
    (\<forall>n n' r r'. locks_Get n t = Some r \<longrightarrow> locks_Get n' t = Some r' \<longrightarrow>
       lk_token r = lk_token r' \<longrightarrow> n = n')"
proof -
  have "locks_inv t" using lk.init_inv assms(2) by simp
  moreover have "spec_inv MaxLocks (locks_abs t)" using lk.init_spec_inv assms by simp
  ultimately show ?thesis
    using locks_inv_record [of t] locks_spec_inv_token [of MaxLocks t]
      locks_spec_inv_unique [of MaxLocks t]
    by (simp add: locks_inv_def locks_Get_def)
qed

text \<open>
  C17. Refinement: a history of table operations from the empty table, shorter than the range of
  the token counter, has exactly the effect the abstract grant machine with unbounded tokens
  prescribes.
\<close>

theorem locks_refines_spec:
  assumes "length ops < 2 ^ 64"
  shows "locks_abs (run_ops locks_step ops locks_New) =
    spec_run MaxLocks (spec_ops locks_valid ops) spec_init"
  by (rule lk.init_run [OF assms])

text \<open>
  What Acquire answers is what the table then holds: a positive answer means that the name is
  now held by the caller with the returned token, the requested deadline and TTL (and, when the
  caller already held it, its old token); a negative answer carries the token of the other holder
  and, like an error, leaves the table as it was. No other name is touched in any case.
\<close>

theorem locks_Acquire_correct:
  "(case fst (locks_Acquire e n h dl ttl t) of
      Inl err \<Rightarrow> snd (locks_Acquire e n h dl ttl t) = t
    | Inr (k, True) \<Rightarrow>
        (\<exists>r. locks_Get n (snd (locks_Acquire e n h dl ttl t)) = Some r \<and> lk_holder r = h \<and>
             lk_token r = k \<and> lk_deadline r = dl \<and> lk_ttl r = ttl \<and>
             (case locks_Get n t of
                Some old \<Rightarrow> lk_holder old = h \<and> lk_token old = k
              | None \<Rightarrow> k = tab_next t + 1))
    | Inr (k, False) \<Rightarrow>
        snd (locks_Acquire e n h dl ttl t) = t \<and>
        (\<exists>r. locks_Get n t = Some r \<and> lk_holder r \<noteq> h \<and> lk_token r = k)) \<and>
   (\<forall>m. m = n \<or> locks_Get m (snd (locks_Acquire e n h dl ttl t)) = locks_Get m t)"
  by (cases "locks_ValidName e n"; cases "fmlookup (tab_locks t) n")
    (simp_all add: locks_Acquire_def locks_Get_def Let_def)

text \<open>
  Every operation that ends a lock wakes the waiters: if a name is held before a step and free
  after it, a call of Wait that was entered before the step returns after it.
\<close>

lemma locks_release_wakes:
  assumes "locks_Get n t \<noteq> None" and "locks_Get n (locks_step e op t) = None"
  shows "locks_Wait_returns (locks_Wait_enter t) (locks_step e op t)"
  using assms
  by (cases op) (auto simp: locks_Get_def locks_Wait_returns_def locks_Wait_enter_def Let_def
      locks_Acquire_def locks_Release_def locks_Renew_def locks_Expire_def
      split: option.splits if_splits)

text \<open>
  A snapshot taken in any iteration order, restored into any table, gives back the locks and
  the token counter, keeps the hook of the receiving table and wakes its waiters.
\<close>

theorem locks_snapshot_roundtrip:
  assumes "is_range (tab_locks t) ks" and "keyed lk_name (tab_locks t)"
  shows "locks_Restore (locks_SnapshotCopy ks t) t' =
    \<lparr>tab_locks = tab_locks t, tab_next = tab_next t,
     tab_wait = tab_wait t' + 1, tab_Emit = tab_Emit t'\<rparr>"
  by (simp add: locks_Restore_def locks_SnapshotCopy_def locks_Broadcast_def
      fold_upd_range [OF assms(2,1)])

text \<open>
  One tick of the expiry loop on the leader, with the expiry applied to the table, removes
  exactly the locks whose deadline is set and has passed; every other lock, the token counter and
  so every running grant is untouched, and nothing is due any more.
\<close>

theorem locks_expirer_tick:
  assumes "keyed lk_name (tab_locks t)"
    and "\<forall>n \<in> fmdom' (tab_locks t). locks_valid e n"
    and "t' = locks_RunExpirer (Some id) (Some (locks_expire_cb e)) [ExpTick (Some True) now] t"
  shows "(\<forall>n. locks_Get n t' =
      (case locks_Get n t of Some r \<Rightarrow> if lock_due now r then None else Some r | None \<Rightarrow> None)) \<and>
    locks_Due now t' = []"
proof -
  have t': "t' = locks_expire_all (locks_expire_cb e) (locks_Due now t) t"
    using assms(3) by (simp add: locks_RunExpirer_def)
  have "locks_valid e (lk_name r)" if "r \<in> set (locks_Due now t)" for r
    using that assms(1,2) by (auto simp: locks_Due_iff intro: fmdom'I)
  note look = locks_expire_all_lookup [of "locks_Due now t" e t, OF this]
  have get: "locks_Get n t' =
      (case locks_Get n t of Some r \<Rightarrow> if lock_due now r then None else Some r | None \<Rightarrow> None)" for n
  proof (cases "fmlookup (tab_locks t) n")
    case None
    then show ?thesis by (simp add: locks_Get_def t' look)
  next
    case (Some r)
    then have r: "lk_name r = n" "r \<in> set (locks_Due now t) \<longleftrightarrow> lock_due now r"
      using assms(1) by (auto simp: keyed_def locks_Due_iff)
    have "(\<exists>r' \<in> set (locks_Due now t). lk_name r' = n \<and> Some (lk_token r) = Some (lk_token r'))
        \<longleftrightarrow> lock_due now r"
      using r Some by (auto simp: locks_Due_iff [OF assms(1)])
    with Some look [of n] show ?thesis by (simp add: locks_Get_def t')
  qed
  have keyed': "keyed lk_name (tab_locks t')"
    unfolding keyed_def
  proof (intro allI impI)
    fix k v
    assume "fmlookup (tab_locks t') k = Some v"
    then have "fmlookup (tab_locks t) k = Some v"
      using get [of k] by (auto simp: locks_Get_def split: option.splits if_splits)
    then show "lk_name v = k" using assms(1) by (simp add: keyed_def)
  qed
  have "r \<notin> set (locks_Due now t')" for r
    using get [of "lk_name r"]
    by (auto simp: locks_Due_iff [OF keyed'] locks_Get_def split: option.splits if_splits)
  then have "locks_Due now t' = []" by (cases "locks_Due now t'") (simp_all, metis)
  with get show ?thesis by blast
qed

section \<open>Witnesses\<close>

text \<open>
  A history in which a lock is taken and expires, and a continuation in which another holder takes
  it.
\<close>

definition locks_hist :: "(env \<times> grant_op) list" where
  "locks_hist =
     [(ascii_env 5, Take ''db.main'' ''n1'' 10 5), (ascii_env 6, Take ''job'' ''n2'' 90 80)]"

definition locks_hist2 :: "(env \<times> grant_op) list" where
  "locks_hist2 =
     [(ascii_env 11, Lapse ''db.main'' 1), (ascii_env 12, Take ''db.main'' ''n2'' 30 18)]"

theorem locks_fencing_witness:
  "lk_token (the (locks_Get ''db.main'' (run_ops locks_step locks_hist locks_New))) <
   lk_token (the (locks_Get ''db.main'' (run_ops locks_step (locks_hist @ locks_hist2) locks_New)))"
proof -
  have 1: "locks_Get ''db.main'' (run_ops locks_step locks_hist locks_New) \<noteq> None"
    by code_simp
  have 2: "locks_Get ''db.main'' (run_ops locks_step (locks_hist @ locks_hist2) locks_New) \<noteq> None"
    by code_simp
  have 3: "lk_holder (the (locks_Get ''db.main'' (run_ops locks_step locks_hist locks_New))) \<noteq>
      lk_holder (the (locks_Get ''db.main''
        (run_ops locks_step (locks_hist @ locks_hist2) locks_New)))"
    by code_simp
  have "length locks_hist + length locks_hist2 < 2 ^ 64"
    by (simp add: locks_hist_def locks_hist2_def)
  from locks_fencing [OF this, of "''db.main''"] 1 2 3 show ?thesis by force
qed

theorem locks_stale_token_witness:
  "locks_Expire (ascii_env 20) ''db.main'' 1
     (run_ops locks_step [(ascii_env 12, Take ''db.main'' ''n1'' 30 18)]
       (run_ops locks_step (locks_hist @ [(ascii_env 11, Lapse ''db.main'' 1)]) locks_New)) =
   (False, [],
     run_ops locks_step [(ascii_env 12, Take ''db.main'' ''n1'' 30 18)]
       (run_ops locks_step (locks_hist @ [(ascii_env 11, Lapse ''db.main'' 1)]) locks_New))"
proof -
  let ?t = "run_ops locks_step (locks_hist @ [(ascii_env 11, Lapse ''db.main'' 1)]) locks_New"
  have 1: "length (locks_hist @ [(ascii_env 11, Lapse ''db.main'' 1)]) +
      length [(ascii_env 12, Take ''db.main'' ''n1'' 30 18)] < 2 ^ 64"
    by (simp add: locks_hist_def)
  have 2: "1 \<le> tab_next ?t" by code_simp
  have 3: "map_option lk_token (locks_Get ''db.main'' ?t) \<noteq> Some 1" by code_simp
  show ?thesis using locks_stale_token [OF 1 refl 2 3 refl] by blast
qed

theorem locks_reachable_inv_witness:
  "map_len (tab_locks (run_ops locks_step locks_hist locks_New)) = 2 \<and>
   map_len (tab_locks (run_ops locks_step locks_hist locks_New)) \<le> MaxLocks"
proof
  show "map_len (tab_locks (run_ops locks_step locks_hist locks_New)) = 2" by code_simp
  have "length locks_hist < 2 ^ 64" by (simp add: locks_hist_def)
  from locks_reachable_inv [OF this refl]
  show "map_len (tab_locks (run_ops locks_step locks_hist locks_New)) \<le> MaxLocks" by blast
qed

theorem locks_refines_spec_witness:
  "locks_abs (run_ops locks_step locks_hist locks_New) =
     spec_run MaxLocks (spec_ops locks_valid locks_hist) spec_init \<and>
   issued (spec_run MaxLocks (spec_ops locks_valid locks_hist) spec_init) = 2"
proof -
  have "length locks_hist < 2 ^ 64" by (simp add: locks_hist_def)
  note eq = locks_refines_spec [OF this]
  have "tab_next (run_ops locks_step locks_hist locks_New) = 2" by code_simp
  then have "issued (locks_abs (run_ops locks_step locks_hist locks_New)) = 2" by simp
  with eq show ?thesis by simp
qed

theorem locks_snapshot_roundtrip_witness:
  "locks_Restore (locks_SnapshotCopy [''job'', ''db.main'']
       (run_ops locks_step locks_hist locks_New)) locks_New =
     (run_ops locks_step locks_hist locks_New)\<lparr>tab_wait := 1\<rparr>"
proof -
  let ?t = "run_ops locks_step locks_hist locks_New"
  have 1: "is_range (tab_locks ?t) [''job'', ''db.main'']"
    unfolding is_range_def by code_simp
  have 2: "keyed lk_name (tab_locks ?t)" using lk.init_inv by (simp add: locks_inv_def)
  have "tab_Emit ?t = False" by code_simp
  with locks_snapshot_roundtrip [OF 1 2, of locks_New] show ?thesis
    by (simp add: locks_New_def)
qed

theorem locks_expirer_tick_witness:
  "locks_Get ''db.main'' (locks_RunExpirer (Some id) (Some (locks_expire_cb (ascii_env 9)))
     [ExpTick (Some True) 50] (run_ops locks_step locks_hist locks_New)) = None \<and>
   locks_Get ''job'' (locks_RunExpirer (Some id) (Some (locks_expire_cb (ascii_env 9)))
     [ExpTick (Some True) 50] (run_ops locks_step locks_hist locks_New)) \<noteq> None"
proof -
  let ?t = "run_ops locks_step locks_hist locks_New"
  have 1: "keyed lk_name (tab_locks ?t)" using lk.init_inv by (simp add: locks_inv_def)
  have 2: "\<forall>n \<in> fmdom' (tab_locks ?t). locks_valid (ascii_env 9) n" by code_simp
  have 3: "map_option (lock_due 50) (locks_Get ''db.main'' ?t) = Some True"
    "map_option (lock_due 50) (locks_Get ''job'' ?t) = Some False" by code_simp+
  from locks_expirer_tick [OF 1 2 refl, of 50] 3 show ?thesis by (auto split: option.splits)
qed

end
