(* ===== verification/Leases.thy ===== *)
theory Leases
  imports Locks
begin

text \<open>
  Package internal/leases: the table of named leases that the replicated state machine mutates
  (table.go) and the leader's expiry loop (expirer.go). It shares the contract of Fenced_Table with
  the lock table, has no waiters, and emits an event for every grant, revocation and expiry.
\<close>

definition leases_MaxNameLen :: nat where "leases_MaxNameLen = 128"
definition MaxLeases :: nat where "MaxLeases = 4096"
definition leases_DefaultTTL :: duration where "leases_DefaultTTL = 15 * Second"
definition leases_MinTTL :: duration where "leases_MinTTL = Millisecond"
definition leases_MaxTTL :: duration where "leases_MaxTTL = 24 * Hour"
definition leases_DefaultExpireInterval :: duration where
  "leases_DefaultExpireInterval = 100 * Millisecond"

definition leases_ClampTTL :: "duration \<Rightarrow> duration \<Rightarrow> duration" where
  "leases_ClampTTL requested0 fallback =
     (let requested = (if requested0 \<le> 0 then fallback else requested0);
          requested = (if requested \<le> 0 then leases_DefaultTTL else requested)
      in if requested < leases_MinTTL then leases_MinTTL
         else if requested > leases_MaxTTL then leases_MaxTTL
         else requested)"

record lease_record =
  le_name :: string
  le_owner :: string
  le_token :: u64
  le_granted_at :: gotime
  le_deadline :: gotime
  le_ttl :: duration

record leases_table =
  tab_leases :: "(string, lease_record) fmap"
  ltab_next :: u64
  ltab_Emit :: bool

definition leases_New :: leases_table where
  "leases_New = \<lparr>tab_leases = fmempty, ltab_next = 0, ltab_Emit = False\<rparr>"

definition leases_ValidName :: "env \<Rightarrow> string \<Rightarrow> grant_error option" where
  "leases_ValidName e name =
     (if name = '''' then Some NameRequired
      else if length name > leases_MaxNameLen then Some NameTooLong
      else case find (\<lambda>r. \<not> name_rune e r) (runes name) of
        Some r \<Rightarrow> Some (NameBadRune r)
      | None \<Rightarrow> None)"

definition leases_emit :: "bool \<Rightarrow> string \<Rightarrow> lease_record \<Rightarrow> event list" where
  "leases_emit fn typ rec =
     (if \<not> fn then []
      else [mk_event typ (le_name rec)
              (json_text (JObj [(''owner'', JStr (le_owner rec)),
                                (''token'', JInt (uint (le_token rec)))]))])"

definition leases_Grant ::
  "env \<Rightarrow> string \<Rightarrow> string \<Rightarrow> gotime \<Rightarrow> duration \<Rightarrow> leases_table \<Rightarrow>
   (grant_error + u64 \<times> bool) \<times> event list \<times> leases_table" where
  "leases_Grant e name owner deadline ttl t =
     (case leases_ValidName e name of Some err \<Rightarrow> (Inl err, [], t)
      | None \<Rightarrow>
        if owner = '''' then (Inl HolderRequired, [], t)
        else case fmlookup (tab_leases t) name of
          Some rec \<Rightarrow>
            if le_owner rec = owner then
              let rec' = rec\<lparr>le_deadline := deadline, le_ttl := ttl\<rparr> in
              (Inr (le_token rec', True), [],
               t\<lparr>tab_leases := fmupd name rec' (tab_leases t)\<rparr>)
            else (Inr (le_token rec, False), [], t)
        | None \<Rightarrow>
            if map_len (tab_leases t) \<ge> MaxLeases then (Inl TooMany, [], t)
            else
              let next = ltab_next t + 1;
                  rec = \<lparr>le_name = name, le_owner = owner, le_token = next,
                         le_granted_at = env_now e, le_deadline = deadline, le_ttl = ttl\<rparr>
              in (Inr (next, True), leases_emit (ltab_Emit t) TypeLeaseGranted rec,
                  t\<lparr>tab_leases := fmupd name rec (tab_leases t), ltab_next := next\<rparr>))"

definition leases_Renew ::
  "env \<Rightarrow> string \<Rightarrow> string \<Rightarrow> u64 \<Rightarrow> gotime \<Rightarrow> duration \<Rightarrow> leases_table \<Rightarrow>
   grant_error option \<times> leases_table" where
  "leases_Renew e name owner token deadline ttl t =
     (case leases_ValidName e name of Some err \<Rightarrow> (Some err, t)
      | None \<Rightarrow>
        case fmlookup (tab_leases t) name of
          None \<Rightarrow> (Some (NotHeld name), t)
        | Some rec \<Rightarrow>
            if le_owner rec \<noteq> owner \<or> le_token rec \<noteq> token
            then (Some (TokenMismatch name), t)
            else (None, t\<lparr>tab_leases :=
                   fmupd name (rec\<lparr>le_deadline := deadline, le_ttl := ttl\<rparr>) (tab_leases t)\<rparr>))"

definition leases_Revoke ::
  "env \<Rightarrow> string \<Rightarrow> string \<Rightarrow> u64 \<Rightarrow> leases_table \<Rightarrow>
   grant_error option \<times> event list \<times> leases_table" where
  "leases_Revoke e name owner token t =
     (case leases_ValidName e name of Some err \<Rightarrow> (Some err, [], t)
      | None \<Rightarrow>
        case fmlookup (tab_leases t) name of
          None \<Rightarrow> (Some (NotHeld name), [], t)
        | Some rec \<Rightarrow>
            if le_owner rec \<noteq> owner \<or> le_token rec \<noteq> token
            then (Some (TokenMismatch name), [], t)
            else (None, leases_emit (ltab_Emit t) TypeLeaseRevoked rec,
                  t\<lparr>tab_leases := fmdrop name (tab_leases t)\<rparr>))"

definition leases_Expire ::
  "env \<Rightarrow> string \<Rightarrow> u64 \<Rightarrow> leases_table \<Rightarrow> bool \<times> event list \<times> leases_table" where
  "leases_Expire e name token t =
     (case leases_ValidName e name of Some err \<Rightarrow> (False, [], t)
      | None \<Rightarrow>
        case fmlookup (tab_leases t) name of
          None \<Rightarrow> (False, [], t)
        | Some rec \<Rightarrow>
            if le_token rec \<noteq> token then (False, [], t)
            else (True, leases_emit (ltab_Emit t) TypeLeaseExpired rec,
                  t\<lparr>tab_leases := fmdrop name (tab_leases t)\<rparr>))"

definition lease_due :: "gotime \<Rightarrow> lease_record \<Rightarrow> bool" where
  "lease_due now rec \<longleftrightarrow> \<not> IsZero (le_deadline rec) \<and> \<not> le_deadline rec > now"

definition leases_Due_range :: "string list \<Rightarrow> gotime \<Rightarrow> leases_table \<Rightarrow> lease_record list" where
  "leases_Due_range ks now t =
     sort_key le_name (filter (lease_due now) (range_vals (tab_leases t) ks))"

definition leases_Due :: "gotime \<Rightarrow> leases_table \<Rightarrow> lease_record list" where
  "leases_Due now t = leases_Due_range (map_keys (tab_leases t)) now t"

definition leases_Get :: "string \<Rightarrow> leases_table \<Rightarrow> lease_record option" where
  "leases_Get name t = fmlookup (tab_leases t) name"

definition leases_List_range :: "string list \<Rightarrow> leases_table \<Rightarrow> lease_record list" where
  "leases_List_range ks t = sort_key le_name (range_vals (tab_leases t) ks)"

definition leases_List :: "leases_table \<Rightarrow> lease_record list" where
  "leases_List t = leases_List_range (map_keys (tab_leases t)) t"

record leases_snapshot =
  lesn_leases :: "lease_record list"
  lesn_next :: u64

definition leases_SnapshotCopy :: "string list \<Rightarrow> leases_table \<Rightarrow> leases_snapshot" where
  "leases_SnapshotCopy ks t =
     \<lparr>lesn_leases = range_vals (tab_leases t) ks, lesn_next = ltab_next t\<rparr>"

definition leases_Restore :: "leases_snapshot \<Rightarrow> leases_table \<Rightarrow> leases_table" where
  "leases_Restore snap t =
     t\<lparr>tab_leases := fold (\<lambda>rec. fmupd (le_name rec) rec) (lesn_leases snap) fmempty,
       ltab_next := lesn_next snap\<rparr>"

text \<open>The expiry loop, over the wake-ups of the lock table's loop.\<close>

definition leases_expirer_interval :: "duration \<Rightarrow> duration" where
  "leases_expirer_interval interval =
     (if interval \<le> 0 then leases_DefaultExpireInterval else interval)"

fun leases_expire_all ::
  "(string \<Rightarrow> u64 \<Rightarrow> 's \<Rightarrow> 'err option \<times> 's) \<Rightarrow> lease_record list \<Rightarrow> 's \<Rightarrow> 's" where
  "leases_expire_all expire [] s = s"
| "leases_expire_all expire (rec # recs) s =
     leases_expire_all expire recs (snd (expire (le_name rec) (le_token rec) s))"

fun leases_expirer_loop ::
  "('s \<Rightarrow> leases_table) \<Rightarrow> (string \<Rightarrow> u64 \<Rightarrow> 's \<Rightarrow> 'err option \<times> 's) \<Rightarrow>
   expirer_wake list \<Rightarrow> 's \<Rightarrow> 's" where
  "leases_expirer_loop tab expire [] s = s"
| "leases_expirer_loop tab expire (ExpDone # ws) s = s"
| "leases_expirer_loop tab expire (ExpTick isLeader now # ws) s =
     leases_expirer_loop tab expire ws
       (if isLeader = Some False then s else leases_expire_all expire (leases_Due now (tab s)) s)"

definition leases_RunExpirer ::
  "('s \<Rightarrow> leases_table) option \<Rightarrow> (string \<Rightarrow> u64 \<Rightarrow> 's \<Rightarrow> 'err option \<times> 's) option \<Rightarrow>
   expirer_wake list \<Rightarrow> 's \<Rightarrow> 's" where
  "leases_RunExpirer tab expire ws s =
     (case (tab, expire) of
        (Some tb, Some ex) \<Rightarrow> leases_expirer_loop tb ex ws s
      | _ \<Rightarrow> s)"

section \<open>Invariant and contract\<close>

definition leases_valid :: "env \<Rightarrow> string \<Rightarrow> bool" where
  "leases_valid e name \<longleftrightarrow> leases_ValidName e name = None"

text \<open>One operation on the table, its results dropped.\<close>

fun leases_step :: "env \<Rightarrow> grant_op \<Rightarrow> leases_table \<Rightarrow> leases_table" where
  "leases_step e (Take n h dl ttl) t = snd (snd (leases_Grant e n h dl ttl t))"
| "leases_step e (Give n h k) t = snd (snd (leases_Revoke e n h k t))"
| "leases_step e (Extend n h k dl ttl) t = snd (leases_Renew e n h k dl ttl t)"
| "leases_step e (Lapse n k) t = snd (snd (leases_Expire e n k t))"

definition leases_inv :: "leases_table \<Rightarrow> bool" where
  "leases_inv t \<longleftrightarrow>
     keyed le_name (tab_leases t) \<and> map_len (tab_leases t) \<le> MaxLeases \<and>
     (\<forall>n r. fmlookup (tab_leases t) n = Some r \<longrightarrow> le_owner r \<noteq> '''')"

definition leases_abs :: "leases_table \<Rightarrow> grant_spec" where
  "leases_abs t =
     \<lparr>held = fmmap (\<lambda>r. (le_owner r, unat (le_token r))) (tab_leases t),
      issued = unat (ltab_next t)\<rparr>"

lemma leases_ValidName_tables:
  "same_tables e e' \<Longrightarrow> leases_ValidName e n = leases_ValidName e' n"
  unfolding leases_ValidName_def using name_rune_tables [of e e'] by presburger

lemma leases_inv_next [simp]: "leases_inv (t\<lparr>ltab_next := k\<rparr>) = leases_inv t"
  by (simp add: leases_inv_def)

lemma leases_inv_New [inv_intros]: "leases_inv leases_New"
  by (simp add: leases_inv_def leases_New_def)

lemma leases_inv_upd:
  assumes "leases_inv t" and "le_name r = n" and "le_owner r \<noteq> ''''"
    and "fmlookup (tab_leases t) n = None \<Longrightarrow> map_len (tab_leases t) < MaxLeases"
  shows "leases_inv (t\<lparr>tab_leases := fmupd n r (tab_leases t)\<rparr>)"
  using assms by (auto simp: leases_inv_def map_len_upd)

lemma leases_inv_drop: "leases_inv t \<Longrightarrow> leases_inv (t\<lparr>tab_leases := fmdrop n (tab_leases t)\<rparr>)"
  by (auto simp: leases_inv_def intro: order_trans [OF map_len_drop_le])

lemma leases_inv_record:
  "leases_inv t \<Longrightarrow> fmlookup (tab_leases t) n = Some r \<Longrightarrow> le_name r = n \<and> le_owner r \<noteq> ''''"
  by (auto simp: leases_inv_def keyed_def)

lemma leases_inv_Grant [inv_intros]:
  "leases_inv t \<Longrightarrow> leases_inv (snd (snd (leases_Grant e n h dl ttl t)))"
  using leases_inv_upd [of "t\<lparr>ltab_next := ltab_next t + 1\<rparr>"]
  by (auto simp: leases_Grant_def Let_def not_le intro!: leases_inv_upd
      dest: leases_inv_record split: option.splits)

lemma leases_inv_Revoke [inv_intros]:
  "leases_inv t \<Longrightarrow> leases_inv (snd (snd (leases_Revoke e n h k t)))"
  by (auto simp: leases_Revoke_def leases_inv_drop split: option.splits)

lemma leases_inv_Renew [inv_intros]:
  "leases_inv t \<Longrightarrow> leases_inv (snd (leases_Renew e n h k dl ttl t))"
  by (auto simp: leases_Renew_def intro!: leases_inv_upd dest: leases_inv_record
      split: option.splits)

lemma leases_inv_Expire [inv_intros]:
  "leases_inv t \<Longrightarrow> leases_inv (snd (snd (leases_Expire e n k t)))"
  by (auto simp: leases_Expire_def leases_inv_drop split: option.splits)

lemma leases_inv_step [inv_intros]: "leases_inv t \<Longrightarrow> leases_inv (leases_step e op t)"
  by (cases op) (simp_all add: inv_intros)

lemma leases_abs_simps [simp]:
  "issued (leases_abs t) = unat (ltab_next t)"
  "map_len (held (leases_abs t)) = map_len (tab_leases t)"
  "fmlookup (held (leases_abs t)) n =
     map_option (\<lambda>r. (le_owner r, unat (le_token r))) (fmlookup (tab_leases t) n)"
  by (simp_all add: leases_abs_def)

lemma leases_abs_drop:
  "leases_abs (t\<lparr>tab_leases := fmdrop n (tab_leases t)\<rparr>) =
     (leases_abs t)\<lparr>held := fmdrop n (held (leases_abs t))\<rparr>"
  by (simp add: leases_abs_def)

lemma leases_abs_refresh:
  "fmlookup (tab_leases t) n = Some r \<Longrightarrow>
     leases_abs (t\<lparr>tab_leases := fmupd n (r\<lparr>le_deadline := dl, le_ttl := ttl\<rparr>) (tab_leases t)\<rparr>) =
     leases_abs t"
  by (simp add: leases_abs_def fmupd_same)

lemma leases_abs_step:
  assumes "unat (ltab_next t) + 1 < 2 ^ 64"
  shows "leases_abs (leases_step e op t) = spec_step (leases_valid e) MaxLeases op (leases_abs t)"
proof -
  have nx: "unat (ltab_next t + 1) = unat (ltab_next t) + 1"
    by (rule u64_next_unat_lt [OF assms])
  show ?thesis
  proof (cases op)
    case (Take n h dl ttl)
    have "leases_abs (t\<lparr>tab_leases := fmupd n r (tab_leases t), ltab_next := ltab_next t + 1\<rparr>) =
        \<lparr>held = fmupd n (le_owner r, unat (le_token r)) (held (leases_abs t)),
         issued = issued (leases_abs t) + 1\<rparr>" for r
      using nx by (simp add: leases_abs_def)
    with Take nx show ?thesis
      by (cases "leases_ValidName e n"; cases "fmlookup (tab_leases t) n")
        (simp_all add: leases_Grant_def leases_valid_def Let_def leases_abs_refresh)
  next
    case (Give n h k)
    then show ?thesis
      by (cases "leases_ValidName e n"; cases "fmlookup (tab_leases t) n")
        (simp_all add: leases_Revoke_def leases_valid_def leases_abs_drop)
  next
    case (Extend n h k dl ttl)
    then show ?thesis
      by (cases "leases_ValidName e n"; cases "fmlookup (tab_leases t) n")
        (simp_all add: leases_Renew_def leases_valid_def leases_abs_refresh)
  next
    case (Lapse n k)
    then show ?thesis
      by (cases "leases_ValidName e n"; cases "fmlookup (tab_leases t) n")
        (simp_all add: leases_Expire_def leases_valid_def leases_abs_drop)
  qed
qed

interpretation le: fenced_table leases_step leases_abs leases_valid MaxLeases leases_inv leases_New
proof unfold_locales
  fix t e e' op n
  show "leases_inv leases_New" by (rule leases_inv_New)
  show "leases_abs leases_New = spec_init" by (simp add: leases_abs_def leases_New_def spec_init_def)
  show "leases_inv t \<Longrightarrow> leases_inv (leases_step e op t)" by (rule leases_inv_step)
  show "issued (leases_abs t) + 1 < 2 ^ 64 \<Longrightarrow>
      leases_abs (leases_step e op t) = spec_step (leases_valid e) MaxLeases op (leases_abs t)"
    by (rule leases_abs_step) simp
  show "same_tables e e' \<Longrightarrow> leases_valid e n = leases_valid e' n"
    by (simp add: leases_valid_def leases_ValidName_tables [of e e'])
qed

section \<open>Helper lemmas for the properties\<close>

lemma leases_List_sorted:
  "keyed le_name (tab_leases t) \<Longrightarrow> map le_name (leases_List t) = map_keys (tab_leases t)"
  by (simp add: leases_List_def leases_List_range_def sorted_range_unique keyed_range_vals)

lemma leases_Due_eq:
  "keyed le_name (tab_leases t) \<Longrightarrow> is_range (tab_leases t) ks \<Longrightarrow>
     leases_Due_range ks now t = filter (lease_due now) (leases_List t)"
  by (simp add: leases_Due_range_def leases_List_def leases_List_range_def
      sorted_filter_range_unique sorted_range_unique)

text \<open>The effect of expiring every record of a list, on a table whose names are all legal.\<close>

definition leases_expire_cb ::
  "env \<Rightarrow> string \<Rightarrow> u64 \<Rightarrow> leases_table \<Rightarrow> unit option \<times> leases_table" where
  "leases_expire_cb e name token t = (None, snd (snd (leases_Expire e name token t)))"

lemma leases_Expire_lookup:
  "fmlookup (tab_leases (snd (snd (leases_Expire e n k t)))) m =
     (if m = n \<and> leases_valid e n \<and> map_option le_token (fmlookup (tab_leases t) n) = Some k
      then None else fmlookup (tab_leases t) m)"
  by (auto simp: leases_Expire_def leases_valid_def split: option.splits)

lemma leases_expire_all_lookup:
  assumes "\<And>r. r \<in> set rs \<Longrightarrow> leases_valid e (le_name r)"
  shows "fmlookup (tab_leases (leases_expire_all (leases_expire_cb e) rs t)) n =
     (if \<exists>r \<in> set rs. le_name r = n \<and>
           map_option le_token (fmlookup (tab_leases t) n) = Some (le_token r)
      then None else fmlookup (tab_leases t) n)"
  using assms
  by (induction rs arbitrary: t) (auto simp: leases_expire_cb_def leases_Expire_lookup)

lemma leases_Due_iff:
  assumes "keyed le_name (tab_leases t)"
  shows "r \<in> set (leases_Due now t) \<longleftrightarrow>
     fmlookup (tab_leases t) (le_name r) = Some r \<and> lease_due now r"
  using assms range_vals_lookup [OF range_map_keys, of r "tab_leases t"]
  by (auto simp: leases_Due_def leases_Due_range_def keyed_def)

lemma leases_spec_inv_token:
  assumes "spec_inv cap (leases_abs t)" and "fmlookup (tab_leases t) n = Some r"
  shows "0 < le_token r \<and> le_token r \<le> ltab_next t"
proof -
  have "fmlookup (held (leases_abs t)) n = Some (le_owner r, unat (le_token r))"
    using assms(2) by simp
  with assms(1) have "0 < unat (le_token r) \<and> unat (le_token r) \<le> issued (leases_abs t)"
    unfolding spec_inv_def by blast
  then show ?thesis by (simp add: word_le_nat_alt word_less_nat_alt)
qed

lemma leases_spec_inv_unique:
  assumes "spec_inv cap (leases_abs t)" and "fmlookup (tab_leases t) n = Some r"
    and "fmlookup (tab_leases t) n' = Some r'" and "le_token r = le_token r'"
  shows "n = n'"
proof -
  have "fmlookup (held (leases_abs t)) n = Some (le_owner r, unat (le_token r))"
    "fmlookup (held (leases_abs t)) n' = Some (le_owner r', unat (le_token r))"
    using assms(2-4) by simp_all
  with assms(1) show ?thesis unfolding spec_inv_def by blast
qed


text \<open>The events one operation passes to the hook.\<close>

fun leases_events :: "env \<Rightarrow> grant_op \<Rightarrow> leases_table \<Rightarrow> event list" where
  "leases_events e (Take n h dl ttl) t = fst (snd (leases_Grant e n h dl ttl t))"
| "leases_events e (Give n h k) t = fst (snd (leases_Revoke e n h k t))"
| "leases_events e (Extend n h k dl ttl) t = []"
| "leases_events e (Lapse n k) t = fst (snd (leases_Expire e n k t))"

fun op_name :: "grant_op \<Rightarrow> string" where
  "op_name (Take n h dl ttl) = n"
| "op_name (Give n h k) = n"
| "op_name (Extend n h k dl ttl) = n"
| "op_name (Lapse n k) = n"

fun op_end_type :: "grant_op \<Rightarrow> string" where
  "op_end_type (Lapse n k) = TypeLeaseExpired"
| "op_end_type op = TypeLeaseRevoked"

lemma leases_emit_summary [simp]:
  "map (\<lambda>ev. (ev_type ev, ev_source ev)) (leases_emit True typ rec) = [(typ, le_name rec)]"
  "leases_emit False typ rec = []"
  by (simp_all add: leases_emit_def mk_event_def)

section \<open>Properties\<close>

text \<open>
  C11. Fencing for leases: along any history of lease-table operations and any continuation of it,
  a lease that is held at both points is still the same grant or has a strictly larger token; and
  a token that has already been handed out and is not the one of the current grant never becomes
  the token of that name again.
\<close>

theorem leases_fencing:
  assumes "length ops + length ops' < 2 ^ 64"
    and "t = run_ops leases_step ops leases_New" and "t' = run_ops leases_step ops' t"
  shows "(\<forall>n r r'. leases_Get n t = Some r \<longrightarrow> leases_Get n t' = Some r' \<longrightarrow>
      (le_owner r' = le_owner r \<and> le_token r' = le_token r) \<or> le_token r < le_token r') \<and>
    (\<forall>n r'. leases_Get n t' = Some r' \<longrightarrow> le_token r' \<le> ltab_next t \<longrightarrow>
      map_option le_token (leases_Get n t) = Some (le_token r'))"
proof (intro conjI allI impI)
  fix n r r'
  assume "leases_Get n t = Some r" "leases_Get n t' = Some r'"
  then show "(le_owner r' = le_owner r \<and> le_token r' = le_token r) \<or> le_token r < le_token r'"
    using le.init_fencing [OF assms(1), of n "le_owner r" "unat (le_token r)"
        "le_owner r'" "unat (le_token r')"] assms(2,3)
    by (simp add: leases_Get_def word_less_nat_alt)
next
  fix n r'
  assume r': "leases_Get n t' = Some r'" and old: "le_token r' \<le> ltab_next t"
  have old': "unat (le_token r') \<le> issued (leases_abs t)"
    using old by (simp add: word_le_nat_alt)
  show "map_option le_token (leases_Get n t) = Some (le_token r')"
  proof (rule ccontr)
    assume no: "map_option le_token (leases_Get n t) \<noteq> Some (le_token r')"
    have "fmlookup (held (leases_abs t)) n \<noteq> Some (h, unat (le_token r'))" for h
      using no by (cases "fmlookup (tab_leases t) n") (simp_all add: leases_Get_def)
    then have "fmlookup (held (leases_abs t')) n \<noteq> Some (le_owner r', unat (le_token r'))"
      using le.init_stale [OF assms(1), of "unat (le_token r')" n "le_owner r'"] old' assms(2,3)
      by simp
    with r' show False by (simp add: leases_Get_def)
  qed
qed

text \<open>
  Refinement: a history of lease-table operations from the empty table, shorter than the range
  of the token counter, has exactly the effect the abstract grant machine prescribes.
\<close>

theorem leases_refines_spec:
  assumes "length ops < 2 ^ 64"
  shows "leases_abs (run_ops leases_step ops leases_New) =
    spec_run MaxLeases (spec_ops leases_valid ops) spec_init"
  by (rule le.init_run [OF assms])

text \<open>
  The lease events tell the truth: with the hook set, an operation emits an event exactly when
  the name it is about becomes held (one lease.granted event) or becomes free (one event, of type
  lease.revoked or lease.expired by the operation); a refresh, a refusal and an error are silent.
  The event names the lease as its source.
\<close>

theorem leases_events_correct:
  assumes "leases_inv t" and "ltab_Emit t"
  shows "map (\<lambda>ev. (ev_type ev, ev_source ev)) (leases_events e op t) =
    (case (leases_Get (op_name op) t, leases_Get (op_name op) (leases_step e op t)) of
       (None, Some _) \<Rightarrow> [(TypeLeaseGranted, op_name op)]
     | (Some _, None) \<Rightarrow> [(op_end_type op, op_name op)]
     | _ \<Rightarrow> [])"
proof -
  have name: "le_name r = op_name op" if "fmlookup (tab_leases t) (op_name op) = Some r" for r
    using leases_inv_record [OF assms(1) that] by simp
  note defs = leases_Get_def leases_Grant_def leases_Renew_def leases_Revoke_def
    leases_Expire_def assms(2)
  show ?thesis
  proof (cases "leases_ValidName e (op_name op)")
    case (Some err)
    then show ?thesis by (cases op) (simp_all add: defs split: option.split)
  next
    case None
    note valid = None
    show ?thesis
    proof (cases "fmlookup (tab_leases t) (op_name op)")
      case None
      with valid show ?thesis by (cases op) (simp_all add: defs Let_def)
    next
      case (Some r)
      with valid name [OF Some] show ?thesis by (cases op) (simp_all add: defs Let_def)
    qed
  qed
qed

text \<open>
  The lifetime of every lock and lease is between one millisecond and 24 hours: ClampTTL of
  both packages is the same function, its result always lies in that interval, and a lifetime that
  went through it is not changed by going through it again.
\<close>

theorem ClampTTL_bounds:
  "Millisecond \<le> locks_ClampTTL requested fallback \<and>
   locks_ClampTTL requested fallback \<le> 24 * Hour \<and>
   leases_ClampTTL requested fallback = locks_ClampTTL requested fallback \<and>
   locks_ClampTTL (locks_ClampTTL requested fallback) fallback' =
     locks_ClampTTL requested fallback"
  by (auto simp: locks_ClampTTL_def leases_ClampTTL_def Let_def locks_MinTTL_def locks_MaxTTL_def
      leases_MinTTL_def leases_MaxTTL_def locks_DefaultTTL_def leases_DefaultTTL_def
      Millisecond_def Hour_def Second_def)

section \<open>Witnesses\<close>

definition leases_hist :: "(env \<times> grant_op) list" where
  "leases_hist =
     [(ascii_env 5, Take ''node.a'' ''a'' 10 5), (ascii_env 6, Take ''cron'' ''b'' 90 80)]"

definition leases_hist2 :: "(env \<times> grant_op) list" where
  "leases_hist2 =
     [(ascii_env 11, Give ''cron'' ''b'' 2), (ascii_env 12, Take ''cron'' ''a'' 30 18)]"

theorem leases_fencing_witness:
  "le_token (the (leases_Get ''cron'' (run_ops leases_step leases_hist leases_New))) <
   le_token (the (leases_Get ''cron''
     (run_ops leases_step leases_hist2 (run_ops leases_step leases_hist leases_New))))"
proof -
  let ?t = "run_ops leases_step leases_hist leases_New"
  let ?t' = "run_ops leases_step leases_hist2 ?t"
  have 1: "leases_Get ''cron'' ?t \<noteq> None" "leases_Get ''cron'' ?t' \<noteq> None"
    by code_simp+
  have 2: "le_owner (the (leases_Get ''cron'' ?t)) \<noteq> le_owner (the (leases_Get ''cron'' ?t'))"
    by code_simp
  have "length leases_hist + length leases_hist2 < 2 ^ 64"
    by (simp add: leases_hist_def leases_hist2_def)
  note fen = conjunct1 [OF leases_fencing [OF this refl refl], rule_format, of "''cron''"]
  obtain r r' where r: "leases_Get ''cron'' ?t = Some r" "leases_Get ''cron'' ?t' = Some r'"
    using 1 by blast
  from fen [OF r] 2 show ?thesis unfolding r option.sel by metis
qed

theorem leases_refines_spec_witness:
  "leases_abs (run_ops leases_step leases_hist leases_New) =
     spec_run MaxLeases (spec_ops leases_valid leases_hist) spec_init"
  by (rule leases_refines_spec) (simp add: leases_hist_def)

theorem leases_events_correct_witness:
  "map (\<lambda>ev. (ev_type ev, ev_source ev))
     (leases_events (ascii_env 3) (Take ''cron'' ''b'' 90 80) (leases_New\<lparr>ltab_Emit := True\<rparr>)) =
   [(''lease.granted'', ''cron'')]"
proof -
  let ?t = "leases_New\<lparr>ltab_Emit := True\<rparr>"
  let ?op = "Take ''cron'' ''b'' 90 80"
  have "leases_inv ?t" by (simp add: leases_inv_def leases_New_def)
  moreover have none: "leases_Get ''cron'' ?t = None" by code_simp
  moreover have "leases_Get ''cron'' (leases_step (ascii_env 3) ?op ?t) \<noteq> None" by code_simp
  then obtain r where some: "leases_Get ''cron'' (leases_step (ascii_env 3) ?op ?t) = Some r"
    by blast
  ultimately show ?thesis
    using leases_events_correct [of ?t "ascii_env 3" ?op]
    unfolding op_name.simps none some TypeLeaseGranted_def by simp
qed

end
