(* ===== verification/Membership.thy ===== *)
theory Membership
  imports Events
begin

text \<open>
  Package internal/membership: the member list of the local node (engine.go). Operations return the
  events they pass to the \<^verbatim>\<open>Emit\<close> hook. Lemmas: the representation invariant (one leader flag,
  normalised roles and states, departed members are not listed), the events an operation emits, and
  that the listing does not depend on the iteration order of the map.
\<close>

type_synonym status = string

definition StatusAlive :: status where "StatusAlive = ''alive''"
definition StatusDead :: status where "StatusDead = ''dead''"
definition StatusLeaving :: status where "StatusLeaving = ''leaving''"

definition NormalizeStatus :: "status \<Rightarrow> status" where
  "NormalizeStatus s = (if s = StatusAlive \<or> s = '''' then StatusAlive else StatusDead)"

definition RoleVoter :: string where "RoleVoter = ''voter''"
definition RoleObserver :: string where "RoleObserver = ''observer''"

definition NormalizeRole :: "string \<Rightarrow> string" where
  "NormalizeRole role = (if role = RoleObserver then RoleObserver else RoleVoter)"

record member =
  mb_id :: string
  mb_address :: string
  mb_status :: status
  mb_leader :: bool
  mb_role :: string
  mb_joined_at :: gotime

record engine =
  en_selfID :: string
  en_leaderID :: string
  en_members :: "(string, member) fmap"
  en_dropped :: "string fset"
  en_Emit :: bool

datatype member_error = EmptyNodeID

definition membership_New :: "env \<Rightarrow> string \<Rightarrow> string \<Rightarrow> engine" where
  "membership_New e selfID selfAddr =
     \<lparr>en_selfID = selfID, en_leaderID = selfID,
      en_members = fmupd selfID
        \<lparr>mb_id = selfID, mb_address = selfAddr, mb_status = StatusAlive, mb_leader = True,
         mb_role = RoleVoter, mb_joined_at = env_now e\<rparr> fmempty,
      en_dropped = {||}, en_Emit = False\<rparr>"

definition JoinAs ::
  "env \<Rightarrow> string \<Rightarrow> string \<Rightarrow> string \<Rightarrow> engine \<Rightarrow> (member_error + bool) \<times> event list \<times> engine" where
  "JoinAs e nid addr role0 en =
     (if nid = '''' then (Inl EmptyNodeID, [], en)
      else
        let role = NormalizeRole role0;
            existing = fmlookup (en_members en) nid;
            alive = (case existing of Some m \<Rightarrow> mb_status m = StatusAlive | None \<Rightarrow> False);
            isNew = (\<not> alive);
            joinedAt = (if alive then mb_joined_at (the existing) else env_now e);
            en' = en\<lparr>en_dropped := en_dropped en |-| {|nid|},
                     en_members := fmupd nid
                       \<lparr>mb_id = nid, mb_address = addr, mb_status = StatusAlive,
                        mb_leader = (nid = en_leaderID en), mb_role = role,
                        mb_joined_at = joinedAt\<rparr> (en_members en)\<rparr>
        in (Inr isNew,
            if isNew \<and> en_Emit en
            then [mk_event TypeMemberJoin nid
                    (json_text (JObj [(''address'', JStr addr), (''role'', JStr role)]))]
            else [],
            en'))"

definition membership_Join ::
  "env \<Rightarrow> string \<Rightarrow> string \<Rightarrow> engine \<Rightarrow> (member_error + bool) \<times> event list \<times> engine" where
  "membership_Join e nid addr en = JoinAs e nid addr RoleVoter en"

definition MarkDead :: "string \<Rightarrow> engine \<Rightarrow> event list \<times> engine" where
  "MarkDead nid en =
     (case fmlookup (en_members en) nid of
        None \<Rightarrow> ([], en)
      | Some m \<Rightarrow>
          if NormalizeStatus (mb_status m) = StatusDead then ([], en)
          else (if en_Emit en then [mk_event TypeMemberDead nid ''''] else [],
                en\<lparr>en_members := fmupd nid (m\<lparr>mb_status := StatusDead\<rparr>) (en_members en)\<rparr>))"

definition Leave :: "string \<Rightarrow> engine \<Rightarrow> event list \<times> engine" where
  "Leave nid en =
     (if nid |\<in>| en_dropped en then ([], en)
      else if fmlookup (en_members en) nid = None then ([], en)
      else (if en_Emit en then [mk_event TypeMemberLeft nid ''''] else [],
            en\<lparr>en_members := fmdrop nid (en_members en),
               en_dropped := finsert nid (en_dropped en)\<rparr>))"

definition Drop :: "string \<Rightarrow> engine \<Rightarrow> event list \<times> engine" where
  "Drop nid en = Leave nid en"

definition RestoreMember ::
  "env \<Rightarrow> string \<Rightarrow> string \<Rightarrow> string \<Rightarrow> status \<Rightarrow> engine \<Rightarrow> member_error option \<times> engine" where
  "RestoreMember e nid addr role0 status0 en =
     (if nid = '''' then (Some EmptyNodeID, en)
      else
        let role = NormalizeRole role0; status = NormalizeStatus status0;
            joinedAt = (case fmlookup (en_members en) nid of
                          Some m \<Rightarrow> mb_joined_at m | None \<Rightarrow> env_now e)
        in (None,
            en\<lparr>en_dropped := en_dropped en |-| {|nid|},
               en_members := fmupd nid
                 \<lparr>mb_id = nid, mb_address = addr, mb_status = status,
                  mb_leader = (nid = en_leaderID en), mb_role = role,
                  mb_joined_at = joinedAt\<rparr> (en_members en)\<rparr>))"

definition Members_range :: "string list \<Rightarrow> engine \<Rightarrow> member list" where
  "Members_range ks en = sort_key mb_id (range_vals (en_members en) ks)"

definition Members :: "engine \<Rightarrow> member list" where
  "Members en = Members_range (map_keys (en_members en)) en"

definition Leader :: "engine \<Rightarrow> member option" where
  "Leader en = fmlookup (en_members en) (en_leaderID en)"

definition SetLeader :: "string \<Rightarrow> engine \<Rightarrow> event list \<times> engine" where
  "SetLeader nid en =
     (if en_leaderID en = nid then ([], en)
      else (if en_Emit en then [mk_event TypeLeaderChanged nid ''''] else [],
            en\<lparr>en_leaderID := nid,
               en_members := fmmap_keys (\<lambda>k m. m\<lparr>mb_leader := (k = nid)\<rparr>) (en_members en)\<rparr>))"

definition SelfID :: "engine \<Rightarrow> string" where
  "SelfID en = en_selfID en"

definition SelfRole :: "engine \<Rightarrow> string" where
  "SelfRole en =
     (case fmlookup (en_members en) (en_selfID en) of
        Some m \<Rightarrow> NormalizeRole (mb_role m) | None \<Rightarrow> RoleVoter)"

definition LeaderID :: "engine \<Rightarrow> string" where
  "LeaderID en = en_leaderID en"

definition Left :: "string \<Rightarrow> engine \<Rightarrow> bool" where
  "Left nid en \<longleftrightarrow> nid |\<in>| en_dropped en"

section \<open>Invariant\<close>

text \<open>The operations that change the list, as data.\<close>

datatype member_op =
    MJoin string string string
  | MDead string
  | MLeave string
  | MRestore string string string status
  | MLeader string

fun member_step :: "env \<Rightarrow> member_op \<Rightarrow> engine \<Rightarrow> engine" where
  "member_step e (MJoin nid addr role) en = snd (snd (JoinAs e nid addr role en))"
| "member_step e (MDead nid) en = snd (MarkDead nid en)"
| "member_step e (MLeave nid) en = snd (Leave nid en)"
| "member_step e (MRestore nid addr role st) en = snd (RestoreMember e nid addr role st en)"
| "member_step e (MLeader nid) en = snd (SetLeader nid en)"

fun member_events :: "env \<Rightarrow> member_op \<Rightarrow> engine \<Rightarrow> event list" where
  "member_events e (MJoin nid addr role) en = fst (snd (JoinAs e nid addr role en))"
| "member_events e (MDead nid) en = fst (MarkDead nid en)"
| "member_events e (MLeave nid) en = fst (Leave nid en)"
| "member_events e (MRestore nid addr role st) en = []"
| "member_events e (MLeader nid) en = fst (SetLeader nid en)"

definition member_ok :: "string \<Rightarrow> string \<Rightarrow> member \<Rightarrow> bool" where
  "member_ok leader k m \<longleftrightarrow>
     mb_id m = k \<and> mb_leader m = (k = leader) \<and> mb_status m \<in> {StatusAlive, StatusDead} \<and>
     mb_role m \<in> {RoleVoter, RoleObserver}"

definition membership_inv :: "engine \<Rightarrow> bool" where
  "membership_inv en \<longleftrightarrow>
     (\<forall>k m. fmlookup (en_members en) k = Some m \<longrightarrow>
        member_ok (en_leaderID en) k m \<and> k |\<notin>| en_dropped en)"

lemma Normalize_range [simp]:
  "NormalizeStatus s \<in> {StatusAlive, StatusDead}"
  "NormalizeRole r \<in> {RoleVoter, RoleObserver}"
  by (auto simp: NormalizeStatus_def NormalizeRole_def)

lemma NormalizeStatus_simps [simp]:
  "NormalizeStatus StatusAlive = StatusAlive" "NormalizeStatus StatusDead = StatusDead"
  "StatusAlive \<noteq> StatusDead" "NormalizeStatus StatusLeaving = StatusDead"
  by (simp_all add: NormalizeStatus_def StatusAlive_def StatusDead_def StatusLeaving_def)

lemma membership_inv_New [inv_intros]: "membership_inv (membership_New e self addr)"
  by (auto simp: membership_inv_def membership_New_def member_ok_def)

lemma membership_inv_upd:
  assumes "membership_inv en" and "member_ok (en_leaderID en) k m"
  shows "membership_inv (en\<lparr>en_dropped := en_dropped en |-| {|k|},
    en_members := fmupd k m (en_members en)\<rparr>)"
  using assms by (auto simp: membership_inv_def)

lemma membership_inv_JoinAs [inv_intros]:
  "membership_inv en \<Longrightarrow> membership_inv (snd (snd (JoinAs e nid addr role en)))"
  using Normalize_range(2) [of role]
  by (auto simp: JoinAs_def Let_def member_ok_def intro!: membership_inv_upd)

lemma membership_inv_RestoreMember [inv_intros]:
  "membership_inv en \<Longrightarrow> membership_inv (snd (RestoreMember e nid addr role st en))"
  using Normalize_range(1) [of st] Normalize_range(2) [of role]
  by (auto simp: RestoreMember_def Let_def member_ok_def intro!: membership_inv_upd)

lemma membership_inv_MarkDead [inv_intros]:
  "membership_inv en \<Longrightarrow> membership_inv (snd (MarkDead nid en))"
  by (auto simp: MarkDead_def membership_inv_def member_ok_def split: option.splits)

lemma membership_inv_Leave [inv_intros]:
  "membership_inv en \<Longrightarrow> membership_inv (snd (Leave nid en))"
  by (auto simp: Leave_def membership_inv_def)

lemma membership_inv_SetLeader [inv_intros]:
  "membership_inv en \<Longrightarrow> membership_inv (snd (SetLeader nid en))"
  unfolding SetLeader_def membership_inv_def member_ok_def by (fastforce split: if_splits)

lemma membership_inv_step [inv_intros]: "membership_inv en \<Longrightarrow> membership_inv (member_step e op en)"
  by (cases op) (simp_all add: inv_intros)

lemma membership_inv_keyed: "membership_inv en \<Longrightarrow> keyed mb_id (en_members en)"
  by (auto simp: membership_inv_def keyed_def member_ok_def)

fun member_run :: "(env \<times> member_op) list \<Rightarrow> engine \<Rightarrow> engine" where
  "member_run [] en = en"
| "member_run ((e, op) # ops) en = member_run ops (member_step e op en)"

lemma membership_inv_run: "membership_inv en \<Longrightarrow> membership_inv (member_run ops en)"
  by (induction ops en rule: member_run.induct) (simp_all add: membership_inv_step)

lemma member_step_frame [simp]:
  "en_selfID (member_step e op en) = en_selfID en" "en_Emit (member_step e op en) = en_Emit en"
  by (cases op; simp add: JoinAs_def MarkDead_def Leave_def RestoreMember_def SetLeader_def
      Let_def split: option.splits)+

section \<open>Properties\<close>

text \<open>
  C23. The member list is well formed after any sequence of joins, deaths, departures, snapshot
  restores and leader changes: every entry is stored under its own id, is alive or dead, is a voter
  or an observer, and is not at the same time recorded as departed; and the entry flagged as leader
  is exactly the one of the current leader id, so there is never more than one.
\<close>

theorem membership_reachable_inv:
  assumes "en = member_run ops (membership_New e self addr)"
  shows "(\<forall>k m. fmlookup (en_members en) k = Some m \<longrightarrow>
      mb_id m = k \<and> mb_status m \<in> {StatusAlive, StatusDead} \<and>
      mb_role m \<in> {RoleVoter, RoleObserver} \<and> \<not> Left k en \<and>
      (mb_leader m \<longleftrightarrow> k = LeaderID en)) \<and>
    length (filter mb_leader (Members en)) \<le> 1"
proof -
  have inv: "membership_inv en"
    unfolding assms by (rule membership_inv_run [OF membership_inv_New])
  then have entry: "mb_id m = k \<and> mb_status m \<in> {StatusAlive, StatusDead} \<and>
      mb_role m \<in> {RoleVoter, RoleObserver} \<and> \<not> Left k en \<and> (mb_leader m \<longleftrightarrow> k = LeaderID en)"
    if "fmlookup (en_members en) k = Some m" for k m
    using that unfolding membership_inv_def member_ok_def Left_def LeaderID_def by blast
  have mem: "Members en = range_vals (en_members en) (map_keys (en_members en))"
    by (simp add: Members_def Members_range_def sorted_range_unique membership_inv_keyed [OF inv])
  have dist: "distinct (map mb_id (Members en))"
    unfolding mem by (simp add: keyed_range_vals membership_inv_keyed [OF inv])
  have "set (map mb_id (filter mb_leader (Members en))) \<subseteq> {LeaderID en}"
    using entry unfolding mem
    by (auto simp: range_vals_lookup [OF range_map_keys])
  moreover have "distinct (map mb_id (filter mb_leader (Members en)))"
    using dist by (rule distinct_map_filter)
  ultimately have "length (map mb_id (filter mb_leader (Members en))) \<le> 1"
    by (metis card_mono distinct_card finite.emptyI finite.insertI is_singletonI
        is_singleton_altdef)
  with entry show ?thesis by simp
qed

text \<open>What an operation should announce: the type and the source of the event, if any.\<close>

fun member_event_due :: "member_op \<Rightarrow> engine \<Rightarrow> (string \<times> string) list" where
  "member_event_due (MJoin nid addr role) en =
     (if nid = '''' \<or> map_option mb_status (fmlookup (en_members en) nid) = Some StatusAlive then []
      else [(TypeMemberJoin, nid)])"
| "member_event_due (MDead nid) en =
     (if map_option mb_status (fmlookup (en_members en) nid) = Some StatusAlive
      then [(TypeMemberDead, nid)] else [])"
| "member_event_due (MLeave nid) en =
     (if fmlookup (en_members en) nid \<noteq> None then [(TypeMemberLeft, nid)] else [])"
| "member_event_due (MRestore nid addr role st) en = []"
| "member_event_due (MLeader nid) en =
     (if nid \<noteq> en_leaderID en then [(TypeLeaderChanged, nid)] else [])"

text \<open>
  The membership events tell the truth: with the hook set, a join emits one member.join event
  exactly when the member was not alive before, a death report emits one member.dead event exactly
  when the member was alive, a departure emits one member.left event exactly when the member was
  listed, a leader change emits one leader.changed event exactly when the leader id differs; a
  snapshot restore emits nothing. Repeating an operation is always silent.
\<close>

theorem member_events_correct:
  assumes "membership_inv en" and "en_Emit en"
  shows "map (\<lambda>ev. (ev_type ev, ev_source ev)) (member_events e op en) = member_event_due op en \<and>
    member_events e op (member_step e op en) = []"
proof -
  have st: "mb_status m = StatusAlive \<or> mb_status m = StatusDead" "nid |\<notin>| en_dropped en"
    if "fmlookup (en_members en) nid = Some m" for nid m
    using assms(1) that by (auto simp: membership_inv_def member_ok_def)
  note defs = JoinAs_def MarkDead_def Leave_def SetLeader_def mk_event_def Let_def assms(2)
  show ?thesis
  proof (cases op)
    case (MJoin nid addr role)
    then show ?thesis
      by (cases "fmlookup (en_members en) nid") (simp_all add: defs)
  next
    case (MDead nid)
    then show ?thesis
      using st [of nid] by (cases "fmlookup (en_members en) nid") (auto simp: defs)
  next
    case (MLeave nid)
    then show ?thesis
      using st [of nid] by (cases "fmlookup (en_members en) nid") (auto simp: defs)
  next
    case (MLeader nid)
    then show ?thesis by (simp add: defs)
  qed simp
qed

section \<open>Witnesses\<close>

definition member_hist :: "(env \<times> member_op) list" where
  "member_hist =
     [(ascii_env 2, MJoin ''b'' ''b:7443'' ''''), (ascii_env 3, MJoin ''c'' ''c:7443'' ''observer''),
      (ascii_env 4, MLeader ''b''), (ascii_env 5, MDead ''c''), (ascii_env 6, MLeave ''c''),
      (ascii_env 7, MRestore ''d'' ''d:7443'' '''' ''leaving'')]"

theorem membership_reachable_inv_witness:
  "map (\<lambda>m. (mb_id m, mb_status m, mb_leader m))
     (Members (member_run member_hist (membership_New (ascii_env 1) ''a'' ''a:7443''))) =
     [(''a'', ''alive'', False), (''b'', ''alive'', True), (''d'', ''dead'', False)] \<and>
   length (filter mb_leader
     (Members (member_run member_hist (membership_New (ascii_env 1) ''a'' ''a:7443'')))) \<le> 1"
proof
  show "map (\<lambda>m. (mb_id m, mb_status m, mb_leader m))
     (Members (member_run member_hist (membership_New (ascii_env 1) ''a'' ''a:7443''))) =
     [(''a'', ''alive'', False), (''b'', ''alive'', True), (''d'', ''dead'', False)]"
    by code_simp
  show "length (filter mb_leader
     (Members (member_run member_hist (membership_New (ascii_env 1) ''a'' ''a:7443'')))) \<le> 1"
    using membership_reachable_inv [OF refl] by blast
qed

theorem member_events_correct_witness:
  "map (\<lambda>ev. (ev_type ev, ev_source ev))
     (member_events (ascii_env 9) (MDead ''a'')
       ((membership_New (ascii_env 1) ''a'' ''a:7443'')\<lparr>en_Emit := True\<rparr>)) =
   [(''member.dead'', ''a'')]"
proof -
  let ?en = "(membership_New (ascii_env 1) ''a'' ''a:7443'')\<lparr>en_Emit := True\<rparr>"
  have "membership_inv ?en"
    using membership_inv_New [of "ascii_env 1" "''a''" "''a:7443''"]
    by (simp add: membership_inv_def)
  moreover have "en_Emit ?en" by simp
  moreover have "member_event_due (MDead ''a'') ?en = [(''member.dead'', ''a'')]" by code_simp
  ultimately show ?thesis
    using member_events_correct [of ?en "ascii_env 9" "MDead ''a''"] by metis
qed

end
