(* ===== verification/Eventbus.thy ===== *)
theory Eventbus
  imports Events
begin

text \<open>
  Package internal/eventbus: the in-process publish/subscribe bus (bus.go). A bus is a store of
  subscription objects under their ids; an object stays in the store after it is unsubscribed,
  because its consumer still holds it, but is then no longer in the map \<^verbatim>\<open>subs\<close> that Publish
  ranges over (field \<open>sub_active\<close>). Channels are bounded queues.

  Publish takes its sequence number with an atomic add before it takes the lock, and the lock is
  shared between publishers. A publication is therefore a sequence of steps: it takes the number,
  takes the read lock, sends to one subscriber after the other, and releases the lock; the
  publications that are between these steps are the field \<open>bus_flight\<close>, which holds what their
  goroutines have in their local variables. The steps of any number of publishers, subscribers and
  consumers interleave in every order that the lock admits (\<open>bus_step\<close>). The functions \<open>Publish\<close>,
  \<open>Subscribe\<close> and \<open>Unsubscribe\<close> are the whole calls, run with no step of another goroutine between
  theirs.

  Lemmas: buffers never exceed their bound; every subscription is first-in-first-out and gets every
  event at most once; publications that do not overlap arrive in the order of their numbers, and
  overlapping ones need not; what a slow subscriber loses is exactly what did not fit.
\<close>

record subscription =
  sub_ch :: "event list"
  sub_cap :: nat
  sub_done :: bool
  sub_dropped :: bool
  sub_active :: bool

text \<open>
  A publication in flight: the stamped event, and the subscribers it has still to be offered to;
  \<^term>\<open>None\<close> until the publisher has the read lock.
\<close>

record flight =
  fl_event :: event
  fl_todo :: "u64 fset option"

record bus =
  bus_subs :: "(u64, subscription) fmap"
  bus_next :: u64
  bus_seq :: u64
  bus_flight :: "(u64, flight) fmap"

definition bus_New :: bus where
  "bus_New = \<lparr>bus_subs = fmempty, bus_next = 0, bus_seq = 0, bus_flight = fmempty\<rparr>"

definition LastSeq :: "bus \<Rightarrow> u64" where
  "LastSeq b = bus_seq b"

section \<open>The steps of Publish\<close>

definition stamp :: "env \<Rightarrow> u64 \<Rightarrow> event \<Rightarrow> event" where
  "stamp e m ev =
     ev\<lparr>ev_timestamp := (if IsZero (ev_timestamp ev) then env_now e else ev_timestamp ev),
        ev_seq := m\<rparr>"

text \<open>The event gets its timestamp and, by an atomic add, its number.\<close>

definition publish_number :: "env \<Rightarrow> event \<Rightarrow> bus \<Rightarrow> u64 \<times> bus" where
  "publish_number e ev b =
     (let m = bus_seq b + 1 in
      (m, b\<lparr>bus_seq := m,
            bus_flight := fmupd m \<lparr>fl_event = stamp e m ev, fl_todo = None\<rparr> (bus_flight b)\<rparr>))"

text \<open>The map \<^verbatim>\<open>subs\<close>, which cannot change while the read lock is held.\<close>

definition active_subs :: "bus \<Rightarrow> u64 fset" where
  "active_subs b =
     ffilter (\<lambda>sid. case fmlookup (bus_subs b) sid of Some s \<Rightarrow> sub_active s | None \<Rightarrow> False)
       (fmdom (bus_subs b))"

definition publish_rlock :: "u64 \<Rightarrow> bus \<Rightarrow> bus" where
  "publish_rlock m b =
     (case fmlookup (bus_flight b) m of
        None \<Rightarrow> b
      | Some f \<Rightarrow>
          (case fl_todo f of
             Some _ \<Rightarrow> b
           | None \<Rightarrow> b\<lparr>bus_flight :=
               fmupd m (f\<lparr>fl_todo := Some (active_subs b)\<rparr>) (bus_flight b)\<rparr>))"

text \<open>The non-blocking send of one event to one subscriber.\<close>

definition offer :: "event \<Rightarrow> subscription \<Rightarrow> subscription" where
  "offer ev s =
     (if length (sub_ch s) < sub_cap s then s\<lparr>sub_ch := sub_ch s @ [ev]\<rparr>
      else s\<lparr>sub_dropped := True\<rparr>)"

text \<open>One round of the range loop, for a subscriber that it has not visited yet.\<close>

definition publish_send :: "u64 \<Rightarrow> u64 \<Rightarrow> bus \<Rightarrow> bus" where
  "publish_send m sid b =
     (case (fmlookup (bus_flight b) m, fmlookup (bus_subs b) sid) of
        (Some f, Some s) \<Rightarrow>
          (case fl_todo f of
             None \<Rightarrow> b
           | Some todo \<Rightarrow>
               if sid |\<notin>| todo then b
               else b\<lparr>bus_subs := fmupd sid (offer (fl_event f) s) (bus_subs b),
                      bus_flight := fmupd m (f\<lparr>fl_todo := Some (todo |-| {|sid|})\<rparr>)
                        (bus_flight b)\<rparr>)
      | _ \<Rightarrow> b)"

definition publish_unlock :: "u64 \<Rightarrow> bus \<Rightarrow> bus" where
  "publish_unlock m b =
     (case fmlookup (bus_flight b) m of
        None \<Rightarrow> b
      | Some f \<Rightarrow>
          if fl_todo f = Some {||} then b\<lparr>bus_flight := fmdrop m (bus_flight b)\<rparr> else b)"

text \<open>
  The whole call with no other goroutine in between. The order in which the loop visits the
  subscribers does not matter (lemma \<open>Publish_any_order\<close>).
\<close>

definition Publish :: "env \<Rightarrow> event \<Rightarrow> bus \<Rightarrow> bus" where
  "Publish e ev b =
     (case publish_number e ev b of (m, b1) \<Rightarrow>
        let b2 = publish_rlock m b1;
            b3 = fold (publish_send m) (sorted_list_of_fset (active_subs b2)) b2
        in publish_unlock m b3)"

section \<open>Subscriptions\<close>

text \<open>Some publisher holds the read lock, so that nobody can take the write lock.\<close>

definition bus_reading :: "bus \<Rightarrow> bool" where
  "bus_reading b =
     fBex (fmdom (bus_flight b))
       (\<lambda>m. case fmlookup (bus_flight b) m of Some f \<Rightarrow> fl_todo f \<noteq> None | None \<Rightarrow> False)"

text \<open>Subscribe takes an id with an atomic add and then, under the write lock, registers.\<close>

definition subscribe_id :: "bus \<Rightarrow> u64 \<times> bus" where
  "subscribe_id b = (bus_next b + 1, b\<lparr>bus_next := bus_next b + 1\<rparr>)"

definition subscribe_insert :: "u64 \<Rightarrow> int \<Rightarrow> bus \<Rightarrow> bus" where
  "subscribe_insert sid bufSize0 b =
     (let bufSize = (if bufSize0 \<le> 0 then 16 else bufSize0);
          inner = \<lparr>sub_ch = [], sub_cap = nat bufSize, sub_done = False, sub_dropped = False,
                   sub_active = True\<rparr>
      in b\<lparr>bus_subs := fmupd sid inner (bus_subs b)\<rparr>)"

definition Subscribe :: "int \<Rightarrow> bus \<Rightarrow> u64 \<times> bus" where
  "Subscribe bufSize b = (case subscribe_id b of (sid, b1) \<Rightarrow> (sid, subscribe_insert sid bufSize b1))"

definition TakeDropped :: "u64 \<Rightarrow> bus \<Rightarrow> bool \<times> bus" where
  "TakeDropped sid b =
     (case fmlookup (bus_subs b) sid of
        None \<Rightarrow> (False, b)
      | Some s \<Rightarrow>
          (sub_dropped s, b\<lparr>bus_subs := fmupd sid (s\<lparr>sub_dropped := False\<rparr>) (bus_subs b)\<rparr>))"

text \<open>Unsubscribe leaves the map under the write lock and closes \<^verbatim>\<open>Done\<close> after releasing it.\<close>

definition unsubscribe_delete :: "u64 \<Rightarrow> bus \<Rightarrow> bus" where
  "unsubscribe_delete sid b =
     (case fmlookup (bus_subs b) sid of
        None \<Rightarrow> b
      | Some s \<Rightarrow> b\<lparr>bus_subs := fmupd sid (s\<lparr>sub_active := False\<rparr>) (bus_subs b)\<rparr>)"

definition unsubscribe_close :: "u64 \<Rightarrow> bus \<Rightarrow> bus" where
  "unsubscribe_close sid b =
     (case fmlookup (bus_subs b) sid of
        None \<Rightarrow> b
      | Some s \<Rightarrow>
          if sub_active s then b
          else b\<lparr>bus_subs := fmupd sid (s\<lparr>sub_done := True\<rparr>) (bus_subs b)\<rparr>)"

definition Unsubscribe :: "u64 \<Rightarrow> bus \<Rightarrow> bus" where
  "Unsubscribe sid b = unsubscribe_close sid (unsubscribe_delete sid b)"

text \<open>A receive on the channel \<^verbatim>\<open>C\<close>: \<^term>\<open>None\<close> when it would block.\<close>

definition Recv :: "u64 \<Rightarrow> bus \<Rightarrow> event option \<times> bus" where
  "Recv sid b =
     (case fmlookup (bus_subs b) sid of
        None \<Rightarrow> (None, b)
      | Some s \<Rightarrow>
          (case sub_ch s of
             [] \<Rightarrow> (None, b)
           | ev # evs \<Rightarrow> (Some ev, b\<lparr>bus_subs := fmupd sid (s\<lparr>sub_ch := evs\<rparr>) (bus_subs b)\<rparr>)))"

text \<open>Drain receives until the channel would block.\<close>

definition buffered :: "u64 \<Rightarrow> bus \<Rightarrow> nat" where
  "buffered sid b = (case fmlookup (bus_subs b) sid of None \<Rightarrow> 0 | Some s \<Rightarrow> length (sub_ch s))"

lemma Recv_buffered: "(Some ev, b') = Recv sid b \<Longrightarrow> buffered sid b' < buffered sid b"
  by (auto simp: Recv_def buffered_def split: option.splits list.splits)

function Drain :: "u64 \<Rightarrow> bus \<Rightarrow> event list \<times> bus" where
  "Drain sid b =
     (case Recv sid b of
        (None, b') \<Rightarrow> ([], b')
      | (Some ev, b') \<Rightarrow> (case Drain sid b' of (evs, b'') \<Rightarrow> (ev # evs, b'')))"
  by pat_completeness auto
termination
  by (relation "measure (\<lambda>(sid, b). buffered sid b)") (auto intro: Recv_buffered)

declare Drain.simps [simp del]

section \<open>Interleavings\<close>

text \<open>
  The steps of all goroutines that use the bus. A step that its lock or its place in the call does
  not admit leaves the bus as it is: the goroutine is still waiting, or never was there. An id is
  registered once, and only after it has been handed out.
\<close>

datatype bus_op =
    BNumber event
  | BRLock u64
  | BSend u64 u64
  | BRUnlock u64
  | BSubId
  | BSubInsert u64 int
  | BDelete u64
  | BClose u64
  | BTakeDropped u64
  | BRecv u64

fun bus_step :: "env \<Rightarrow> bus_op \<Rightarrow> bus \<Rightarrow> bus" where
  "bus_step e (BNumber ev) b = snd (publish_number e ev b)"
| "bus_step e (BRLock m) b = publish_rlock m b"
| "bus_step e (BSend m sid) b = publish_send m sid b"
| "bus_step e (BRUnlock m) b = publish_unlock m b"
| "bus_step e BSubId b = snd (subscribe_id b)"
| "bus_step e (BSubInsert sid n) b =
     (if bus_reading b \<or> fmlookup (bus_subs b) sid \<noteq> None \<or> sid = 0 \<or> sid > bus_next b then b
      else subscribe_insert sid n b)"
| "bus_step e (BDelete sid) b = (if bus_reading b then b else unsubscribe_delete sid b)"
| "bus_step e (BClose sid) b = unsubscribe_close sid b"
| "bus_step e (BTakeDropped sid) b = snd (TakeDropped sid b)"
| "bus_step e (BRecv sid) b = snd (Recv sid b)"

fun bus_run :: "(env \<times> bus_op) list \<Rightarrow> bus \<Rightarrow> bus" where
  "bus_run [] b = b"
| "bus_run ((e, op) # ops) b = bus_run ops (bus_step e op b)"

text \<open>The channel of a subscription, and what a step and a run receive from it.\<close>

definition sub_chan :: "u64 \<Rightarrow> bus \<Rightarrow> event list" where
  "sub_chan sid b = (case fmlookup (bus_subs b) sid of None \<Rightarrow> [] | Some s \<Rightarrow> sub_ch s)"

definition recv_by :: "u64 \<Rightarrow> bus_op \<Rightarrow> bus \<Rightarrow> event list" where
  "recv_by sid op b =
     (if op = BRecv sid then (case fst (Recv sid b) of None \<Rightarrow> [] | Some ev \<Rightarrow> [ev]) else [])"

fun sub_received :: "u64 \<Rightarrow> (env \<times> bus_op) list \<Rightarrow> bus \<Rightarrow> event list" where
  "sub_received sid [] b = []"
| "sub_received sid ((e, op) # ops) b = recv_by sid op b @ sub_received sid ops (bus_step e op b)"

text \<open>No publication takes its number while another one is in flight.\<close>

fun is_number :: "bus_op \<Rightarrow> bool" where
  "is_number (BNumber ev) = True"
| "is_number _ = False"

fun serial_pubs :: "(env \<times> bus_op) list \<Rightarrow> bus \<Rightarrow> bool" where
  "serial_pubs [] b = True"
| "serial_pubs ((e, op) # ops) b =
     ((is_number op \<longrightarrow> bus_flight b = fmempty) \<and> serial_pubs ops (bus_step e op b))"

lemma bus_run_append [simp]: "bus_run (xs @ ys) b = bus_run ys (bus_run xs b)"
  by (induction xs b rule: bus_run.induct) simp_all

lemma received_append [simp]:
  "sub_received sid (xs @ ys) b = sub_received sid xs b @ sub_received sid ys (bus_run xs b)"
  by (induction sid xs b rule: sub_received.induct) simp_all

lemma serial_append [simp]: "serial_pubs (xs @ ys) b \<longleftrightarrow> serial_pubs xs b \<and> serial_pubs ys (bus_run xs b)"
  by (induction xs b rule: serial_pubs.induct) auto

section \<open>Publish as a whole\<close>

lemma stamp_seq [simp]: "ev_seq (stamp e m ev) = m"
  by (simp add: stamp_def)

lemma active_subs_iff:
  "sid |\<in>| active_subs b \<longleftrightarrow> (\<exists>s. fmlookup (bus_subs b) sid = Some s \<and> sub_active s)"
  by (auto simp: active_subs_def fmdomI split: option.splits)

lemma publish_sends:
  assumes "distinct sids" and "fmlookup (bus_flight b) m = Some f"
    and "fl_todo f = Some (fset_of_list sids)"
    and "\<And>sid. sid \<in> set sids \<Longrightarrow> fmlookup (bus_subs b) sid \<noteq> None"
  shows "fold (publish_send m) sids b =
    b\<lparr>bus_subs := fmmap_keys (\<lambda>sid s. if sid \<in> set sids then offer (fl_event f) s else s) (bus_subs b),
      bus_flight := fmupd m (f\<lparr>fl_todo := Some {||}\<rparr>) (bus_flight b)\<rparr>"
  using assms
proof (induction sids arbitrary: b f)
  case Nil
  have "fmmap_keys (\<lambda>sid s. s) (bus_subs b) = bus_subs b"
    by (rule fmap_ext) (simp add: option.map_ident)
  moreover have "fmupd m f (bus_flight b) = bus_flight b" using Nil.prems(2) by (rule fmupd_same)
  moreover have "f\<lparr>fl_todo := Some {||}\<rparr> = f" using Nil.prems(3) by simp
  ultimately show ?case by simp
next
  case (Cons sid sids)
  obtain s where s: "fmlookup (bus_subs b) sid = Some s" using Cons.prems(4) [of sid] by auto
  let ?f = "f\<lparr>fl_todo := Some (fset_of_list sids)\<rparr>"
  let ?b = "b\<lparr>bus_subs := fmupd sid (offer (fl_event f) s) (bus_subs b),
    bus_flight := fmupd m ?f (bus_flight b)\<rparr>"
  have todo: "fset_of_list (sid # sids) |-| {|sid|} = fset_of_list sids"
    using Cons.prems(1) by (auto simp: fset_of_list_elem)
  have step: "publish_send m sid b = ?b"
    using Cons.prems(2,3) s todo by (simp add: publish_send_def)
  have subs: "fmmap_keys (\<lambda>k s. if k \<in> set sids then offer (fl_event f) s else s) (bus_subs ?b) =
    fmmap_keys (\<lambda>k s. if k \<in> set (sid # sids) then offer (fl_event f) s else s) (bus_subs b)"
    using Cons.prems(1) s by (intro fmap_ext) auto
  have "fold (publish_send m) sids ?b =
    ?b\<lparr>bus_subs := fmmap_keys (\<lambda>k s. if k \<in> set sids then offer (fl_event ?f) s else s) (bus_subs ?b),
       bus_flight := fmupd m (?f\<lparr>fl_todo := Some {||}\<rparr>) (bus_flight ?b)\<rparr>"
    using Cons.prems by (intro Cons.IH) auto
  then show ?case using subs by (simp add: step cong: if_cong)
qed

text \<open>What the whole call does, and that the order of the range loop does not matter.\<close>

definition bus_published :: "event \<Rightarrow> bus \<Rightarrow> bus" where
  "bus_published ev b =
     b\<lparr>bus_seq := ev_seq ev,
       bus_subs := fmmap (\<lambda>s. if sub_active s then offer ev s else s) (bus_subs b),
       bus_flight := fmdrop (ev_seq ev) (bus_flight b)\<rparr>"

lemma Publish_any_order:
  assumes "publish_number e ev b = (m, b1)" and "distinct sids"
    and "set sids = fset (active_subs (publish_rlock m b1))"
  shows "publish_unlock m (fold (publish_send m) sids (publish_rlock m b1)) =
    bus_published (stamp e (bus_seq b + 1) ev) b"
proof -
  let ?ev = "stamp e (bus_seq b + 1) ev"
  define f where "f = \<lparr>fl_event = ?ev, fl_todo = Some (active_subs b)\<rparr>"
  have f: "fl_event f = ?ev" "fl_todo f = Some (active_subs b)" by (simp_all add: f_def)
  have m: "m = bus_seq b + 1" and b1: "b1 = b\<lparr>bus_seq := m,
      bus_flight := fmupd m \<lparr>fl_event = ?ev, fl_todo = None\<rparr> (bus_flight b)\<rparr>"
    using assms(1) by (auto simp: publish_number_def Let_def)
  have act: "active_subs b1 = active_subs b" by (simp add: b1 active_subs_def)
  have b2: "publish_rlock m b1 = b\<lparr>bus_seq := m, bus_flight := fmupd m f (bus_flight b)\<rparr>"
    using act by (simp add: publish_rlock_def b1 f_def)
  have act2: "active_subs (publish_rlock m b1) = active_subs b" by (simp add: b2 active_subs_def)
  have sids: "fset_of_list sids = active_subs b"
    using assms(3) act2 by (simp add: fset_inject [symmetric] fset_of_list.rep_eq)
  have ex: "fmlookup (bus_subs b) sid \<noteq> None" if "sid \<in> set sids" for sid
    using that assms(3) act2 active_subs_iff [of sid b] by auto
  have "fold (publish_send m) sids (publish_rlock m b1) = (publish_rlock m b1)
    \<lparr>bus_subs := fmmap_keys (\<lambda>sid s. if sid \<in> set sids then offer ?ev s else s) (bus_subs b),
     bus_flight := fmupd m (f\<lparr>fl_todo := Some {||}\<rparr>) (bus_flight b)\<rparr>"
    using publish_sends [OF assms(2), of "publish_rlock m b1" m f] ex sids by (simp add: b2 f cong: if_cong)
  moreover have "fmmap_keys (\<lambda>sid s. if sid \<in> set sids then offer ?ev s else s) (bus_subs b) =
    fmmap (\<lambda>s. if sub_active s then offer ?ev s else s) (bus_subs b)"
  proof (rule fmap_ext)
    fix sid
    show "fmlookup (fmmap_keys (\<lambda>sid s. if sid \<in> set sids then offer ?ev s else s) (bus_subs b)) sid =
      fmlookup (fmmap (\<lambda>s. if sub_active s then offer ?ev s else s) (bus_subs b)) sid"
      using active_subs_iff [of sid b] assms(3) act2 by (cases "fmlookup (bus_subs b) sid") auto
  qed
  moreover have "fmdrop m (fmupd m x (bus_flight b)) = fmdrop m (bus_flight b)" for x
    by (rule fmap_ext) simp
  ultimately show ?thesis
    by (simp add: publish_unlock_def b2 [unfolded m] bus_published_def m)
qed

lemma Publish_published: "Publish e ev b = bus_published (stamp e (bus_seq b + 1) ev) b"
proof -
  obtain m b1 where n: "publish_number e ev b = (m, b1)" by (cases "publish_number e ev b")
  show ?thesis
    unfolding Publish_def n using Publish_any_order [OF n, of
      "sorted_list_of_fset (active_subs (publish_rlock m b1))"]
    by (simp add: Let_def sorted_list_of_fset.rep_eq)
qed

section \<open>Invariant\<close>

text \<open>The publication has still to be offered to the subscription.\<close>

definition flight_owes :: "flight \<Rightarrow> u64 \<Rightarrow> bool" where
  "flight_owes f sid = (case fl_todo f of None \<Rightarrow> True | Some todo \<Rightarrow> sid |\<in>| todo)"

definition sub_ok :: "u64 \<Rightarrow> subscription \<Rightarrow> bool" where
  "sub_ok seq s \<longleftrightarrow>
     length (sub_ch s) \<le> sub_cap s \<and> 0 < sub_cap s \<and>
     (\<forall>ev \<in> set (sub_ch s). 0 < ev_seq ev \<and> ev_seq ev \<le> seq) \<and>
     (sub_done s \<longrightarrow> \<not> sub_active s)"

definition flight_ok :: "u64 \<Rightarrow> u64 \<Rightarrow> flight \<Rightarrow> bool" where
  "flight_ok seq m f \<longleftrightarrow> ev_seq (fl_event f) = m \<and> 0 < m \<and> m \<le> seq"

definition bus_inv :: "bus \<Rightarrow> bool" where
  "bus_inv b \<longleftrightarrow>
     (\<forall>sid s. fmlookup (bus_subs b) sid = Some s \<longrightarrow> sub_ok (bus_seq b) s) \<and>
     (\<forall>m f. fmlookup (bus_flight b) m = Some f \<longrightarrow> flight_ok (bus_seq b) m f)"

text \<open>
  The numbers \<open>ns\<close> that have ever come into the channel of a subscription: no number twice, none
  beyond the last one assigned, and none that a publication in flight has still to offer.
\<close>

definition queue_ok :: "bus \<Rightarrow> u64 \<Rightarrow> u64 list \<Rightarrow> bool" where
  "queue_ok b sid ns \<longleftrightarrow>
     distinct ns \<and> (\<forall>n \<in> set ns. 0 < n \<and> n \<le> bus_seq b) \<and>
     (\<forall>m f. fmlookup (bus_flight b) m = Some f \<longrightarrow> flight_owes f sid \<longrightarrow> m \<notin> set ns)"

lemma bus_inv_New: "bus_inv bus_New"
  by (simp add: bus_inv_def bus_New_def)

lemma queue_ok_Nil [simp]: "queue_ok b sid []"
  by (simp add: queue_ok_def)

lemma u64_less_next: "unat (n :: u64) + 1 < 2 ^ 64 \<Longrightarrow> n < n + 1"
  by (simp add: word_less_nat_alt u64_next_unat_lt)

lemmas bus_step_defs =
  publish_number_def publish_rlock_def publish_send_def publish_unlock_def subscribe_id_def
  subscribe_insert_def unsubscribe_delete_def unsubscribe_close_def TakeDropped_def Recv_def Let_def

lemma bus_step_seq_cases:
  "bus_seq (bus_step e op b) = (if is_number op then bus_seq b + 1 else bus_seq b)"
  by (cases op) (auto simp: bus_step_defs split: option.splits list.splits)

lemma bus_step_seq:
  "unat (bus_seq b) + 1 < 2 ^ 64 \<Longrightarrow>
     bus_seq b \<le> bus_seq (bus_step e op b) \<and> unat (bus_seq (bus_step e op b)) \<le> unat (bus_seq b) + 1"
  using u64_less_next [of "bus_seq b"] by (simp add: bus_step_seq_cases u64_next_unat_lt less_imp_le)

text \<open>Where a publication in flight comes from.\<close>

lemma flight_step:
  assumes "fmlookup (bus_flight (bus_step e op b)) m = Some f'"
  obtains (old) f where "fmlookup (bus_flight b) m = Some f" and "fl_event f' = fl_event f"
      and "\<And>sid. flight_owes f' sid \<Longrightarrow> flight_owes f sid" and "is_number op \<Longrightarrow> m \<noteq> bus_seq b + 1"
  | (new) "is_number op" and "m = bus_seq b + 1" and "ev_seq (fl_event f') = m"
proof (cases op)
  case (BNumber ev)
  with assms old new show thesis by (auto simp: bus_step_defs split: if_splits)
next
  case (BSend k sid)
  with assms old show thesis
    by (fastforce simp: bus_step_defs flight_owes_def split: option.splits if_splits)
qed (use assms old in \<open>fastforce simp: bus_step_defs flight_owes_def split: option.splits if_splits list.splits\<close>)+

text \<open>
  What a step does to the channel of a subscription: a receive takes the head, and only the send of
  a publication that still owes it adds something, at the end.
\<close>

lemma chan_step:
  obtains arr where "recv_by sid op b @ sub_chan sid (bus_step e op b) = sub_chan sid b @ arr"
    and "arr = [] \<or> (\<exists>m f. arr = [fl_event f] \<and> \<not> is_number op \<and>
      fmlookup (bus_flight b) m = Some f \<and> flight_owes f sid \<and>
      (\<forall>f'. fmlookup (bus_flight (bus_step e op b)) m = Some f' \<longrightarrow> \<not> flight_owes f' sid))"
proof (cases "\<exists>m. op = BSend m sid")
  case True
  then obtain m where op: "op = BSend m sid" by blast
  show thesis
  proof (cases "bus_step e op b = b")
    case True
    with op that [of "[]"] show thesis by (simp add: recv_by_def)
  next
    case False
    then obtain f s todo where f: "fmlookup (bus_flight b) m = Some f" "fl_todo f = Some todo"
      "sid |\<in>| todo" and s: "fmlookup (bus_subs b) sid = Some s"
      by (auto simp: op publish_send_def split: option.splits if_splits)
    have "\<forall>f'. fmlookup (bus_flight (bus_step e op b)) m = Some f' \<longrightarrow> \<not> flight_owes f' sid"
      using f s by (auto simp: op publish_send_def flight_owes_def)
    moreover have "flight_owes f sid" using f by (simp add: flight_owes_def)
    ultimately show thesis using f(1) op
      by (intro that [of "if length (sub_ch s) < sub_cap s then [fl_event f] else []"])
        (use f s in \<open>auto simp: recv_by_def sub_chan_def publish_send_def offer_def\<close>)
  qed
next
  case False
  have "recv_by sid op b @ sub_chan sid (bus_step e op b) = sub_chan sid b"
  proof (cases op)
    case (BSend m k)
    then show ?thesis using False
      by (auto simp: recv_by_def sub_chan_def publish_send_def split: option.splits)
  qed (auto simp: recv_by_def sub_chan_def bus_step_defs split: option.splits list.splits)
  with that [of "[]"] show thesis by simp
qed

lemma queue_ok_step:
  assumes "bus_inv b" and "queue_ok b sid ns" and "unat (bus_seq b) + 1 < 2 ^ 64"
  obtains arr where "recv_by sid op b @ sub_chan sid (bus_step e op b) = sub_chan sid b @ arr"
    and "queue_ok (bus_step e op b) sid (ns @ map ev_seq arr)"
    and "\<forall>ev \<in> set arr. ev_seq ev \<in> fmdom' (bus_flight b)"
    and "arr = [] \<or> \<not> is_number op \<and> length arr = 1"
proof -
  let ?b = "bus_step e op b"
  have le: "bus_seq b \<le> bus_seq ?b" using bus_step_seq [OF assms(3)] by blast
  have nx: "bus_seq b < bus_seq b + 1" by (rule u64_less_next [OF assms(3)])
  have ns: "distinct ns" "\<forall>n \<in> set ns. 0 < n \<and> n \<le> bus_seq b"
    using assms(2) by (auto simp: queue_ok_def)
  have owed: "m \<notin> set ns" if "fmlookup (bus_flight ?b) m = Some f'" "flight_owes f' sid" for m f'
    using that(1)
  proof (cases rule: flight_step)
    case (old f)
    with that(2) assms(2) show ?thesis by (auto simp: queue_ok_def)
  next
    case new
    with ns(2) nx show ?thesis by auto
  qed
  have keep: "queue_ok ?b sid ns"
    using ns owed le by (auto simp: queue_ok_def intro: order_trans)
  obtain arr where arr: "recv_by sid op b @ sub_chan sid ?b = sub_chan sid b @ arr"
    and how: "arr = [] \<or> (\<exists>m f. arr = [fl_event f] \<and> \<not> is_number op \<and>
      fmlookup (bus_flight b) m = Some f \<and> flight_owes f sid \<and>
      (\<forall>f'. fmlookup (bus_flight ?b) m = Some f' \<longrightarrow> \<not> flight_owes f' sid))"
    by (rule chan_step)
  show thesis
  proof (cases "arr = []")
    case True
    with arr keep that [of arr] show thesis by simp
  next
    case False
    with how obtain m f where m: "arr = [fl_event f]" "\<not> is_number op"
      "fmlookup (bus_flight b) m = Some f" "flight_owes f sid"
      "\<forall>f'. fmlookup (bus_flight ?b) m = Some f' \<longrightarrow> \<not> flight_owes f' sid" by blast
    have ev: "ev_seq (fl_event f) = m" "0 < m" "m \<le> bus_seq b"
      using assms(1) m(3) by (auto simp: bus_inv_def flight_ok_def)
    have "m \<notin> set ns" using assms(2) m(3,4) by (auto simp: queue_ok_def)
    then have "queue_ok ?b sid (ns @ map ev_seq arr)"
      using keep m ev le by (auto simp: queue_ok_def intro: order_trans)
    with arr m ev(1) that [of arr] show thesis by (simp add: fmdom'I)
  qed
qed

lemma sub_ok_mono: "sub_ok seq s \<Longrightarrow> seq \<le> seq' \<Longrightarrow> sub_ok seq' s"
  by (auto simp: sub_ok_def intro: order_trans)

lemma sub_ok_offer:
  "sub_ok seq s \<Longrightarrow> 0 < ev_seq ev \<Longrightarrow> ev_seq ev \<le> seq \<Longrightarrow> sub_ok seq (offer ev s)"
  by (auto simp: sub_ok_def offer_def)

lemma sub_ok_step:
  assumes "bus_inv b" and "fmlookup (bus_subs (bus_step e op b)) sid = Some s"
  shows "sub_ok (bus_seq b) s"
proof (cases op)
  case (BSend m k)
  with assms show ?thesis
    by (auto simp: publish_send_def bus_inv_def flight_ok_def sub_ok_offer
        split: option.splits if_splits)
next
  case (BRecv k)
  with assms show ?thesis
    by (fastforce simp: Recv_def bus_inv_def sub_ok_def split: option.splits list.splits if_splits)
next
  case (BSubInsert k n)
  with assms show ?thesis
    by (auto simp: subscribe_insert_def Let_def bus_inv_def sub_ok_def split: if_splits)
qed (use assms in \<open>auto simp: bus_step_defs bus_inv_def sub_ok_def split: option.splits if_splits\<close>)

lemma bus_inv_step:
  assumes "bus_inv b" and "unat (bus_seq b) + 1 < 2 ^ 64"
  shows "bus_inv (bus_step e op b)"
proof -
  let ?b = "bus_step e op b"
  have le: "bus_seq b \<le> bus_seq ?b" using bus_step_seq [OF assms(2)] by blast
  have nx: "bus_seq b < bus_seq b + 1" by (rule u64_less_next [OF assms(2)])
  have "flight_ok (bus_seq ?b) m f'" if "fmlookup (bus_flight ?b) m = Some f'" for m f'
    using that
  proof (cases rule: flight_step)
    case (old f)
    with assms(1) have "flight_ok (bus_seq b) m f" by (simp add: bus_inv_def)
    with old(2) le show ?thesis by (auto simp: flight_ok_def)
  next
    case new
    have "0 < bus_seq b + 1" using nx by (rule le_less_trans [OF word_zero_le])
    with new show ?thesis by (simp add: flight_ok_def bus_step_seq_cases)
  qed
  with sub_ok_step [OF assms(1)] le show ?thesis
    unfolding bus_inv_def by (blast intro: sub_ok_mono)
qed

lemma bus_run_seq:
  "unat (bus_seq b) + length ops < 2 ^ 64 \<Longrightarrow>
     bus_seq b \<le> bus_seq (bus_run ops b) \<and>
     unat (bus_seq (bus_run ops b)) \<le> unat (bus_seq b) + length ops"
proof (induction ops b rule: bus_run.induct)
  case (2 e op ops b)
  have "unat (bus_seq b) + 1 < 2 ^ 64" using "2.prems" by simp
  from bus_step_seq [OF this, of e op] "2.prems" "2.IH" show ?case by (auto intro: order_trans)
qed simp

lemma bus_inv_run:
  "bus_inv b \<Longrightarrow> unat (bus_seq b) + length ops < 2 ^ 64 \<Longrightarrow> bus_inv (bus_run ops b)"
proof (induction ops b rule: bus_run.induct)
  case (2 e op ops b)
  have "unat (bus_seq b) + 1 < 2 ^ 64" using "2.prems"(2) by simp
  with "2.prems" bus_step_seq [OF this, of e op] show ?case
    by (auto intro!: "2.IH" bus_inv_step)
qed simp

text \<open>
  A run, seen from one subscription: what is received and what stays in the channel is what was
  there, followed by the arrivals of the run.
\<close>

lemma queue_run:
  assumes "bus_inv b" and "queue_ok b sid ns" and "unat (bus_seq b) + length ops < 2 ^ 64"
  shows "\<exists>arr. sub_received sid ops b @ sub_chan sid (bus_run ops b) = sub_chan sid b @ arr \<and>
    queue_ok (bus_run ops b) sid (ns @ map ev_seq arr) \<and>
    (\<forall>ev \<in> set arr. ev_seq ev \<in> fmdom' (bus_flight b) \<or> bus_seq b < ev_seq ev)"
  using assms
proof (induction ops b arbitrary: ns rule: bus_run.induct)
  case (1 b)
  then show ?case by (intro exI [of _ "[]"]) simp
next
  case (2 e op ops b)
  let ?b = "bus_step e op b"
  have nx: "unat (bus_seq b) + 1 < 2 ^ 64" using "2.prems"(3) by simp
  note seq = bus_step_seq [OF nx, of e op]
  obtain arr where arr: "recv_by sid op b @ sub_chan sid ?b = sub_chan sid b @ arr"
    "queue_ok ?b sid (ns @ map ev_seq arr)" "\<forall>ev \<in> set arr. ev_seq ev \<in> fmdom' (bus_flight b)"
    by (rule queue_ok_step [OF "2.prems"(1,2) nx])
  obtain rest where rest: "sub_received sid ops ?b @ sub_chan sid (bus_run ops ?b) = sub_chan sid ?b @ rest"
    "queue_ok (bus_run ops ?b) sid ((ns @ map ev_seq arr) @ map ev_seq rest)"
    "\<forall>ev \<in> set rest. ev_seq ev \<in> fmdom' (bus_flight ?b) \<or> bus_seq ?b < ev_seq ev"
    using "2.IH" [OF bus_inv_step [OF "2.prems"(1) nx] arr(2)] "2.prems"(3) seq by auto
  have "ev_seq ev \<in> fmdom' (bus_flight b) \<or> bus_seq b < ev_seq ev" if "ev \<in> set rest" for ev
  proof (cases "bus_seq ?b < ev_seq ev")
    case True
    with seq show ?thesis by auto
  next
    case False
    with rest(3) that obtain f' where "fmlookup (bus_flight ?b) (ev_seq ev) = Some f'"
      by (auto simp: fmlookup_dom'_iff)
    then show ?thesis
    proof (cases rule: flight_step)
      case (old f)
      then show ?thesis by (simp add: fmdom'I)
    next
      case new
      with u64_less_next [OF nx] show ?thesis by simp
    qed
  qed
  with arr rest show ?case by (intro exI [of _ "arr @ rest"]) auto
qed

text \<open>Publications that do not overlap arrive in the order of their numbers.\<close>

definition one_flight :: "bus \<Rightarrow> bool" where
  "one_flight b \<longleftrightarrow> (\<forall>m f. fmlookup (bus_flight b) m = Some f \<longrightarrow> m = bus_seq b)"

lemma single_step:
  assumes "one_flight b" and "is_number op \<longrightarrow> bus_flight b = fmempty"
  shows "one_flight (bus_step e op b)"
  unfolding one_flight_def
proof (intro allI impI)
  fix m f'
  assume "fmlookup (bus_flight (bus_step e op b)) m = Some f'"
  then show "m = bus_seq (bus_step e op b)"
  proof (cases rule: flight_step)
    case (old f)
    with assms show ?thesis by (auto simp: one_flight_def bus_step_seq_cases)
  qed (simp add: bus_step_seq_cases)
qed

lemma serial_run:
  assumes "bus_inv b" and "queue_ok b sid ns" and "unat (bus_seq b) + length ops < 2 ^ 64"
    and "one_flight b" and "serial_pubs ops b" and "sorted_wrt (<) ns"
  shows "\<exists>arr. sub_received sid ops b @ sub_chan sid (bus_run ops b) = sub_chan sid b @ arr \<and>
    sorted_wrt (<) (ns @ map ev_seq arr)"
  using assms
proof (induction ops b arbitrary: ns rule: bus_run.induct)
  case (1 b)
  then show ?case by (intro exI [of _ "[]"]) simp
next
  case (2 e op ops b)
  let ?b = "bus_step e op b"
  have nx: "unat (bus_seq b) + 1 < 2 ^ 64" using "2.prems"(3) by simp
  obtain arr where arr: "recv_by sid op b @ sub_chan sid ?b = sub_chan sid b @ arr"
    "queue_ok ?b sid (ns @ map ev_seq arr)" "\<forall>ev \<in> set arr. ev_seq ev \<in> fmdom' (bus_flight b)"
    "arr = [] \<or> \<not> is_number op \<and> length arr = 1"
    by (rule queue_ok_step [OF "2.prems"(1,2) nx])
  have last: "ev_seq ev = bus_seq b" if "ev \<in> set arr" for ev
    using arr(3) that "2.prems"(4) by (auto simp: one_flight_def fmlookup_dom'_iff)
  have "n < bus_seq b" if "ev \<in> set arr" "n \<in> set ns" for ev n
  proof -
    have "n \<noteq> ev_seq ev" using arr(2) that by (auto simp: queue_ok_def)
    with last [OF that(1)] that(2) "2.prems"(2) show ?thesis
      by (auto simp: queue_ok_def order_le_less)
  qed
  then have "sorted_wrt (<) (ns @ map ev_seq arr)"
    using "2.prems"(6) arr(4) last by (auto simp: sorted_wrt_append length_Suc_conv)
  moreover have "one_flight ?b" using "2.prems"(4,5) by (intro single_step) auto
  ultimately obtain rest where
    "sub_received sid ops ?b @ sub_chan sid (bus_run ops ?b) = sub_chan sid ?b @ rest"
    "sorted_wrt (<) ((ns @ map ev_seq arr) @ map ev_seq rest)"
    using "2.IH" [OF bus_inv_step [OF "2.prems"(1) nx] arr(2)] "2.prems"(3,5)
      bus_step_seq [OF nx, of e op] by auto
  with arr(1) show ?case by (intro exI [of _ "arr @ rest"]) auto
qed

section \<open>Slow subscribers\<close>

text \<open>Publishing a list of events, one after the other.\<close>

fun publish_all :: "(env \<times> event) list \<Rightarrow> bus \<Rightarrow> bus" where
  "publish_all [] b = b"
| "publish_all ((e, ev) # evs) b = publish_all evs (Publish e ev b)"

fun stamped :: "(env \<times> event) list \<Rightarrow> bus \<Rightarrow> event list" where
  "stamped [] b = []"
| "stamped ((e, ev) # evs) b = stamp e (bus_seq b + 1) ev # stamped evs (Publish e ev b)"

lemma publish_all_lookup:
  assumes "fmlookup (bus_subs b) sid = Some s" and "sub_active s"
    and "length (sub_ch s) \<le> sub_cap s"
  shows "fmlookup (bus_subs (publish_all evs b)) sid =
    Some (s\<lparr>sub_ch := sub_ch s @ take (sub_cap s - length (sub_ch s)) (stamped evs b),
            sub_dropped := sub_dropped s \<or> sub_cap s < length (sub_ch s) + length evs\<rparr>)"
  using assms
proof (induction evs b arbitrary: s rule: publish_all.induct)
  case (2 e ev evs b)
  let ?s = "offer (stamp e (bus_seq b + 1) ev) s"
  have look: "fmlookup (bus_subs (Publish e ev b)) sid = Some ?s"
    using "2.prems"(1,2) by (simp add: Publish_published bus_published_def)
  show ?case
  proof (cases "length (sub_ch s) < sub_cap s")
    case True
    then have s': "?s = s\<lparr>sub_ch := sub_ch s @ [stamp e (bus_seq b + 1) ev]\<rparr>"
      by (simp add: offer_def)
    obtain k where k: "sub_cap s - length (sub_ch s) = Suc k" using True
      by (metis Suc_diff_Suc)
    then have k': "sub_cap s - Suc (length (sub_ch s)) = k" by simp
    show ?thesis
      using "2.IH" [OF look] "2.prems" True by (simp add: s' k k')
  next
    case False
    then have s': "?s = s\<lparr>sub_dropped := True\<rparr>" by (simp add: offer_def)
    show ?thesis
      using "2.IH" [OF look] "2.prems" False by (simp add: s')
  qed
qed simp

lemma length_stamped [simp]: "length (stamped evs b) = length evs"
  by (induction evs b rule: stamped.induct) simp_all

lemma Recv_simps:
  "fmlookup (bus_subs b) sid = Some s \<Longrightarrow> sub_ch s = [] \<Longrightarrow> Recv sid b = (None, b)"
  "fmlookup (bus_subs b) sid = Some s \<Longrightarrow> sub_ch s = ev # evs \<Longrightarrow>
     Recv sid b = (Some ev, b\<lparr>bus_subs := fmupd sid (s\<lparr>sub_ch := evs\<rparr>) (bus_subs b)\<rparr>)"
  by (simp_all add: Recv_def)

lemma Drain_all:
  "fmlookup (bus_subs b) sid = Some s \<Longrightarrow>
     Drain sid b = (sub_ch s, b\<lparr>bus_subs := fmupd sid (s\<lparr>sub_ch := []\<rparr>) (bus_subs b)\<rparr>)"
proof (induction "sub_ch s" arbitrary: s b)
  case Nil
  then have "s\<lparr>sub_ch := []\<rparr> = s" by simp
  with Nil show ?case
    by (simp add: Drain.simps [of sid b] Recv_simps fmupd_same)
next
  case (Cons ev evs)
  let ?b = "b\<lparr>bus_subs := fmupd sid (s\<lparr>sub_ch := evs\<rparr>) (bus_subs b)\<rparr>"
  have "Drain sid ?b = (evs, ?b\<lparr>bus_subs := fmupd sid (s\<lparr>sub_ch := []\<rparr>) (bus_subs ?b)\<rparr>)"
    using Cons.hyps(1) [of "s\<lparr>sub_ch := evs\<rparr>" ?b] by simp
  then show ?case
    using Recv_simps(2) [OF Cons.prems Cons.hyps(2) [symmetric]] Cons.hyps(2) [symmetric]
    by (simp add: Drain.simps [of sid b])
qed

section \<open>Properties\<close>

text \<open>
  C24. The bus under concurrency: let any number of publishers, subscribers and consumers interleave
  step by step, first through \<open>ops1\<close> and then through \<open>ops2\<close>, together fewer steps than the range of
  the sequence counter. The channel of every subscription then is within its bound, and \<^verbatim>\<open>Done\<close> is
  closed only on subscriptions that Publish no longer serves. The channel is first-in-first-out:
  what the consumer receives during \<open>ops2\<close>, followed by what is still buffered, is what was buffered
  before, followed by the arrivals of \<open>ops2\<close>. Over the whole history no event comes in twice, and
  none has a number beyond the last one assigned. An arrival of \<open>ops2\<close> was in flight when \<open>ops2\<close>
  began or took its number later, so the events of a Publish that returned come before those of a
  Publish that began later; and if no two publications overlap, the arrivals are in strictly
  increasing order of their numbers.
\<close>

theorem bus_reachable_inv:
  assumes "length ops1 + length ops2 < 2 ^ 64" and "b1 = bus_run ops1 bus_New"
    and "b = bus_run ops2 b1" and "fmlookup (bus_subs b) sid = Some s"
  shows "length (sub_ch s) \<le> sub_cap s \<and> 0 < sub_cap s \<and> (sub_done s \<longrightarrow> \<not> sub_active s) \<and>
    (\<exists>arr. sub_received sid ops2 b1 @ sub_ch s = sub_chan sid b1 @ arr \<and>
      distinct (map ev_seq (sub_received sid ops1 bus_New @ sub_chan sid b1 @ arr)) \<and>
      (\<forall>ev \<in> set (sub_received sid ops1 bus_New @ sub_chan sid b1 @ arr).
        0 < ev_seq ev \<and> ev_seq ev \<le> LastSeq b) \<and>
      (\<forall>ev \<in> set arr. ev_seq ev \<in> fmdom' (bus_flight b1) \<or> LastSeq b1 < ev_seq ev) \<and>
      (bus_flight b1 = fmempty \<and> serial_pubs ops2 b1 \<longrightarrow> sorted_wrt (<) (map ev_seq arr)))"
proof -
  have len: "unat (bus_seq bus_New) + length ops1 < 2 ^ 64" using assms(1) by (simp add: bus_New_def)
  have inv1: "bus_inv b1" unfolding assms(2) by (rule bus_inv_run [OF bus_inv_New len])
  have len1: "unat (bus_seq b1) + length ops2 < 2 ^ 64"
    using bus_run_seq [OF len] assms(1) by (simp add: assms(2) bus_New_def)
  have inv: "bus_inv b" unfolding assms(3) by (rule bus_inv_run [OF inv1 len1])
  then have ok: "sub_ok (bus_seq b) s" using assms(4) by (simp add: bus_inv_def)
  have s: "sub_chan sid b = sub_ch s" and new: "sub_chan sid bus_New = []"
    using assms(4) by (simp_all add: sub_chan_def bus_New_def)
  let ?past = "sub_received sid ops1 bus_New @ sub_chan sid b1"
  have past: "queue_ok b1 sid (map ev_seq ?past)"
    using queue_run [OF bus_inv_New queue_ok_Nil len, of sid] by (auto simp: new assms(2) [symmetric])
  obtain arr where arr: "sub_received sid ops2 b1 @ sub_ch s = sub_chan sid b1 @ arr"
    "queue_ok b sid (map ev_seq ?past @ map ev_seq arr)"
    "\<forall>ev \<in> set arr. ev_seq ev \<in> fmdom' (bus_flight b1) \<or> bus_seq b1 < ev_seq ev"
    using queue_run [OF inv1 past len1] by (auto simp: assms(3) [symmetric] s)
  have "sorted_wrt (<) (map ev_seq arr)" if "bus_flight b1 = fmempty" "serial_pubs ops2 b1"
  proof -
    have "one_flight b1" using that(1) by (simp add: one_flight_def)
    from serial_run [OF inv1 queue_ok_Nil len1 this that(2), of sid] arr(1)
    show ?thesis by (auto simp: assms(3) [symmetric] s)
  qed
  moreover have "distinct (map ev_seq (?past @ arr))"
    "\<forall>n \<in> set (map ev_seq (?past @ arr)). 0 < n \<and> n \<le> bus_seq b"
    using arr(2) unfolding queue_ok_def map_append by blast+
  ultimately show ?thesis
    using ok arr(1,3) unfolding sub_ok_def LastSeq_def append_assoc
    by (intro conjI exI [of _ arr]) auto
qed

text \<open>
  Slow subscribers lose exactly what does not fit: when events are published one after the other
  while a subscriber does not read, a later Drain returns what was buffered followed by the first
  published events that fit into the buffer, in order and stamped; the drop flag is set exactly when
  an event was lost (or it was set before), and the publisher is never held up.
\<close>

theorem publish_drain:
  assumes "fmlookup (bus_subs b) sid = Some s" and "sub_active s"
    and "length (sub_ch s) \<le> sub_cap s"
  shows "fst (Drain sid (publish_all evs b)) =
      sub_ch s @ take (sub_cap s - length (sub_ch s)) (stamped evs b) \<and>
    fst (TakeDropped sid (publish_all evs b)) =
      (sub_dropped s \<or> sub_cap s < length (sub_ch s) + length evs)"
  using publish_all_lookup [OF assms, of evs] by (simp add: Drain_all TakeDropped_def)

section \<open>Witnesses\<close>

definition demo_event :: event where
  "demo_event = mk_event ''custom.deploy'' ''n1'' ''x''"

text \<open>
  Two publishers that overlap: the first takes number 1, the second number 2, and the second gets
  the lock first.
\<close>

definition demo_subscribe :: "(env \<times> bus_op) list" where
  "demo_subscribe = [(ascii_env 1, BSubId), (ascii_env 1, BSubInsert 1 4)]"

definition demo_overlap :: "(env \<times> bus_op) list" where
  "demo_overlap =
     [(ascii_env 2, BNumber demo_event), (ascii_env 3, BNumber demo_event),
      (ascii_env 4, BRLock 2), (ascii_env 4, BSend 2 1), (ascii_env 4, BRUnlock 2),
      (ascii_env 5, BRLock 1), (ascii_env 5, BSend 1 1), (ascii_env 5, BRUnlock 1)]"

definition demo_serial :: "(env \<times> bus_op) list" where
  "demo_serial =
     [(ascii_env 2, BNumber demo_event), (ascii_env 2, BRLock 1), (ascii_env 2, BSend 1 1),
      (ascii_env 2, BRUnlock 1), (ascii_env 3, BNumber demo_event), (ascii_env 3, BRLock 2),
      (ascii_env 3, BSend 2 1), (ascii_env 3, BRUnlock 2), (ascii_env 4, BRecv 1)]"

text \<open>Overlapping publications can reach a subscriber in the reverse order of their numbers.\<close>

lemma publish_reordered:
  "map ev_seq (sub_chan 1 (bus_run (demo_subscribe @ demo_overlap) bus_New)) = [2, 1]"
  by code_simp

theorem bus_reachable_inv_witness:
  "\<exists>arr. sub_received 1 demo_serial (bus_run demo_subscribe bus_New) @
      sub_chan 1 (bus_run demo_serial (bus_run demo_subscribe bus_New)) = arr \<and>
    length arr = 2 \<and> sorted_wrt (<) (map ev_seq arr)"
proof -
  let ?b1 = "bus_run demo_subscribe bus_New"
  let ?b = "bus_run demo_serial ?b1"
  have len: "length demo_subscribe + length demo_serial < 2 ^ 64"
    by (simp add: demo_subscribe_def demo_serial_def)
  have "fmlookup (bus_subs ?b) 1 \<noteq> None" by code_simp
  then obtain s where s: "fmlookup (bus_subs ?b) 1 = Some s" by blast
  have "sub_chan 1 ?b1 = []" "bus_flight ?b1 = fmempty" "serial_pubs demo_serial ?b1"
    "length (sub_received 1 demo_serial ?b1 @ sub_chan 1 ?b) = 2" by code_simp+
  with bus_reachable_inv [OF len refl refl s] s show ?thesis
    by (auto simp: sub_chan_def)
qed

theorem publish_drain_witness:
  "map ev_seq (fst (Drain 1 (publish_all
     [(ascii_env 2, demo_event), (ascii_env 3, demo_event), (ascii_env 4, demo_event)]
     (snd (Subscribe 2 bus_New))))) = [1, 2]"
proof -
  let ?b = "snd (Subscribe 2 bus_New)"
  let ?evs = "[(ascii_env 2, demo_event), (ascii_env 3, demo_event), (ascii_env 4, demo_event)]"
  let ?s = "\<lparr>sub_ch = [], sub_cap = 2, sub_done = False, sub_dropped = False, sub_active = True\<rparr>"
  have "fmlookup (bus_subs ?b) 1 = Some ?s" by code_simp
  then have "fst (Drain 1 (publish_all ?evs ?b)) = take 2 (stamped ?evs ?b)"
    using publish_drain [of ?b 1 ?s ?evs] by simp
  moreover have "map ev_seq (take 2 (stamped ?evs ?b)) = [1, 2]" by code_simp
  ultimately show ?thesis by simp
qed

end
