(* ===== verification/Command.thy ===== *)
theory Command
  imports Go_Json
begin

text \<open>
  The commands of the replicated log (internal/consensus/command.go): the kinds, the struct, and its
  JSON form. A JSON text is represented by its value. Decoding follows \<^verbatim>\<open>json.Unmarshal\<close>: keys are
  matched without regard to case, unknown keys are skipped, a later key overrides an earlier one, a
  value of the wrong type fails the decoding.
\<close>

type_synonym command_kind = string

definition CmdAddMember :: command_kind where "CmdAddMember = ''add_member''"
definition CmdRemoveMember :: command_kind where "CmdRemoveMember = ''remove_member''"
definition CmdDropMember :: command_kind where "CmdDropMember = ''drop_member''"
definition CmdLockAcquire :: command_kind where "CmdLockAcquire = ''lock_acquire''"
definition CmdLockRelease :: command_kind where "CmdLockRelease = ''lock_release''"
definition CmdLockRenew :: command_kind where "CmdLockRenew = ''lock_renew''"
definition CmdLockExpire :: command_kind where "CmdLockExpire = ''lock_expire''"
definition CmdLeaseGrant :: command_kind where "CmdLeaseGrant = ''lease_grant''"
definition CmdLeaseRenew :: command_kind where "CmdLeaseRenew = ''lease_renew''"
definition CmdLeaseRevoke :: command_kind where "CmdLeaseRevoke = ''lease_revoke''"
definition CmdLeaseExpire :: command_kind where "CmdLeaseExpire = ''lease_expire''"

lemmas kind_defs = CmdAddMember_def CmdRemoveMember_def CmdDropMember_def CmdLockAcquire_def
  CmdLockRelease_def CmdLockRenew_def CmdLockExpire_def CmdLeaseGrant_def CmdLeaseRenew_def
  CmdLeaseRevoke_def CmdLeaseExpire_def

record command =
  cmd_Kind :: command_kind
  cmd_ID :: string
  cmd_Address :: string
  cmd_Role :: string
  cmd_Name :: string
  cmd_Token :: u64
  cmd_TTLMs :: int
  cmd_DeadlineUnixMs :: int

definition zero_command :: command where
  "zero_command =
     \<lparr>cmd_Kind = '''', cmd_ID = '''', cmd_Address = '''', cmd_Role = '''', cmd_Name = '''',
      cmd_Token = 0, cmd_TTLMs = 0, cmd_DeadlineUnixMs = 0\<rparr>"

definition encodeCommand :: "command \<Rightarrow> json" where
  "encodeCommand c =
     JObj ([(''kind'', JStr (coerce_utf8 (cmd_Kind c))), (''id'', JStr (coerce_utf8 (cmd_ID c)))] @
       omit_str ''address'' (cmd_Address c) @ omit_str ''role'' (cmd_Role c) @
       omit_str ''name'' (cmd_Name c) @ omit_u64 ''token'' (cmd_Token c) @
       omit_int ''ttl_ms'' (cmd_TTLMs c) @ omit_int ''deadline_unix_ms'' (cmd_DeadlineUnixMs c))"

text \<open>
  The case folding of keys: of the runes outside ASCII only the long s and the Kelvin sign fold to
  an ASCII letter.
\<close>

definition fold_rune :: "nat \<Rightarrow> nat" where
  "fold_rune r =
     (if 97 \<le> r \<and> r \<le> 122 then r - 32 else if r = 383 then 83 else if r = 8490 then 75 else r)"

definition key_is :: "string \<Rightarrow> string \<Rightarrow> bool" where
  "key_is field key \<longleftrightarrow> map fold_rune (runes key) = map fold_rune (runes field)"

text \<open>One member of the object stored into the struct; \<^term>\<open>None\<close> for a type error.\<close>

definition decode_field :: "string \<Rightarrow> json \<Rightarrow> command \<Rightarrow> command option" where
  "decode_field k v c =
     (if key_is ''kind'' k then map_option (\<lambda>x. c\<lparr>cmd_Kind := x\<rparr>) (into_str v (cmd_Kind c))
      else if key_is ''id'' k then map_option (\<lambda>x. c\<lparr>cmd_ID := x\<rparr>) (into_str v (cmd_ID c))
      else if key_is ''address'' k
        then map_option (\<lambda>x. c\<lparr>cmd_Address := x\<rparr>) (into_str v (cmd_Address c))
      else if key_is ''role'' k then map_option (\<lambda>x. c\<lparr>cmd_Role := x\<rparr>) (into_str v (cmd_Role c))
      else if key_is ''name'' k then map_option (\<lambda>x. c\<lparr>cmd_Name := x\<rparr>) (into_str v (cmd_Name c))
      else if key_is ''token'' k
        then map_option (\<lambda>x. c\<lparr>cmd_Token := x\<rparr>) (into_u64 v (cmd_Token c))
      else if key_is ''ttl_ms'' k
        then map_option (\<lambda>x. c\<lparr>cmd_TTLMs := x\<rparr>) (into_i64 v (cmd_TTLMs c))
      else if key_is ''deadline_unix_ms'' k
        then map_option (\<lambda>x. c\<lparr>cmd_DeadlineUnixMs := x\<rparr>) (into_i64 v (cmd_DeadlineUnixMs c))
      else Some c)"

fun decode_fields :: "(string \<times> json) list \<Rightarrow> command \<Rightarrow> command option" where
  "decode_fields [] c = Some c"
| "decode_fields ((k, v) # fs) c =
     (case decode_field k v c of None \<Rightarrow> None | Some c' \<Rightarrow> decode_fields fs c')"

text \<open>The argument is \<^term>\<open>None\<close> for data that is no JSON text.\<close>

definition decodeCommand :: "json option \<Rightarrow> command option" where
  "decodeCommand data =
     (case data of
        Some (JObj fs) \<Rightarrow> decode_fields fs zero_command
      | Some JNull \<Rightarrow> Some zero_command
      | _ \<Rightarrow> None)"

section \<open>Lemmas\<close>

text \<open>The commands the leader writes: 64-bit fields and well-formed text.\<close>

definition command_ok :: "command \<Rightarrow> bool" where
  "command_ok c \<longleftrightarrow>
     valid_utf8 (cmd_Kind c) \<and> valid_utf8 (cmd_ID c) \<and> valid_utf8 (cmd_Address c) \<and>
     valid_utf8 (cmd_Role c) \<and> valid_utf8 (cmd_Name c) \<and>
     in_i64 (cmd_TTLMs c) \<and> in_i64 (cmd_DeadlineUnixMs c)"

lemma decode_fields_append:
  "decode_fields (fs @ gs) c =
     (case decode_fields fs c of None \<Rightarrow> None | Some c' \<Rightarrow> decode_fields gs c')"
  by (induction fs c rule: decode_fields.induct) (auto split: option.split)

definition command_keys :: "string list" where
  "command_keys = [''kind'', ''id'', ''address'', ''role'', ''name'', ''token'', ''ttl_ms'',
     ''deadline_unix_ms'']"

lemma command_keys_distinct: "\<forall>f \<in> set command_keys. \<forall>k \<in> set command_keys. key_is f k = (f = k)"
  unfolding command_keys_def key_is_def by (simp add: runes_def byte_def fold_rune_def)

lemma decode_field_simps:
  "decode_field ''kind'' v c = map_option (\<lambda>x. c\<lparr>cmd_Kind := x\<rparr>) (into_str v (cmd_Kind c))"
  "decode_field ''id'' v c = map_option (\<lambda>x. c\<lparr>cmd_ID := x\<rparr>) (into_str v (cmd_ID c))"
  "decode_field ''address'' v c =
     map_option (\<lambda>x. c\<lparr>cmd_Address := x\<rparr>) (into_str v (cmd_Address c))"
  "decode_field ''role'' v c = map_option (\<lambda>x. c\<lparr>cmd_Role := x\<rparr>) (into_str v (cmd_Role c))"
  "decode_field ''name'' v c = map_option (\<lambda>x. c\<lparr>cmd_Name := x\<rparr>) (into_str v (cmd_Name c))"
  "decode_field ''token'' v c = map_option (\<lambda>x. c\<lparr>cmd_Token := x\<rparr>) (into_u64 v (cmd_Token c))"
  "decode_field ''ttl_ms'' v c = map_option (\<lambda>x. c\<lparr>cmd_TTLMs := x\<rparr>) (into_i64 v (cmd_TTLMs c))"
  "decode_field ''deadline_unix_ms'' v c =
     map_option (\<lambda>x. c\<lparr>cmd_DeadlineUnixMs := x\<rparr>) (into_i64 v (cmd_DeadlineUnixMs c))"
  using command_keys_distinct unfolding decode_field_def command_keys_def by simp_all

lemma decode_encode: "command_ok c \<Longrightarrow> decodeCommand (Some (encodeCommand c)) = Some c"
  by (simp add: command_ok_def valid_utf8_def encodeCommand_def decodeCommand_def zero_command_def
      decode_fields_append omit_str_def omit_u64_def omit_int_def decode_field_simps)

section \<open>Properties\<close>

text \<open>
  C37. Round trip of the log format: every command whose texts are well-formed UTF-8 and whose
  integers fit their fields is read back from the log as it was written, omitted empty fields
  included.
\<close>

theorem command_roundtrip:
  assumes "command_ok c"
  shows "decodeCommand (Some (encodeCommand c)) = Some c"
  by (rule decode_encode [OF assms])

section \<open>Witnesses\<close>

theorem command_roundtrip_witness:
  "decodeCommand (Some (encodeCommand
     (zero_command\<lparr>cmd_Kind := CmdLockAcquire, cmd_ID := ''n1'', cmd_Name := ''db'',
                   cmd_TTLMs := 15000, cmd_DeadlineUnixMs := 1700000000000\<rparr>))) =
   Some (zero_command\<lparr>cmd_Kind := CmdLockAcquire, cmd_ID := ''n1'', cmd_Name := ''db'',
                      cmd_TTLMs := 15000, cmd_DeadlineUnixMs := 1700000000000\<rparr>)"
  by (rule command_roundtrip)
    (simp add: command_ok_def valid_utf8_ascii byte_def kind_defs zero_command_def in_i64_def)

end
