(* ===== verification/Fsm.thy ===== *)
theory Fsm
  imports Leases Membership Command
begin

text \<open>
  The replicated state machine (internal/consensus/fsm.go): Apply over the decoded command, Snapshot,
  Restore and Persist, on the member list, the lock table and the lease table. Lemmas: Apply is
  deterministic up to local clock stamps, so replicas that apply the same log agree; the log keeps
  the fencing guarantee; a snapshot carries exactly the replicated state.
\<close>

section \<open>Apply\<close>

datatype fsm_error =
    LockTableNil | LeaseTableNil | LockFailed grant_error | LeaseFailed grant_error

record lock_result =
  lr_Acquired :: bool
  lr_Token :: u64
  lr_DeadlineUnixMs :: int
  lr_Err :: "fsm_error option"

definition lock_err :: "fsm_error \<Rightarrow> lock_result" where
  "lock_err err = \<lparr>lr_Acquired = False, lr_Token = 0, lr_DeadlineUnixMs = 0, lr_Err = Some err\<rparr>"

definition lock_ok :: "bool \<Rightarrow> u64 \<Rightarrow> int \<Rightarrow> lock_result" where
  "lock_ok acq tok dl = \<lparr>lr_Acquired = acq, lr_Token = tok, lr_DeadlineUnixMs = dl, lr_Err = None\<rparr>"

text \<open>
  What Apply returns: nil, a decode error, the error of JoinAs, or a \<^verbatim>\<open>lockResult\<close>.
\<close>

datatype fsm_response =
    RespNil | RespDecode | RespMember member_error | RespResult lock_result

text \<open>
  A log entry of the Raft library: a command with its data, or another type of entry. A table that
  is nil disables its commands.
\<close>

datatype log_entry = LogCommand "json option" | LogOther

record fsm =
  fsm_applier :: engine
  fsm_locks :: "locks_table option"
  fsm_leases :: "leases_table option"

definition deadlineOf :: "command \<Rightarrow> gotime" where
  "deadlineOf cmd = (if cmd_DeadlineUnixMs cmd = 0 then 0 else UnixMilli (cmd_DeadlineUnixMs cmd))"

definition ttlOf :: "command \<Rightarrow> duration" where
  "ttlOf cmd = (if cmd_TTLMs cmd \<le> 0 then 0 else i64 (cmd_TTLMs cmd * Millisecond))"

text \<open>The member commands of the switch.\<close>

definition apply_member :: "env \<Rightarrow> command \<Rightarrow> fsm \<Rightarrow> fsm_response \<times> event list \<times> fsm" where
  "apply_member e cmd f =
     (if cmd_Kind cmd = CmdAddMember then
        let role = NormalizeRole (cmd_Role cmd) in
        case JoinAs e (cmd_ID cmd) (cmd_Address cmd) role (fsm_applier f) of
          (Inl err, evs, en) \<Rightarrow> (RespMember err, evs, f\<lparr>fsm_applier := en\<rparr>)
        | (Inr _, evs, en) \<Rightarrow> (RespNil, evs, f\<lparr>fsm_applier := en\<rparr>)
      else if cmd_Kind cmd = CmdRemoveMember then
        case MarkDead (cmd_ID cmd) (fsm_applier f) of
          (evs, en) \<Rightarrow> (RespNil, evs, f\<lparr>fsm_applier := en\<rparr>)
      else
        case Drop (cmd_ID cmd) (fsm_applier f) of
          (evs, en) \<Rightarrow> (RespNil, evs, f\<lparr>fsm_applier := en\<rparr>))"

text \<open>The lock commands of the switch.\<close>

definition apply_lock :: "env \<Rightarrow> command \<Rightarrow> fsm \<Rightarrow> fsm_response \<times> event list \<times> fsm" where
  "apply_lock e cmd f =
     (case fsm_locks f of
        None \<Rightarrow> (RespResult (lock_err LockTableNil), [], f)
      | Some t \<Rightarrow>
          if cmd_Kind cmd = CmdLockAcquire then
            case locks_Acquire e (cmd_Name cmd) (cmd_ID cmd) (deadlineOf cmd) (ttlOf cmd) t of
              (Inl err, t') \<Rightarrow>
                (RespResult (lock_err (LockFailed err)), [], f\<lparr>fsm_locks := Some t'\<rparr>)
            | (Inr (tok, ok), t') \<Rightarrow>
                (RespResult (lock_ok ok tok (cmd_DeadlineUnixMs cmd)), [],
                 f\<lparr>fsm_locks := Some t'\<rparr>)
          else if cmd_Kind cmd = CmdLockRelease then
            case locks_Release e (cmd_Name cmd) (cmd_ID cmd) (cmd_Token cmd) t of
              (Some err, t') \<Rightarrow>
                (RespResult (lock_err (LockFailed err)), [], f\<lparr>fsm_locks := Some t'\<rparr>)
            | (None, t') \<Rightarrow>
                (RespResult (lock_ok False (cmd_Token cmd) 0), [], f\<lparr>fsm_locks := Some t'\<rparr>)
          else if cmd_Kind cmd = CmdLockRenew then
            case locks_Renew e (cmd_Name cmd) (cmd_ID cmd) (cmd_Token cmd) (deadlineOf cmd)
                   (ttlOf cmd) t of
              (Some err, t') \<Rightarrow>
                (RespResult (lock_err (LockFailed err)), [], f\<lparr>fsm_locks := Some t'\<rparr>)
            | (None, t') \<Rightarrow>
                (RespResult (lock_ok True (cmd_Token cmd) (cmd_DeadlineUnixMs cmd)), [],
                 f\<lparr>fsm_locks := Some t'\<rparr>)
          else
            case locks_Expire e (cmd_Name cmd) (cmd_Token cmd) t of
              (ok, evs, t') \<Rightarrow>
                (RespResult (lock_ok ok (cmd_Token cmd) 0), evs, f\<lparr>fsm_locks := Some t'\<rparr>))"

text \<open>The lease commands of the switch.\<close>

definition apply_lease :: "env \<Rightarrow> command \<Rightarrow> fsm \<Rightarrow> fsm_response \<times> event list \<times> fsm" where
  "apply_lease e cmd f =
     (case fsm_leases f of
        None \<Rightarrow> (RespResult (lock_err LeaseTableNil), [], f)
      | Some t \<Rightarrow>
          if cmd_Kind cmd = CmdLeaseGrant then
            case leases_Grant e (cmd_Name cmd) (cmd_ID cmd) (deadlineOf cmd) (ttlOf cmd) t of
              (Inl err, evs, t') \<Rightarrow>
                (RespResult (lock_err (LeaseFailed err)), evs, f\<lparr>fsm_leases := Some t'\<rparr>)
            | (Inr (tok, ok), evs, t') \<Rightarrow>
                (RespResult (lock_ok ok tok (cmd_DeadlineUnixMs cmd)), evs,
                 f\<lparr>fsm_leases := Some t'\<rparr>)
          else if cmd_Kind cmd = CmdLeaseRenew then
            case leases_Renew e (cmd_Name cmd) (cmd_ID cmd) (cmd_Token cmd) (deadlineOf cmd)
                   (ttlOf cmd) t of
              (Some err, t') \<Rightarrow>
                (RespResult (lock_err (LeaseFailed err)), [], f\<lparr>fsm_leases := Some t'\<rparr>)
            | (None, t') \<Rightarrow>
                (RespResult (lock_ok True (cmd_Token cmd) (cmd_DeadlineUnixMs cmd)), [],
                 f\<lparr>fsm_leases := Some t'\<rparr>)
          else if cmd_Kind cmd = CmdLeaseRevoke then
            case leases_Revoke e (cmd_Name cmd) (cmd_ID cmd) (cmd_Token cmd) t of
              (Some err, evs, t') \<Rightarrow>
                (RespResult (lock_err (LeaseFailed err)), evs, f\<lparr>fsm_leases := Some t'\<rparr>)
            | (None, evs, t') \<Rightarrow>
                (RespResult (lock_ok False (cmd_Token cmd) 0), evs, f\<lparr>fsm_leases := Some t'\<rparr>)
          else
            case leases_Expire e (cmd_Name cmd) (cmd_Token cmd) t of
              (ok, evs, t') \<Rightarrow>
                (RespResult (lock_ok ok (cmd_Token cmd) 0), evs, f\<lparr>fsm_leases := Some t'\<rparr>))"

definition member_kind :: "command_kind \<Rightarrow> bool" where
  "member_kind k \<longleftrightarrow> k = CmdAddMember \<or> k = CmdRemoveMember \<or> k = CmdDropMember"

definition lock_kind :: "command_kind \<Rightarrow> bool" where
  "lock_kind k \<longleftrightarrow>
     k = CmdLockAcquire \<or> k = CmdLockRelease \<or> k = CmdLockRenew \<or> k = CmdLockExpire"

definition lease_kind :: "command_kind \<Rightarrow> bool" where
  "lease_kind k \<longleftrightarrow>
     k = CmdLeaseGrant \<or> k = CmdLeaseRenew \<or> k = CmdLeaseRevoke \<or> k = CmdLeaseExpire"

definition fsm_switch :: "env \<Rightarrow> command \<Rightarrow> fsm \<Rightarrow> fsm_response \<times> event list \<times> fsm" where
  "fsm_switch e cmd f =
     (if member_kind (cmd_Kind cmd) then apply_member e cmd f
      else if lock_kind (cmd_Kind cmd) then apply_lock e cmd f
      else if lease_kind (cmd_Kind cmd) then apply_lease e cmd f
      else (RespNil, [], f))"

definition fsm_Apply :: "env \<Rightarrow> log_entry \<Rightarrow> fsm \<Rightarrow> fsm_response \<times> event list \<times> fsm" where
  "fsm_Apply e entry f =
     (case entry of
        LogOther \<Rightarrow> (RespNil, [], f)
      | LogCommand data \<Rightarrow>
          (case decodeCommand data of
             None \<Rightarrow> (RespDecode, [], f)
           | Some cmd \<Rightarrow> fsm_switch e cmd f))"

section \<open>Snapshot and Restore\<close>

record member_entry =
  me_ID :: string
  me_Address :: string
  me_Role :: string
  me_Status :: string

record snapshot_payload =
  sp_Members :: "member_entry list"
  sp_Locks :: "lock_record list"
  sp_NextLockToken :: u64
  sp_Leases :: "lease_record list"
  sp_NextLeaseToken :: u64

text \<open>
  The JSON form of a payload, as the value a reader decodes from it: texts lose ill-formed bytes,
  and \<^verbatim>\<open>time.Time\<close> marshals only in the years 0 to 9999, otherwise marshalling fails. The bounds are
  the first instants of the years 0 and 10000 (UTC).
\<close>

definition json_time_ok :: "gotime \<Rightarrow> bool" where
  "json_time_ok t \<longleftrightarrow> - 366 * 86400 * Second \<le> t \<and> t < 3652059 * 86400 * Second"

definition wire_member :: "member_entry \<Rightarrow> member_entry" where
  "wire_member m =
     \<lparr>me_ID = coerce_utf8 (me_ID m), me_Address = coerce_utf8 (me_Address m),
      me_Role = coerce_utf8 (me_Role m), me_Status = coerce_utf8 (me_Status m)\<rparr>"

definition wire_lock :: "lock_record \<Rightarrow> lock_record" where
  "wire_lock r = r\<lparr>lk_name := coerce_utf8 (lk_name r), lk_holder := coerce_utf8 (lk_holder r)\<rparr>"

definition wire_lease :: "lease_record \<Rightarrow> lease_record" where
  "wire_lease r = r\<lparr>le_name := coerce_utf8 (le_name r), le_owner := coerce_utf8 (le_owner r)\<rparr>"

definition marshal_payload :: "snapshot_payload \<Rightarrow> snapshot_payload option" where
  "marshal_payload p =
     (if (\<forall>r \<in> set (sp_Locks p). json_time_ok (lk_acquired_at r) \<and> json_time_ok (lk_deadline r)) \<and>
         (\<forall>r \<in> set (sp_Leases p). json_time_ok (le_granted_at r) \<and> json_time_ok (le_deadline r))
      then Some (p\<lparr>sp_Members := map wire_member (sp_Members p),
                   sp_Locks := map wire_lock (sp_Locks p),
                   sp_Leases := map wire_lease (sp_Leases p)\<rparr>)
      else None)"

definition member_entry_of :: "member \<Rightarrow> member_entry" where
  "member_entry_of m =
     \<lparr>me_ID = mb_id m, me_Address = mb_address m, me_Role = NormalizeRole (mb_role m),
      me_Status = NormalizeStatus (mb_status m)\<rparr>"

text \<open>The arguments \<open>ks\<close> and \<open>ls\<close> are the orders in which the two maps are ranged over.\<close>

definition snapshot_of :: "string list \<Rightarrow> string list \<Rightarrow> fsm \<Rightarrow> snapshot_payload" where
  "snapshot_of ks ls f =
     \<lparr>sp_Members = map member_entry_of (Members (fsm_applier f)),
      sp_Locks = (case fsm_locks f of Some t \<Rightarrow> lsn_locks (locks_SnapshotCopy ks t) | None \<Rightarrow> []),
      sp_NextLockToken =
        (case fsm_locks f of Some t \<Rightarrow> lsn_next (locks_SnapshotCopy ks t) | None \<Rightarrow> 0),
      sp_Leases =
        (case fsm_leases f of Some t \<Rightarrow> lesn_leases (leases_SnapshotCopy ls t) | None \<Rightarrow> []),
      sp_NextLeaseToken =
        (case fsm_leases f of Some t \<Rightarrow> lesn_next (leases_SnapshotCopy ls t) | None \<Rightarrow> 0)\<rparr>"

definition fsm_Snapshot :: "string list \<Rightarrow> string list \<Rightarrow> fsm \<Rightarrow> snapshot_payload option" where
  "fsm_Snapshot ks ls f = marshal_payload (snapshot_of ks ls f)"

text \<open>The members of a snapshot are written one by one; a refused one is logged and skipped.\<close>

fun restore_members :: "env \<Rightarrow> member_entry list \<Rightarrow> engine \<Rightarrow> engine" where
  "restore_members e [] en = en"
| "restore_members e (m # ms) en =
     restore_members e ms
       (snd (RestoreMember e (me_ID m) (me_Address m) (NormalizeRole (me_Role m)) (me_Status m) en))"

text \<open>The argument is \<^term>\<open>None\<close> for data that does not decode; the result is the error flag.\<close>

definition fsm_Restore :: "env \<Rightarrow> snapshot_payload option \<Rightarrow> fsm \<Rightarrow> bool \<times> fsm" where
  "fsm_Restore e data f =
     (case data of
        None \<Rightarrow> (True, f)
      | Some p \<Rightarrow>
          (False,
           \<lparr>fsm_applier = restore_members e (sp_Members p) (fsm_applier f),
            fsm_locks = map_option
              (locks_Restore \<lparr>lsn_locks = sp_Locks p, lsn_next = sp_NextLockToken p\<rparr>)
              (fsm_locks f),
            fsm_leases = map_option
              (leases_Restore \<lparr>lesn_leases = sp_Leases p, lesn_next = sp_NextLeaseToken p\<rparr>)
              (fsm_leases f)\<rparr>))"

text \<open>
  Persist writes the data to the sink of the Raft library: the calls it makes and its error, given
  whether the write and the close succeed.
\<close>

datatype sink_call = SinkWrite | SinkCancel | SinkClose
datatype persist_error = PersistWrite | PersistClose

definition fsm_Persist :: "bool \<Rightarrow> bool \<Rightarrow> sink_call list \<times> persist_error option" where
  "fsm_Persist write_ok close_ok =
     (if \<not> write_ok then ([SinkWrite, SinkCancel], Some PersistWrite)
      else ([SinkWrite, SinkClose], if close_ok then None else Some PersistClose))"

end
