(* ===== verification/Replication.thy ===== *)
theory Replication
  imports Fsm
begin

text \<open>
  Replication of the state machine: a log applied by several replicas, each with its own clock and
  its own hooks. The replicated view of a state leaves out what is local to a node (the time stamps
  taken with the local clock at apply time, the wait counter and the hooks). Lemmas: Apply respects
  the view, a log moves the tables only by table operations, and a snapshot reproduces the view.
\<close>

section \<open>The replicated view\<close>

definition lock_view :: "lock_record \<Rightarrow> string \<times> u64 \<times> gotime \<times> duration" where
  "lock_view r = (lk_holder r, lk_token r, lk_deadline r, lk_ttl r)"

definition lease_view :: "lease_record \<Rightarrow> string \<times> u64 \<times> gotime \<times> duration" where
  "lease_view r = (le_owner r, le_token r, le_deadline r, le_ttl r)"

definition locks_view ::
  "locks_table \<Rightarrow> (string, string \<times> u64 \<times> gotime \<times> duration) fmap \<times> u64" where
  "locks_view t = (fmmap lock_view (tab_locks t), tab_next t)"

definition leases_view ::
  "leases_table \<Rightarrow> (string, string \<times> u64 \<times> gotime \<times> duration) fmap \<times> u64" where
  "leases_view t = (fmmap lease_view (tab_leases t), ltab_next t)"

definition member_view :: "engine \<Rightarrow> string \<Rightarrow> (string \<times> status \<times> string) option" where
  "member_view en nid =
     map_option (\<lambda>m. (mb_address m, mb_status m, mb_role m)) (fmlookup (en_members en) nid)"

definition same_tables_view :: "fsm \<Rightarrow> fsm \<Rightarrow> bool" where
  "same_tables_view f f' \<longleftrightarrow>
     map_option locks_view (fsm_locks f) = map_option locks_view (fsm_locks f') \<and>
     map_option leases_view (fsm_leases f) = map_option leases_view (fsm_leases f')"

text \<open>A replica: the log with the environment in which this replica applies each entry.\<close>

fun apply_log :: "(env \<times> log_entry) list \<Rightarrow> fsm \<Rightarrow> fsm" where
  "apply_log [] f = f"
| "apply_log ((e, entry) # es) f = apply_log es (snd (snd (fsm_Apply e entry f)))"

fun log_responses :: "(env \<times> log_entry) list \<Rightarrow> fsm \<Rightarrow> fsm_response list" where
  "log_responses [] f = []"
| "log_responses ((e, entry) # es) f =
     fst (fsm_Apply e entry f) # log_responses es (snd (snd (fsm_Apply e entry f)))"

definition same_log :: "(env \<times> log_entry) list \<Rightarrow> (env \<times> log_entry) list \<Rightarrow> bool" where
  "same_log l l' \<longleftrightarrow> list_all2 (\<lambda>(e, x) (e', x'). same_tables e e' \<and> x = x') l l'"

definition fsm_start :: "engine \<Rightarrow> fsm" where
  "fsm_start en =
     \<lparr>fsm_applier = en, fsm_locks = Some locks_New, fsm_leases = Some leases_New\<rparr>"

section \<open>The tables respect the view\<close>

lemma lock_view_sel:
  "lock_view r = lock_view r' \<longleftrightarrow>
     lk_holder r = lk_holder r' \<and> lk_token r = lk_token r' \<and> lk_deadline r = lk_deadline r' \<and>
     lk_ttl r = lk_ttl r'"
  by (auto simp: lock_view_def)

lemma locks_view_lookup:
  assumes "locks_view t = locks_view t'"
  shows "map_option lock_view (fmlookup (tab_locks t) n) =
      map_option lock_view (fmlookup (tab_locks t') n)"
    and "map_len (tab_locks t) = map_len (tab_locks t')" and "tab_next t = tab_next t'"
proof -
  have eq: "fmmap lock_view (tab_locks t) = fmmap lock_view (tab_locks t')"
    and "tab_next t = tab_next t'"
    using assms by (simp_all add: locks_view_def)
  from arg_cong [OF eq, of "\<lambda>m. fmlookup m n"]
  show "map_option lock_view (fmlookup (tab_locks t) n) =
      map_option lock_view (fmlookup (tab_locks t') n)" by simp
  from arg_cong [OF eq, of map_len] show "map_len (tab_locks t) = map_len (tab_locks t')" by simp
  show "tab_next t = tab_next t'" by fact
qed

lemma locks_view_simps [simp]:
  "locks_view (locks_Broadcast t) = locks_view t"
  "locks_view (t\<lparr>tab_locks := fmupd n r (tab_locks t), tab_next := k\<rparr>) =
     (fmupd n (lock_view r) (fst (locks_view t)), k)"
  "locks_view (t\<lparr>tab_locks := fmupd n r (tab_locks t)\<rparr>) =
     (fmupd n (lock_view r) (fst (locks_view t)), snd (locks_view t))"
  "locks_view (t\<lparr>tab_locks := fmdrop n (tab_locks t)\<rparr>) =
     (fmdrop n (fst (locks_view t)), snd (locks_view t))"
  by (simp_all add: locks_view_def)

lemma locks_Acquire_view:
  assumes "same_tables e e'" and "locks_view t = locks_view t'"
  shows "fst (locks_Acquire e n h dl ttl t) = fst (locks_Acquire e' n h dl ttl t') \<and>
    locks_view (snd (locks_Acquire e n h dl ttl t)) =
      locks_view (snd (locks_Acquire e' n h dl ttl t'))"
  using locks_view_lookup(1) [OF assms(2), of n] locks_view_lookup(2,3) [OF assms(2)] assms(2)
    locks_ValidName_tables [OF assms(1), of n]
  by (cases "locks_ValidName e' n"; cases "fmlookup (tab_locks t) n";
      cases "fmlookup (tab_locks t') n")
    (simp_all add: locks_Acquire_def Let_def lock_view_sel, simp_all add: lock_view_def)

lemma locks_Release_view:
  assumes "same_tables e e'" and "locks_view t = locks_view t'"
  shows "fst (locks_Release e n h k t) = fst (locks_Release e' n h k t') \<and>
    locks_view (snd (locks_Release e n h k t)) = locks_view (snd (locks_Release e' n h k t'))"
  using locks_view_lookup(1) [OF assms(2), of n] locks_view_lookup(2,3) [OF assms(2)] assms(2)
    locks_ValidName_tables [OF assms(1), of n]
  by (cases "locks_ValidName e' n"; cases "fmlookup (tab_locks t) n";
      cases "fmlookup (tab_locks t') n")
    (simp_all add: locks_Release_def lock_view_sel)

lemma locks_Renew_view:
  assumes "same_tables e e'" and "locks_view t = locks_view t'"
  shows "fst (locks_Renew e n h k dl ttl t) = fst (locks_Renew e' n h k dl ttl t') \<and>
    locks_view (snd (locks_Renew e n h k dl ttl t)) =
      locks_view (snd (locks_Renew e' n h k dl ttl t'))"
  using locks_view_lookup(1) [OF assms(2), of n] locks_view_lookup(2,3) [OF assms(2)] assms(2)
    locks_ValidName_tables [OF assms(1), of n]
  by (cases "locks_ValidName e' n"; cases "fmlookup (tab_locks t) n";
      cases "fmlookup (tab_locks t') n")
    (simp_all add: locks_Renew_def lock_view_sel, simp_all add: lock_view_def)

lemma locks_Expire_view:
  assumes "same_tables e e'" and "locks_view t = locks_view t'"
  shows "fst (locks_Expire e n k t) = fst (locks_Expire e' n k t') \<and>
    locks_view (snd (snd (locks_Expire e n k t))) = locks_view (snd (snd (locks_Expire e' n k t')))"
  using locks_view_lookup(1) [OF assms(2), of n] locks_view_lookup(2,3) [OF assms(2)] assms(2)
    locks_ValidName_tables [OF assms(1), of n]
  by (cases "locks_ValidName e' n"; cases "fmlookup (tab_locks t) n";
      cases "fmlookup (tab_locks t') n")
    (simp_all add: locks_Expire_def lock_view_sel)

lemma lease_view_sel:
  "lease_view r = lease_view r' \<longleftrightarrow>
     le_owner r = le_owner r' \<and> le_token r = le_token r' \<and> le_deadline r = le_deadline r' \<and>
     le_ttl r = le_ttl r'"
  by (auto simp: lease_view_def)

lemma leases_view_lookup:
  assumes "leases_view t = leases_view t'"
  shows "map_option lease_view (fmlookup (tab_leases t) n) =
      map_option lease_view (fmlookup (tab_leases t') n)"
    and "map_len (tab_leases t) = map_len (tab_leases t')" and "ltab_next t = ltab_next t'"
proof -
  have eq: "fmmap lease_view (tab_leases t) = fmmap lease_view (tab_leases t')"
    and "ltab_next t = ltab_next t'"
    using assms by (simp_all add: leases_view_def)
  from arg_cong [OF eq, of "\<lambda>m. fmlookup m n"]
  show "map_option lease_view (fmlookup (tab_leases t) n) =
      map_option lease_view (fmlookup (tab_leases t') n)" by simp
  from arg_cong [OF eq, of map_len] show "map_len (tab_leases t) = map_len (tab_leases t')" by simp
  show "ltab_next t = ltab_next t'" by fact
qed

lemma leases_view_simps [simp]:
  "leases_view (t\<lparr>tab_leases := fmupd n r (tab_leases t), ltab_next := k\<rparr>) =
     (fmupd n (lease_view r) (fst (leases_view t)), k)"
  "leases_view (t\<lparr>tab_leases := fmupd n r (tab_leases t)\<rparr>) =
     (fmupd n (lease_view r) (fst (leases_view t)), snd (leases_view t))"
  "leases_view (t\<lparr>tab_leases := fmdrop n (tab_leases t)\<rparr>) =
     (fmdrop n (fst (leases_view t)), snd (leases_view t))"
  by (simp_all add: leases_view_def)

lemma leases_Grant_view:
  assumes "same_tables e e'" and "leases_view t = leases_view t'"
  shows "fst (leases_Grant e n h dl ttl t) = fst (leases_Grant e' n h dl ttl t') \<and>
    leases_view (snd (snd (leases_Grant e n h dl ttl t))) =
      leases_view (snd (snd (leases_Grant e' n h dl ttl t')))"
  using leases_view_lookup(1) [OF assms(2), of n] leases_view_lookup(2,3) [OF assms(2)] assms(2)
    leases_ValidName_tables [OF assms(1), of n]
  by (cases "leases_ValidName e' n"; cases "fmlookup (tab_leases t) n";
      cases "fmlookup (tab_leases t') n")
    (simp_all add: leases_Grant_def Let_def lease_view_sel, simp_all add: lease_view_def)

lemma leases_Revoke_view:
  assumes "same_tables e e'" and "leases_view t = leases_view t'"
  shows "fst (leases_Revoke e n h k t) = fst (leases_Revoke e' n h k t') \<and>
    leases_view (snd (snd (leases_Revoke e n h k t))) = leases_view (snd (snd (leases_Revoke e' n h k t')))"
  using leases_view_lookup(1) [OF assms(2), of n] leases_view_lookup(2,3) [OF assms(2)] assms(2)
    leases_ValidName_tables [OF assms(1), of n]
  by (cases "leases_ValidName e' n"; cases "fmlookup (tab_leases t) n";
      cases "fmlookup (tab_leases t') n")
    (simp_all add: leases_Revoke_def lease_view_sel)

lemma leases_Renew_view:
  assumes "same_tables e e'" and "leases_view t = leases_view t'"
  shows "fst (leases_Renew e n h k dl ttl t) = fst (leases_Renew e' n h k dl ttl t') \<and>
    leases_view (snd (leases_Renew e n h k dl ttl t)) =
      leases_view (snd (leases_Renew e' n h k dl ttl t'))"
  using leases_view_lookup(1) [OF assms(2), of n] leases_view_lookup(2,3) [OF assms(2)] assms(2)
    leases_ValidName_tables [OF assms(1), of n]
  by (cases "leases_ValidName e' n"; cases "fmlookup (tab_leases t) n";
      cases "fmlookup (tab_leases t') n")
    (simp_all add: leases_Renew_def lease_view_sel, simp_all add: lease_view_def)

lemma leases_Expire_view:
  assumes "same_tables e e'" and "leases_view t = leases_view t'"
  shows "fst (leases_Expire e n k t) = fst (leases_Expire e' n k t') \<and>
    leases_view (snd (snd (leases_Expire e n k t))) = leases_view (snd (snd (leases_Expire e' n k t')))"
  using leases_view_lookup(1) [OF assms(2), of n] leases_view_lookup(2,3) [OF assms(2)] assms(2)
    leases_ValidName_tables [OF assms(1), of n]
  by (cases "leases_ValidName e' n"; cases "fmlookup (tab_leases t) n";
      cases "fmlookup (tab_leases t') n")
    (simp_all add: leases_Expire_def lease_view_sel)

section \<open>Apply respects the view\<close>

lemma apply_member_tables [simp]:
  "fsm_locks (snd (snd (apply_member e cmd f))) = fsm_locks f"
  "fsm_leases (snd (snd (apply_member e cmd f))) = fsm_leases f"
  by (simp_all add: apply_member_def Let_def split_beta split: sum.split)

lemma apply_lock_frame [simp]:
  "fsm_applier (snd (snd (apply_lock e cmd f))) = fsm_applier f"
  "fsm_leases (snd (snd (apply_lock e cmd f))) = fsm_leases f"
  by (simp_all add: apply_lock_def split_beta split: option.split sum.split)

lemma apply_lease_frame [simp]:
  "fsm_applier (snd (snd (apply_lease e cmd f))) = fsm_applier f"
  "fsm_locks (snd (snd (apply_lease e cmd f))) = fsm_locks f"
  by (simp_all add: apply_lease_def split_beta split: option.split sum.split)

lemma apply_member_response:
  "fst (apply_member e cmd f) = fst (apply_member e' cmd f')"
  by (simp add: apply_member_def JoinAs_def Let_def split_beta)

lemma apply_lock_view:
  assumes "same_tables e e'"
    and "map_option locks_view (fsm_locks f) = map_option locks_view (fsm_locks f')"
  shows "fst (apply_lock e cmd f) = fst (apply_lock e' cmd f') \<and>
    map_option locks_view (fsm_locks (snd (snd (apply_lock e cmd f)))) =
      map_option locks_view (fsm_locks (snd (snd (apply_lock e' cmd f'))))"
proof (cases "fsm_locks f")
  case None
  with assms(2) have "fsm_locks f' = None" by simp
  with None show ?thesis by (simp add: apply_lock_def)
next
  case (Some t)
  with assms(2) obtain t' where t': "fsm_locks f' = Some t'" and view: "locks_view t = locks_view t'"
    by (cases "fsm_locks f'") auto
  note eqs = locks_Acquire_view [OF assms(1) view] locks_Release_view [OF assms(1) view]
    locks_Renew_view [OF assms(1) view] locks_Expire_view [OF assms(1) view]
  show ?thesis
    by (simp add: apply_lock_def Some t' split_beta eqs split: sum.split option.split)
qed

lemma apply_lease_view:
  assumes "same_tables e e'"
    and "map_option leases_view (fsm_leases f) = map_option leases_view (fsm_leases f')"
  shows "fst (apply_lease e cmd f) = fst (apply_lease e' cmd f') \<and>
    map_option leases_view (fsm_leases (snd (snd (apply_lease e cmd f)))) =
      map_option leases_view (fsm_leases (snd (snd (apply_lease e' cmd f'))))"
proof (cases "fsm_leases f")
  case None
  with assms(2) have "fsm_leases f' = None" by simp
  with None show ?thesis by (simp add: apply_lease_def)
next
  case (Some t)
  with assms(2) obtain t' where t': "fsm_leases f' = Some t'"
    and view: "leases_view t = leases_view t'" by (cases "fsm_leases f'") auto
  note eqs = leases_Grant_view [OF assms(1) view] leases_Revoke_view [OF assms(1) view]
    leases_Renew_view [OF assms(1) view] leases_Expire_view [OF assms(1) view]
  show ?thesis
    by (simp add: apply_lease_def Some t' split_beta eqs split: sum.split option.split)
qed

lemma fsm_Apply_view:
  assumes "same_tables e e'" and "same_tables_view f f'"
  shows "fst (fsm_Apply e entry f) = fst (fsm_Apply e' entry f') \<and>
    same_tables_view (snd (snd (fsm_Apply e entry f))) (snd (snd (fsm_Apply e' entry f')))"
proof -
  have views: "map_option locks_view (fsm_locks f) = map_option locks_view (fsm_locks f')"
    "map_option leases_view (fsm_leases f) = map_option leases_view (fsm_leases f')"
    using assms(2) by (simp_all add: same_tables_view_def)
  have "fst (fsm_switch e cmd f) = fst (fsm_switch e' cmd f') \<and>
    same_tables_view (snd (snd (fsm_switch e cmd f))) (snd (snd (fsm_switch e' cmd f')))" for cmd
    using apply_lock_view [OF assms(1) views(1), of cmd] views
      apply_lease_view [OF assms(1) views(2), of cmd] apply_member_response [of e cmd f e' f']
    by (simp add: fsm_switch_def same_tables_view_def)
  then show ?thesis
    using assms(2) by (simp add: fsm_Apply_def split: log_entry.split option.split)
qed

lemma apply_log_view:
  assumes "same_log l l'" and "same_tables_view f f'"
  shows "log_responses l f = log_responses l' f' \<and>
    same_tables_view (apply_log l f) (apply_log l' f')"
  using assms unfolding same_log_def
proof (induction l l' arbitrary: f f' rule: list_all2_induct)
  case (Cons x l y l')
  obtain e entry e' where xy: "x = (e, entry)" "y = (e', entry)" "same_tables e e'"
    using Cons.hyps(1) by (auto split: prod.splits)
  show ?case
    using Cons.IH [of "snd (snd (fsm_Apply e entry f))" "snd (snd (fsm_Apply e' entry f'))"]
      fsm_Apply_view [OF xy(3) Cons.prems, of entry] by (simp add: xy)
qed simp

section \<open>The log moves the tables by table operations\<close>

lemma apply_lock_ops:
  "\<exists>ops. length ops \<le> 1 \<and>
     fsm_locks (snd (snd (apply_lock e cmd f))) = map_option (run_ops locks_step ops) (fsm_locks f)"
proof (cases "fsm_locks f")
  case None
  then show ?thesis by (intro exI [of _ "[]"]) (simp add: apply_lock_def)
next
  case (Some t)
  let ?op = "if cmd_Kind cmd = CmdLockAcquire
      then Take (cmd_Name cmd) (cmd_ID cmd) (deadlineOf cmd) (ttlOf cmd)
    else if cmd_Kind cmd = CmdLockRelease then Give (cmd_Name cmd) (cmd_ID cmd) (cmd_Token cmd)
    else if cmd_Kind cmd = CmdLockRenew
      then Extend (cmd_Name cmd) (cmd_ID cmd) (cmd_Token cmd) (deadlineOf cmd) (ttlOf cmd)
    else Lapse (cmd_Name cmd) (cmd_Token cmd)"
  show ?thesis
    by (intro exI [of _ "[(e, ?op)]"])
      (simp add: apply_lock_def Some split_beta split: sum.split option.split)
qed

lemma apply_lease_ops:
  "\<exists>ops. length ops \<le> 1 \<and>
     fsm_leases (snd (snd (apply_lease e cmd f))) =
       map_option (run_ops leases_step ops) (fsm_leases f)"
proof (cases "fsm_leases f")
  case None
  then show ?thesis by (intro exI [of _ "[]"]) (simp add: apply_lease_def)
next
  case (Some t)
  let ?op = "if cmd_Kind cmd = CmdLeaseGrant
      then Take (cmd_Name cmd) (cmd_ID cmd) (deadlineOf cmd) (ttlOf cmd)
    else if cmd_Kind cmd = CmdLeaseRenew
      then Extend (cmd_Name cmd) (cmd_ID cmd) (cmd_Token cmd) (deadlineOf cmd) (ttlOf cmd)
    else if cmd_Kind cmd = CmdLeaseRevoke then Give (cmd_Name cmd) (cmd_ID cmd) (cmd_Token cmd)
    else Lapse (cmd_Name cmd) (cmd_Token cmd)"
  show ?thesis
    by (intro exI [of _ "[(e, ?op)]"])
      (simp add: apply_lease_def Some split_beta split: sum.split option.split)
qed

lemma fsm_Apply_ops:
  "\<exists>ops. length ops \<le> 1 \<and>
     fsm_locks (snd (snd (fsm_Apply e entry f))) = map_option (run_ops locks_step ops) (fsm_locks f)"
  "\<exists>ops. length ops \<le> 1 \<and>
     fsm_leases (snd (snd (fsm_Apply e entry f))) =
       map_option (run_ops leases_step ops) (fsm_leases f)"
proof -
  have nil: "map_option (run_ops step []) t = t" for step and t :: "'a option"
    by (simp add: option.map_ident_strong)
  have "\<exists>ops. length ops \<le> 1 \<and> fsm_locks (snd (snd (fsm_switch e cmd f))) =
      map_option (run_ops locks_step ops) (fsm_locks f)" for cmd
    using apply_lock_ops [of e cmd f] nil [of locks_step "fsm_locks f"]
    by (auto simp: fsm_switch_def intro!: exI [of _ "[]"])
  then show "\<exists>ops. length ops \<le> 1 \<and> fsm_locks (snd (snd (fsm_Apply e entry f))) =
      map_option (run_ops locks_step ops) (fsm_locks f)"
    using nil [of locks_step "fsm_locks f"]
    by (auto simp: fsm_Apply_def intro!: exI [of _ "[]"] split: log_entry.split option.split)
  have "\<exists>ops. length ops \<le> 1 \<and> fsm_leases (snd (snd (fsm_switch e cmd f))) =
      map_option (run_ops leases_step ops) (fsm_leases f)" for cmd
    using apply_lease_ops [of e cmd f] nil [of leases_step "fsm_leases f"]
    by (auto simp: fsm_switch_def intro!: exI [of _ "[]"])
  then show "\<exists>ops. length ops \<le> 1 \<and> fsm_leases (snd (snd (fsm_Apply e entry f))) =
      map_option (run_ops leases_step ops) (fsm_leases f)"
    using nil [of leases_step "fsm_leases f"]
    by (auto simp: fsm_Apply_def intro!: exI [of _ "[]"] split: log_entry.split option.split)
qed

lemma apply_log_ops:
  "\<exists>ops. length ops \<le> length l \<and>
     fsm_locks (apply_log l f) = map_option (run_ops locks_step ops) (fsm_locks f)"
  "\<exists>ops. length ops \<le> length l \<and>
     fsm_leases (apply_log l f) = map_option (run_ops leases_step ops) (fsm_leases f)"
proof (induction l f rule: apply_log.induct)
  case (1 f)
  show "\<exists>ops. length ops \<le> length [] \<and>
      fsm_locks (apply_log [] f) = map_option (run_ops locks_step ops) (fsm_locks f)"
    by (intro exI [of _ "[]"]) (simp add: option.map_ident_strong)
  show "\<exists>ops. length ops \<le> length [] \<and>
      fsm_leases (apply_log [] f) = map_option (run_ops leases_step ops) (fsm_leases f)"
    by (intro exI [of _ "[]"]) (simp add: option.map_ident_strong)
next
  case (2 e entry es f)
  let ?f = "snd (snd (fsm_Apply e entry f))"
  obtain ops where ops: "length ops \<le> 1"
    "fsm_locks ?f = map_option (run_ops locks_step ops) (fsm_locks f)"
    using fsm_Apply_ops(1) by blast
  obtain ops' where ops': "length ops' \<le> length es"
    "fsm_locks (apply_log es ?f) = map_option (run_ops locks_step ops') (fsm_locks ?f)"
    using "2.IH"(1) by blast
  show "\<exists>ops. length ops \<le> length ((e, entry) # es) \<and>
      fsm_locks (apply_log ((e, entry) # es) f) = map_option (run_ops locks_step ops) (fsm_locks f)"
    by (rule exI [of _ "ops @ ops'"])
      (cases "fsm_locks f"; use ops ops' in simp)
  obtain ops where ops: "length ops \<le> 1"
    "fsm_leases ?f = map_option (run_ops leases_step ops) (fsm_leases f)"
    using fsm_Apply_ops(2) by blast
  obtain ops' where ops': "length ops' \<le> length es"
    "fsm_leases (apply_log es ?f) = map_option (run_ops leases_step ops') (fsm_leases ?f)"
    using "2.IH"(2) by blast
  show "\<exists>ops. length ops \<le> length ((e, entry) # es) \<and>
      fsm_leases (apply_log ((e, entry) # es) f) =
        map_option (run_ops leases_step ops) (fsm_leases f)"
    by (rule exI [of _ "ops @ ops'"])
      (cases "fsm_leases f"; use ops ops' in simp)
qed

lemma apply_log_append [simp]: "apply_log (l @ l') f = apply_log l' (apply_log l f)"
  by (induction l f rule: apply_log.induct) simp_all

section \<open>Effect of the log on one member\<close>

definition entry_command :: "log_entry \<Rightarrow> command option" where
  "entry_command entry = (case entry of LogCommand data \<Rightarrow> decodeCommand data | LogOther \<Rightarrow> None)"

text \<open>Entries after which the listing of a member no longer depends on what it was before.\<close>

definition settles :: "string \<Rightarrow> log_entry \<Rightarrow> bool" where
  "settles nid entry \<longleftrightarrow>
     (case entry_command entry of
        None \<Rightarrow> False
      | Some cmd \<Rightarrow> cmd_ID cmd = nid \<and>
          (cmd_Kind cmd = CmdAddMember \<and> nid \<noteq> '''' \<or> cmd_Kind cmd = CmdDropMember))"

definition member_effect ::
  "log_entry \<Rightarrow> string \<Rightarrow> (string \<times> status \<times> string) option \<Rightarrow> (string \<times> status \<times> string) option"
where
  "member_effect entry nid v =
     (case entry_command entry of
        None \<Rightarrow> v
      | Some cmd \<Rightarrow>
          if cmd_ID cmd \<noteq> nid then v
          else if cmd_Kind cmd = CmdAddMember then
            if nid = '''' then v
            else Some (cmd_Address cmd, StatusAlive, NormalizeRole (cmd_Role cmd))
          else if cmd_Kind cmd = CmdRemoveMember then
            map_option (\<lambda>(a, s, r). (a, StatusDead, r)) v
          else if cmd_Kind cmd = CmdDropMember then None
          else v)"

lemma kinds_distinct:
  "CmdAddMember \<noteq> CmdRemoveMember" "CmdAddMember \<noteq> CmdDropMember" "CmdRemoveMember \<noteq> CmdDropMember"
  "\<not> member_kind k \<Longrightarrow> k \<noteq> CmdAddMember \<and> k \<noteq> CmdRemoveMember \<and> k \<noteq> CmdDropMember"
  by (simp_all add: kind_defs member_kind_def)

lemma NormalizeRole_idem [simp]: "NormalizeRole (NormalizeRole r) = NormalizeRole r"
  by (simp add: NormalizeRole_def RoleVoter_def RoleObserver_def)

lemma JoinAs_view:
  "member_view (snd (snd (JoinAs e m addr role en))) nid =
     (if nid = m \<and> m \<noteq> '''' then Some (addr, StatusAlive, NormalizeRole role)
      else member_view en nid)"
  by (simp add: JoinAs_def Let_def member_view_def)

lemma MarkDead_view:
  assumes "membership_inv en"
  shows "member_view (snd (MarkDead m en)) nid =
     (if nid = m then map_option (\<lambda>(a, s, r). (a, StatusDead, r)) (member_view en nid)
      else member_view en nid)"
proof (cases "fmlookup (en_members en) m")
  case (Some a)
  then have "mb_status a = StatusAlive \<or> mb_status a = StatusDead"
    using assms by (auto simp: membership_inv_def member_ok_def)
  with Some show ?thesis by (auto simp: MarkDead_def member_view_def)
qed (auto simp: MarkDead_def member_view_def)

lemma Leave_view:
  assumes "membership_inv en"
  shows "member_view (snd (Leave m en)) nid = (if nid = m then None else member_view en nid)"
proof -
  have "fmlookup (en_members en) m = None" if "m |\<in>| en_dropped en"
    using assms that by (metis membership_inv_def not_Some_eq)
  then show ?thesis by (simp add: Leave_def member_view_def)
qed

lemma fsm_Apply_member_view:
  assumes "membership_inv (fsm_applier f)"
  shows "member_view (fsm_applier (snd (snd (fsm_Apply e entry f)))) nid =
      member_effect entry nid (member_view (fsm_applier f) nid)"
    and "membership_inv (fsm_applier (snd (snd (fsm_Apply e entry f))))"
proof -
  have sw: "member_view (fsm_applier (snd (snd (fsm_switch e cmd f)))) nid =
      member_effect (LogCommand d) nid (member_view (fsm_applier f) nid)"
    if "decodeCommand d = Some cmd" for cmd d
    using that assms kinds_distinct(1-3) kinds_distinct(4) [of "cmd_Kind cmd"]
    by (auto simp: fsm_switch_def member_effect_def entry_command_def apply_member_def Let_def
        split_beta JoinAs_view MarkDead_view Leave_view Drop_def member_kind_def split: sum.split)
  then show "member_view (fsm_applier (snd (snd (fsm_Apply e entry f)))) nid =
      member_effect entry nid (member_view (fsm_applier f) nid)"
    by (simp add: fsm_Apply_def member_effect_def entry_command_def
        split: log_entry.split option.split)
  have "membership_inv (fsm_applier (snd (snd (fsm_switch e cmd f))))" for cmd
    using assms
    by (simp add: fsm_switch_def apply_member_def Let_def split_beta Drop_def inv_intros
        split: sum.split)
  then show "membership_inv (fsm_applier (snd (snd (fsm_Apply e entry f))))"
    using assms by (simp add: fsm_Apply_def split: log_entry.split option.split)
qed

lemma apply_log_member_view:
  assumes "membership_inv (fsm_applier f)"
  shows "member_view (fsm_applier (apply_log l f)) nid =
      fold (\<lambda>entry. member_effect entry nid) (map snd l) (member_view (fsm_applier f) nid)"
    and "membership_inv (fsm_applier (apply_log l f))"
  using assms
  by (induction l f rule: apply_log.induct) (simp_all add: fsm_Apply_member_view)

lemma member_effect_settles: "settles nid entry \<Longrightarrow> member_effect entry nid v = member_effect entry nid v'"
  by (auto simp: settles_def member_effect_def kind_defs split: option.splits)

lemma fold_settles:
  assumes "\<exists>entry \<in> set es. settles nid entry"
  shows "fold (\<lambda>entry. member_effect entry nid) es v = fold (\<lambda>entry. member_effect entry nid) es v'"
  using assms
proof (induction es arbitrary: v v')
  case (Cons x es)
  show ?case
  proof (cases "\<exists>entry \<in> set es. settles nid entry")
    case True
    then show ?thesis using Cons.IH by simp
  next
    case False
    then have "settles nid x" using Cons.prems by auto
    then show ?thesis using member_effect_settles [of nid x v v'] by simp
  qed
qed simp

lemma same_log_entries: "same_log l l' \<Longrightarrow> map snd l = map snd l'"
  unfolding same_log_def by (induction rule: list_all2_induct) auto

section \<open>Snapshots\<close>

text \<open>
  States that JSON carries without loss: well-formed text, time stamps that marshal, no empty
  member id.
\<close>

definition lock_clean :: "lock_record \<Rightarrow> bool" where
  "lock_clean r \<longleftrightarrow>
     valid_utf8 (lk_name r) \<and> valid_utf8 (lk_holder r) \<and> json_time_ok (lk_acquired_at r) \<and>
     json_time_ok (lk_deadline r)"

definition lease_clean :: "lease_record \<Rightarrow> bool" where
  "lease_clean r \<longleftrightarrow>
     valid_utf8 (le_name r) \<and> valid_utf8 (le_owner r) \<and> json_time_ok (le_granted_at r) \<and>
     json_time_ok (le_deadline r)"

definition member_clean :: "member \<Rightarrow> bool" where
  "member_clean m \<longleftrightarrow> valid_utf8 (mb_id m) \<and> mb_id m \<noteq> '''' \<and> valid_utf8 (mb_address m)"

definition fsm_clean :: "fsm \<Rightarrow> bool" where
  "fsm_clean f \<longleftrightarrow>
     membership_inv (fsm_applier f) \<and> fmpred (\<lambda>_. member_clean) (en_members (fsm_applier f)) \<and>
     (case fsm_locks f of None \<Rightarrow> True
      | Some t \<Rightarrow> keyed lk_name (tab_locks t) \<and> fmpred (\<lambda>_. lock_clean) (tab_locks t)) \<and>
     (case fsm_leases f of None \<Rightarrow> True
      | Some t \<Rightarrow> keyed le_name (tab_leases t) \<and> fmpred (\<lambda>_. lease_clean) (tab_leases t))"

lemma range_vals_fmpred:
  "fmpred (\<lambda>_. P) m \<Longrightarrow> is_range m ks \<Longrightarrow> v \<in> set (range_vals m ks) \<Longrightarrow> P v"
  using range_vals_lookup [of m ks v] by (auto dest: fmpredD)

lemma wire_id:
  "lock_clean r \<Longrightarrow> wire_lock r = r" "lease_clean s \<Longrightarrow> wire_lease s = s"
  by (simp_all add: lock_clean_def lease_clean_def wire_lock_def wire_lease_def valid_utf8_def)

lemma valid_utf8_norm [simp]: "valid_utf8 (NormalizeRole r)" "valid_utf8 (NormalizeStatus s)"
  by (auto simp: NormalizeRole_def NormalizeStatus_def RoleVoter_def RoleObserver_def
      StatusAlive_def StatusDead_def byte_def intro!: valid_utf8_ascii)

lemma wire_member_id: "member_clean m \<Longrightarrow> wire_member (member_entry_of m) = member_entry_of m"
  using valid_utf8_norm [unfolded valid_utf8_def]
  by (simp add: member_clean_def wire_member_def member_entry_of_def valid_utf8_def)

lemma Members_vals:
  "membership_inv en \<Longrightarrow> Members en = range_vals (en_members en) (map_keys (en_members en))"
  by (simp add: Members_def Members_range_def sorted_range_unique membership_inv_keyed)

lemma fsm_Snapshot_clean:
  assumes "fsm_clean f" and "fsm_locks f = Some t" and "is_range (tab_locks t) ks"
    and "fsm_leases f = Some u" and "is_range (tab_leases u) ls"
  shows "fsm_Snapshot ks ls f = Some (snapshot_of ks ls f)"
proof -
  have l: "lock_clean r" if "r \<in> set (range_vals (tab_locks t) ks)" for r
    using that assms by (auto simp: fsm_clean_def intro: range_vals_fmpred)
  have s: "lease_clean r" if "r \<in> set (range_vals (tab_leases u) ls)" for r
    using that assms by (auto simp: fsm_clean_def intro: range_vals_fmpred)
  have inv: "membership_inv (fsm_applier f)" using assms(1) by (simp add: fsm_clean_def)
  have m: "member_clean r" if "r \<in> set (Members (fsm_applier f))" for r
    using that assms(1) unfolding Members_vals [OF inv]
    by (auto simp: fsm_clean_def intro: range_vals_fmpred [OF _ range_map_keys])
  have "map wire_member (map member_entry_of (Members (fsm_applier f))) =
      map member_entry_of (Members (fsm_applier f))"
    using m by (simp add: wire_member_id)
  moreover have "map wire_lock (range_vals (tab_locks t) ks) = range_vals (tab_locks t) ks"
    using l by (simp add: map_idI wire_id)
  moreover have "map wire_lease (range_vals (tab_leases u) ls) = range_vals (tab_leases u) ls"
    using s by (simp add: map_idI wire_id)
  ultimately show ?thesis
    using l s assms(2,4)
    by (simp add: fsm_Snapshot_def marshal_payload_def snapshot_of_def locks_SnapshotCopy_def
        leases_SnapshotCopy_def lock_clean_def lease_clean_def)
qed

lemma RestoreMember_view:
  "m \<noteq> '''' \<Longrightarrow> member_view (snd (RestoreMember e m addr role st en)) nid =
     (if nid = m then Some (addr, NormalizeStatus st, NormalizeRole role) else member_view en nid)"
  by (simp add: RestoreMember_def Let_def member_view_def)

lemma restore_members_view:
  assumes "distinct (map me_ID ms)" and "\<forall>m \<in> set ms. me_ID m \<noteq> ''''"
  shows "member_view (restore_members e ms en) nid =
    (case map_of (map (\<lambda>m. (me_ID m, (me_Address m, NormalizeStatus (me_Status m),
        NormalizeRole (me_Role m)))) ms) nid of
       Some v \<Rightarrow> Some v | None \<Rightarrow> member_view en nid)"
  using assms
proof (induction ms arbitrary: en)
  case (Cons m ms)
  have "nid = me_ID m \<Longrightarrow> map_of (map (\<lambda>m. (me_ID m, (me_Address m, NormalizeStatus (me_Status m),
        NormalizeRole (me_Role m)))) ms) nid = None"
    using Cons.prems(1) by (auto simp: map_of_eq_None_iff)
  with Cons show ?case by (auto simp: RestoreMember_view split: option.split)
qed simp

lemma NormalizeStatus_idem [simp]: "NormalizeStatus (NormalizeStatus s) = NormalizeStatus s"
  using Normalize_range(1) [of s] by auto

lemma map_of_keyed:
  assumes "keyed key m" and "is_range m ks"
  shows "map_of (map (\<lambda>v. (key v, g v)) (range_vals m ks)) k = map_option g (fmlookup m k)"
proof -
  have key: "key (the (fmlookup m k)) = k" if "k \<in> set ks" for k
    using that assms by (auto simp: is_range_def keyed_def fmlookup_dom'_iff)
  have "map (\<lambda>v. (key v, g v)) (range_vals m ks) = map (\<lambda>k. (k, g (the (fmlookup m k)))) ks"
    unfolding range_vals_def by (simp add: key)
  then have "map_of (map (\<lambda>v. (key v, g v)) (range_vals m ks)) k =
      (if k \<in> set ks then Some (g (the (fmlookup m k))) else None)"
    by (simp add: map_of_map_restrict restrict_map_def)
  then show ?thesis
    using assms(2) by (cases "fmlookup m k") (auto simp: is_range_def fmlookup_dom'_iff)
qed

lemma restore_snapshot_members:
  assumes "membership_inv en" and "fmpred (\<lambda>_. member_clean) (en_members en)"
  shows "member_view (restore_members e (map member_entry_of (Members en)) en') nid =
    (case member_view en nid of Some v \<Rightarrow> Some v | None \<Rightarrow> member_view en' nid)"
proof -
  note k = membership_inv_keyed [OF assms(1)]
  have ids: "map me_ID (map member_entry_of (Members en)) = map_keys (en_members en)"
    using keyed_range_vals [OF k range_map_keys]
    by (simp add: Members_vals [OF assms(1)] member_entry_of_def comp_def)
  have ne: "\<forall>m \<in> set (map member_entry_of (Members en)). me_ID m \<noteq> ''''"
    using range_vals_fmpred [OF assms(2) range_map_keys]
    by (auto simp: Members_vals [OF assms(1)] member_entry_of_def member_clean_def)
  let ?g = "\<lambda>m. (mb_address m, NormalizeStatus (mb_status m), NormalizeRole (mb_role m))"
  have "map_of (map (\<lambda>m. (me_ID m, (me_Address m, NormalizeStatus (me_Status m),
        NormalizeRole (me_Role m)))) (map member_entry_of (Members en))) nid =
      map_option ?g (fmlookup (en_members en) nid)"
    using map_of_keyed [OF k range_map_keys, of ?g nid]
    by (simp add: Members_vals [OF assms(1)] member_entry_of_def comp_def)
  moreover have "map_option ?g (fmlookup (en_members en) nid) = member_view en nid"
  proof (cases "fmlookup (en_members en) nid")
    case (Some m)
    then have "mb_status m \<in> {StatusAlive, StatusDead}" "mb_role m \<in> {RoleVoter, RoleObserver}"
      using assms(1) unfolding membership_inv_def member_ok_def by blast+
    then have "NormalizeStatus (mb_status m) = mb_status m" "NormalizeRole (mb_role m) = mb_role m"
      by (auto simp: NormalizeRole_def RoleVoter_def RoleObserver_def)
    with Some show ?thesis by (simp add: member_view_def)
  qed (simp add: member_view_def)
  ultimately show ?thesis
    using restore_members_view [OF _ ne, of e en' nid] ids by simp
qed

section \<open>Properties\<close>

text \<open>
  C1. Replicas agree: two nodes that start with empty tables, whatever their member lists, hooks
  and clocks, and apply the same log entries, give the same response to every entry and end up with
  the same lock and lease tables: same holders, tokens, deadlines and TTLs under every name, and the
  same counters. Undecodable and unknown commands are included.
\<close>

theorem replicas_agree:
  assumes "same_log l l'"
  shows "log_responses l (fsm_start en) = log_responses l' (fsm_start en') \<and>
    map_option locks_view (fsm_locks (apply_log l (fsm_start en))) =
      map_option locks_view (fsm_locks (apply_log l' (fsm_start en'))) \<and>
    map_option leases_view (fsm_leases (apply_log l (fsm_start en))) =
      map_option leases_view (fsm_leases (apply_log l' (fsm_start en')))"
  using apply_log_view [OF assms, of "fsm_start en" "fsm_start en'"]
  by (simp add: same_tables_view_def fsm_start_def)

text \<open>
  C4. Member lists converge: however the lists of two nodes differ at the start, once the common log
  contains an add_member or a drop_member entry for an id, both nodes list that id in the same way
  (absent, or with the same address, status and role).
\<close>

theorem members_converge:
  assumes "same_log l l'" and "membership_inv (fsm_applier f)" and "membership_inv (fsm_applier f')"
    and "\<exists>entry \<in> set (map snd l). settles nid entry"
  shows "member_view (fsm_applier (apply_log l f)) nid =
    member_view (fsm_applier (apply_log l' f')) nid"
  unfolding apply_log_member_view(1) [OF assms(2)] apply_log_member_view(1) [OF assms(3)]
    same_log_entries [OF assms(1), symmetric]
  by (rule fold_settles [OF assms(4)])

text \<open>
  C2. Fencing of the committed log: take any log and any continuation of it, together shorter than
  the range of a token counter. A lock, and likewise a lease, that is held at both points is the
  same grant or has a strictly larger token, whatever commands the log contains.
\<close>

theorem log_fencing:
  assumes "length l + length l' < 2 ^ 64"
    and "fsm_locks (apply_log l (fsm_start en)) = Some t"
    and "fsm_locks (apply_log (l @ l') (fsm_start en)) = Some t'"
    and "fsm_leases (apply_log l (fsm_start en)) = Some u"
    and "fsm_leases (apply_log (l @ l') (fsm_start en)) = Some u'"
  shows "(\<forall>r r'. locks_Get n t = Some r \<longrightarrow> locks_Get n t' = Some r' \<longrightarrow>
      (lk_holder r' = lk_holder r \<and> lk_token r' = lk_token r) \<or> lk_token r < lk_token r') \<and>
    (\<forall>r r'. leases_Get n u = Some r \<longrightarrow> leases_Get n u' = Some r' \<longrightarrow>
      (le_owner r' = le_owner r \<and> le_token r' = le_token r) \<or> le_token r < le_token r')"
proof (intro conjI allI impI)
  fix r r'
  assume r: "locks_Get n t = Some r" "locks_Get n t' = Some r'"
  obtain ops where ops: "length ops \<le> length l" "t = run_ops locks_step ops locks_New"
    using apply_log_ops(1) [of l "fsm_start en"] assms(2) by (auto simp: fsm_start_def)
  obtain ops' where ops': "length ops' \<le> length l'" "t' = run_ops locks_step ops' t"
    using apply_log_ops(1) [of l' "apply_log l (fsm_start en)"] assms(2,3) by auto
  have "length ops + length ops' < 2 ^ 64" using assms(1) ops(1) ops'(1) by simp
  from lk.init_fencing [OF this, of n "lk_holder r" "unat (lk_token r)" "lk_holder r'"
      "unat (lk_token r')"] r ops(2) ops'(2)
  show "(lk_holder r' = lk_holder r \<and> lk_token r' = lk_token r) \<or> lk_token r < lk_token r'"
    by (simp add: locks_Get_def word_less_nat_alt)
next
  fix r r'
  assume r: "leases_Get n u = Some r" "leases_Get n u' = Some r'"
  obtain ops where ops: "length ops \<le> length l" "u = run_ops leases_step ops leases_New"
    using apply_log_ops(2) [of l "fsm_start en"] assms(4) by (auto simp: fsm_start_def)
  obtain ops' where ops': "length ops' \<le> length l'" "u' = run_ops leases_step ops' u"
    using apply_log_ops(2) [of l' "apply_log l (fsm_start en)"] assms(4,5) by auto
  have "length ops + length ops' < 2 ^ 64" using assms(1) ops(1) ops'(1) by simp
  from le.init_fencing [OF this, of n "le_owner r" "unat (le_token r)" "le_owner r'"
      "unat (le_token r')"] r ops(2) ops'(2)
  show "(le_owner r' = le_owner r \<and> le_token r' = le_token r) \<or> le_token r < le_token r'"
    by (simp add: leases_Get_def word_less_nat_alt)
qed

text \<open>
  C5. What a snapshot restores: a snapshot of a state that JSON carries without loss succeeds in any
  iteration order; restoring it gives the receiving node exactly the lock and lease records and
  counters of the sender, and every member of the sender with its address, status and role. Members
  that the receiver lists and the sender does not are left as they were.
\<close>

theorem snapshot_restore:
  assumes "fsm_clean f" and "fsm_locks f = Some t" and "is_range (tab_locks t) ks"
    and "fsm_leases f = Some u" and "is_range (tab_leases u) ls"
    and "fsm_locks f' = Some t'" and "fsm_leases f' = Some u'"
    and "fsm_Restore e (fsm_Snapshot ks ls f) f' = (err, f'')"
  shows "\<not> err \<and> map_option tab_locks (fsm_locks f'') = Some (tab_locks t) \<and>
    map_option tab_next (fsm_locks f'') = Some (tab_next t) \<and>
    map_option tab_leases (fsm_leases f'') = Some (tab_leases u) \<and>
    map_option ltab_next (fsm_leases f'') = Some (ltab_next u) \<and>
    member_view (fsm_applier f'') nid =
      (case member_view (fsm_applier f) nid of
         Some v \<Rightarrow> Some v | None \<Rightarrow> member_view (fsm_applier f') nid)"
proof -
  have keyed: "keyed lk_name (tab_locks t)" "keyed le_name (tab_leases u)"
    "membership_inv (fsm_applier f)" "fmpred (\<lambda>_. member_clean) (en_members (fsm_applier f))"
    using assms(1,2,4) by (simp_all add: fsm_clean_def)
  note snap = fsm_Snapshot_clean [OF assms(1-5)]
  have "(err, f'') = fsm_Restore e (Some (snapshot_of ks ls f)) f'" using assms(8) snap by simp
  then show ?thesis
    using restore_snapshot_members [OF keyed(3,4), of e "fsm_applier f'" nid]
    by (simp add: fsm_Restore_def snapshot_of_def assms(2,4,6,7) locks_SnapshotCopy_def
        leases_SnapshotCopy_def locks_Restore_def leases_Restore_def
        fold_upd_range [OF keyed(1) assms(3)] fold_upd_range [OF keyed(2) assms(5)])
qed

text \<open>
  C3. Catching up by snapshot is equivalent to replaying the log: a node that installs a snapshot
  taken by another one after a prefix of the log and then applies the rest has the same lock and
  lease tables as a node that applied the whole log.
\<close>

theorem snapshot_catch_up:
  assumes "f = apply_log l (fsm_start en)" and "fsm_clean f" and "fsm_locks f = Some t"
    and "is_range (tab_locks t) ks" and "fsm_leases f = Some u" and "is_range (tab_leases u) ls"
    and "fsm_locks f' \<noteq> None" and "fsm_leases f' \<noteq> None" and "same_log l2 l2'"
  shows "same_tables_view (apply_log l2' (snd (fsm_Restore e (fsm_Snapshot ks ls f) f')))
    (apply_log (l @ l2) (fsm_start en))"
proof -
  have keyed: "keyed lk_name (tab_locks t)" "keyed le_name (tab_leases u)"
    using assms(2,3,5) by (simp_all add: fsm_clean_def)
  note snap = fsm_Snapshot_clean [OF assms(2-6)]
  have "same_tables_view f (snd (fsm_Restore e (fsm_Snapshot ks ls f) f'))"
    using assms(7,8)
    by (auto simp: snap fsm_Restore_def snapshot_of_def assms(3,5) locks_SnapshotCopy_def
        leases_SnapshotCopy_def locks_Restore_def leases_Restore_def same_tables_view_def
        locks_view_def leases_view_def
        fold_upd_range [OF keyed(1) assms(4)] fold_upd_range [OF keyed(2) assms(6)])
  from apply_log_view [OF assms(9) this] show ?thesis
    using assms(1) by (simp add: same_tables_view_def)
qed

section \<open>Witnesses\<close>

definition demo_take :: "string \<Rightarrow> command" where
  "demo_take h = zero_command\<lparr>cmd_Kind := CmdLockAcquire, cmd_ID := h, cmd_Name := ''db'',
     cmd_TTLMs := 15000, cmd_DeadlineUnixMs := 1700000000000\<rparr>"

definition demo_expire :: command where
  "demo_expire = zero_command\<lparr>cmd_Kind := CmdLockExpire, cmd_Name := ''db'', cmd_Token := 1\<rparr>"

definition demo_add :: command where
  "demo_add = zero_command\<lparr>cmd_Kind := CmdAddMember, cmd_ID := ''c'', cmd_Address := ''c:7443''\<rparr>"

definition demo_log :: "gotime \<Rightarrow> (env \<times> log_entry) list" where
  "demo_log t =
     [(ascii_env t, LogCommand (Some (encodeCommand (demo_take ''a'')))),
      (ascii_env t, LogOther),
      (ascii_env (t + 1), LogCommand (Some (encodeCommand demo_add)))]"

definition demo_log2 :: "gotime \<Rightarrow> (env \<times> log_entry) list" where
  "demo_log2 t =
     [(ascii_env t, LogCommand (Some (encodeCommand demo_expire))),
      (ascii_env t, LogCommand (Some (encodeCommand (demo_take ''b''))))]"

lemma demo_decode [simp]:
  "decodeCommand (Some (encodeCommand (demo_take ''a''))) = Some (demo_take ''a'')"
  "decodeCommand (Some (encodeCommand (demo_take ''b''))) = Some (demo_take ''b'')"
  "decodeCommand (Some (encodeCommand demo_expire)) = Some demo_expire"
  "decodeCommand (Some (encodeCommand demo_add)) = Some demo_add"
  by (rule decode_encode,
      simp add: command_ok_def valid_utf8_ascii byte_def kind_defs zero_command_def in_i64_def
        demo_take_def demo_expire_def demo_add_def)+

definition demo_engine :: "string \<Rightarrow> engine" where
  "demo_engine self = membership_New (ascii_env 1) self ''host:7443''"

definition demo_record :: "gotime \<Rightarrow> string \<Rightarrow> u64 \<Rightarrow> lock_record" where
  "demo_record t h k = \<lparr>lk_name = ''db'', lk_holder = h, lk_token = k, lk_acquired_at = t,
     lk_deadline = UnixMilli 1700000000000, lk_ttl = 15000 * Millisecond\<rparr>"

lemma demo_valid: "locks_ValidName (ascii_env t) ''db'' = None"
  by (simp add: locks_ValidName_def locks_MaxNameLen_def runes_def byte_def name_rune_def
      IsLetter_def latin1_letter_def)

lemma demo_sel:
  "cmd_Kind (demo_take h) = CmdLockAcquire" "cmd_ID (demo_take h) = h"
  "cmd_Name (demo_take h) = ''db''" "deadlineOf (demo_take h) = UnixMilli 1700000000000"
  "ttlOf (demo_take h) = 15000 * Millisecond" "cmd_Kind demo_expire = CmdLockExpire"
  "cmd_Name demo_expire = ''db''" "cmd_Token demo_expire = 1" "cmd_Kind demo_add = CmdAddMember"
  "cmd_ID demo_add = ''c''" "cmd_Address demo_add = ''c:7443''" "cmd_Role demo_add = ''''"
  by (simp_all add: demo_take_def demo_expire_def demo_add_def zero_command_def deadlineOf_def
      ttlOf_def Millisecond_def in_i64_def)

lemmas demo_eval = fsm_Apply_def fsm_switch_def member_kind_def lock_kind_def lease_kind_def
  demo_sel fsm_start_def apply_lock_def apply_member_def locks_Acquire_def locks_Expire_def
  demo_valid locks_New_def MaxLocks_def Let_def locks_Broadcast_def demo_record_def split_beta

lemma demo_kinds [simp]:
  "CmdLockAcquire \<noteq> CmdAddMember" "CmdLockAcquire \<noteq> CmdRemoveMember"
  "CmdLockAcquire \<noteq> CmdDropMember" "CmdLockExpire \<noteq> CmdAddMember"
  "CmdLockExpire \<noteq> CmdRemoveMember" "CmdLockExpire \<noteq> CmdDropMember"
  "CmdLockExpire \<noteq> CmdLockAcquire" "CmdLockExpire \<noteq> CmdLockRelease"
  "CmdLockExpire \<noteq> CmdLockRenew"
  by (simp_all add: kind_defs)

lemma demo_run:
  "fsm_locks (apply_log (demo_log t) (fsm_start en)) =
     Some \<lparr>tab_locks = fmupd ''db'' (demo_record t ''a'' 1) fmempty, tab_next = 1,
        tab_wait = 1, tab_Emit = False\<rparr>"
  "fsm_leases (apply_log (demo_log t) (fsm_start en)) = Some leases_New"
  by (simp_all add: demo_log_def demo_eval split: sum.split)

lemma demo_run2:
  "fsm_locks (apply_log (demo_log t @ demo_log2 t') (fsm_start en)) =
     Some \<lparr>tab_locks = fmupd ''db'' (demo_record t' ''b'' 2) fmempty, tab_next = 2,
        tab_wait = 3, tab_Emit = False\<rparr>"
  "fsm_leases (apply_log (demo_log t @ demo_log2 t') (fsm_start en)) = Some leases_New"
  by (simp_all add: demo_log_def demo_log2_def demo_eval fmfilter_alt_defs split: sum.split)

lemma demo_same_log: "same_log (demo_log t) (demo_log t')" "same_log (demo_log2 t) (demo_log2 t')"
  by (simp_all add: same_log_def demo_log_def demo_log2_def)

theorem replicas_agree_witness:
  "log_responses (demo_log 100) (fsm_start (demo_engine ''a'')) =
   log_responses (demo_log 200) (fsm_start (demo_engine ''b''))"
  using replicas_agree [OF demo_same_log(1), of 100 "demo_engine ''a''" 200 "demo_engine ''b''"]
  by blast

theorem members_converge_witness:
  "member_view (fsm_applier (apply_log (demo_log 100) (fsm_start (demo_engine ''a'')))) ''c'' =
   member_view (fsm_applier (apply_log (demo_log 200) (fsm_start (demo_engine ''c'')))) ''c''"
proof (rule members_converge [OF demo_same_log(1)])
  show "membership_inv (fsm_applier (fsm_start (demo_engine ''a'')))"
    "membership_inv (fsm_applier (fsm_start (demo_engine ''c'')))"
    by (simp_all add: fsm_start_def demo_engine_def membership_inv_New)
  show "\<exists>entry \<in> set (map snd (demo_log 100)). settles ''c'' entry"
    by (simp add: demo_log_def settles_def entry_command_def demo_sel)
qed

theorem log_fencing_witness:
  "lk_token (demo_record 100 ''a'' 1) < lk_token (demo_record 300 ''b'' 2) \<and>
   locks_Get ''db'' (the (fsm_locks (apply_log (demo_log 100) (fsm_start (demo_engine ''a''))))) =
     Some (demo_record 100 ''a'' 1)"
proof -
  have "length (demo_log 100) + length (demo_log2 300) < 2 ^ 64"
    by (simp add: demo_log_def demo_log2_def)
  note fen = conjunct1 [OF log_fencing [where en = "demo_engine ''a''" and n = "''db''",
        OF this demo_run(1) demo_run2(1) demo_run(2) demo_run2(2)], rule_format]
  have "(lk_holder (demo_record 300 ''b'' 2) = lk_holder (demo_record 100 ''a'' 1) \<and>
      lk_token (demo_record 300 ''b'' 2) = lk_token (demo_record 100 ''a'' 1)) \<or>
      lk_token (demo_record 100 ''a'' 1) < lk_token (demo_record 300 ''b'' 2)"
    by (rule fen) (simp_all add: locks_Get_def)
  then show ?thesis by (simp add: demo_run locks_Get_def demo_record_def)
qed

definition demo_state :: fsm where
  "demo_state = apply_log (demo_log 100) (fsm_start (demo_engine ''a''))"

definition demo_table :: locks_table where
  "demo_table = \<lparr>tab_locks = fmupd ''db'' (demo_record 100 ''a'' 1) fmempty, tab_next = 1,
     tab_wait = 1, tab_Emit = False\<rparr>"

lemma demo_state_tables:
  "fsm_locks demo_state = Some demo_table" "fsm_leases demo_state = Some leases_New"
  by (simp_all add: demo_state_def demo_run demo_table_def)

lemma demo_state_applier:
  "fsm_applier demo_state =
     snd (snd (JoinAs (ascii_env 101) ''c'' ''c:7443'' (NormalizeRole '''') (demo_engine ''a'')))"
  by (simp add: demo_state_def demo_log_def demo_eval split: sum.split)

lemma demo_state_clean: "fsm_clean demo_state"
proof -
  have "lock_clean (demo_record 100 ''a'' 1)"
    by (simp add: lock_clean_def demo_record_def valid_utf8_ascii byte_def json_time_ok_def
        UnixMilli_def unix_epoch_def Second_def)
  then have "fmpred (\<lambda>_. lock_clean) (tab_locks demo_table)" "keyed lk_name (tab_locks demo_table)"
    by (simp_all add: demo_table_def fmpred_iff keyed_def) (simp add: demo_record_def)
  moreover have "fmpred (\<lambda>_. member_clean) (en_members (fsm_applier demo_state))"
    by (auto simp: demo_state_applier demo_engine_def membership_New_def JoinAs_def Let_def
        fmpred_iff member_clean_def valid_utf8_ascii byte_def split: if_splits)
  moreover have "membership_inv (fsm_applier demo_state)"
    by (simp add: demo_state_applier demo_engine_def inv_intros)
  ultimately show ?thesis
    by (simp add: fsm_clean_def demo_state_tables leases_New_def fmpred_iff)
qed

lemma demo_ranges: "is_range (tab_locks demo_table) [''db'']" "is_range (tab_leases leases_New) []"
  by (simp_all add: is_range_def demo_table_def leases_New_def)

theorem snapshot_restore_witness:
  "map_option tab_next (fsm_locks (snd (fsm_Restore (ascii_env 500)
     (fsm_Snapshot [''db''] [] demo_state) (fsm_start (demo_engine ''z''))))) = Some 1 \<and>
   member_view (fsm_applier (snd (fsm_Restore (ascii_env 500)
     (fsm_Snapshot [''db''] [] demo_state) (fsm_start (demo_engine ''z''))))) ''z'' \<noteq> None"
proof -
  have t: "fsm_locks (fsm_start (demo_engine ''z'')) = Some locks_New"
    "fsm_leases (fsm_start (demo_engine ''z'')) = Some leases_New" by (simp_all add: fsm_start_def)
  have a: "member_view (fsm_applier demo_state) ''z'' = None"
    "member_view (fsm_applier (fsm_start (demo_engine ''z''))) ''z'' \<noteq> None"
    by (simp_all add: demo_state_applier demo_engine_def membership_New_def JoinAs_def Let_def
        member_view_def fsm_start_def)
  note r = snapshot_restore [OF demo_state_clean demo_state_tables(1) demo_ranges(1)
      demo_state_tables(2) demo_ranges(2) t surjective_pairing, of "ascii_env 500" "''z''"]
  have "tab_next demo_table = 1" by (simp add: demo_table_def)
  with r a show ?thesis by simp
qed

theorem snapshot_catch_up_witness:
  "same_tables_view
     (apply_log (demo_log2 900) (snd (fsm_Restore (ascii_env 500)
       (fsm_Snapshot [''db''] [] demo_state) (fsm_start (demo_engine ''z'')))))
     (apply_log (demo_log 100 @ demo_log2 300) (fsm_start (demo_engine ''a'')))"
  by (rule snapshot_catch_up [OF demo_state_def demo_state_clean demo_state_tables(1)
        demo_ranges(1) demo_state_tables(2) demo_ranges(2) _ _ demo_same_log(2)])
    (simp_all add: fsm_start_def)

end
