(* ===== verification/Raft_Node.thy ===== *)
theory Raft_Node
  imports Replication
begin

text \<open>
  The Raft node wrapper (internal/consensus/node.go). The library hashicorp/raft is a parameter: a
  record of the calls the wrapper makes over an abstract library state. What the proofs rely on is
  the named predicate \<open>raft_applies\<close>: a successful Apply means that the entry was applied to the
  local state machine at some point of the committed log. Lemmas: what the wrapper's operations
  guarantee to their callers under that predicate, and the resources New holds on error paths.
\<close>

section \<open>The library\<close>

datatype suffrage = Voter | Nonvoter

record raft_server =
  srv_ID :: string
  srv_Address :: string
  srv_Suffrage :: suffrage

text \<open>
  Errors are opaque texts of the library; the services look at them with \<^verbatim>\<open>Error()\<close>. Apply returns
  the error of the future or its response.
\<close>

type_synonym err_text = string

record 'r raft_lib =
  rl_Apply :: "env \<Rightarrow> json \<Rightarrow> 'r \<Rightarrow> (err_text + fsm_response) \<times> 'r"
  rl_AddVoter :: "string \<Rightarrow> string \<Rightarrow> 'r \<Rightarrow> err_text option \<times> 'r"
  rl_AddNonvoter :: "string \<Rightarrow> string \<Rightarrow> 'r \<Rightarrow> err_text option \<times> 'r"
  rl_RemoveServer :: "string \<Rightarrow> 'r \<Rightarrow> err_text option \<times> 'r"
  rl_GetConfiguration :: "'r \<Rightarrow> err_text + raft_server list"
  rl_IsLeader :: "'r \<Rightarrow> bool"
  rl_LeaderWithID :: "'r \<Rightarrow> string \<times> string"

datatype node_error =
    RaftApply err_text
  | UnexpectedResult
  | LockRefused fsm_error
  | RaftConfig err_text
  | RaftMembership err_text
  | NotInConfiguration string

section \<open>Configuration of the cluster\<close>

definition AddVoter :: "'r raft_lib \<Rightarrow> string \<Rightarrow> string \<Rightarrow> 'r \<Rightarrow> node_error option \<times> 'r" where
  "AddVoter rl nid raftAddr r =
     (case rl_AddVoter rl nid raftAddr r of
        (Some err, r') \<Rightarrow> (Some (RaftMembership err), r')
      | (None, r') \<Rightarrow> (None, r'))"

definition AddNonvoter :: "'r raft_lib \<Rightarrow> string \<Rightarrow> string \<Rightarrow> 'r \<Rightarrow> node_error option \<times> 'r" where
  "AddNonvoter rl nid raftAddr r =
     (case rl_AddNonvoter rl nid raftAddr r of
        (Some err, r') \<Rightarrow> (Some (RaftMembership err), r')
      | (None, r') \<Rightarrow> (None, r'))"

definition PromoteToVoter :: "'r raft_lib \<Rightarrow> string \<Rightarrow> 'r \<Rightarrow> node_error option \<times> 'r" where
  "PromoteToVoter rl nid r =
     (case rl_GetConfiguration rl r of
        Inl err \<Rightarrow> (Some (RaftConfig err), r)
      | Inr servers \<Rightarrow>
          (case find (\<lambda>s. srv_ID s = nid) servers of
             None \<Rightarrow> (Some (NotInConfiguration nid), r)
           | Some s \<Rightarrow>
               if srv_Suffrage s = Voter then (None, r)
               else AddVoter rl nid (srv_Address s) r))"

definition HasServer :: "'r raft_lib option \<Rightarrow> string \<Rightarrow> 'r \<Rightarrow> bool" where
  "HasServer node nid r =
     (case node of
        None \<Rightarrow> False
      | Some rl \<Rightarrow>
          if nid = '''' then False
          else (case rl_GetConfiguration rl r of
                  Inl err \<Rightarrow> False
                | Inr servers \<Rightarrow> list_ex (\<lambda>s. srv_ID s = nid) servers))"

definition ServerCount :: "'r raft_lib option \<Rightarrow> 'r \<Rightarrow> nat" where
  "ServerCount node r =
     (case node of
        None \<Rightarrow> 0
      | Some rl \<Rightarrow>
          (case rl_GetConfiguration rl r of Inl err \<Rightarrow> 0 | Inr servers \<Rightarrow> length servers))"

definition RemoveVoter :: "'r raft_lib \<Rightarrow> string \<Rightarrow> 'r \<Rightarrow> node_error option \<times> 'r" where
  "RemoveVoter rl nid r =
     (case rl_RemoveServer rl nid r of
        (Some err, r') \<Rightarrow> (Some (RaftMembership err), r')
      | (None, r') \<Rightarrow> (None, r'))"

definition IsLeader :: "'r raft_lib \<Rightarrow> 'r \<Rightarrow> bool" where
  "IsLeader rl r = rl_IsLeader rl r"

definition LeaderAddr :: "'r raft_lib \<Rightarrow> 'r \<Rightarrow> string" where
  "LeaderAddr rl r = fst (rl_LeaderWithID rl r)"

definition node_LeaderID :: "'r raft_lib \<Rightarrow> 'r \<Rightarrow> string" where
  "node_LeaderID rl r = snd (rl_LeaderWithID rl r)"

section \<open>Writing commands\<close>

definition apply_command :: "'r raft_lib \<Rightarrow> env \<Rightarrow> command \<Rightarrow> 'r \<Rightarrow> node_error option \<times> 'r" where
  "apply_command rl e cmd r =
     (case rl_Apply rl e (encodeCommand cmd) r of
        (Inl err, r') \<Rightarrow> (Some (RaftApply err), r')
      | (Inr _, r') \<Rightarrow> (None, r'))"

definition ApplyAddMemberAs ::
  "'r raft_lib \<Rightarrow> env \<Rightarrow> string \<Rightarrow> string \<Rightarrow> string \<Rightarrow> 'r \<Rightarrow> node_error option \<times> 'r" where
  "ApplyAddMemberAs rl e nid addr role r =
     apply_command rl e
       (zero_command\<lparr>cmd_Kind := CmdAddMember, cmd_ID := nid, cmd_Address := addr,
                     cmd_Role := NormalizeRole role\<rparr>) r"

definition ApplyAddMember ::
  "'r raft_lib \<Rightarrow> env \<Rightarrow> string \<Rightarrow> string \<Rightarrow> 'r \<Rightarrow> node_error option \<times> 'r" where
  "ApplyAddMember rl e nid addr r = ApplyAddMemberAs rl e nid addr RoleVoter r"

definition ApplyRemoveMember ::
  "'r raft_lib \<Rightarrow> env \<Rightarrow> string \<Rightarrow> 'r \<Rightarrow> node_error option \<times> 'r" where
  "ApplyRemoveMember rl e nid r =
     apply_command rl e (zero_command\<lparr>cmd_Kind := CmdRemoveMember, cmd_ID := nid\<rparr>) r"

definition ApplyDropMember ::
  "'r raft_lib \<Rightarrow> env \<Rightarrow> string \<Rightarrow> 'r \<Rightarrow> node_error option \<times> 'r" where
  "ApplyDropMember rl e nid r =
     apply_command rl e (zero_command\<lparr>cmd_Kind := CmdDropMember, cmd_ID := nid\<rparr>) r"

definition applyLock ::
  "'r raft_lib \<Rightarrow> env \<Rightarrow> command \<Rightarrow> 'r \<Rightarrow> (node_error + lock_result) \<times> 'r" where
  "applyLock rl e cmd r =
     (case rl_Apply rl e (encodeCommand cmd) r of
        (Inl err, r') \<Rightarrow> (Inl (RaftApply err), r')
      | (Inr resp, r') \<Rightarrow>
          (case resp of
             RespResult res \<Rightarrow>
               (case lr_Err res of
                  Some err \<Rightarrow> (Inl (LockRefused err), r')
                | None \<Rightarrow> (Inr res, r'))
           | _ \<Rightarrow> (Inl UnexpectedResult, r')))"

definition grant_command ::
  "command_kind \<Rightarrow> string \<Rightarrow> string \<Rightarrow> u64 \<Rightarrow> duration \<Rightarrow> gotime \<Rightarrow> command" where
  "grant_command kind name holder token ttl deadline =
     zero_command\<lparr>cmd_Kind := kind, cmd_ID := holder, cmd_Name := name, cmd_Token := token,
                   cmd_TTLMs := Milliseconds ttl, cmd_DeadlineUnixMs := to_UnixMilli deadline\<rparr>"

definition ApplyLockAcquire ::
  "'r raft_lib \<Rightarrow> env \<Rightarrow> string \<Rightarrow> string \<Rightarrow> duration \<Rightarrow> 'r \<Rightarrow> (node_error + u64 \<times> bool) \<times> 'r" where
  "ApplyLockAcquire rl e name holder ttl0 r =
     (let ttl = locks_ClampTTL ttl0 0; deadline = env_now e + ttl in
      case applyLock rl e (grant_command CmdLockAcquire name holder 0 ttl deadline) r of
        (Inl err, r') \<Rightarrow> (Inl err, r')
      | (Inr res, r') \<Rightarrow> (Inr (lr_Token res, lr_Acquired res), r'))"

definition ApplyLockRelease ::
  "'r raft_lib \<Rightarrow> env \<Rightarrow> string \<Rightarrow> string \<Rightarrow> u64 \<Rightarrow> 'r \<Rightarrow> node_error option \<times> 'r" where
  "ApplyLockRelease rl e name holder token r =
     (case applyLock rl e (zero_command\<lparr>cmd_Kind := CmdLockRelease, cmd_ID := holder,
                              cmd_Name := name, cmd_Token := token\<rparr>) r of
        (Inl err, r') \<Rightarrow> (Some err, r')
      | (Inr _, r') \<Rightarrow> (None, r'))"

definition ApplyLockRenew ::
  "'r raft_lib \<Rightarrow> env \<Rightarrow> string \<Rightarrow> string \<Rightarrow> u64 \<Rightarrow> duration \<Rightarrow> 'r \<Rightarrow> (node_error + gotime) \<times> 'r" where
  "ApplyLockRenew rl e name holder token ttl0 r =
     (let ttl = locks_ClampTTL ttl0 0; deadline = env_now e + ttl in
      case applyLock rl e (grant_command CmdLockRenew name holder token ttl deadline) r of
        (Inl err, r') \<Rightarrow> (Inl err, r')
      | (Inr _, r') \<Rightarrow> (Inr deadline, r'))"

definition ApplyLockExpire ::
  "'r raft_lib \<Rightarrow> env \<Rightarrow> string \<Rightarrow> u64 \<Rightarrow> 'r \<Rightarrow> node_error option \<times> 'r" where
  "ApplyLockExpire rl e name token r =
     (case applyLock rl e (zero_command\<lparr>cmd_Kind := CmdLockExpire, cmd_Name := name,
                              cmd_Token := token\<rparr>) r of
        (Inl err, r') \<Rightarrow> (Some err, r')
      | (Inr _, r') \<Rightarrow> (None, r'))"

definition ApplyLeaseGrant ::
  "'r raft_lib \<Rightarrow> env \<Rightarrow> string \<Rightarrow> string \<Rightarrow> duration \<Rightarrow> 'r \<Rightarrow> (node_error + u64 \<times> bool) \<times> 'r" where
  "ApplyLeaseGrant rl e name owner ttl0 r =
     (let ttl = leases_ClampTTL ttl0 0; deadline = env_now e + ttl in
      case applyLock rl e (grant_command CmdLeaseGrant name owner 0 ttl deadline) r of
        (Inl err, r') \<Rightarrow> (Inl err, r')
      | (Inr res, r') \<Rightarrow> (Inr (lr_Token res, lr_Acquired res), r'))"

definition ApplyLeaseRenew ::
  "'r raft_lib \<Rightarrow> env \<Rightarrow> string \<Rightarrow> string \<Rightarrow> u64 \<Rightarrow> duration \<Rightarrow> 'r \<Rightarrow> (node_error + gotime) \<times> 'r" where
  "ApplyLeaseRenew rl e name owner token ttl0 r =
     (let ttl = leases_ClampTTL ttl0 0; deadline = env_now e + ttl in
      case applyLock rl e (grant_command CmdLeaseRenew name owner token ttl deadline) r of
        (Inl err, r') \<Rightarrow> (Inl err, r')
      | (Inr _, r') \<Rightarrow> (Inr deadline, r'))"

definition ApplyLeaseRevoke ::
  "'r raft_lib \<Rightarrow> env \<Rightarrow> string \<Rightarrow> string \<Rightarrow> u64 \<Rightarrow> 'r \<Rightarrow> node_error option \<times> 'r" where
  "ApplyLeaseRevoke rl e name owner token r =
     (case applyLock rl e (zero_command\<lparr>cmd_Kind := CmdLeaseRevoke, cmd_ID := owner,
                              cmd_Name := name, cmd_Token := token\<rparr>) r of
        (Inl err, r') \<Rightarrow> (Some err, r')
      | (Inr _, r') \<Rightarrow> (None, r'))"

definition ApplyLeaseExpire ::
  "'r raft_lib \<Rightarrow> env \<Rightarrow> string \<Rightarrow> u64 \<Rightarrow> 'r \<Rightarrow> node_error option \<times> 'r" where
  "ApplyLeaseExpire rl e name token r =
     (case applyLock rl e (zero_command\<lparr>cmd_Kind := CmdLeaseExpire, cmd_Name := name,
                              cmd_Token := token\<rparr>) r of
        (Inl err, r') \<Rightarrow> (Some err, r')
      | (Inr _, r') \<Rightarrow> (None, r'))"

section \<open>Start and shutdown\<close>

record raft_config =
  cfg_Addr :: string
  cfg_Bootstrap :: bool
  cfg_HeartbeatTimeout :: duration
  cfg_ElectionTimeout :: duration
  cfg_LeaderLeaseTimeout :: duration
  cfg_Transport :: "string option"

record raft_timeouts =
  rt_Heartbeat :: duration
  rt_Election :: duration
  rt_LeaderLease :: duration

text \<open>The library's defaults are a parameter; a positive setting overrides.\<close>

definition raft_overrides :: "raft_config \<Rightarrow> raft_timeouts \<Rightarrow> raft_timeouts" where
  "raft_overrides cfg rc =
     \<lparr>rt_Heartbeat =
        (if cfg_HeartbeatTimeout cfg > 0 then cfg_HeartbeatTimeout cfg else rt_Heartbeat rc),
      rt_Election =
        (if cfg_ElectionTimeout cfg > 0 then cfg_ElectionTimeout cfg else rt_Election rc),
      rt_LeaderLease =
        (if cfg_LeaderLeaseTimeout cfg > 0 then cfg_LeaderLeaseTimeout cfg
         else rt_LeaderLease rc)\<rparr>"

text \<open>
  The calls New makes on the system and on the library, with their outcomes as parameters, and the
  calls as a trace.
\<close>

datatype bootstrap_result = BootOk | BootCant | BootErr err_text

record new_outcomes =
  no_mkdir :: "err_text option"
  no_resolve :: "err_text option"
  no_tcp :: "err_text option"
  no_bolt :: "err_text option"
  no_snap :: "err_text option"
  no_raft :: "err_text option"
  no_boot :: bootstrap_result

datatype new_call =
    CMkdir | CResolve | CTcp | COpenBolt | COpenSnap | CNewRaft
  | CBootstrap string string | CRaftShutdown | CCloseBolt

datatype new_error =
    ErrMkdir err_text | ErrResolve err_text | ErrTcp err_text | ErrBolt err_text
  | ErrSnap err_text | ErrRaft err_text | ErrBoot err_text

definition raftTransport :: "raft_config \<Rightarrow> new_outcomes \<Rightarrow> (new_error + string) \<times> new_call list" where
  "raftTransport cfg no =
     (case cfg_Transport cfg of
        Some localAddr \<Rightarrow> (Inr localAddr, [])
      | None \<Rightarrow>
          (case no_resolve no of
             Some err \<Rightarrow> (Inl (ErrResolve err), [CResolve])
           | None \<Rightarrow>
               (case no_tcp no of
                  Some err \<Rightarrow> (Inl (ErrTcp err), [CResolve, CTcp])
                | None \<Rightarrow> (Inr (cfg_Addr cfg), [CResolve, CTcp]))))"

definition node_New ::
  "raft_config \<Rightarrow> string \<Rightarrow> new_outcomes \<Rightarrow> new_error option \<times> new_call list" where
  "node_New cfg nodeID no =
     (case no_mkdir no of
        Some err \<Rightarrow> (Some (ErrMkdir err), [CMkdir])
      | None \<Rightarrow>
          (case raftTransport cfg no of
             (Inl err, cs) \<Rightarrow> (Some err, CMkdir # cs)
           | (Inr raftAddr, cs) \<Rightarrow>
               (case no_bolt no of
                  Some err \<Rightarrow> (Some (ErrBolt err), CMkdir # cs @ [COpenBolt])
                | None \<Rightarrow>
                    (case no_snap no of
                       Some err \<Rightarrow> (Some (ErrSnap err), CMkdir # cs @ [COpenBolt, COpenSnap])
                     | None \<Rightarrow>
                         (case no_raft no of
                            Some err \<Rightarrow>
                              (Some (ErrRaft err),
                               CMkdir # cs @ [COpenBolt, COpenSnap, CNewRaft, CCloseBolt])
                          | None \<Rightarrow>
                              if \<not> cfg_Bootstrap cfg
                              then (None, CMkdir # cs @ [COpenBolt, COpenSnap, CNewRaft])
                              else
                                (case no_boot no of
                                   BootErr err \<Rightarrow>
                                     (Some (ErrBoot err),
                                      CMkdir # cs @ [COpenBolt, COpenSnap, CNewRaft,
                                        CBootstrap nodeID raftAddr, CRaftShutdown, CCloseBolt])
                                 | _ \<Rightarrow>
                                     (None,
                                      CMkdir # cs @ [COpenBolt, COpenSnap, CNewRaft,
                                        CBootstrap nodeID raftAddr])))))))"

datatype shutdown_error = ErrRaftShutdown err_text | ErrStoreClose err_text
datatype shutdown_call = CCancel | CShutdown | CStoreClose

text \<open>The argument of the store is \<^term>\<open>None\<close> when the node has no store.\<close>

definition node_Shutdown ::
  "err_text option \<Rightarrow> err_text option option \<Rightarrow> shutdown_error option \<times> shutdown_call list" where
  "node_Shutdown raft_err store =
     (let first = map_option ErrRaftShutdown raft_err in
      case store of
        None \<Rightarrow> (first, [CCancel, CShutdown])
      | Some close_err \<Rightarrow>
          (case (close_err, first) of
             (Some err, None) \<Rightarrow> (Some (ErrStoreClose err), [CCancel, CShutdown, CStoreClose])
           | _ \<Rightarrow> (first, [CCancel, CShutdown, CStoreClose])))"

text \<open>
  The watchers: the values their callback is called with, for a sequence of channel events. The
  loop ends at the end of the node's context and when the leadership channel is closed.
\<close>

datatype 'v watch_event = WDone | WClosed | WValue 'v

fun WatchLeadership :: "bool watch_event list \<Rightarrow> bool list" where
  "WatchLeadership [] = []"
| "WatchLeadership (WDone # es) = []"
| "WatchLeadership (WClosed # es) = []"
| "WatchLeadership (WValue v # es) = v # WatchLeadership es"

text \<open>Observations that are no leader observation are \<^term>\<open>None\<close>; this channel is never closed.\<close>

fun WatchLeaderChange :: "string option watch_event list \<Rightarrow> string list" where
  "WatchLeaderChange [] = []"
| "WatchLeaderChange (WDone # es) = []"
| "WatchLeaderChange (WClosed # es) = WatchLeaderChange es"
| "WatchLeaderChange (WValue (Some nid) # es) = nid # WatchLeaderChange es"
| "WatchLeaderChange (WValue None # es) = WatchLeaderChange es"

section \<open>What a successful Apply means\<close>

text \<open>
  The log of entries that a node has applied is a ghost of the library state: \<open>lg r\<close> lists them, each
  with the clock and the Unicode tables it was applied with, and \<open>f0\<close> is the state machine before the
  first one. The documented behaviour of the library that the wrapper relies on: when the future of
  Apply succeeds, the log has grown by the entry, after others that were committed before it and
  before others that were committed after it, and the response is what the state machine returned
  for it. All nodes are built with the same Unicode tables.
\<close>

type_synonym raft_log = "(env \<times> log_entry) list"

definition raft_applies :: "'r raft_lib \<Rightarrow> fsm \<Rightarrow> ('r \<Rightarrow> raft_log) \<Rightarrow> bool" where
  "raft_applies rl f0 lg \<longleftrightarrow>
     (\<forall>e d r resp r'. rl_Apply rl e d r = (Inr resp, r') \<longrightarrow>
        (\<exists>pre e' post. same_tables e' e \<and>
           lg r' = lg r @ pre @ (e', LogCommand (Some d)) # post \<and>
           resp = fst (fsm_Apply e' (LogCommand (Some d)) (apply_log (lg r @ pre) f0))))"

text \<open>
  Between two points of the log the state machine goes through the states after each entry:
  \<open>log_reaches f0 l l' P\<close> says that \<open>l'\<close> continues \<open>l\<close> and that one of these states satisfies \<open>P\<close>.
\<close>

definition log_extends :: "raft_log \<Rightarrow> raft_log \<Rightarrow> bool" where
  "log_extends l l' \<longleftrightarrow> take (length l) l' = l"

definition log_reaches :: "fsm \<Rightarrow> raft_log \<Rightarrow> raft_log \<Rightarrow> (fsm \<Rightarrow> bool) \<Rightarrow> bool" where
  "log_reaches f0 l l' P \<longleftrightarrow>
     log_extends l l' \<and> list_ex (\<lambda>k. P (apply_log (take k l') f0)) [length l..<Suc (length l')]"

lemma log_extends_iff: "log_extends l l' \<longleftrightarrow> (\<exists>new. l' = l @ new)"
  unfolding log_extends_def by (metis append_eq_conv_conj)

lemma log_extends_refl [simp]: "log_extends l l"
  by (simp add: log_extends_def)

lemma log_extends_trans [trans]: "log_extends a b \<Longrightarrow> log_extends b c \<Longrightarrow> log_extends a c"
  unfolding log_extends_iff by auto

lemma log_reaches_iff:
  "log_reaches f0 l l' P \<longleftrightarrow> (\<exists>new post. l' = l @ new @ post \<and> P (apply_log (l @ new) f0))"
proof
  assume r: "log_reaches f0 l l' P"
  then obtain k where k: "length l \<le> k" "k \<le> length l'" "P (apply_log (take k l') f0)"
    by (auto simp: log_reaches_def list_ex_iff)
  from r obtain new where l': "l' = l @ new" by (auto simp: log_reaches_def log_extends_iff)
  then have "take k l' = l @ take (k - length l) new" using k(1) by simp
  with k(3) l' show "\<exists>new post. l' = l @ new @ post \<and> P (apply_log (l @ new) f0)"
    by (metis append_take_drop_id)
next
  assume "\<exists>new post. l' = l @ new @ post \<and> P (apply_log (l @ new) f0)"
  then obtain new post where n: "l' = l @ new @ post" "P (apply_log (l @ new) f0)" by blast
  then have "P (apply_log (take (length (l @ new)) l') f0)" by (simp add: append_assoc [symmetric] del: append_assoc)
  then show "log_reaches f0 l l' P"
    unfolding log_reaches_def log_extends_iff list_ex_iff
    by (intro conjI bexI [of _ "length (l @ new)"]) (use n(1) in auto)
qed

lemma log_reaches_widen:
  assumes "log_reaches f0 l l' P" and "log_extends k l" and "log_extends l' k'"
    and "\<And>f. P f \<Longrightarrow> Q f"
  shows "log_reaches f0 k k' Q"
proof -
  obtain new post where n: "l' = l @ new @ post" "P (apply_log (l @ new) f0)"
    using assms(1) unfolding log_reaches_iff by blast
  obtain a b where "l = k @ a" "k' = l' @ b" using assms(2,3) unfolding log_extends_iff by blast
  with n assms(4) show ?thesis unfolding log_reaches_iff
    by (intro exI [of _ "a @ new"] exI [of _ "post @ b"]) simp
qed

lemma raft_appliesD:
  assumes "raft_applies rl f0 lg" and "rl_Apply rl e (encodeCommand cmd) r = (Inr resp, r')"
    and "command_ok cmd"
    and "\<And>e' f. same_tables e' e \<Longrightarrow> resp = fst (fsm_switch e' cmd f) \<Longrightarrow>
      \<exists>l. f = apply_log (lg r @ l) f0 \<Longrightarrow> P (snd (snd (fsm_switch e' cmd f)))"
  shows "log_reaches f0 (lg r) (lg r') P"
proof -
  let ?d = "LogCommand (Some (encodeCommand cmd))"
  obtain pre e' post where h: "same_tables e' e"
    "resp = fst (fsm_Apply e' ?d (apply_log (lg r @ pre) f0))" "lg r' = lg r @ pre @ (e', ?d) # post"
    using assms(1,2) unfolding raft_applies_def by blast
  have sw: "fsm_Apply e' ?d f = fsm_switch e' cmd f" for f
    by (simp add: fsm_Apply_def decode_encode [OF assms(3)])
  have "P (apply_log (lg r @ pre @ [(e', ?d)]) f0)"
    using assms(4) [OF h(1), of "apply_log (lg r @ pre) f0"] h(2) by (simp add: sw) blast
  then show ?thesis unfolding log_reaches_iff
    by (intro exI [of _ "pre @ [(e', ?d)]"] exI [of _ post]) (simp add: h(3))
qed

lemma raft_applies_extends:
  assumes "raft_applies rl f0 lg" and "rl_Apply rl e d r = (Inr resp, r')"
  shows "log_extends (lg r) (lg r')"
  using assms unfolding raft_applies_def log_extends_iff by blast

lemma applyLock_Inr:
  assumes "applyLock rl e cmd r = (Inr res, r')"
  shows "rl_Apply rl e (encodeCommand cmd) r = (Inr (RespResult res), r') \<and> lr_Err res = None"
  using assms
  by (auto simp: applyLock_def split: prod.splits sum.splits fsm_response.splits option.splits)

text \<open>
  The times of a grant command: the deadline in the log is the leader's clock plus the TTL, cut to
  milliseconds, for clocks between 1970 and the year 292 million.
\<close>

lemma deadline_truncation:
  assumes "unix_epoch < dl - Millisecond" and "dl < 2 ^ 62 * Millisecond"
  shows "deadlineOf (grant_command kind n h k ttl dl) \<le> dl \<and>
    dl < deadlineOf (grant_command kind n h k ttl dl) + Millisecond"
proof -
  let ?ms = "(dl - unix_epoch) div 1000000"
  have pos: "0 < ?ms" using assms(1) by (simp add: Millisecond_def pos_imp_zdiv_pos_iff)
  have "dl - unix_epoch \<le> 2 ^ 62 * 1000000" using assms(2) by (simp add: Millisecond_def unix_epoch_def)
  from zdiv_mono1 [OF this, of 1000000] have "?ms \<le> 2 ^ 62" by simp
  with pos have "in_i64 ?ms" by (simp add: in_i64_def)
  then have "to_UnixMilli dl = ?ms" by (simp add: to_UnixMilli_def)
  with pos have "deadlineOf (grant_command kind n h k ttl dl) = unix_epoch + ?ms * 1000000"
    by (simp add: deadlineOf_def grant_command_def UnixMilli_def)
  moreover have "?ms * 1000000 \<le> dl - unix_epoch" "dl - unix_epoch < ?ms * 1000000 + 1000000"
    using div_mult_mod_eq [of "dl - unix_epoch" 1000000]
      pos_mod_bound [of 1000000 "dl - unix_epoch"] pos_mod_sign [of 1000000 "dl - unix_epoch"]
    by linarith+
  ultimately show ?thesis by (simp add: Millisecond_def)
qed

lemma ttl_truncation:
  assumes "Millisecond \<le> ttl" and "ttl \<le> 24 * Hour"
  shows "ttlOf (grant_command kind n h k ttl dl) \<le> ttl \<and>
    ttl < ttlOf (grant_command kind n h k ttl dl) + Millisecond \<and>
    Millisecond \<le> ttlOf (grant_command kind n h k ttl dl) \<and> in_i64 (Milliseconds ttl)"
proof -
  let ?ms = "ttl div 1000000"
  have ms: "Milliseconds ttl = ?ms" using assms(1)
    by (simp add: Milliseconds_nonneg Millisecond_def)
  have b: "1 \<le> ?ms" using assms(1) by (simp add: Millisecond_def pos_imp_zdiv_pos_iff int_one_le_iff_zero_less)
  have d: "?ms * 1000000 \<le> ttl" "ttl < ?ms * 1000000 + 1000000"
    using div_mult_mod_eq [of ttl 1000000] pos_mod_bound [of 1000000 ttl]
      pos_mod_sign [of 1000000 ttl] by linarith+
  have "?ms * 1000000 \<le> 24 * Hour" using d(1) assms(2) by linarith
  then have i: "in_i64 (?ms * 1000000)" "in_i64 ?ms" using b by (simp_all add: in_i64_def Hour_def)
  then have "ttlOf (grant_command kind n h k ttl dl) = ?ms * 1000000"
    using b by (simp add: ttlOf_def grant_command_def ms Millisecond_def)
  with b d i ms show ?thesis by (simp add: Millisecond_def)
qed

lemma ClampTTL_range:
  "Millisecond \<le> locks_ClampTTL a b" "locks_ClampTTL a b \<le> 24 * Hour"
  "leases_ClampTTL a b = locks_ClampTTL a b"
  by (auto simp: locks_ClampTTL_def leases_ClampTTL_def Let_def locks_MinTTL_def locks_MaxTTL_def
      leases_MinTTL_def leases_MaxTTL_def locks_DefaultTTL_def leases_DefaultTTL_def
      Millisecond_def Hour_def Second_def)

lemma valid_utf8_kinds [simp]:
  "valid_utf8 CmdLockAcquire" "valid_utf8 CmdLockRenew" "valid_utf8 CmdLockRelease"
  "valid_utf8 CmdLockExpire" "valid_utf8 CmdLeaseGrant" "valid_utf8 CmdLeaseRenew"
  "valid_utf8 CmdLeaseRevoke" "valid_utf8 CmdLeaseExpire" "valid_utf8 CmdAddMember"
  "valid_utf8 CmdRemoveMember" "valid_utf8 CmdDropMember" "valid_utf8 []"
  by (simp_all add: kind_defs valid_utf8_ascii byte_def)

lemma grant_command_ok:
  assumes "valid_utf8 n" and "valid_utf8 h" and "valid_utf8 kind"
  shows "command_ok (grant_command kind n h k (locks_ClampTTL a b) dl)"
  using assms ttl_truncation [OF ClampTTL_range(1,2), of kind n h k a b dl]
  by (simp add: command_ok_def grant_command_def zero_command_def to_UnixMilli_def)

lemma grant_command_sel [simp]:
  "cmd_Kind (grant_command kind n h k ttl dl) = kind" "cmd_ID (grant_command kind n h k ttl dl) = h"
  "cmd_Name (grant_command kind n h k ttl dl) = n" "cmd_Token (grant_command kind n h k ttl dl) = k"
  by (simp_all add: grant_command_def)

lemma lock_acquire_switch:
  assumes "cmd_Kind cmd = CmdLockAcquire"
    and "fst (fsm_switch e cmd f) = RespResult res" and "lr_Err res = None" and "lr_Acquired res"
  obtains t rec where "fsm_locks (snd (snd (fsm_switch e cmd f))) = Some t"
    and "locks_Get (cmd_Name cmd) t = Some rec" and "lk_holder rec = cmd_ID cmd"
    and "lk_token rec = lr_Token res" and "lk_deadline rec = deadlineOf cmd"
    and "lk_ttl rec = ttlOf cmd"
proof -
  have sw: "fsm_switch e cmd f = apply_lock e cmd f"
    using assms(1) by (simp add: fsm_switch_def member_kind_def lock_kind_def)
  obtain t0 where t0: "fsm_locks f = Some t0"
    using assms(2-4) by (cases "fsm_locks f") (auto simp: sw apply_lock_def lock_err_def)
  let ?a = "locks_Acquire e (cmd_Name cmd) (cmd_ID cmd) (deadlineOf cmd) (ttlOf cmd) t0"
  obtain tok ok where a: "fst ?a = Inr (tok, ok)"
    using assms by (cases "fst ?a") (auto simp: sw apply_lock_def t0 split_beta lock_err_def)
  have res: "res = lock_ok ok tok (cmd_DeadlineUnixMs cmd)"
    "fsm_locks (snd (snd (fsm_switch e cmd f))) = Some (snd ?a)"
    using assms(1,2) a by (simp_all add: sw apply_lock_def t0 split_beta)
  have "ok" using assms(4) res(1) by (simp add: lock_ok_def)
  with a have "\<exists>rec. locks_Get (cmd_Name cmd) (snd ?a) = Some rec \<and> lk_holder rec = cmd_ID cmd \<and>
      lk_token rec = tok \<and> lk_deadline rec = deadlineOf cmd \<and> lk_ttl rec = ttlOf cmd"
    by (cases "locks_ValidName e (cmd_Name cmd)"; cases "fmlookup (tab_locks t0) (cmd_Name cmd)")
      (auto simp: locks_Acquire_def locks_Get_def Let_def split: if_splits)
  with that res show thesis by (auto simp: lock_ok_def)
qed

section \<open>Properties\<close>

text \<open>
  What a successful lock acquisition means: when ApplyLockAcquire reports the lock as acquired,
  then at some point of the committed log the local lock table held the name for exactly that
  holder with exactly the returned token, with a deadline that lies within the millisecond before
  the caller's clock plus the clamped TTL, and with a TTL between one millisecond and 24 hours.
\<close>

lemma ApplyLockAcquire_sound:
  assumes "raft_applies rl f0 lg" and "valid_utf8 name" and "valid_utf8 holder"
    and "unix_epoch < env_now e" and "env_now e + 24 * Hour < 2 ^ 62 * Millisecond"
    and "ApplyLockAcquire rl e name holder ttl r = (Inr (tok, True), r')"
  shows "log_reaches f0 (lg r) (lg r') (\<lambda>f. \<exists>t rec. fsm_locks f = Some t \<and>
    locks_Get name t = Some rec \<and> lk_holder rec = holder \<and> lk_token rec = tok \<and>
    lk_deadline rec \<le> env_now e + locks_ClampTTL ttl 0 \<and>
    env_now e + locks_ClampTTL ttl 0 < lk_deadline rec + Millisecond \<and>
    Millisecond \<le> lk_ttl rec \<and> lk_ttl rec \<le> 24 * Hour)"
proof -
  let ?ttl = "locks_ClampTTL ttl 0"
  let ?cmd = "grant_command CmdLockAcquire name holder 0 ?ttl (env_now e + ?ttl)"
  note clamp = ClampTTL_range(1,2) [of ttl 0]
  obtain res where app: "applyLock rl e ?cmd r = (Inr res, r')"
    and res: "lr_Token res = tok" "lr_Acquired res"
    using assms(6) by (auto simp: ApplyLockAcquire_def Let_def split: prod.splits sum.splits)
  note inr = applyLock_Inr [OF app]
  have dl: "deadlineOf ?cmd \<le> env_now e + ?ttl \<and> env_now e + ?ttl < deadlineOf ?cmd + Millisecond"
    by (rule deadline_truncation) (use assms(4,5) clamp in linarith)+
  have tt: "Millisecond \<le> ttlOf ?cmd" "ttlOf ?cmd \<le> 24 * Hour"
    using ttl_truncation [OF clamp] clamp(2) by (blast intro: order_trans)+
  show ?thesis
  proof (rule raft_appliesD [OF assms(1) conjunct1 [OF inr]
        grant_command_ok [OF assms(2,3) valid_utf8_kinds(1)]])
    fix e' f
    assume resp: "RespResult res = fst (fsm_switch e' ?cmd f)"
    obtain t rec where "fsm_locks (snd (snd (fsm_switch e' ?cmd f))) = Some t"
      "locks_Get name t = Some rec" "lk_holder rec = holder" "lk_token rec = tok"
      "lk_deadline rec = deadlineOf ?cmd" "lk_ttl rec = ttlOf ?cmd"
      by (rule lock_acquire_switch [of ?cmd e' f res]) (use resp inr res in simp_all)
    with dl tt show "\<exists>t rec. fsm_locks (snd (snd (fsm_switch e' ?cmd f))) = Some t \<and>
        locks_Get name t = Some rec \<and> lk_holder rec = holder \<and> lk_token rec = tok \<and>
        lk_deadline rec \<le> env_now e + ?ttl \<and> env_now e + ?ttl < lk_deadline rec + Millisecond \<and>
        Millisecond \<le> lk_ttl rec \<and> lk_ttl rec \<le> 24 * Hour"
      by (intro exI [of _ t] exI [of _ rec]) simp
  qed
qed

text \<open>
  C40. Error paths of node start: whenever New fails after it has opened the Raft store, it has
  closed the store again, except when the snapshot store cannot be opened; and it bootstraps only
  when asked to, with itself as the only server.
\<close>

theorem node_New_errors:
  "(case node_New cfg nodeID no of
      (err, calls) \<Rightarrow>
        (err = None \<longleftrightarrow> CNewRaft \<in> set calls \<and> CCloseBolt \<notin> set calls) \<and>
        (CCloseBolt \<in> set calls \<longleftrightarrow>
           err \<noteq> None \<and> COpenBolt \<in> set calls \<and>
           (\<forall>x. err \<noteq> Some (ErrBolt x)) \<and> (\<forall>x. err \<noteq> Some (ErrSnap x))) \<and>
        (\<forall>i a. CBootstrap i a \<notin> set calls \<or>
           cfg_Bootstrap cfg \<and> i = nodeID \<and> fst (raftTransport cfg no) = Inr a))"
  by (auto simp: node_New_def raftTransport_def
      split: option.splits bootstrap_result.splits sum.splits prod.splits)

section \<open>Witnesses\<close>

text \<open>
  A library that commits every entry at once, as a cluster with one server does: its state is the
  log, and the state machine is the log applied to the start.
\<close>

definition solo_fsm :: "engine \<Rightarrow> raft_log \<Rightarrow> fsm" where
  "solo_fsm en l = apply_log l (fsm_start en)"

definition solo_raft :: "engine \<Rightarrow> raft_log raft_lib" where
  "solo_raft en =
     \<lparr>rl_Apply = (\<lambda>e d l. (Inr (fst (fsm_Apply e (LogCommand (Some d)) (solo_fsm en l))),
                          l @ [(e, LogCommand (Some d))])),
      rl_AddVoter = (\<lambda>nid addr l. (None, l)), rl_AddNonvoter = (\<lambda>nid addr l. (None, l)),
      rl_RemoveServer = (\<lambda>nid l. (None, l)),
      rl_GetConfiguration = (\<lambda>l. Inr [\<lparr>srv_ID = ''a'', srv_Address = ''a:7946'', srv_Suffrage = Voter\<rparr>]),
      rl_IsLeader = (\<lambda>l. True), rl_LeaderWithID = (\<lambda>l. (''a:7946'', ''a''))\<rparr>"

lemma solo_applies: "raft_applies (solo_raft en) (fsm_start en) (\<lambda>l. l)"
  unfolding raft_applies_def
proof (intro allI impI)
  fix e d and r r' :: raft_log and resp
  assume "rl_Apply (solo_raft en) e d r = (Inr resp, r')"
  then have "r' = r @ [] @ (e, LogCommand (Some d)) # []"
    "resp = fst (fsm_Apply e (LogCommand (Some d)) (apply_log (r @ []) (fsm_start en)))"
    by (simp_all add: solo_raft_def solo_fsm_def)
  then show "\<exists>pre e' post. same_tables e' e \<and> r' = r @ pre @ (e', LogCommand (Some d)) # post \<and>
      resp = fst (fsm_Apply e' (LogCommand (Some d)) (apply_log (r @ pre) (fsm_start en)))"
    using same_tables_refl by blast
qed

theorem node_New_errors_witness:
  "CCloseBolt \<notin> set (snd (node_New
     \<lparr>cfg_Addr = ''127.0.0.1:7946'', cfg_Bootstrap = True, cfg_HeartbeatTimeout = 0,
      cfg_ElectionTimeout = 0, cfg_LeaderLeaseTimeout = 0, cfg_Transport = None\<rparr> ''a''
     \<lparr>no_mkdir = None, no_resolve = None, no_tcp = None, no_bolt = None, no_snap = Some ''full'',
      no_raft = None, no_boot = BootOk\<rparr>))"
proof -
  let ?cfg = "\<lparr>cfg_Addr = ''127.0.0.1:7946'', cfg_Bootstrap = True, cfg_HeartbeatTimeout = 0,
      cfg_ElectionTimeout = 0, cfg_LeaderLeaseTimeout = 0, cfg_Transport = None\<rparr>"
  let ?no = "\<lparr>no_mkdir = None, no_resolve = None, no_tcp = None, no_bolt = None,
      no_snap = Some ''full'', no_raft = None, no_boot = BootOk\<rparr>"
  have "fst (node_New ?cfg ''a'' ?no) = Some (ErrSnap ''full'')"
    by (simp add: node_New_def raftTransport_def)
  with node_New_errors [of ?cfg "''a''" ?no] show ?thesis by (simp add: split_beta)
qed

end
