(* ===== verification/Watch_Service.thy ===== *)
theory Watch_Service
  imports Eventbus Membership
begin

text \<open>
  The Watch stream (internal/grpcserver/watch.go): the request filter, the snapshot that opens a
  stream, and the loop that forwards live events. The gRPC stream is a record of what was sent and
  of the send that fails, if any. The loop runs over a schedule: each element is a choice of the
  select statement or a step that another goroutine takes on the bus in between, single steps of
  Publish included. Subscribe and the deferred Unsubscribe happen when they get the write lock; the
  handler does nothing while it waits for it. Lemmas: what a new watcher is told, which events are
  forwarded, in which order, and when a gap is announced.
\<close>

record watch_request =
  wr_event_types :: "string list"
  wr_topics :: "string list"
  wr_last_seq :: u64

record watch_response =
  ws_type :: string
  ws_source :: string
  ws_payload :: string
  ws_timestamp :: int
  ws_seq :: u64

record stream =
  st_sent :: "watch_response list"
  st_fail :: "nat option"

datatype watch_exit = ExitDone | ExitInvalid topic_error | ExitSend

definition Send :: "watch_response \<Rightarrow> stream \<Rightarrow> bool \<times> stream" where
  "Send msg st =
     (if st_fail st = Some (length (st_sent st)) then (False, st)
      else (True, st\<lparr>st_sent := st_sent st @ [msg]\<rparr>))"

section \<open>Filters\<close>

definition isProtocolEvent :: "string \<Rightarrow> bool" where
  "isProtocolEvent t \<longleftrightarrow> t = TypeWatchSync \<or> t = TypeWatchGap"

definition matchesType :: "string list \<Rightarrow> string \<Rightarrow> bool" where
  "matchesType filt eventType = (if filt = [] then True else list_ex (\<lambda>f. f = eventType) filt)"

definition topicListed :: "string list \<Rightarrow> string \<Rightarrow> bool" where
  "topicListed topics topic = list_ex (\<lambda>t. NormalizeTopic t = topic) topics"

definition matchesWatch :: "watch_request \<Rightarrow> string \<Rightarrow> bool" where
  "matchesWatch req eventType =
     (if isProtocolEvent eventType then True
      else if wr_topics req \<noteq> [] \<and>
        (case TopicFromType eventType of
           None \<Rightarrow> True | Some topic \<Rightarrow> \<not> topicListed (wr_topics req) topic)
      then False
      else matchesType (wr_event_types req) eventType)"

fun validateTopics :: "env \<Rightarrow> string list \<Rightarrow> topic_error option" where
  "validateTopics e [] = None"
| "validateTopics e (t # ts) =
     (case ValidTopic e t of Some err \<Rightarrow> Some err | None \<Rightarrow> validateTopics e ts)"

definition validateWatchRequest :: "env \<Rightarrow> watch_request \<Rightarrow> topic_error option" where
  "validateWatchRequest e req = validateTopics e (wr_topics req)"

section \<open>Messages\<close>

definition eventToProto :: "event \<Rightarrow> watch_response" where
  "eventToProto ev =
     \<lparr>ws_type = ev_type ev, ws_source = ev_source ev, ws_payload = ev_payload ev,
      ws_timestamp = to_UnixMilli (ev_timestamp ev), ws_seq = ev_seq ev\<rparr>"

definition syncMsg :: "env \<Rightarrow> u64 \<Rightarrow> watch_response" where
  "syncMsg e seq =
     \<lparr>ws_type = TypeWatchSync, ws_source = '''', ws_payload = '''',
      ws_timestamp = to_UnixMilli (env_now e), ws_seq = seq\<rparr>"

definition sendSync :: "env \<Rightarrow> u64 \<Rightarrow> stream \<Rightarrow> bool \<times> stream" where
  "sendSync e seq st = Send (syncMsg e seq) st"

definition gapMsg :: "env \<Rightarrow> u64 \<Rightarrow> u64 \<Rightarrow> watch_response" where
  "gapMsg e from to =
     \<lparr>ws_type = TypeWatchGap, ws_source = '''',
      ws_payload = json_text (JObj [(''from'', JInt (uint from)), (''to'', JInt (uint to))]),
      ws_timestamp = to_UnixMilli (env_now e), ws_seq = 0\<rparr>"

definition sendGap :: "env \<Rightarrow> u64 \<Rightarrow> u64 \<Rightarrow> stream \<Rightarrow> bool \<times> stream" where
  "sendGap e from to st = Send (gapMsg e from to) st"

definition snapshotMsg :: "env \<Rightarrow> member \<Rightarrow> watch_response option" where
  "snapshotMsg e m =
     (let evType =
        (if NormalizeStatus (mb_status m) = StatusDead then Some TypeMemberDead
         else if mb_status m \<noteq> StatusAlive then None
         else Some TypeMemberJoin)
      in map_option (\<lambda>ty.
           \<lparr>ws_type = ty, ws_source = mb_id m,
            ws_payload = json_text
              (JObj [(''address'', JStr (mb_address m)), (''snapshot'', JBool True)]),
            ws_timestamp = to_UnixMilli (env_now e), ws_seq = 0\<rparr>) evType)"

fun sendMembers :: "env \<Rightarrow> watch_request \<Rightarrow> member list \<Rightarrow> stream \<Rightarrow> bool \<times> stream" where
  "sendMembers e req [] st = (True, st)"
| "sendMembers e req (m # ms) st =
     (case snapshotMsg e m of
        None \<Rightarrow> sendMembers e req ms st
      | Some msg \<Rightarrow>
          if \<not> matchesWatch req (ws_type msg) then sendMembers e req ms st
          else (case Send msg st of
                  (False, st') \<Rightarrow> (False, st')
                | (True, st') \<Rightarrow> sendMembers e req ms st'))"

definition leaderMsg :: "env \<Rightarrow> string \<Rightarrow> watch_response" where
  "leaderMsg e leaderID =
     \<lparr>ws_type = TypeLeaderChanged, ws_source = leaderID, ws_payload = '''',
      ws_timestamp = to_UnixMilli (env_now e), ws_seq = 0\<rparr>"

definition sendSnapshot :: "env \<Rightarrow> watch_request \<Rightarrow> engine \<Rightarrow> stream \<Rightarrow> bool \<times> stream" where
  "sendSnapshot e req state st =
     (case sendMembers e req (Members state) st of
        (False, st') \<Rightarrow> (False, st')
      | (True, st') \<Rightarrow>
          if LeaderID state \<noteq> '''' \<and> matchesWatch req TypeLeaderChanged
          then Send (leaderMsg e (LeaderID state)) st'
          else (True, st'))"

section \<open>The stream\<close>

text \<open>
  Opening the stream: the subscription, the operations \<open>mid\<close> of other goroutines between it and the
  reading of the high-water mark, the snapshot, the sync message and the gap for a returning
  client. The result is the exit or the subscription with its stream and the bus.
\<close>

definition watch_open ::
  "env \<Rightarrow> watch_request \<Rightarrow> (env \<times> bus_op) list \<Rightarrow> engine \<Rightarrow> stream \<Rightarrow> bus \<Rightarrow>
   (watch_exit + u64) \<times> stream \<times> bus" where
  "watch_open e req mid state st b =
     (case validateWatchRequest e req of
        Some err \<Rightarrow> (Inl (ExitInvalid err), st, b)
      | None \<Rightarrow>
          (case Subscribe 64 b of (sid, b1) \<Rightarrow>
             let b2 = bus_run mid b1;
                 fromSeq = LastSeq b2;
                 abort = (\<lambda>st'. (Inl ExitSend, st', Unsubscribe sid b2))
             in case sendSnapshot e req state st of
                  (False, st1) \<Rightarrow> abort st1
                | (True, st1) \<Rightarrow>
                    (case sendSync e fromSeq st1 of
                       (False, st2) \<Rightarrow> abort st2
                     | (True, st2) \<Rightarrow>
                         if wr_last_seq req > 0 \<and> fromSeq > wr_last_seq req
                         then (case sendGap e (wr_last_seq req + 1) fromSeq st2 of
                                 (False, st3) \<Rightarrow> abort st3
                               | (True, st3) \<Rightarrow> (Inr sid, st3, b2))
                         else (Inr sid, st2, b2))))"

datatype watch_wake =
    WakeCtx
  | WakeSubDone
  | WakeRecv env "(env \<times> bus_op) list"
  | WakeOther env bus_op

text \<open>
  A receive comes with the steps that other goroutines take between it and the reading of the drop
  flag. The body of the receive case, with the exit when the handler returns:
\<close>

definition watch_forward ::
  "env \<Rightarrow> watch_request \<Rightarrow> u64 \<Rightarrow> event \<Rightarrow> stream \<times> bus \<times> u64 \<Rightarrow>
   watch_exit option \<times> stream \<times> bus \<times> u64" where
  "watch_forward e req sid ev s =
     (case s of (st, b, lastLive) \<Rightarrow>
        if \<not> matchesWatch req (ev_type ev) then (None, st, b, lastLive)
        else case TakeDropped sid b of (dropped, b1) \<Rightarrow>
          let from = (if lastLive > 0 then lastLive + 1 else 1);
              to = ev_seq ev - 1;
              gap = (if dropped \<and> ev_seq ev > 0 \<and> from \<le> to then sendGap e from to st
                     else (True, st))
          in case gap of
               (False, st1) \<Rightarrow> (Some ExitSend, st1, b1, lastLive)
             | (True, st1) \<Rightarrow>
                 (case Send (eventToProto ev) st1 of
                    (False, st2) \<Rightarrow> (Some ExitSend, st2, b1, lastLive)
                  | (True, st2) \<Rightarrow> (None, st2, b1, ev_seq ev)))"

fun watch_loop ::
  "watch_request \<Rightarrow> u64 \<Rightarrow> watch_wake list \<Rightarrow> stream \<times> bus \<times> u64 \<Rightarrow>
   watch_exit option \<times> stream \<times> bus \<times> u64" where
  "watch_loop req sid [] s = (None, s)"
| "watch_loop req sid (WakeCtx # ws) s =
     (case s of (st, b, l) \<Rightarrow> (Some ExitDone, st, Unsubscribe sid b, l))"
| "watch_loop req sid (WakeSubDone # ws) s =
     (case s of (st, b, l) \<Rightarrow>
        if (case fmlookup (bus_subs b) sid of Some x \<Rightarrow> sub_done x | None \<Rightarrow> True)
        then (Some ExitDone, st, Unsubscribe sid b, l)
        else watch_loop req sid ws s)"
| "watch_loop req sid (WakeRecv e mid # ws) s =
     (case s of (st, b, l) \<Rightarrow>
        (case Recv sid b of
           (None, b1) \<Rightarrow> watch_loop req sid ws (st, b1, l)
         | (Some ev, b1) \<Rightarrow>
             (case watch_forward e req sid ev (st, bus_run mid b1, l) of
                (Some ex, st2, b2, l2) \<Rightarrow> (Some ex, st2, Unsubscribe sid b2, l2)
              | (None, st2, b2, l2) \<Rightarrow> watch_loop req sid ws (st2, b2, l2))))"
| "watch_loop req sid (WakeOther e op # ws) s =
     (case s of (st, b, l) \<Rightarrow> watch_loop req sid ws (st, bus_step e op b, l))"

definition Watch ::
  "env \<Rightarrow> watch_request \<Rightarrow> (env \<times> bus_op) list \<Rightarrow> watch_wake list \<Rightarrow> engine \<Rightarrow> stream \<Rightarrow> bus \<Rightarrow>
   watch_exit option \<times> stream \<times> bus" where
  "Watch e req mid ws state st b =
     (case watch_open e req mid state st b of
        (Inl ex, st1, b1) \<Rightarrow> (Some ex, st1, b1)
      | (Inr sid, st1, b1) \<Rightarrow>
          (case watch_loop req sid ws (st1, b1, 0) of (ex, st2, b2, _) \<Rightarrow> (ex, st2, b2)))"

section \<open>Lemmas\<close>

lemma Send_ok [simp]: "st_fail st = None \<Longrightarrow> Send msg st = (True, st\<lparr>st_sent := st_sent st @ [msg]\<rparr>)"
  by (simp add: Send_def)

lemma Send_sent: "st_sent (snd (Send msg st)) = st_sent st @ (if fst (Send msg st) then [msg] else [])"
  by (simp add: Send_def)

lemma matchesWatch_protocol [simp]: "matchesWatch req TypeWatchGap" "matchesWatch req TypeWatchSync"
  by (simp_all add: matchesWatch_def isProtocolEvent_def)

lemma matchesWatch_all: "wr_topics req = [] \<Longrightarrow> wr_event_types req = [] \<Longrightarrow> matchesWatch req ty"
  by (simp add: matchesWatch_def matchesType_def)

text \<open>The messages of the members that pass the filter.\<close>

definition snapshotMsgs :: "env \<Rightarrow> watch_request \<Rightarrow> member list \<Rightarrow> watch_response list" where
  "snapshotMsgs e req ms =
     filter (\<lambda>msg. matchesWatch req (ws_type msg)) (List.map_filter (snapshotMsg e) ms)"

lemma sendMembers_ok:
  "st_fail st = None \<Longrightarrow>
     sendMembers e req ms st = (True, st\<lparr>st_sent := st_sent st @ snapshotMsgs e req ms\<rparr>)"
proof (induction ms arbitrary: st)
  case (Cons m ms)
  show ?case
  proof (cases "snapshotMsg e m")
    case None
    then show ?thesis using Cons by (simp add: snapshotMsgs_def map_filter_simps)
  next
    case (Some msg)
    then show ?thesis
      using Cons.prems Cons.IH [of st] Cons.IH [of "st\<lparr>st_sent := st_sent st @ [msg]\<rparr>"]
      by (simp add: snapshotMsgs_def map_filter_simps)
  qed
qed (simp add: snapshotMsgs_def map_filter_simps)

lemma gapMsg_sel [simp]: "ws_type (gapMsg e a b) = TypeWatchGap" "ws_seq (gapMsg e a b) = 0"
  by (simp_all add: gapMsg_def)

lemma eventToProto_sel [simp]:
  "ws_type (eventToProto ev) = ev_type ev" "ws_seq (eventToProto ev) = ev_seq ev"
  by (simp_all add: eventToProto_def)

text \<open>The gap notice before a live message.\<close>

definition gapMsgs :: "env \<Rightarrow> bool \<Rightarrow> u64 \<Rightarrow> event \<Rightarrow> watch_response list" where
  "gapMsgs e dropped l ev =
     (let from = (if l > 0 then l + 1 else 1); to = ev_seq ev - 1 in
      if dropped \<and> ev_seq ev > 0 \<and> from \<le> to then [gapMsg e from to] else [])"

lemma watch_forward_ok:
  assumes "st_fail st = None"
  shows "watch_forward e req sid ev (st, b, l) =
    (if matchesWatch req (ev_type ev)
     then (None,
       st\<lparr>st_sent := st_sent st @ gapMsgs e (fst (TakeDropped sid b)) l ev @ [eventToProto ev]\<rparr>,
       snd (TakeDropped sid b), ev_seq ev)
     else (None, st, b, l))"
  using assms by (simp add: watch_forward_def gapMsgs_def sendGap_def Let_def split_beta)

text \<open>
  The handler as a client of the bus: the steps of the whole run in their order, its own receives
  and flag readings among those of the others.
\<close>

fun watch_ops ::
  "watch_request \<Rightarrow> u64 \<Rightarrow> watch_wake list \<Rightarrow> stream \<times> bus \<times> u64 \<Rightarrow> (env \<times> bus_op) list" where
  "watch_ops req sid [] s = []"
| "watch_ops req sid (WakeCtx # ws) s = []"
| "watch_ops req sid (WakeSubDone # ws) s =
     (case s of (st, b, l) \<Rightarrow>
        if (case fmlookup (bus_subs b) sid of Some x \<Rightarrow> sub_done x | None \<Rightarrow> True) then []
        else watch_ops req sid ws s)"
| "watch_ops req sid (WakeRecv e mid # ws) s =
     (case s of (st, b, l) \<Rightarrow>
        (case Recv sid b of
           (None, b1) \<Rightarrow> watch_ops req sid ws (st, b1, l)
         | (Some ev, b1) \<Rightarrow>
             (e, BRecv sid) # mid @
             (if matchesWatch req (ev_type ev) then [(e, BTakeDropped sid)] else []) @
             (case watch_forward e req sid ev (st, bus_run mid b1, l) of
                (Some ex, st2, b2, l2) \<Rightarrow> []
              | (None, st2, b2, l2) \<Rightarrow> watch_ops req sid ws (st2, b2, l2))))"
| "watch_ops req sid (WakeOther e op # ws) s =
     (case s of (st, b, l) \<Rightarrow> (e, op) # watch_ops req sid ws (st, bus_step e op b, l))"

text \<open>The steps of the other goroutines; none of them receives on the handler's own channel.\<close>

fun wake_others :: "watch_wake \<Rightarrow> (env \<times> bus_op) list" where
  "wake_others (WakeRecv e mid) = mid"
| "wake_others (WakeOther e op) = [(e, op)]"
| "wake_others _ = []"

definition private_to :: "u64 \<Rightarrow> (env \<times> bus_op) list \<Rightarrow> bool" where
  "private_to sid ops = list_all (\<lambda>(e, op). op \<noteq> BRecv sid) ops"

lemma private_to_append [simp]: "private_to sid (xs @ ys) \<longleftrightarrow> private_to sid xs \<and> private_to sid ys"
  by (simp add: private_to_def)

lemma received_private: "private_to sid ops \<Longrightarrow> sub_received sid ops b = []"
  by (induction sid ops b rule: sub_received.induct) (auto simp: private_to_def recv_by_def)

text \<open>The messages of a run: the events that pass the filter, with gap notices between them.\<close>

definition forwards :: "watch_response list \<Rightarrow> event list \<Rightarrow> bool" where
  "forwards live evs \<longleftrightarrow>
     filter (\<lambda>m. 0 < ws_seq m) live = map eventToProto (filter (\<lambda>ev. 0 < ev_seq ev) evs) \<and>
     (\<forall>m \<in> set live. ws_seq m = 0 \<longrightarrow> (\<exists>e from to. m = gapMsg e from to \<and> from \<le> to) \<or>
       m \<in> eventToProto ` set evs)"

lemma forwards_Nil [simp]: "forwards [] []"
  by (simp add: forwards_def)

lemma forwards_append: "forwards xs es \<Longrightarrow> forwards ys fs \<Longrightarrow> forwards (xs @ ys) (es @ fs)"
  by (auto simp: forwards_def)

lemma forwards_one: "forwards (gapMsgs e d l ev @ [eventToProto ev]) [ev]"
  by (auto simp: forwards_def gapMsgs_def Let_def word_gt_0)

lemma watch_loop_ops:
  assumes "st_fail st = None" and "private_to sid (concat (map wake_others ws))"
    and "watch_loop req sid ws (st, b, l) = (ex, st', b', l')"
  shows "\<exists>live. st' = st\<lparr>st_sent := st_sent st @ live\<rparr> \<and>
    forwards live (filter (\<lambda>ev. matchesWatch req (ev_type ev))
      (sub_received sid (watch_ops req sid ws (st, b, l)) b)) \<and>
    (ex = None \<and> b' = bus_run (watch_ops req sid ws (st, b, l)) b \<or>
     ex = Some ExitDone \<and> b' = Unsubscribe sid (bus_run (watch_ops req sid ws (st, b, l)) b))"
  using assms
proof (induction ws arbitrary: st b l)
  case Nil
  then show ?case by (intro exI [of _ "[]"]) simp
next
  case (Cons w ws)
  have priv: "private_to sid (concat (map wake_others ws))" using Cons.prems(2) by simp
  show ?case
  proof (cases w)
    case WakeCtx
    with Cons.prems(3) show ?thesis by (intro exI [of _ "[]"]) auto
  next
    case WakeSubDone
    show ?thesis
    proof (cases "case fmlookup (bus_subs b) sid of Some x \<Rightarrow> sub_done x | None \<Rightarrow> True")
      case True
      with WakeSubDone Cons.prems(3) show ?thesis by (intro exI [of _ "[]"]) auto
    next
      case False
      with WakeSubDone Cons.prems(3) Cons.IH [OF Cons.prems(1) priv] show ?thesis by simp
    qed
  next
    case (WakeOther e op)
    then have "recv_by sid op b = []" using Cons.prems(2) by (simp add: private_to_def recv_by_def)
    with WakeOther Cons.prems(3) Cons.IH [OF Cons.prems(1) priv] show ?thesis by simp
  next
    case (WakeRecv e mid)
    obtain oe b1 where r: "Recv sid b = (oe, b1)" by (cases "Recv sid b")
    show ?thesis
    proof (cases oe)
      case None
      then have "b1 = b" using r by (auto simp: Recv_def split: option.splits list.splits)
      with None r WakeRecv Cons.prems(3) Cons.IH [OF Cons.prems(1) priv] show ?thesis by simp
    next
      case (Some ev)
      let ?b = "bus_run mid b1" and ?m = "matchesWatch req (ev_type ev)"
      let ?msgs = "if ?m then gapMsgs e (fst (TakeDropped sid ?b)) l ev @ [eventToProto ev] else []"
      let ?st = "st\<lparr>st_sent := st_sent st @ ?msgs\<rparr>"
      let ?b2 = "if ?m then snd (TakeDropped sid ?b) else ?b" and ?l = "if ?m then ev_seq ev else l"
      have f: "watch_forward e req sid ev (st, ?b, l) = (None, ?st, ?b2, ?l)"
        using Cons.prems(1) by (simp add: watch_forward_ok)
      have ops: "watch_ops req sid (w # ws) (st, b, l) = (e, BRecv sid) # mid @
          (if ?m then [(e, BTakeDropped sid)] else []) @ watch_ops req sid ws (?st, ?b2, ?l)"
        by (simp add: WakeRecv r Some f)
      have got: "recv_by sid (BRecv sid) b = [ev]" "bus_step e (BRecv sid) b = b1"
        using r Some by (simp_all add: recv_by_def)
      have mid: "sub_received sid mid b1 = []"
        using Cons.prems(2) WakeRecv by (simp add: received_private)
      have "recv_by sid (BTakeDropped sid) ?b = []" by (simp add: recv_by_def)
      then have run: "sub_received sid (watch_ops req sid (w # ws) (st, b, l)) b =
          ev # sub_received sid (watch_ops req sid ws (?st, ?b2, ?l)) ?b2"
        "bus_run (watch_ops req sid (w # ws) (st, b, l)) b =
          bus_run (watch_ops req sid ws (?st, ?b2, ?l)) ?b2"
        using got mid by (auto simp: ops)
      have "watch_loop req sid ws (?st, ?b2, ?l) = (ex, st', b', l')"
        using Cons.prems(3) by (simp add: WakeRecv r Some f)
      from Cons.IH [OF _ priv this] Cons.prems(1) obtain live where
        "st' = ?st\<lparr>st_sent := st_sent ?st @ live\<rparr>"
        "forwards live (filter (\<lambda>ev. matchesWatch req (ev_type ev))
          (sub_received sid (watch_ops req sid ws (?st, ?b2, ?l)) ?b2))"
        "ex = None \<and> b' = bus_run (watch_ops req sid ws (?st, ?b2, ?l)) ?b2 \<or>
         ex = Some ExitDone \<and> b' = Unsubscribe sid (bus_run (watch_ops req sid ws (?st, ?b2, ?l)) ?b2)"
        by auto
      moreover have "forwards ?msgs (if ?m then [ev] else [])" by (simp add: forwards_one)
      ultimately show ?thesis
        unfolding run using forwards_append by (intro exI [of _ "?msgs @ live"]) fastforce
    qed
  qed
qed

lemma Subscribe_parts:
  assumes "bus_inv b" and "Subscribe n b = (sid, b0)"
  shows "bus_inv b0" "bus_seq b0 = bus_seq b" "bus_flight b0 = bus_flight b" "sub_chan sid b0 = []"
  using assms
  by (simp_all add: Subscribe_def subscribe_id_def subscribe_insert_def Let_def sub_chan_def bus_inv_def)
    (auto simp: sub_ok_def split: if_splits)

text \<open>The messages that open a stream.\<close>

definition openingMsgs :: "env \<Rightarrow> watch_request \<Rightarrow> engine \<Rightarrow> u64 \<Rightarrow> watch_response list" where
  "openingMsgs e req state from =
     snapshotMsgs e req (Members state) @
     (if LeaderID state \<noteq> '''' \<and> matchesWatch req TypeLeaderChanged
      then [leaderMsg e (LeaderID state)] else []) @
     [syncMsg e from] @
     (if 0 < wr_last_seq req \<and> wr_last_seq req < from
      then [gapMsg e (wr_last_seq req + 1) from] else [])"

lemma watch_open_ok:
  assumes "st_fail st = None" and "validateWatchRequest e req = None"
  shows "watch_open e req mid state st b =
    (Inr (fst (Subscribe 64 b)),
     st\<lparr>st_sent := st_sent st @
       openingMsgs e req state (LastSeq (bus_run mid (snd (Subscribe 64 b))))\<rparr>,
     bus_run mid (snd (Subscribe 64 b)))"
  using assms
  by (simp add: watch_open_def openingMsgs_def sendSnapshot_def sendMembers_ok sendSync_def
      sendGap_def Let_def split_beta)

section \<open>Properties\<close>

text \<open>
  C25. A watch stream, whatever steps other goroutines take on the bus meanwhile: a client whose
  request is valid and whose connection stands first gets the members (alive ones as member.join,
  dead ones as member.dead) and the leader that pass its filter, then watch.sync with the high-water
  mark of the bus, then a watch.gap if it has seen only part of that. After that it gets exactly the
  events that the handler received and that pass its filter, each as it was published and in the
  order in which they came out of the channel, with nothing else between them than gap notices. No
  event comes twice, and each was in flight when the handler subscribed or took its number later. If
  no two publications overlap, the numbers strictly increase. The handler returns only by leaving
  the bus.
\<close>

theorem Watch_stream:
  assumes "bus_inv b" and "st_fail st = None" and "validateWatchRequest e req = None"
    and "Watch e req mid ws state st b = (ex, st', b')"
    and "Subscribe 64 b = (sid, b0)" and "private_to sid (mid @ concat (map wake_others ws))"
    and "hello = openingMsgs e req state (LastSeq (bus_run mid b0))"
    and "ops = mid @ watch_ops req sid ws
      (st\<lparr>st_sent := st_sent st @ hello\<rparr>, bus_run mid b0, 0)"
    and "unat (LastSeq b) + length ops < 2 ^ 64"
    and "got = filter (\<lambda>ev. matchesWatch req (ev_type ev)) (sub_received sid ops b0)"
  shows "(\<exists>live. st_sent st' = st_sent st @ hello @ live \<and>
      filter (\<lambda>m. 0 < ws_seq m) live = map eventToProto got \<and>
      (\<forall>m \<in> set live. 0 < ws_seq m \<or> (\<exists>e' from to. from \<le> to \<and> m = gapMsg e' from to))) \<and>
    distinct (map ev_seq got) \<and>
    (\<forall>ev \<in> set got. ev_seq ev \<in> fmdom' (bus_flight b) \<or> LastSeq b < ev_seq ev) \<and>
    (bus_flight b = fmempty \<and> serial_pubs ops b0 \<longrightarrow> sorted_wrt (<) (map ev_seq got)) \<and>
    (ex = None \<and> b' = bus_run ops b0 \<or> ex = Some ExitDone \<and> b' = Unsubscribe sid (bus_run ops b0))"
proof -
  let ?b = "bus_run mid b0" and ?st = "st\<lparr>st_sent := st_sent st @ hello\<rparr>"
  note sub = Subscribe_parts [OF assms(1,5)]
  have len: "unat (bus_seq b0) + length ops < 2 ^ 64" using assms(9) sub by (simp add: LastSeq_def)
  obtain l' where loop: "watch_loop req sid ws (?st, ?b, 0) = (ex, st', b', l')"
    using assms(4,5) by (auto simp: Watch_def watch_open_ok [OF assms(2,3)] assms(7) split: prod.splits)
  obtain live where live: "st_sent st' = st_sent st @ hello @ live" "forwards live got"
    "ex = None \<and> b' = bus_run ops b0 \<or> ex = Some ExitDone \<and> b' = Unsubscribe sid (bus_run ops b0)"
    using watch_loop_ops [OF _ _ loop] assms(2,6) by (auto simp: assms(8,10) received_private)
  obtain arr where arr: "sub_received sid ops b0 @ sub_chan sid (bus_run ops b0) = arr"
    "queue_ok (bus_run ops b0) sid (map ev_seq arr)"
    "\<forall>ev \<in> set arr. ev_seq ev \<in> fmdom' (bus_flight b0) \<or> bus_seq b0 < ev_seq ev"
    using queue_run [OF sub(1) queue_ok_Nil len, of sid] by (auto simp: sub)
  have pos: "0 < ev_seq ev" if "ev \<in> set got" for ev
    using that arr(1,2) by (auto simp: assms(10) queue_ok_def)
  then have "filter (\<lambda>ev. 0 < ev_seq ev) got = got" by (simp add: filter_id_conv)
  then have msgs: "filter (\<lambda>m. 0 < ws_seq m) live = map eventToProto got"
    "\<forall>m \<in> set live. 0 < ws_seq m \<or> (\<exists>e' from to. from \<le> to \<and> m = gapMsg e' from to)"
    using live(2) pos by (fastforce simp: forwards_def word_gt_0)+
  have dist: "distinct (map ev_seq got)"
    using arr(1,2) by (auto simp: assms(10) queue_ok_def distinct_map inj_on_def)
  have late: "\<forall>ev \<in> set got. ev_seq ev \<in> fmdom' (bus_flight b) \<or> LastSeq b < ev_seq ev"
    using arr(1,3) by (auto simp: assms(10) sub LastSeq_def)
  have "sorted_wrt (<) (map ev_seq got)" if "bus_flight b = fmempty" "serial_pubs ops b0"
  proof -
    have "one_flight b0" using that(1) by (simp add: one_flight_def sub)
    from serial_run [OF sub(1) queue_ok_Nil len this that(2), of sid] arr(1)
    have "sorted_wrt (<) (map ev_seq (sub_received sid ops b0))" by (auto simp: sub sorted_wrt_append)
    then show ?thesis by (simp add: assms(10) sorted_wrt_map sorted_wrt_filter)
  qed
  with live(1,3) msgs dist late show ?thesis by blast
qed

text \<open>
  Topics: an event published on a topic reaches the watchers that subscribe to exactly that
  topic if and only if the topic is not empty and is not written with the prefix custom. already;
  for a prefixed spelling the publisher and the watcher disagree on the type.
\<close>

lemma publish_watch_topic:
  "matchesWatch \<lparr>wr_event_types = [], wr_topics = [topic], wr_last_seq = n\<rparr> (CustomType topic) =
     (topic \<noteq> '''' \<and> \<not> HasPrefix topic TypeCustomPrefix)"
proof -
  have np: "\<not> isProtocolEvent (CustomType topic)"
    by (simp add: isProtocolEvent_def CustomType_def type_defs)
  have "NormalizeTopic topic = topic \<longleftrightarrow> \<not> HasPrefix topic TypeCustomPrefix"
  proof
    assume eq: "NormalizeTopic topic = topic"
    show "\<not> HasPrefix topic TypeCustomPrefix"
    proof
      assume p: "HasPrefix topic TypeCustomPrefix"
      then have "length (NormalizeTopic topic) = length topic - 7" "7 \<le> length topic"
        by (auto simp: NormalizeTopic_def TrimPrefix_def TypeCustomPrefix_def HasPrefix_iff)
      with eq show False by simp
    qed
  qed (simp add: NormalizeTopic_def TrimPrefix_def)
  moreover have "TopicFromType (CustomType '''') = None"
    by (simp add: TopicFromType_def CustomType_def TypeCustomPrefix_def)
  ultimately show ?thesis
    using np by (cases "topic = ''''")
      (simp_all add: matchesWatch_def matchesType_def topicListed_def)
qed

section \<open>Events that are not announced\<close>

text \<open>
  The drop flag is consumed by the next buffered event, which may well directly follow the last
  live one although the lost events come later: here the watcher sees sequence numbers \<open>l + 1\<close> and
  \<open>l + 3\<close> with no gap notice in between, although the flag was set.
\<close>

lemma watch_gap_lost:
  assumes "fmlookup (bus_subs b) sid = Some s" and "sub_ch s = [ev1, ev2]" and "sub_dropped s"
    and "ev_seq ev1 = l + 1" and "ev_seq ev2 = l + 3" and "unat l + 3 < 2 ^ 64"
    and "matchesWatch req (ev_type ev1)" and "matchesWatch req (ev_type ev2)"
    and "st_fail st = None"
  shows "st_sent (fst (snd (watch_loop req sid [WakeRecv e [], WakeRecv e' []] (st, b, l)))) =
    st_sent st @ [eventToProto ev1, eventToProto ev2]"
proof -
  have "\<not> l + 1 \<le> l" using u64_less_next [of l] assms(6) by (simp add: not_le)
  then have "\<not> (if l > 0 then l + 1 else 1) \<le> l" by (auto simp: word_gt_0)
  then show ?thesis
    using assms(1-5,7-9)
    by (simp add: Recv_def watch_forward_def TakeDropped_def Let_def)
qed

text \<open>
  Of two overlapping publications the one with number 2 can arrive first. A client that leaves
  after it and comes back with the cursor 2 is told that the bus is at 2 and gets no gap notice,
  but it has never seen number 1, which was sent while it was away.
\<close>

definition overlap_watch :: "u64 \<Rightarrow> watch_request" where
  "overlap_watch n = \<lparr>wr_event_types = [''custom.deploy''], wr_topics = [], wr_last_seq = n\<rparr>"

definition overlap_engine :: engine where
  "overlap_engine = membership_New (ascii_env 1) ''a'' ''a:7443''"

definition overlap_stream :: stream where
  "overlap_stream = \<lparr>st_sent = [], st_fail = None\<rparr>"

definition overlap_left :: "watch_exit option \<times> stream \<times> bus" where
  "overlap_left = Watch (ascii_env 9) (overlap_watch 0) []
     (map (\<lambda>(e, op). WakeOther e op) (take 5 demo_overlap) @ [WakeRecv (ascii_env 9) [], WakeCtx])
     overlap_engine overlap_stream bus_New"

definition overlap_back :: "watch_exit option \<times> stream \<times> bus" where
  "overlap_back = Watch (ascii_env 9) (overlap_watch 2) []
     [WakeRecv (ascii_env 9) [], WakeCtx] overlap_engine overlap_stream
     (bus_run (drop 5 demo_overlap) (snd (snd overlap_left)))"

lemma watch_overlap_lost:
  "map (\<lambda>m. (ws_type m, ws_seq m)) (st_sent (fst (snd overlap_left))) =
     [(''watch.sync'', 0), (''custom.deploy'', 2)]"
  "map (\<lambda>m. (ws_type m, ws_seq m)) (st_sent (fst (snd overlap_back))) = [(''watch.sync'', 2)]"
  "bus_flight (snd (snd overlap_back)) = fmempty"
  by code_simp+

section \<open>Witnesses\<close>

theorem Watch_stream_witness:
  "\<exists>live. st_sent (fst (snd overlap_left)) =
      openingMsgs (ascii_env 9) (overlap_watch 0) overlap_engine 0 @ live \<and>
    length (filter (\<lambda>m. 0 < ws_seq m) live) = 1"
proof -
  let ?e = "ascii_env 9" and ?req = "overlap_watch 0"
  let ?ws = "map (\<lambda>(e, op). WakeOther e op) (take 5 demo_overlap) @ [WakeRecv ?e [], WakeCtx]"
  let ?b0 = "snd (Subscribe 64 bus_New)" and ?hello = "openingMsgs ?e ?req overlap_engine 0"
  let ?ops = "[] @ watch_ops ?req 1 ?ws
    (overlap_stream\<lparr>st_sent := st_sent overlap_stream @ ?hello\<rparr>, bus_run [] ?b0, 0)"
  obtain ex st' b' where w: "Watch ?e ?req [] ?ws overlap_engine overlap_stream bus_New = (ex, st', b')"
    by (cases "Watch ?e ?req [] ?ws overlap_engine overlap_stream bus_New")
  have 1: "st_fail overlap_stream = None" by (simp add: overlap_stream_def)
  have 2: "validateWatchRequest ?e ?req = None" by code_simp
  have 3: "Subscribe 64 bus_New = (1, ?b0)" by (simp add: Subscribe_def subscribe_id_def bus_New_def)
  have 4: "private_to 1 ([] @ concat (map wake_others ?ws))" by code_simp
  have "LastSeq (bus_run [] ?b0) = 0" by code_simp
  then have 5: "?hello = openingMsgs ?e ?req overlap_engine (LastSeq (bus_run [] ?b0))" by simp
  have "length ?ops = 7" by code_simp
  then have 6: "unat (LastSeq bus_New) + length ?ops < 2 ^ 64" by (simp add: LastSeq_def bus_New_def)
  have n: "length (filter (\<lambda>ev. matchesWatch ?req (ev_type ev)) (sub_received 1 ?ops ?b0)) = 1" by code_simp
  have "st' = fst (snd overlap_left)" using w by (simp add: overlap_left_def)
  with Watch_stream [OF bus_inv_New 1 2 w 3 4 5 refl 6 refl] n show ?thesis
    by (auto simp: overlap_stream_def)
qed

end
