(* ===== verification/Event_Service.thy ===== *)
theory Event_Service
  imports Eventbus Membership
begin

text \<open>
  Custom events (internal/grpcserver/events.go) and the random identifiers they are given
  (internal/uid). PublishEvent publishes on the local bus and hands back the relay calls that its
  goroutines make to the other members. Lemmas: the cache of seen event ids is a bounded
  first-in-first-out set, and an event id is published at most once while it is in the cache.
\<close>

section \<open>gRPC errors\<close>

text \<open>An error of a service: the status code and the detail its message is made of.\<close>

datatype grpc_code =
    InvalidArgument | FailedPrecondition | Internal | Unavailable | Canceled | DeadlineExceeded
  | NotFound | PermissionDenied | Unauthenticated | Unimplemented | ResourceExhausted | Aborted

datatype 'd rpc_error = Rpc (rpc_code: grpc_code) (rpc_detail: 'd)

section \<open>Package uid\<close>

text \<open>The argument is the 16 random bytes, \<^term>\<open>None\<close> when the random source fails.\<close>

definition hex_byte :: "nat \<Rightarrow> string" where
  "hex_byte b = [hex_digit (b div 16), hex_digit (b mod 16)]"

definition hex_bytes :: "nat list \<Rightarrow> string" where
  "hex_bytes bs = concat (map hex_byte bs)"

definition uid_New :: "nat list option \<Rightarrow> string option" where
  "uid_New rand =
     map_option (\<lambda>b0.
       let b = b0[6 := b0 ! 6 mod 16 + 64, 8 := b0 ! 8 mod 64 + 128] in
       hex_bytes (take 4 b) @ ''-'' @ hex_bytes (take 2 (drop 4 b)) @ ''-'' @
       hex_bytes (take 2 (drop 6 b)) @ ''-'' @ hex_bytes (take 2 (drop 8 b)) @ ''-'' @
       hex_bytes (drop 10 b)) rand"

section \<open>The cache of seen ids\<close>

definition seenEventCap :: int where "seenEventCap = 4096"

record id_cache =
  ic_m :: "string fset"
  ic_q :: "string list"
  ic_cap :: int

definition newIDCache :: "int \<Rightarrow> id_cache" where
  "newIDCache n0 =
     (let n = (if n0 \<le> 0 then 1024 else n0) in \<lparr>ic_m = {||}, ic_q = [], ic_cap = n\<rparr>)"

definition seenOrAdd :: "string \<Rightarrow> id_cache \<Rightarrow> bool \<times> id_cache" where
  "seenOrAdd eid c =
     (if eid |\<in>| ic_m c then (True, c)
      else
        let c1 = (if int (length (ic_q c)) \<ge> ic_cap c
                  then c\<lparr>ic_q := tl (ic_q c), ic_m := ic_m c |-| {|hd (ic_q c)|}\<rparr> else c)
        in (False, c1\<lparr>ic_m := finsert eid (ic_m c1), ic_q := ic_q c1 @ [eid]\<rparr>))"

section \<open>PublishEvent\<close>

record publish_request =
  pr_topic :: string
  pr_payload :: string
  pr_event_id :: string
  pr_source :: string
  pr_relay :: bool

record publish_response =
  pp_accepted :: bool
  pp_message :: string
  pp_event_id :: string
  pp_type :: string

datatype publish_detail = BusNil | BadTopic topic_error | PayloadTooBig | UidFailed

record event_service =
  es_bus :: "bus option"
  es_peers :: "engine option"
  es_seen :: id_cache

text \<open>The relay calls, by address and id of the target.\<close>

definition fanout ::
  "string \<Rightarrow> string \<Rightarrow> string \<Rightarrow> string \<Rightarrow> engine option \<Rightarrow> (string \<times> string \<times> publish_request) list" where
  "fanout topic payload eventID source peers =
     (case peers of
        None \<Rightarrow> []
      | Some en \<Rightarrow>
          map (\<lambda>m. (mb_address m, mb_id m,
                 \<lparr>pr_topic = topic, pr_payload = payload, pr_event_id = eventID,
                  pr_source = source, pr_relay = True\<rparr>))
            (filter (\<lambda>m. \<not> (mb_id m = SelfID en \<or> mb_status m \<noteq> StatusAlive)) (Members en)))"

definition PublishEvent ::
  "env \<Rightarrow> nat list option \<Rightarrow> publish_request \<Rightarrow> event_service \<Rightarrow>
   (publish_detail rpc_error + publish_response) \<times> (string \<times> string \<times> publish_request) list \<times>
   event_service" where
  "PublishEvent e rand req s =
     (case es_bus s of
        None \<Rightarrow> (Inl (Rpc FailedPrecondition BusNil), [], s)
      | Some b \<Rightarrow>
          (case ValidTopic e (pr_topic req) of
             Some err \<Rightarrow> (Inl (Rpc InvalidArgument (BadTopic err)), [], s)
           | None \<Rightarrow>
               if length (pr_payload req) > MaxPayloadBytes
               then (Inl (Rpc InvalidArgument PayloadTooBig), [], s)
               else
                 (case (if pr_event_id req = '''' then uid_New rand else Some (pr_event_id req)) of
                    None \<Rightarrow> (Inl (Rpc Internal UidFailed), [], s)
                  | Some eventID \<Rightarrow>
                      (case seenOrAdd eventID (es_seen s) of (seen, c) \<Rightarrow>
                         if seen then
                           (Inr \<lparr>pp_accepted = True, pp_message = ''duplicate'',
                                 pp_event_id = eventID, pp_type = CustomType (pr_topic req)\<rparr>,
                            [], s\<lparr>es_seen := c\<rparr>)
                         else
                           let source = (if pr_source req = ''''
                                 then (case es_peers s of
                                         Some en \<Rightarrow> SelfID en | None \<Rightarrow> pr_source req)
                                 else pr_source req);
                               typ = CustomType (pr_topic req);
                               b' = Publish e (mk_event typ source (pr_payload req)) b;
                               calls = (if \<not> pr_relay req
                                 then fanout (pr_topic req) (pr_payload req) eventID source
                                        (es_peers s)
                                 else [])
                           in (Inr \<lparr>pp_accepted = True, pp_message = '''',
                                    pp_event_id = eventID, pp_type = typ\<rparr>,
                               calls, s\<lparr>es_seen := c, es_bus := Some b'\<rparr>)))))"

section \<open>Lemmas\<close>

definition cache_inv :: "id_cache \<Rightarrow> bool" where
  "cache_inv c \<longleftrightarrow>
     0 < ic_cap c \<and> int (length (ic_q c)) \<le> ic_cap c \<and> distinct (ic_q c) \<and>
     fset (ic_m c) = set (ic_q c)"

lemma cache_inv_new: "cache_inv (newIDCache n)"
  by (simp add: cache_inv_def newIDCache_def Let_def)

lemma seenOrAdd_eq:
  assumes "cache_inv c"
  shows "fst (seenOrAdd eid c) = (eid \<in> set (ic_q c))"
    and "ic_q (snd (seenOrAdd eid c)) =
      (if eid \<in> set (ic_q c) then ic_q c
       else (if int (length (ic_q c)) < ic_cap c then ic_q c else tl (ic_q c)) @ [eid])"
    and "ic_cap (snd (seenOrAdd eid c)) = ic_cap c"
    and "cache_inv (snd (seenOrAdd eid c))"
proof -
  have mem: "x |\<in>| ic_m c \<longleftrightarrow> x \<in> set (ic_q c)" for x
    using assms by (metis cache_inv_def)
  show "fst (seenOrAdd eid c) = (eid \<in> set (ic_q c))"
    by (simp add: seenOrAdd_def mem Let_def)
  show q: "ic_q (snd (seenOrAdd eid c)) =
      (if eid \<in> set (ic_q c) then ic_q c
       else (if int (length (ic_q c)) < ic_cap c then ic_q c else tl (ic_q c)) @ [eid])"
    by (auto simp: seenOrAdd_def mem Let_def)
  show cap: "ic_cap (snd (seenOrAdd eid c)) = ic_cap c"
    by (simp add: seenOrAdd_def Let_def)
  have dist: "distinct (ic_q c)" and len: "int (length (ic_q c)) \<le> ic_cap c" "0 < ic_cap c"
    and m: "fset (ic_m c) = set (ic_q c)"
    using assms by (simp_all add: cache_inv_def)
  have tl: "set (tl (ic_q c)) = set (ic_q c) - {hd (ic_q c)}" if "ic_q c \<noteq> []"
    using that dist by (cases "ic_q c") auto
  show "cache_inv (snd (seenOrAdd eid c))"
  proof (cases "eid \<in> set (ic_q c)")
    case True
    then show ?thesis using assms by (simp add: seenOrAdd_def mem)
  next
    case False
    have ne: "ic_q c \<noteq> []" if "ic_cap c \<le> int (length (ic_q c))" using that len by auto
    have "eid \<notin> set (tl (ic_q c))" using False by (cases "ic_q c") auto
    with False dist len m tl ne show ?thesis
      by (auto simp: cache_inv_def q cap seenOrAdd_def mem Let_def distinct_tl)
  qed
qed

fun seen_run :: "string list \<Rightarrow> id_cache \<Rightarrow> id_cache" where
  "seen_run [] c = c"
| "seen_run (x # xs) c = seen_run xs (snd (seenOrAdd x c))"

lemma cache_inv_run: "cache_inv c \<Longrightarrow> cache_inv (seen_run xs c) \<and> ic_cap (seen_run xs c) = ic_cap c"
  by (induction xs c rule: seen_run.induct) (simp_all add: seenOrAdd_eq)

text \<open>The position of an id in the queue moves by at most one place per call.\<close>

lemma seenOrAdd_keeps:
  assumes "cache_inv c" and "ic_q c = xs @ eid # ys"
    and "0 < int (length xs) + (ic_cap c - int (length (ic_q c)))"
  shows "\<exists>xs' ys'. ic_q (snd (seenOrAdd z c)) = xs' @ eid # ys' \<and>
    int (length xs) + (ic_cap c - int (length (ic_q c))) \<le>
      1 + int (length xs') + (ic_cap c - int (length (ic_q (snd (seenOrAdd z c)))))"
proof (cases "z \<in> set (ic_q c)")
  case True
  then show ?thesis using assms by (auto simp: seenOrAdd_eq)
next
  case False
  show ?thesis
  proof (cases "int (length (ic_q c)) < ic_cap c")
    case True
    then show ?thesis using False assms
      by (intro exI [of _ xs] exI [of _ "ys @ [z]"]) (simp add: seenOrAdd_eq(2) [OF assms(1)])
  next
    case full: False
    then have "ic_cap c = int (length (ic_q c))" using assms(1) by (simp add: cache_inv_def)
    with assms(3) obtain x xs1 where xs: "xs = x # xs1" by (cases xs) auto
    show ?thesis using False full assms(2) xs
      by (intro exI [of _ xs1] exI [of _ "ys @ [z]"]) (simp add: seenOrAdd_eq(2) [OF assms(1)])
  qed
qed

lemma seen_run_keeps:
  assumes "cache_inv c" and "ic_q c = xs @ eid # ys"
    and "int (length zs) \<le> int (length xs) + (ic_cap c - int (length (ic_q c)))"
  shows "eid \<in> set (ic_q (seen_run zs c))"
  using assms
proof (induction zs arbitrary: c xs ys)
  case (Cons z zs)
  then have "0 < int (length xs) + (ic_cap c - int (length (ic_q c)))" by simp
  from seenOrAdd_keeps [OF Cons.prems(1,2) this, of z] obtain xs' ys' where
    q: "ic_q (snd (seenOrAdd z c)) = xs' @ eid # ys'"
    "int (length xs) + (ic_cap c - int (length (ic_q c))) \<le>
      1 + int (length xs') + (ic_cap c - int (length (ic_q (snd (seenOrAdd z c)))))" by blast
  have "int (length zs) \<le> int (length xs') +
      (ic_cap (snd (seenOrAdd z c)) - int (length (ic_q (snd (seenOrAdd z c)))))"
    using q(2) Cons.prems(3) by (simp add: seenOrAdd_eq(3) [OF Cons.prems(1)])
  from Cons.IH [OF seenOrAdd_eq(4) [OF Cons.prems(1)] q(1) this] show ?case by simp
qed simp

lemma seenOrAdd_fresh_keeps:
  assumes "cache_inv c" and "eid \<notin> set (ic_q c)" and "int (length zs) < ic_cap c"
  shows "eid \<in> set (ic_q (seen_run zs (snd (seenOrAdd eid c))))"
proof -
  let ?xs = "if int (length (ic_q c)) < ic_cap c then ic_q c else tl (ic_q c)"
  have q: "ic_q (snd (seenOrAdd eid c)) = ?xs @ eid # []"
    using assms(2) by (simp add: seenOrAdd_eq(2) [OF assms(1)])
  have "int (length zs) \<le> int (length ?xs) + (ic_cap (snd (seenOrAdd eid c)) -
      int (length (ic_q (snd (seenOrAdd eid c)))))"
    using assms(3) by (simp add: q seenOrAdd_eq(3) [OF assms(1)])
  from seen_run_keeps [OF seenOrAdd_eq(4) [OF assms(1)] q this] show ?thesis .
qed

text \<open>A sequence of publications, each in its own environment.\<close>

fun publish_run ::
  "(env \<times> nat list option \<times> publish_request) list \<Rightarrow> event_service \<Rightarrow> event_service" where
  "publish_run [] s = s"
| "publish_run ((e, rand, req) # rs) s = publish_run rs (snd (snd (PublishEvent e rand req s)))"

lemma PublishEvent_seen:
  "\<exists>zs. length zs \<le> 1 \<and> es_seen (snd (snd (PublishEvent e rand req s))) = seen_run zs (es_seen s)"
proof (cases "es_bus s = None \<or> ValidTopic e (pr_topic req) \<noteq> None \<or>
    length (pr_payload req) > MaxPayloadBytes")
  case True
  then show ?thesis
    by (intro exI [of _ "[]"]) (auto simp: PublishEvent_def split: option.split)
next
  case False
  let ?id = "if pr_event_id req = '''' then uid_New rand else Some (pr_event_id req)"
  show ?thesis
  proof (cases ?id)
    case None
    with False show ?thesis by (intro exI [of _ "[]"]) (auto simp: PublishEvent_def)
  next
    case (Some x)
    with False show ?thesis
      by (intro exI [of _ "[x]"]) (auto simp: PublishEvent_def Let_def split_beta)
  qed
qed

lemma seen_run_append [simp]: "seen_run (xs @ ys) c = seen_run ys (seen_run xs c)"
  by (induction xs c rule: seen_run.induct) simp_all

lemma publish_run_seen:
  "\<exists>zs. length zs \<le> length rs \<and> es_seen (publish_run rs s) = seen_run zs (es_seen s)"
proof (induction rs s rule: publish_run.induct)
  case (2 e rand req rs s)
  obtain zs where zs: "length zs \<le> 1"
    "es_seen (snd (snd (PublishEvent e rand req s))) = seen_run zs (es_seen s)"
    using PublishEvent_seen by blast
  obtain zs' where zs': "length zs' \<le> length rs"
    "es_seen (publish_run rs (snd (snd (PublishEvent e rand req s)))) =
      seen_run zs' (es_seen (snd (snd (PublishEvent e rand req s))))"
    using "2.IH" by blast
  show ?case by (rule exI [of _ "zs @ zs'"]) (use zs zs' in simp)
qed (rule exI [of _ "[]"], simp)

lemma PublishEvent_Inr:
  assumes "PublishEvent e rand req s = (Inr resp, calls, s')"
  shows "pp_message resp = ''duplicate'' \<and> calls = [] \<and> es_bus s' = es_bus s \<and>
      fst (seenOrAdd (pp_event_id resp) (es_seen s)) \<or>
    pp_message resp = '''' \<and> \<not> fst (seenOrAdd (pp_event_id resp) (es_seen s)) \<and>
      es_seen s' = snd (seenOrAdd (pp_event_id resp) (es_seen s))"
    and "pr_event_id req \<noteq> '''' \<Longrightarrow> pp_event_id resp = pr_event_id req"
  using assms
  by (auto simp: PublishEvent_def Let_def split: option.splits if_splits prod.splits)

section \<open>Properties\<close>

text \<open>
  The cache of seen ids is a bounded first-in-first-out set: after any sequence of calls it
  holds at most its capacity of distinct ids, its map and its queue agree, and an id that was new
  when it was reported is recognised again until as many further calls as the capacity have been
  made.
\<close>

theorem seen_ids_window:
  assumes "eid \<notin> set (ic_q (seen_run xs (newIDCache n)))"
    and "int (length zs) < ic_cap (newIDCache n)"
    and "c = seen_run (xs @ eid # zs) (newIDCache n)"
  shows "fst (seenOrAdd eid c) \<and> int (length (ic_q c)) \<le> ic_cap (newIDCache n) \<and>
    distinct (ic_q c) \<and> fset (ic_m c) = set (ic_q c)"
proof -
  note inv = cache_inv_run [OF cache_inv_new [of n]]
  have "eid \<in> set (ic_q c)"
    using seenOrAdd_fresh_keeps [OF conjunct1 [OF inv] assms(1)] assms(2,3) inv [of xs] by simp
  moreover have "cache_inv c" "ic_cap c = ic_cap (newIDCache n)"
    using inv [of "xs @ eid # zs"] assms(3) by simp_all
  ultimately show ?thesis
    by (simp add: seenOrAdd_eq cache_inv_def)
qed

text \<open>
  C26. An event is published once: after PublishEvent has accepted an event under an id, fewer
  further publications than the capacity of the cache later, a request with the same id is answered
  as a duplicate, nothing is published on the bus and nothing is relayed.
\<close>

theorem PublishEvent_once:
  assumes "cache_inv (es_seen s)"
    and "PublishEvent e rand req s = (Inr resp, calls, s1)" and "pp_message resp = ''''"
    and "s2 = publish_run rs s1" and "int (length rs) < ic_cap (es_seen s)"
    and "PublishEvent e' rand' req' s2 = (Inr resp', calls', s3)"
    and "pr_event_id req' = pp_event_id resp" and "pp_event_id resp \<noteq> ''''"
  shows "pp_message resp' = ''duplicate'' \<and> calls' = [] \<and> es_bus s3 = es_bus s2"
proof -
  note first = PublishEvent_Inr(1) [OF assms(2)]
  have new: "pp_event_id resp \<notin> set (ic_q (es_seen s))"
    "es_seen s1 = snd (seenOrAdd (pp_event_id resp) (es_seen s))"
    using first assms(3) by (auto simp: seenOrAdd_eq [OF assms(1)])
  obtain zs where zs: "length zs \<le> length rs" "es_seen s2 = seen_run zs (es_seen s1)"
    using publish_run_seen assms(4) by blast
  have "pp_event_id resp \<in> set (ic_q (es_seen s2))"
    unfolding zs(2) new(2) by (rule seenOrAdd_fresh_keeps [OF assms(1) new(1)])
      (use zs(1) assms(5) in simp)
  moreover have "cache_inv (es_seen s2)"
    unfolding zs(2) new(2) using cache_inv_run seenOrAdd_eq(4) [OF assms(1)] by blast
  moreover have "pp_event_id resp' = pp_event_id resp"
    using PublishEvent_Inr(2) [OF assms(6)] assms(7,8) by simp
  ultimately show ?thesis
    using PublishEvent_Inr(1) [OF assms(6)] by (auto simp: seenOrAdd_eq)
qed

section \<open>Witnesses\<close>

theorem seen_ids_window_witness:
  "fst (seenOrAdd ''e1'' (seen_run ([''e0''] @ ''e1'' # [''e2'']) (newIDCache 2)))"
proof -
  have "''e1'' \<notin> set (ic_q (seen_run [''e0''] (newIDCache 2)))"
    by (simp add: newIDCache_def seenOrAdd_def)
  moreover have "int (length [''e2'']) < ic_cap (newIDCache 2)" by (simp add: newIDCache_def)
  ultimately show ?thesis using seen_ids_window [OF _ _ refl] by blast
qed

definition demo_publish :: publish_request where
  "demo_publish = \<lparr>pr_topic = ''deploy'', pr_payload = ''v2'', pr_event_id = ''e1'',
     pr_source = '''', pr_relay = False\<rparr>"

definition demo_service :: event_service where
  "demo_service = \<lparr>es_bus = Some bus_New, es_peers = None, es_seen = newIDCache seenEventCap\<rparr>"

lemma demo_topic: "ValidTopic (ascii_env t) ''deploy'' = None"
  by (simp add: ValidTopic_def NormalizeTopic_def TrimPrefix_def TypeCustomPrefix_def
      MaxTopicLen_def runes_def byte_def isTopicChar_def IsLetter_def latin1_letter_def)

theorem PublishEvent_once_witness:
  "es_bus (snd (snd (PublishEvent (ascii_env 2) None demo_publish
     (publish_run [] (snd (snd (PublishEvent (ascii_env 1) None demo_publish demo_service))))))) =
   es_bus (publish_run [] (snd (snd (PublishEvent (ascii_env 1) None demo_publish demo_service))))"
proof -
  let ?p1 = "PublishEvent (ascii_env 1) None demo_publish demo_service"
  let ?s2 = "publish_run [] (snd (snd ?p1))"
  let ?p2 = "PublishEvent (ascii_env 2) None demo_publish ?s2"
  note defs = PublishEvent_def demo_publish_def demo_service_def demo_topic MaxPayloadBytes_def
    seenOrAdd_def newIDCache_def seenEventCap_def Let_def
  let ?resp = "\<lparr>pp_accepted = True, pp_message = '''', pp_event_id = ''e1'',
    pp_type = CustomType ''deploy''\<rparr>"
  have p1: "?p1 = (Inr ?resp, fst (snd ?p1), snd (snd ?p1))" by (simp add: defs)
  obtain resp' where p2: "?p2 = (Inr resp', fst (snd ?p2), snd (snd ?p2))"
    by (simp add: defs)
  have "cache_inv (es_seen demo_service)" by (simp add: demo_service_def cache_inv_new)
  moreover have "int (length ([] :: (env \<times> nat list option \<times> publish_request) list)) <
      ic_cap (es_seen demo_service)"
    by (simp add: demo_service_def newIDCache_def seenEventCap_def)
  moreover have "pr_event_id demo_publish = pp_event_id ?resp" by (simp add: demo_publish_def)
  ultimately show ?thesis using PublishEvent_once [OF _ p1 _ refl _ p2] by simp
qed

end
