(* ===== verification/Lock_Service.thy ===== *)
theory Lock_Service
  imports Raft_Node Event_Service
begin

text \<open>
  The lock API (internal/grpcserver/locks.go) over a world state \<open>'w\<close> that contains the Raft library,
  the local lock table and the member list. A nil interface of the source is \<^term>\<open>None\<close>. The calls to
  the leader's daemon are parameters. The blocking Lock call runs over a list of turns of its loop,
  each with what other goroutines do to the world before and while it sleeps. Lemmas: observers
  never mutate locks, the lifetimes the service asks for, when a sleeping Lock wakes up, and what an
  acquisition means to the client.
\<close>

section \<open>Messages\<close>

record lock_request =
  lq_name :: string
  lq_holder :: string
  lq_ttl_ms :: int

record lock_response =
  lp_acquired :: bool
  lp_message :: string
  lp_token :: u64
  lp_holder :: string
  lp_deadline :: int

record unlock_request =
  uq_name :: string
  uq_holder :: string
  uq_token :: u64

record renew_request =
  nq_name :: string
  nq_holder :: string
  nq_token :: u64
  nq_ttl_ms :: int

record renew_response =
  np_renewed :: bool
  np_token :: u64
  np_deadline :: int

record lock_info =
  li_name :: string
  li_holder :: string
  li_token :: u64
  li_acquired :: int
  li_deadline :: int

datatype ctx_error = CtxCanceled | CtxDeadlineExceeded

datatype lock_detail =
    BadName grant_error
  | ObserverReadOnly
  | NotLeader
  | DialFailed string
  | ApplyFailed node_error
  | TableFailed grant_error
  | TableMissing
  | ContextDone
  | RemoteFailed
  | NilPointer

type_synonym lock_error = "lock_detail rpc_error"

definition ctx_status :: "ctx_error \<Rightarrow> lock_error" where
  "ctx_status c = (case c of CtxCanceled \<Rightarrow> Rpc Canceled ContextDone
     | CtxDeadlineExceeded \<Rightarrow> Rpc DeadlineExceeded ContextDone)"

text \<open>The daemon of the leader as this node calls it, by address.\<close>

record 'w lock_peer =
  pe_dial :: "string \<Rightarrow> 'w \<Rightarrow> bool"
  pe_Lock :: "string \<Rightarrow> lock_request \<Rightarrow> 'w \<Rightarrow> (lock_error + lock_response) \<times> 'w"
  pe_TryLock :: "string \<Rightarrow> lock_request \<Rightarrow> 'w \<Rightarrow> (lock_error + lock_response) \<times> 'w"
  pe_Unlock :: "string \<Rightarrow> unlock_request \<Rightarrow> 'w \<Rightarrow> (lock_error + bool) \<times> 'w"
  pe_Renew :: "string \<Rightarrow> renew_request \<Rightarrow> 'w \<Rightarrow> (lock_error + renew_response) \<times> 'w"

record 'w lock_service =
  sv_raft :: "'w raft_lib option"
  sv_table :: "'w \<Rightarrow> locks_table option"
  sv_set_table :: "locks_table \<Rightarrow> 'w \<Rightarrow> 'w"
  sv_nodes :: "('w \<Rightarrow> engine) option"
  sv_members :: "('w \<Rightarrow> engine) option"
  sv_peer :: "'w lock_peer"
  sv_defaultTTL :: duration

text \<open>RegisterLockService: a default of zero or less becomes the default of the table.\<close>

definition RegisterLockService ::
  "('w \<Rightarrow> locks_table option) \<Rightarrow> (locks_table \<Rightarrow> 'w \<Rightarrow> 'w) \<Rightarrow> 'w raft_lib option \<Rightarrow> ('w \<Rightarrow> engine) \<Rightarrow>
   'w lock_peer \<Rightarrow> duration \<Rightarrow> 'w lock_service" where
  "RegisterLockService table set_table raft nodes peer defaultTTL =
     \<lparr>sv_raft = raft, sv_table = table, sv_set_table = set_table, sv_nodes = Some nodes,
      sv_members = Some nodes, sv_peer = peer,
      sv_defaultTTL = (if defaultTTL \<le> 0 then locks_DefaultTTL else defaultTTL)\<rparr>"

section \<open>Helpers\<close>

definition unixMs :: "gotime \<Rightarrow> int" where
  "unixMs t = (if IsZero t then 0 else to_UnixMilli t)"

definition rejectIfObserver :: "'w lock_service \<Rightarrow> 'w \<Rightarrow> lock_error option" where
  "rejectIfObserver s w =
     (case sv_members s of
        None \<Rightarrow> None
      | Some members \<Rightarrow>
          let en = members w in
          if list_ex (\<lambda>m. mb_id m = SelfID en \<and> NormalizeRole (mb_role m) = RoleObserver) (Members en)
          then Some (Rpc FailedPrecondition ObserverReadOnly) else None)"

definition lock_ttlFromMs :: "'w lock_service \<Rightarrow> int \<Rightarrow> duration \<Rightarrow> duration" where
  "lock_ttlFromMs s ms reuse =
     (let requested = (if ms > 0 then i64 (ms * Millisecond) else reuse)
      in locks_ClampTTL requested (sv_defaultTTL s))"

definition lock_holder :: "'w lock_service \<Rightarrow> string \<Rightarrow> 'w \<Rightarrow> string" where
  "lock_holder s h w =
     (if h \<noteq> '''' then h
      else (case sv_nodes s of Some nodes \<Rightarrow> SelfID (nodes w) | None \<Rightarrow> ''''))"

definition applyAcquire ::
  "'w lock_service \<Rightarrow> env \<Rightarrow> string \<Rightarrow> string \<Rightarrow> duration \<Rightarrow> 'w \<Rightarrow> (lock_detail + u64 \<times> bool) \<times> 'w" where
  "applyAcquire s e name holder ttl w =
     (case sv_raft s of
        Some rl \<Rightarrow>
          (case ApplyLockAcquire rl e name holder ttl w of
             (Inl err, w') \<Rightarrow> (Inl (ApplyFailed err), w')
           | (Inr res, w') \<Rightarrow> (Inr res, w'))
      | None \<Rightarrow>
          (case sv_table s w of
             None \<Rightarrow> (Inl TableMissing, w)
           | Some t \<Rightarrow>
               (case locks_Acquire e name holder (env_now e + ttl) ttl t of
                  (Inl err, t') \<Rightarrow> (Inl (TableFailed err), sv_set_table s t' w)
                | (Inr res, t') \<Rightarrow> (Inr res, sv_set_table s t' w))))"

definition applyRelease ::
  "'w lock_service \<Rightarrow> env \<Rightarrow> string \<Rightarrow> string \<Rightarrow> u64 \<Rightarrow> 'w \<Rightarrow> lock_detail option \<times> 'w" where
  "applyRelease s e name holder token w =
     (case sv_raft s of
        Some rl \<Rightarrow>
          (case ApplyLockRelease rl e name holder token w of
             (err, w') \<Rightarrow> (map_option ApplyFailed err, w'))
      | None \<Rightarrow>
          (case sv_table s w of
             None \<Rightarrow> (Some TableMissing, w)
           | Some t \<Rightarrow>
               (case locks_Release e name holder token t of
                  (err, t') \<Rightarrow> (map_option TableFailed err, sv_set_table s t' w))))"

definition applyRenew ::
  "'w lock_service \<Rightarrow> env \<Rightarrow> string \<Rightarrow> string \<Rightarrow> u64 \<Rightarrow> duration \<Rightarrow> 'w \<Rightarrow> (lock_detail + gotime) \<times> 'w" where
  "applyRenew s e name holder token ttl w =
     (case sv_raft s of
        Some rl \<Rightarrow>
          (case ApplyLockRenew rl e name holder token ttl w of
             (Inl err, w') \<Rightarrow> (Inl (ApplyFailed err), w')
           | (Inr d, w') \<Rightarrow> (Inr d, w'))
      | None \<Rightarrow>
          (case sv_table s w of
             None \<Rightarrow> (Inl TableMissing, w)
           | Some t \<Rightarrow>
               let deadline = env_now e + ttl in
               (case locks_Renew e name holder token deadline ttl t of
                  (Some err, t') \<Rightarrow> (Inl (TableFailed err), sv_set_table s t' w)
                | (None, t') \<Rightarrow> (Inr deadline, sv_set_table s t' w))))"

definition dialLeader :: "'w lock_service \<Rightarrow> 'w \<Rightarrow> lock_error + string" where
  "dialLeader s w =
     (case sv_nodes s of
        None \<Rightarrow> Inl (Rpc FailedPrecondition NotLeader)
      | Some nodes \<Rightarrow>
          (case Leader (nodes w) of
             None \<Rightarrow> Inl (Rpc FailedPrecondition NotLeader)
           | Some l \<Rightarrow>
               if mb_address l = '''' \<or> mb_id l = SelfID (nodes w)
               then Inl (Rpc FailedPrecondition NotLeader)
               else if pe_dial (sv_peer s) (mb_address l) w then Inr (mb_address l)
               else Inl (Rpc Unavailable (DialFailed (mb_id l)))))"

definition forwardLock ::
  "'w lock_service \<Rightarrow> lock_request \<Rightarrow> 'w \<Rightarrow> (lock_error + lock_response) \<times> 'w" where
  "forwardLock s req w =
     (case dialLeader s w of Inl err \<Rightarrow> (Inl err, w) | Inr addr \<Rightarrow> pe_Lock (sv_peer s) addr req w)"

definition forwardTryLock ::
  "'w lock_service \<Rightarrow> lock_request \<Rightarrow> 'w \<Rightarrow> (lock_error + lock_response) \<times> 'w" where
  "forwardTryLock s req w =
     (case dialLeader s w of Inl err \<Rightarrow> (Inl err, w) | Inr addr \<Rightarrow> pe_TryLock (sv_peer s) addr req w)"

definition forwardUnlock ::
  "'w lock_service \<Rightarrow> unlock_request \<Rightarrow> 'w \<Rightarrow> (lock_error + bool) \<times> 'w" where
  "forwardUnlock s req w =
     (case dialLeader s w of Inl err \<Rightarrow> (Inl err, w) | Inr addr \<Rightarrow> pe_Unlock (sv_peer s) addr req w)"

definition forwardRenew ::
  "'w lock_service \<Rightarrow> renew_request \<Rightarrow> 'w \<Rightarrow> (lock_error + renew_response) \<times> 'w" where
  "forwardRenew s req w =
     (case dialLeader s w of Inl err \<Rightarrow> (Inl err, w) | Inr addr \<Rightarrow> pe_Renew (sv_peer s) addr req w)"

definition must_forward :: "'w lock_service \<Rightarrow> 'w \<Rightarrow> bool" where
  "must_forward s w = (case sv_raft s of Some rl \<Rightarrow> \<not> IsLeader rl w | None \<Rightarrow> False)"

definition held_deadline :: "'w lock_service \<Rightarrow> string \<Rightarrow> 'w \<Rightarrow> int" where
  "held_deadline s name w =
     (case sv_table s w of
        None \<Rightarrow> 0
      | Some t \<Rightarrow> (case locks_Get name t of Some rec \<Rightarrow> unixMs (lk_deadline rec) | None \<Rightarrow> 0))"

definition grantResponse :: "'w lock_service \<Rightarrow> string \<Rightarrow> string \<Rightarrow> u64 \<Rightarrow> 'w \<Rightarrow> lock_response" where
  "grantResponse s name holder tok w =
     \<lparr>lp_acquired = True, lp_message = '''', lp_token = tok, lp_holder = holder,
      lp_deadline = held_deadline s name w\<rparr>"

definition tryLockResponse :: "'w lock_service \<Rightarrow> string \<Rightarrow> string \<Rightarrow> u64 \<Rightarrow> 'w \<Rightarrow> lock_response" where
  "tryLockResponse s name holder tok w =
     \<lparr>lp_acquired = True, lp_message = '''', lp_token = tok, lp_holder = holder,
      lp_deadline = held_deadline s name w\<rparr>"

section \<open>Handlers\<close>

text \<open>
  One turn of the loop of Lock: the state of the context at its start, the environment of the
  acquisition, what others do to the world between the acquisition and the entry of Wait, what they
  do while the call sleeps, and the state of the context when it wakes. A context that ends while
  the call sleeps broadcasts on the table and so wakes it.
\<close>

datatype 'w lock_turn =
  Turn (lt_ctx: "ctx_error option") (lt_env: env) (lt_between: "'w \<Rightarrow> 'w") (lt_during: "'w \<Rightarrow> 'w")
    (lt_ctx_wake: "ctx_error option")

text \<open>The result is \<^term>\<open>None\<close> while the call is still asleep.\<close>

fun lock_loop ::
  "'w lock_service \<Rightarrow> string \<Rightarrow> string \<Rightarrow> duration \<Rightarrow> 'w lock_turn list \<Rightarrow> 'w \<Rightarrow>
   (lock_error + lock_response) option \<times> 'w" where
  "lock_loop s name holder ttl [] w = (None, w)"
| "lock_loop s name holder ttl (Turn c e between during cw # ts) w =
     (case c of
        Some err \<Rightarrow> (Some (Inl (ctx_status err)), w)
      | None \<Rightarrow>
          (case applyAcquire s e name holder ttl w of
             (Inl err, w1) \<Rightarrow> (Some (Inl (Rpc Internal err)), w1)
           | (Inr (tok, ok), w1) \<Rightarrow>
               if ok then (Some (Inr (grantResponse s name holder tok w1)), w1)
               else
                 let w2 = between w1 in
                 (case sv_table s w2 of
                    None \<Rightarrow> (Some (Inl (Rpc Internal NilPointer)), w2)
                  | Some t2 \<Rightarrow>
                      let w3 = during w2 in
                      (case sv_table s w3 of
                         None \<Rightarrow> (Some (Inl (Rpc Internal NilPointer)), w3)
                       | Some t3 \<Rightarrow>
                           (case cw of
                              Some err \<Rightarrow>
                                (Some (Inl (ctx_status err)), sv_set_table s (locks_Wait_ctx_done t3) w3)
                            | None \<Rightarrow>
                                if locks_Wait_returns (locks_Wait_enter t2) t3
                                then lock_loop s name holder ttl ts w3
                                else (None, w3))))))"

definition svc_Lock ::
  "'w lock_service \<Rightarrow> env \<Rightarrow> lock_request \<Rightarrow> 'w lock_turn list \<Rightarrow> 'w \<Rightarrow>
   (lock_error + lock_response) option \<times> 'w" where
  "svc_Lock s e req turns w =
     (case locks_ValidName e (lq_name req) of
        Some err \<Rightarrow> (Some (Inl (Rpc InvalidArgument (BadName err))), w)
      | None \<Rightarrow>
          (case rejectIfObserver s w of
             Some err \<Rightarrow> (Some (Inl err), w)
           | None \<Rightarrow>
               if must_forward s w
               then (case forwardLock s req w of (r, w') \<Rightarrow> (Some r, w'))
               else lock_loop s (lq_name req) (lock_holder s (lq_holder req) w)
                      (lock_ttlFromMs s (lq_ttl_ms req) 0) turns w))"

definition svc_TryLock ::
  "'w lock_service \<Rightarrow> env \<Rightarrow> lock_request \<Rightarrow> 'w \<Rightarrow> (lock_error + lock_response) \<times> 'w" where
  "svc_TryLock s e req w =
     (case locks_ValidName e (lq_name req) of
        Some err \<Rightarrow> (Inl (Rpc InvalidArgument (BadName err)), w)
      | None \<Rightarrow>
          (case rejectIfObserver s w of
             Some err \<Rightarrow> (Inl err, w)
           | None \<Rightarrow>
               if must_forward s w then forwardTryLock s req w
               else
                 let holder = lock_holder s (lq_holder req) w;
                     ttl = lock_ttlFromMs s (lq_ttl_ms req) 0
                 in (case applyAcquire s e (lq_name req) holder ttl w of
                       (Inl err, w1) \<Rightarrow> (Inl (Rpc Internal err), w1)
                     | (Inr (tok, ok), w1) \<Rightarrow>
                         if ok then (Inr (tryLockResponse s (lq_name req) holder tok w1), w1)
                         else
                           (case sv_table s w1 of
                              None \<Rightarrow> (Inl (Rpc Internal NilPointer), w1)
                            | Some t \<Rightarrow>
                                (case locks_Get (lq_name req) t of
                                   Some cur \<Rightarrow>
                                     (Inr \<lparr>lp_acquired = False, lp_message = ''held'',
                                           lp_token = lk_token cur, lp_holder = lk_holder cur,
                                           lp_deadline = unixMs (lk_deadline cur)\<rparr>, w1)
                                 | None \<Rightarrow>
                                     (Inr \<lparr>lp_acquired = False, lp_message = ''held'', lp_token = 0,
                                           lp_holder = '''', lp_deadline = 0\<rparr>, w1))))))"

definition svc_Unlock ::
  "'w lock_service \<Rightarrow> env \<Rightarrow> unlock_request \<Rightarrow> 'w \<Rightarrow> (lock_error + bool) \<times> 'w" where
  "svc_Unlock s e req w =
     (case locks_ValidName e (uq_name req) of
        Some err \<Rightarrow> (Inl (Rpc InvalidArgument (BadName err)), w)
      | None \<Rightarrow>
          (case rejectIfObserver s w of
             Some err \<Rightarrow> (Inl err, w)
           | None \<Rightarrow>
               if must_forward s w then forwardUnlock s req w
               else
                 (case applyRelease s e (uq_name req) (lock_holder s (uq_holder req) w)
                         (uq_token req) w of
                    (Some err, w1) \<Rightarrow> (Inl (Rpc FailedPrecondition err), w1)
                  | (None, w1) \<Rightarrow> (Inr True, w1))))"

definition svc_Renew ::
  "'w lock_service \<Rightarrow> env \<Rightarrow> renew_request \<Rightarrow> 'w \<Rightarrow> (lock_error + renew_response) \<times> 'w" where
  "svc_Renew s e req w =
     (case locks_ValidName e (nq_name req) of
        Some err \<Rightarrow> (Inl (Rpc InvalidArgument (BadName err)), w)
      | None \<Rightarrow>
          (case rejectIfObserver s w of
             Some err \<Rightarrow> (Inl err, w)
           | None \<Rightarrow>
               if must_forward s w then forwardRenew s req w
               else
                 (case sv_table s w of
                    None \<Rightarrow> (Inl (Rpc Internal NilPointer), w)
                  | Some t \<Rightarrow>
                      let holder = lock_holder s (nq_holder req) w;
                          reuse = (case locks_Get (nq_name req) t of
                                     Some rec \<Rightarrow> if lk_ttl rec > 0 then lk_ttl rec
                                                 else sv_defaultTTL s
                                   | None \<Rightarrow> sv_defaultTTL s);
                          ttl = lock_ttlFromMs s (nq_ttl_ms req) reuse
                      in (case applyRenew s e (nq_name req) holder (nq_token req) ttl w of
                            (Inl err, w1) \<Rightarrow> (Inl (Rpc FailedPrecondition err), w1)
                          | (Inr deadline, w1) \<Rightarrow>
                              (Inr \<lparr>np_renewed = True, np_token = nq_token req,
                                    np_deadline = unixMs deadline\<rparr>, w1)))))"

definition lock_info_of :: "lock_record \<Rightarrow> lock_info" where
  "lock_info_of rec =
     \<lparr>li_name = lk_name rec, li_holder = lk_holder rec, li_token = lk_token rec,
      li_acquired = to_UnixMilli (lk_acquired_at rec), li_deadline = unixMs (lk_deadline rec)\<rparr>"

definition ListLocks :: "'w lock_service \<Rightarrow> 'w \<Rightarrow> lock_info list" where
  "ListLocks s w =
     (case sv_table s w of None \<Rightarrow> [] | Some t \<Rightarrow> map lock_info_of (locks_List t))"

section \<open>Lemmas\<close>

lemma ttl_range:
  "Millisecond \<le> lock_ttlFromMs s ms reuse" "lock_ttlFromMs s ms reuse \<le> 24 * Hour"
  by (simp_all add: lock_ttlFromMs_def Let_def ClampTTL_range)

lemma ttl_clamped: "locks_ClampTTL (lock_ttlFromMs s ms reuse) 0 = lock_ttlFromMs s ms reuse"
  using ttl_range [of s ms reuse]
  by (simp add: locks_ClampTTL_def Let_def locks_MinTTL_def locks_MaxTTL_def Millisecond_def
      Hour_def)

text \<open>What the state machine has recorded for a holder after an acquisition at the clock \<open>e\<close>.\<close>

definition holds_lock ::
  "(string \<times> string \<times> u64) \<Rightarrow> env \<Rightarrow> duration \<Rightarrow> locks_table \<Rightarrow> bool" where
  "holds_lock g e ttl t =
     (case g of (name, holder, tok) \<Rightarrow>
        (case locks_Get name t of
           None \<Rightarrow> False
         | Some rec \<Rightarrow> lk_holder rec = holder \<and> lk_token rec = tok \<and>
             lk_deadline rec \<le> env_now e + ttl \<and> env_now e + ttl < lk_deadline rec + Millisecond))"

definition clock_ok :: "env \<Rightarrow> bool" where
  "clock_ok e \<longleftrightarrow> unix_epoch < env_now e \<and> env_now e + 24 * Hour < 2 ^ 62 * Millisecond"

lemma applyAcquire_sound:
  assumes "sv_raft s = Some rl" and "raft_applies rl f0 lg" and "valid_utf8 name"
    and "valid_utf8 holder" and "clock_ok e"
    and "applyAcquire s e name holder (lock_ttlFromMs s ms reuse) w = (Inr (tok, True), w')"
  shows "log_reaches f0 (lg w) (lg w') (\<lambda>f. \<exists>t. fsm_locks f = Some t \<and>
    holds_lock (name, holder, tok) e (lock_ttlFromMs s ms reuse) t)"
proof -
  have "ApplyLockAcquire rl e name holder (lock_ttlFromMs s ms reuse) w = (Inr (tok, True), w')"
    using assms(1,6) by (simp add: applyAcquire_def split: prod.splits sum.splits)
  note sound = ApplyLockAcquire_sound [OF assms(2,3,4) _ _ this, unfolded ttl_clamped]
  show ?thesis
    by (rule log_reaches_widen [OF sound]) (use assms(5) in \<open>auto simp: clock_ok_def holds_lock_def\<close>)
qed

lemma applyAcquire_extends:
  assumes "sv_raft s = Some rl" and "raft_applies rl f0 lg"
    and "applyAcquire s e name holder ttl w = (Inr res, w')"
  shows "log_extends (lg w) (lg w')"
proof -
  obtain cmd r where "applyLock rl e cmd w = (Inr r, w')"
    using assms(1,3)
    by (auto simp: applyAcquire_def ApplyLockAcquire_def Let_def split: prod.splits sum.splits)
  from applyLock_Inr [OF this] show ?thesis
    by (auto intro: raft_applies_extends [OF assms(2)])
qed

text \<open>
  What the other clients do while a call waits: they only add entries to the log. A grant of the
  loop comes from an acquisition of one of its turns, at a later point of that log.
\<close>

definition turn_logs :: "('w \<Rightarrow> raft_log) \<Rightarrow> 'w lock_turn \<Rightarrow> bool" where
  "turn_logs lg turn \<longleftrightarrow>
     (\<forall>v. log_extends (lg v) (lg (lt_between turn v)) \<and> log_extends (lg v) (lg (lt_during turn v)))"

lemma lock_loop_grant:
  assumes "lock_loop s name holder ttl turns w = (Some (Inr resp), w')"
    and "sv_raft s = Some rl" and "raft_applies rl f0 lg" and "list_all (turn_logs lg) turns"
  shows "\<exists>turn tok w0. turn \<in> set turns \<and> log_extends (lg w) (lg w0) \<and>
    applyAcquire s (lt_env turn) name holder ttl w0 = (Inr (tok, True), w') \<and>
    resp = grantResponse s name holder tok w'"
  using assms
proof (induction s name holder ttl turns w rule: lock_loop.induct)
  case (2 s name holder ttl c e between during cw ts w)
  show ?case
  proof (cases c)
    case None
    obtain r w1 where acq: "applyAcquire s e name holder ttl w = (r, w1)" by fastforce
    show ?thesis
    proof (cases r)
      case (Inl err)
      with "2.prems"(1) None acq show ?thesis by simp
    next
      case (Inr p)
      obtain tok ok where p: "p = (tok, ok)" by fastforce
      show ?thesis
      proof (cases ok)
        case True
        with "2.prems"(1) None acq Inr p have "resp = grantResponse s name holder tok w'" "w' = w1"
          by auto
        with acq Inr p True show ?thesis by (intro exI [of _ "Turn c e between during cw"] exI [of _ tok] exI [of _ w]) simp
      next
        case False
        obtain t2 t3 where wait: "sv_table s (between w1) = Some t2"
          "sv_table s (during (between w1)) = Some t3" "cw = None"
          "locks_Wait_returns (locks_Wait_enter t2) t3"
          and run: "lock_loop s name holder ttl ts (during (between w1)) = (Some (Inr resp), w')"
          using "2.prems"(1) None acq Inr p False by (auto simp: Let_def split: option.splits if_splits)
        have "log_extends (lg w) (lg w1)"
          using applyAcquire_extends [OF "2.prems"(2,3)] acq Inr by blast
        also have "log_extends (lg w1) (lg (between w1))"
          using "2.prems"(4) by (simp add: turn_logs_def)
        also have "log_extends (lg (between w1)) (lg (during (between w1)))"
          using "2.prems"(4) by (simp add: turn_logs_def)
        finally have ext: "log_extends (lg w) (lg (during (between w1)))" .
        note IH = "2.IH" [OF None acq [symmetric] Inr p [symmetric] False refl wait(1) refl wait(2-4)
            run "2.prems"(2,3)]
        from IH "2.prems"(4) obtain turn tok w0 where "turn \<in> set ts"
          "log_extends (lg (during (between w1))) (lg w0)"
          "applyAcquire s (lt_env turn) name holder ttl w0 = (Inr (tok, True), w')"
          "resp = grantResponse s name holder tok w'" by auto
        then show ?thesis using log_extends_trans [OF ext]
          by (intro exI [of _ turn] exI [of _ tok] exI [of _ w0]) simp
      qed
    qed
  qed (use "2.prems"(1) in simp)
qed simp

lemma not_forwarded: "sv_raft s = Some rl \<Longrightarrow> IsLeader rl w \<Longrightarrow> \<not> must_forward s w"
  by (simp add: must_forward_def)

lemma TryLock_acquired:
  assumes "svc_TryLock s e req w = (Inr resp, w')" and "\<not> must_forward s w" and "lp_acquired resp"
  shows "\<exists>tok. applyAcquire s e (lq_name req) (lock_holder s (lq_holder req) w)
      (lock_ttlFromMs s (lq_ttl_ms req) 0) w = (Inr (tok, True), w') \<and>
    resp = tryLockResponse s (lq_name req) (lock_holder s (lq_holder req) w) tok w'"
proof -
  let ?h = "lock_holder s (lq_holder req) w" and ?ttl = "lock_ttlFromMs s (lq_ttl_ms req) 0"
  have ok: "locks_ValidName e (lq_name req) = None" "rejectIfObserver s w = None"
    using assms(1) by (auto simp: svc_TryLock_def split: option.splits)
  obtain r w1 where acq: "applyAcquire s e (lq_name req) ?h ?ttl w = (r, w1)" by fastforce
  show ?thesis
    using assms ok acq
    by (cases r) (auto simp: svc_TryLock_def Let_def split: option.splits if_splits)
qed

text \<open>
  A forwarded request keeps its empty holder, so the daemon that answers it, the leader's, puts in
  its own id.
\<close>

lemma forwarded_holder:
  assumes "must_forward s w" and "dialLeader s w = Inr addr"
    and "pe_TryLock (sv_peer s) addr req w = svc_TryLock ld e' req w" and "\<not> must_forward ld w"
    and "sv_nodes ld = Some nodes" and "lq_holder req = ''''"
    and "svc_TryLock s e req w = (Inr resp, w')" and "lp_acquired resp"
  shows "lp_holder resp = SelfID (nodes w)"
proof -
  have "svc_TryLock ld e' req w = (Inr resp, w')"
    using assms(1,2,3,7) by (auto simp: svc_TryLock_def forwardTryLock_def split: option.splits)
  from TryLock_acquired [OF this assms(4,8)] assms(5,6) show ?thesis
    by (auto simp: tryLockResponse_def lock_holder_def)
qed

text \<open>
  A lock that is freed between the failed acquisition and the entry of Wait does not wake the call:
  it goes on sleeping although the name is free.
\<close>

lemma lock_lost_wakeup:
  assumes "applyAcquire s e name holder ttl w = (Inr (tok, False), w1)"
    and "sv_table s (between w1) = Some t" and "locks_Get name t = None"
    and "sv_table s (during (between w1)) = Some t'" and "tab_wait t' = tab_wait t"
  shows "lock_loop s name holder ttl (Turn None e between during None # ts) w =
    (None, during (between w1))"
  using assms by (simp add: Let_def locks_Wait_returns_def locks_Wait_enter_def)

text \<open>The product of the milliseconds and the unit wraps: 584 years become the minimum.\<close>

lemma lock_ttl_overflow: "lock_ttlFromMs s 18446744073710 0 = Millisecond"
  by (simp add: lock_ttlFromMs_def Let_def i64_def Millisecond_def locks_ClampTTL_def
      locks_MinTTL_def locks_MaxTTL_def)

section \<open>Properties\<close>

text \<open>
  C6. What Lock promises its caller: when the call on the leader returns a grant, then one of its
  turns acquired the lock: in a state that the log of the leader went through during the call, the
  lock table held the name for exactly the holder and the token of the response, up to the
  millisecond until the clock of that turn plus the requested lifetime.
\<close>

theorem Lock_sound:
  assumes "sv_raft s = Some rl" and "raft_applies rl f0 lg" and "IsLeader rl w"
    and "valid_utf8 (lq_name req)" and "valid_utf8 (lock_holder s (lq_holder req) w)"
    and "\<forall>turn\<in>set turns. clock_ok (lt_env turn) \<and> turn_logs lg turn"
    and "svc_Lock s e req turns w = (Some (Inr resp), w')"
  shows "lp_acquired resp \<and> lp_holder resp = lock_holder s (lq_holder req) w \<and>
    (\<exists>turn\<in>set turns. log_reaches f0 (lg w) (lg w') (\<lambda>f. \<exists>t. fsm_locks f = Some t \<and>
       holds_lock (lq_name req, lp_holder resp, lp_token resp) (lt_env turn)
         (lock_ttlFromMs s (lq_ttl_ms req) 0) t))"
proof -
  let ?h = "lock_holder s (lq_holder req) w" and ?ttl = "lock_ttlFromMs s (lq_ttl_ms req) 0"
  have "lock_loop s (lq_name req) ?h ?ttl turns w = (Some (Inr resp), w')"
    using assms(7) not_forwarded [OF assms(1,3)] by (auto simp: svc_Lock_def split: option.splits)
  from lock_loop_grant [OF this assms(1,2)] assms(6)
  obtain turn tok w0 where turn: "turn \<in> set turns" and ext: "log_extends (lg w) (lg w0)"
    and acq: "applyAcquire s (lt_env turn) (lq_name req) ?h ?ttl w0 = (Inr (tok, True), w')"
    and resp: "resp = grantResponse s (lq_name req) ?h tok w'" by (auto simp: list_all_iff)
  have "clock_ok (lt_env turn)" using assms(6) turn by blast
  note sound = log_reaches_widen [OF applyAcquire_sound [OF assms(1,2,4,5) this acq] ext log_extends_refl]
  show ?thesis unfolding resp grantResponse_def using turn by (auto intro: sound)
qed

text \<open>
  An observer is read-only: on a daemon whose own member entry has the observer role, every call
  of the lock service that could change a lock fails and leaves the world as it was; no request is
  forwarded.
\<close>

theorem observer_read_only:
  assumes "sv_members s = Some members" and "m \<in> set (Members (members w))"
    and "mb_id m = SelfID (members w)" and "NormalizeRole (mb_role m) = RoleObserver"
  shows "(\<exists>err. svc_TryLock s e lreq w = (Inl err, w)) \<and>
    (\<exists>err. svc_Lock s e lreq turns w = (Some (Inl err), w)) \<and>
    (\<exists>err. svc_Unlock s e ureq w = (Inl err, w)) \<and> (\<exists>err. svc_Renew s e nreq w = (Inl err, w))"
proof -
  have "rejectIfObserver s w = Some (Rpc FailedPrecondition ObserverReadOnly)"
    using assms by (auto simp: rejectIfObserver_def Let_def list_ex_iff)
  then show ?thesis
    by (simp add: svc_TryLock_def svc_Lock_def svc_Unlock_def svc_Renew_def split: option.split)
qed

text \<open>
  C36. A sleeping Lock is woken: when a blocked call has entered Wait while the name was held, any
  operation on the table that frees the name wakes it, and it tries again in the state that the
  operation left.
\<close>

theorem Lock_wakes:
  assumes "applyAcquire s e name holder ttl w = (Inr (tok, False), w1)"
    and "sv_table s (between w1) = Some t" and "locks_Get name t \<noteq> None"
    and "sv_table s (during (between w1)) = Some (locks_step e' op t)"
    and "locks_Get name (locks_step e' op t) = None"
  shows "lock_loop s name holder ttl (Turn None e between during None # ts) w =
    lock_loop s name holder ttl ts (during (between w1))"
  using assms locks_release_wakes [OF assms(3,5)] by (simp add: Let_def)

text \<open>
  The lifetime the service asks for lies between one millisecond and 24 hours for every request;
  it is the requested one when that lies in the range, 24 hours when it is longer and does not
  overflow, and the reused one when the request names none.
\<close>

theorem lock_ttl_bounds:
  "Millisecond \<le> lock_ttlFromMs s ms reuse \<and> lock_ttlFromMs s ms reuse \<le> 24 * Hour \<and>
   (ms \<in> {1..86400000} \<longrightarrow> lock_ttlFromMs s ms reuse = ms * Millisecond) \<and>
   (ms \<in> {86400000..9223372036854} \<longrightarrow> lock_ttlFromMs s ms reuse = 24 * Hour) \<and>
   (ms \<le> 0 \<and> reuse \<in> {Millisecond..24 * Hour} \<longrightarrow> lock_ttlFromMs s ms reuse = reuse)"
  using ttl_range [of s ms reuse]
  by (auto simp: lock_ttlFromMs_def Let_def locks_ClampTTL_def locks_MinTTL_def locks_MaxTTL_def
      Millisecond_def Hour_def in_i64_def)

section \<open>Witnesses\<close>

definition no_peer :: "'w lock_peer" where
  "no_peer = \<lparr>pe_dial = (\<lambda>addr w. False), pe_Lock = (\<lambda>addr req w. (Inl (Rpc Unavailable RemoteFailed), w)),
     pe_TryLock = (\<lambda>addr req w. (Inl (Rpc Unavailable RemoteFailed), w)),
     pe_Unlock = (\<lambda>addr req w. (Inl (Rpc Unavailable RemoteFailed), w)),
     pe_Renew = (\<lambda>addr req w. (Inl (Rpc Unavailable RemoteFailed), w))\<rparr>"

text \<open>
  A daemon on a cluster with one server: its world is the log, which is all that changes the table
  and the members.
\<close>

definition solo_service :: "engine \<Rightarrow> raft_log lock_service" where
  "solo_service en = RegisterLockService (\<lambda>l. fsm_locks (solo_fsm en l)) (\<lambda>t l. l)
     (Some (solo_raft en)) (\<lambda>l. fsm_applier (solo_fsm en l)) no_peer 0"

text \<open>A daemon without Raft, whose world is its lock table.\<close>

definition table_service :: "locks_table lock_service" where
  "table_service = RegisterLockService Some (\<lambda>t w. t) None (\<lambda>w. demo_engine ''a'') no_peer 0"

lemma demo_acquire:
  "\<exists>w'. ApplyLockAcquire (solo_raft (demo_engine ''a'')) (ascii_env (unix_epoch + Hour)) ''db'' ''a'' ttl [] =
     (Inr (1, True), w')"
proof -
  let ?cmd = "grant_command CmdLockAcquire ''db'' ''a'' 0 (locks_ClampTTL ttl 0)
    (unix_epoch + Hour + locks_ClampTTL ttl 0)"
  have ok: "command_ok ?cmd" by (intro grant_command_ok) (simp_all add: valid_utf8_ascii byte_def)
  show ?thesis
    by (simp add: ApplyLockAcquire_def Let_def applyLock_def solo_raft_def solo_fsm_def fsm_Apply_def
        decode_encode [OF ok] fsm_switch_def member_kind_def lock_kind_def apply_lock_def
        fsm_start_def locks_Acquire_def demo_valid locks_New_def MaxLocks_def lock_ok_def)
qed

lemma solo_service_sel [simp]:
  "sv_raft (solo_service en) = Some (solo_raft en)"
  "sv_table (solo_service en) = (\<lambda>l. fsm_locks (solo_fsm en l))"
  "sv_nodes (solo_service en) = Some (\<lambda>l. fsm_applier (solo_fsm en l))"
  "sv_members (solo_service en) = Some (\<lambda>l. fsm_applier (solo_fsm en l))"
  "IsLeader (solo_raft en) l"
  by (simp_all add: solo_service_def RegisterLockService_def IsLeader_def solo_raft_def)

lemma demo_not_observer: "rejectIfObserver (solo_service (demo_engine ''a'')) [] = None"
  unfolding rejectIfObserver_def solo_service_sel solo_fsm_def apply_log.simps fsm_start_def
    fsm.simps option.case by code_simp

theorem Lock_sound_witness:
  "case svc_Lock (solo_service (demo_engine ''a'')) (ascii_env 0)
     \<lparr>lq_name = ''db'', lq_holder = ''a'', lq_ttl_ms = 5000\<rparr>
     [Turn None (ascii_env (unix_epoch + Hour)) id id None] [] of
     (Some (Inr resp), w') \<Rightarrow> lp_token resp = 1 \<and>
       log_reaches (fsm_start (demo_engine ''a'')) [] w' (\<lambda>f. \<exists>t. fsm_locks f = Some t \<and>
          holds_lock (''db'', ''a'', 1) (ascii_env (unix_epoch + Hour)) (5 * Second) t)
   | _ \<Rightarrow> False"
proof -
  let ?en = "demo_engine ''a''" and ?e = "ascii_env (unix_epoch + Hour)"
  let ?s = "solo_service ?en" and ?req = "\<lparr>lq_name = ''db'', lq_holder = ''a'', lq_ttl_ms = 5000\<rparr>"
  let ?turns = "[Turn None ?e id id None]"
  have ttl: "lock_ttlFromMs ?s 5000 0 = 5 * Second"
    by (simp add: lock_ttlFromMs_def Let_def locks_ClampTTL_def locks_MinTTL_def locks_MaxTTL_def
        Millisecond_def Hour_def Second_def in_i64_def)
  obtain w' where acq: "ApplyLockAcquire (solo_raft ?en) ?e ''db'' ''a'' (5 * Second) [] = (Inr (1, True), w')"
    using demo_acquire by blast
  have run: "svc_Lock ?s (ascii_env 0) ?req ?turns [] =
      (Some (Inr (grantResponse ?s ''db'' ''a'' 1 w')), w')"
    using acq
    by (simp add: svc_Lock_def demo_valid demo_not_observer must_forward_def lock_holder_def ttl
        applyAcquire_def)
  have "\<forall>turn\<in>set ?turns. clock_ok (lt_env turn) \<and> turn_logs (\<lambda>l. l) turn"
    by (simp add: clock_ok_def turn_logs_def Hour_def unix_epoch_def Millisecond_def)
  then have "log_reaches (fsm_start ?en) [] w' (\<lambda>f. \<exists>t. fsm_locks f = Some t \<and>
      holds_lock (''db'', ''a'', 1) ?e (5 * Second) t)"
    using Lock_sound [OF solo_service_sel(1) solo_applies solo_service_sel(5) _ _ _ run]
    by (simp add: lock_holder_def valid_utf8_ascii byte_def grantResponse_def ttl)
  then show ?thesis unfolding run by (simp add: grantResponse_def)
qed

definition observer_engine :: engine where
  "observer_engine = snd (snd (JoinAs (ascii_env 1) ''a'' ''a:1'' RoleObserver
     (membership_New (ascii_env 1) ''a'' ''a:1'')))"

theorem observer_read_only_witness:
  "\<exists>err. svc_TryLock (solo_service observer_engine) (ascii_env 5)
     \<lparr>lq_name = ''db'', lq_holder = ''b'', lq_ttl_ms = 0\<rparr> [] = (Inl err, [])"
proof -
  have self: "list_ex (\<lambda>m. mb_id m = SelfID observer_engine \<and>
      NormalizeRole (mb_role m) = RoleObserver) (Members observer_engine)"
    by code_simp
  then obtain m where "m \<in> set (Members observer_engine)" "mb_id m = SelfID observer_engine"
    "NormalizeRole (mb_role m) = RoleObserver" by (auto simp: list_ex_iff)
  then show ?thesis
    using observer_read_only [OF solo_service_sel(4), of m observer_engine "[]"]
    by (simp add: solo_fsm_def fsm_start_def)
qed

theorem Lock_wakes_witness:
  "fst (lock_loop table_service ''db'' ''b'' Second
     [Turn None (ascii_env 5) id (locks_step (ascii_env 6) (Give ''db'' ''a'' 1)) None,
      Turn None (ascii_env 7) id id None]
     (locks_step (ascii_env 1) (Take ''db'' ''a'' 9 9) locks_New)) =
   fst (lock_loop table_service ''db'' ''b'' Second [Turn None (ascii_env 7) id id None]
     (locks_step (ascii_env 6) (Give ''db'' ''a'' 1)
       (locks_step (ascii_env 1) (Take ''db'' ''a'' 9 9) locks_New)))"
proof -
  let ?t = "locks_step (ascii_env 1) (Take ''db'' ''a'' 9 9) locks_New"
  have tab: "sv_table table_service = Some"
    by (simp add: table_service_def RegisterLockService_def)
  have acq: "applyAcquire table_service (ascii_env 5) ''db'' ''b'' Second ?t = (Inr (1, False), ?t)"
    by (simp add: applyAcquire_def table_service_def RegisterLockService_def locks_Acquire_def
        demo_valid locks_New_def MaxLocks_def)
  have free: "locks_Get ''db'' ?t \<noteq> None"
    "locks_Get ''db'' (locks_step (ascii_env 6) (Give ''db'' ''a'' 1) ?t) = None"
    by (simp_all add: locks_Get_def locks_Acquire_def locks_Release_def demo_valid locks_New_def
        MaxLocks_def)
  show ?thesis
    by (subst Lock_wakes [OF acq, of id ?t _ "ascii_env 6" "Give ''db'' ''a'' 1"])
      (use tab free in simp_all)
qed

theorem lock_ttl_bounds_witness:
  "lock_ttlFromMs table_service 5000 0 = 5 * Second \<and>
   lock_ttlFromMs table_service 9000000000000 0 = 24 * Hour \<and>
   lock_ttlFromMs table_service 0 Second = Second"
  using lock_ttl_bounds [of table_service 5000 0] lock_ttl_bounds [of table_service 9000000000000 0]
    lock_ttl_bounds [of table_service 0 Second]
  by (simp add: Second_def Millisecond_def Hour_def)

end
