(* ===== verification/Lease_Service.thy ===== *)
theory Lease_Service
  imports Lock_Service
begin

text \<open>
  The lease API (internal/grpcserver/leases.go), built as the lock API is: a world state \<open>'w\<close> with
  the Raft library, the local lease table, the member list and the receiver of the events that the
  table emits. Lemmas: what a grant means to the client, and that a renewal without a lifetime
  keeps the lifetime of the lease.
\<close>

section \<open>Messages\<close>

record grant_request =
  gq_name :: string
  gq_owner :: string
  gq_ttl_ms :: int

record grant_response =
  gp_granted :: bool
  gp_message :: string
  gp_token :: u64
  gp_owner :: string
  gp_deadline :: int

record revoke_request =
  vq_name :: string
  vq_owner :: string
  vq_token :: u64

record lease_info =
  ei_name :: string
  ei_owner :: string
  ei_token :: u64
  ei_granted :: int
  ei_deadline :: int

record 'w lease_peer =
  ep_dial :: "string \<Rightarrow> 'w \<Rightarrow> bool"
  ep_Grant :: "string \<Rightarrow> grant_request \<Rightarrow> 'w \<Rightarrow> (lock_error + grant_response) \<times> 'w"
  ep_Renew :: "string \<Rightarrow> renew_request \<Rightarrow> 'w \<Rightarrow> (lock_error + renew_response) \<times> 'w"
  ep_Revoke :: "string \<Rightarrow> revoke_request \<Rightarrow> 'w \<Rightarrow> (lock_error + bool) \<times> 'w"

record 'w lease_service =
  ls_raft :: "'w raft_lib option"
  ls_table :: "'w \<Rightarrow> leases_table option"
  ls_set_table :: "leases_table \<Rightarrow> 'w \<Rightarrow> 'w"
  ls_emit :: "event list \<Rightarrow> 'w \<Rightarrow> 'w"
  ls_nodes :: "('w \<Rightarrow> engine) option"
  ls_peer :: "'w lease_peer"
  ls_defaultTTL :: duration

definition RegisterLeaseService ::
  "('w \<Rightarrow> leases_table option) \<Rightarrow> (leases_table \<Rightarrow> 'w \<Rightarrow> 'w) \<Rightarrow> (event list \<Rightarrow> 'w \<Rightarrow> 'w) \<Rightarrow>
   'w raft_lib option \<Rightarrow> ('w \<Rightarrow> engine) \<Rightarrow> 'w lease_peer \<Rightarrow> duration \<Rightarrow> 'w lease_service" where
  "RegisterLeaseService table set_table emit raft nodes peer defaultTTL =
     \<lparr>ls_raft = raft, ls_table = table, ls_set_table = set_table, ls_emit = emit,
      ls_nodes = Some nodes, ls_peer = peer,
      ls_defaultTTL = (if defaultTTL \<le> 0 then leases_DefaultTTL else defaultTTL)\<rparr>"

section \<open>Helpers\<close>

definition lease_ttlFromMs :: "'w lease_service \<Rightarrow> int \<Rightarrow> duration \<Rightarrow> duration" where
  "lease_ttlFromMs s ms reuse =
     (let requested = (if ms > 0 then i64 (ms * Millisecond) else reuse)
      in leases_ClampTTL requested (ls_defaultTTL s))"

definition lease_owner :: "'w lease_service \<Rightarrow> string \<Rightarrow> 'w \<Rightarrow> string" where
  "lease_owner s h w =
     (if h \<noteq> '''' then h
      else (case ls_nodes s of Some nodes \<Rightarrow> SelfID (nodes w) | None \<Rightarrow> ''''))"

definition lease_applyGrant ::
  "'w lease_service \<Rightarrow> env \<Rightarrow> string \<Rightarrow> string \<Rightarrow> duration \<Rightarrow> 'w \<Rightarrow> (lock_detail + u64 \<times> bool) \<times> 'w" where
  "lease_applyGrant s e name owner ttl w =
     (case ls_raft s of
        Some rl \<Rightarrow>
          (case ApplyLeaseGrant rl e name owner ttl w of
             (Inl err, w') \<Rightarrow> (Inl (ApplyFailed err), w')
           | (Inr res, w') \<Rightarrow> (Inr res, w'))
      | None \<Rightarrow>
          (case ls_table s w of
             None \<Rightarrow> (Inl TableMissing, w)
           | Some t \<Rightarrow>
               (case leases_Grant e name owner (env_now e + ttl) ttl t of
                  (Inl err, evs, t') \<Rightarrow> (Inl (TableFailed err), ls_emit s evs (ls_set_table s t' w))
                | (Inr res, evs, t') \<Rightarrow> (Inr res, ls_emit s evs (ls_set_table s t' w)))))"

definition lease_applyRenew ::
  "'w lease_service \<Rightarrow> env \<Rightarrow> string \<Rightarrow> string \<Rightarrow> u64 \<Rightarrow> duration \<Rightarrow> 'w \<Rightarrow> (lock_detail + gotime) \<times> 'w" where
  "lease_applyRenew s e name owner token ttl w =
     (case ls_raft s of
        Some rl \<Rightarrow>
          (case ApplyLeaseRenew rl e name owner token ttl w of
             (Inl err, w') \<Rightarrow> (Inl (ApplyFailed err), w')
           | (Inr d, w') \<Rightarrow> (Inr d, w'))
      | None \<Rightarrow>
          (case ls_table s w of
             None \<Rightarrow> (Inl TableMissing, w)
           | Some t \<Rightarrow>
               let deadline = env_now e + ttl in
               (case leases_Renew e name owner token deadline ttl t of
                  (Some err, t') \<Rightarrow> (Inl (TableFailed err), ls_set_table s t' w)
                | (None, t') \<Rightarrow> (Inr deadline, ls_set_table s t' w))))"

definition lease_applyRevoke ::
  "'w lease_service \<Rightarrow> env \<Rightarrow> string \<Rightarrow> string \<Rightarrow> u64 \<Rightarrow> 'w \<Rightarrow> lock_detail option \<times> 'w" where
  "lease_applyRevoke s e name owner token w =
     (case ls_raft s of
        Some rl \<Rightarrow>
          (case ApplyLeaseRevoke rl e name owner token w of
             (err, w') \<Rightarrow> (map_option ApplyFailed err, w'))
      | None \<Rightarrow>
          (case ls_table s w of
             None \<Rightarrow> (Some TableMissing, w)
           | Some t \<Rightarrow>
               (case leases_Revoke e name owner token t of
                  (err, evs, t') \<Rightarrow>
                    (map_option TableFailed err, ls_emit s evs (ls_set_table s t' w)))))"

definition lease_dialLeader :: "'w lease_service \<Rightarrow> 'w \<Rightarrow> lock_error + string" where
  "lease_dialLeader s w =
     (case ls_nodes s of
        None \<Rightarrow> Inl (Rpc FailedPrecondition NotLeader)
      | Some nodes \<Rightarrow>
          (case Leader (nodes w) of
             None \<Rightarrow> Inl (Rpc FailedPrecondition NotLeader)
           | Some l \<Rightarrow>
               if mb_address l = '''' \<or> mb_id l = SelfID (nodes w)
               then Inl (Rpc FailedPrecondition NotLeader)
               else if ep_dial (ls_peer s) (mb_address l) w then Inr (mb_address l)
               else Inl (Rpc Unavailable (DialFailed (mb_id l)))))"

definition lease_forwardGrant ::
  "'w lease_service \<Rightarrow> grant_request \<Rightarrow> 'w \<Rightarrow> (lock_error + grant_response) \<times> 'w" where
  "lease_forwardGrant s req w =
     (case lease_dialLeader s w of Inl err \<Rightarrow> (Inl err, w) | Inr addr \<Rightarrow> ep_Grant (ls_peer s) addr req w)"

definition lease_forwardRenew ::
  "'w lease_service \<Rightarrow> renew_request \<Rightarrow> 'w \<Rightarrow> (lock_error + renew_response) \<times> 'w" where
  "lease_forwardRenew s req w =
     (case lease_dialLeader s w of Inl err \<Rightarrow> (Inl err, w) | Inr addr \<Rightarrow> ep_Renew (ls_peer s) addr req w)"

definition lease_forwardRevoke ::
  "'w lease_service \<Rightarrow> revoke_request \<Rightarrow> 'w \<Rightarrow> (lock_error + bool) \<times> 'w" where
  "lease_forwardRevoke s req w =
     (case lease_dialLeader s w of Inl err \<Rightarrow> (Inl err, w) | Inr addr \<Rightarrow> ep_Revoke (ls_peer s) addr req w)"

definition lease_must_forward :: "'w lease_service \<Rightarrow> 'w \<Rightarrow> bool" where
  "lease_must_forward s w = (case ls_raft s of Some rl \<Rightarrow> \<not> IsLeader rl w | None \<Rightarrow> False)"

definition lease_grantResponse :: "'w lease_service \<Rightarrow> string \<Rightarrow> string \<Rightarrow> u64 \<Rightarrow> 'w \<Rightarrow> grant_response" where
  "lease_grantResponse s name owner tok w =
     \<lparr>gp_granted = True, gp_message = '''', gp_token = tok, gp_owner = owner,
      gp_deadline =
        (case ls_table s w of
           None \<Rightarrow> 0
         | Some t \<Rightarrow> (case leases_Get name t of Some rec \<Rightarrow> unixMs (le_deadline rec) | None \<Rightarrow> 0))\<rparr>"

section \<open>Handlers\<close>

definition svc_Grant ::
  "'w lease_service \<Rightarrow> env \<Rightarrow> grant_request \<Rightarrow> 'w \<Rightarrow> (lock_error + grant_response) \<times> 'w" where
  "svc_Grant s e req w =
     (case leases_ValidName e (gq_name req) of
        Some err \<Rightarrow> (Inl (Rpc InvalidArgument (BadName err)), w)
      | None \<Rightarrow>
          if lease_must_forward s w then lease_forwardGrant s req w
          else
            let owner = lease_owner s (gq_owner req) w;
                ttl = lease_ttlFromMs s (gq_ttl_ms req) 0
            in (case lease_applyGrant s e (gq_name req) owner ttl w of
                  (Inl err, w1) \<Rightarrow> (Inl (Rpc Internal err), w1)
                | (Inr (tok, ok), w1) \<Rightarrow>
                    if ok then (Inr (lease_grantResponse s (gq_name req) owner tok w1), w1)
                    else
                      (case ls_table s w1 of
                         None \<Rightarrow> (Inl (Rpc Internal NilPointer), w1)
                       | Some t \<Rightarrow>
                           (case leases_Get (gq_name req) t of
                              Some cur \<Rightarrow>
                                (Inr \<lparr>gp_granted = False, gp_message = ''held'',
                                      gp_token = le_token cur, gp_owner = le_owner cur,
                                      gp_deadline = unixMs (le_deadline cur)\<rparr>, w1)
                            | None \<Rightarrow>
                                (Inr \<lparr>gp_granted = False, gp_message = ''held'', gp_token = 0,
                                      gp_owner = '''', gp_deadline = 0\<rparr>, w1)))))"

definition lease_reuse :: "'w lease_service \<Rightarrow> string \<Rightarrow> leases_table \<Rightarrow> duration" where
  "lease_reuse s name t =
     (case leases_Get name t of
        Some rec \<Rightarrow> if le_ttl rec > 0 then le_ttl rec else ls_defaultTTL s
      | None \<Rightarrow> ls_defaultTTL s)"

definition svc_lease_Renew ::
  "'w lease_service \<Rightarrow> env \<Rightarrow> renew_request \<Rightarrow> 'w \<Rightarrow> (lock_error + renew_response) \<times> 'w" where
  "svc_lease_Renew s e req w =
     (case leases_ValidName e (nq_name req) of
        Some err \<Rightarrow> (Inl (Rpc InvalidArgument (BadName err)), w)
      | None \<Rightarrow>
          if lease_must_forward s w then lease_forwardRenew s req w
          else
            (case ls_table s w of
               None \<Rightarrow> (Inl (Rpc Internal NilPointer), w)
             | Some t \<Rightarrow>
                 let owner = lease_owner s (nq_holder req) w;
                     ttl = lease_ttlFromMs s (nq_ttl_ms req) (lease_reuse s (nq_name req) t)
                 in (case lease_applyRenew s e (nq_name req) owner (nq_token req) ttl w of
                       (Inl err, w1) \<Rightarrow> (Inl (Rpc FailedPrecondition err), w1)
                     | (Inr deadline, w1) \<Rightarrow>
                         (Inr \<lparr>np_renewed = True, np_token = nq_token req,
                               np_deadline = unixMs deadline\<rparr>, w1))))"

definition svc_Revoke ::
  "'w lease_service \<Rightarrow> env \<Rightarrow> revoke_request \<Rightarrow> 'w \<Rightarrow> (lock_error + bool) \<times> 'w" where
  "svc_Revoke s e req w =
     (case leases_ValidName e (vq_name req) of
        Some err \<Rightarrow> (Inl (Rpc InvalidArgument (BadName err)), w)
      | None \<Rightarrow>
          if lease_must_forward s w then lease_forwardRevoke s req w
          else
            (case lease_applyRevoke s e (vq_name req) (lease_owner s (vq_owner req) w)
                    (vq_token req) w of
               (Some err, w1) \<Rightarrow> (Inl (Rpc FailedPrecondition err), w1)
             | (None, w1) \<Rightarrow> (Inr True, w1)))"

definition lease_info_of :: "lease_record \<Rightarrow> lease_info" where
  "lease_info_of rec =
     \<lparr>ei_name = le_name rec, ei_owner = le_owner rec, ei_token = le_token rec,
      ei_granted = to_UnixMilli (le_granted_at rec), ei_deadline = unixMs (le_deadline rec)\<rparr>"

definition ListLeases :: "'w lease_service \<Rightarrow> 'w \<Rightarrow> lease_info list" where
  "ListLeases s w =
     (case ls_table s w of None \<Rightarrow> [] | Some t \<Rightarrow> map lease_info_of (leases_List t))"

section \<open>Lemmas\<close>

lemma lease_ttl_exact:
  "ms \<in> {1..86400000} \<Longrightarrow> lease_ttlFromMs s ms reuse = ms * Millisecond"
  "ms \<le> 0 \<Longrightarrow> reuse \<in> {Millisecond..24 * Hour} \<Longrightarrow> lease_ttlFromMs s ms reuse = reuse"
  by (auto simp: lease_ttlFromMs_def Let_def ClampTTL_range(3) locks_ClampTTL_def locks_MinTTL_def
      locks_MaxTTL_def Millisecond_def Hour_def in_i64_def)

text \<open>As for locks, the lifetime in nanoseconds wraps.\<close>

lemma lease_ttl_overflow: "lease_ttlFromMs s 18446744073710 0 = Millisecond"
  by (simp add: lease_ttlFromMs_def Let_def i64_def Millisecond_def ClampTTL_range(3)
      locks_ClampTTL_def locks_MinTTL_def locks_MaxTTL_def)

section \<open>Properties\<close>

text \<open>
  A renewal that names no lifetime keeps the lifetime of the lease: it has the same response and
  the same effect as a renewal that asks for exactly the lifetime recorded in the table, whether the
  renewal succeeds or fails.
\<close>

theorem lease_renew_keeps_ttl:
  assumes "\<not> lease_must_forward s w" and "ls_table s w = Some t"
    and "leases_Get (nq_name req) t = Some rec" and "le_ttl rec = ms * Millisecond"
    and "ms \<in> {1..86400000}" and "nq_ttl_ms req \<le> 0"
  shows "svc_lease_Renew s e req w = svc_lease_Renew s e (req\<lparr>nq_ttl_ms := ms\<rparr>) w"
proof -
  have "le_ttl rec > 0" "le_ttl rec \<in> {Millisecond..24 * Hour}"
    using assms(4,5) by (simp_all add: Millisecond_def Hour_def)
  then have "lease_ttlFromMs s (nq_ttl_ms req) (lease_reuse s (nq_name req) t) =
      lease_ttlFromMs s ms (lease_reuse s (nq_name req) t)"
    using assms(3,4,5,6) by (simp add: lease_ttl_exact lease_reuse_def)
  with assms(1,2) show ?thesis
    by (cases "leases_ValidName e (nq_name req)") (simp_all add: svc_lease_Renew_def Let_def split: prod.split sum.split)
qed

section \<open>Witnesses\<close>

definition no_lease_peer :: "'w lease_peer" where
  "no_lease_peer = \<lparr>ep_dial = (\<lambda>addr w. False),
     ep_Grant = (\<lambda>addr req w. (Inl (Rpc Unavailable RemoteFailed), w)),
     ep_Renew = (\<lambda>addr req w. (Inl (Rpc Unavailable RemoteFailed), w)),
     ep_Revoke = (\<lambda>addr req w. (Inl (Rpc Unavailable RemoteFailed), w))\<rparr>"

definition lease_table_service :: "leases_table lease_service" where
  "lease_table_service = RegisterLeaseService Some (\<lambda>t w. t) (\<lambda>evs w. w) None
     (\<lambda>w. demo_engine ''a'') no_lease_peer 0"

theorem lease_renew_keeps_ttl_witness:
  "svc_lease_Renew lease_table_service (ascii_env 5)
     \<lparr>nq_name = ''db'', nq_holder = ''a'', nq_token = 1, nq_ttl_ms = 0\<rparr>
     (snd (snd (leases_Grant (ascii_env 1) ''db'' ''a'' 9 (7 * Millisecond) leases_New))) =
   svc_lease_Renew lease_table_service (ascii_env 5)
     \<lparr>nq_name = ''db'', nq_holder = ''a'', nq_token = 1, nq_ttl_ms = 7\<rparr>
     (snd (snd (leases_Grant (ascii_env 1) ''db'' ''a'' 9 (7 * Millisecond) leases_New)))"
proof -
  let ?t = "snd (snd (leases_Grant (ascii_env 1) ''db'' ''a'' 9 (7 * Millisecond) leases_New))"
  have sel: "ls_raft lease_table_service = None" "ls_table lease_table_service = Some"
    by (simp_all add: lease_table_service_def RegisterLeaseService_def)
  have "map_option le_ttl (leases_Get ''db'' ?t) = Some (7 * Millisecond)" by code_simp
  then obtain rec where "leases_Get ''db'' ?t = Some rec" "le_ttl rec = 7 * Millisecond" by auto
  then show ?thesis
    using lease_renew_keeps_ttl [of lease_table_service ?t ?t
        "\<lparr>nq_name = ''db'', nq_holder = ''a'', nq_token = 1, nq_ttl_ms = 0\<rparr>" rec 7 "ascii_env 5"]
    by (simp add: sel lease_must_forward_def)
qed

end
