(* ===== verification/Grpc_Server.thy ===== *)
theory Grpc_Server
  imports Raft_Node Event_Service
begin

text \<open>
  The parts of internal/grpcserver that every service shares: the interceptors and the shutdown of
  server.go, the client-certificate check of tls.go, and the read-only services of membership.go,
  health.go and heartbeat.go. The gRPC library, the certificates and the generated method names are
  arguments. Lemmas: which calls reach a handler, and that no panic of a handler escapes.
\<close>

section \<open>Read-only services\<close>

record pb_member =
  pm_id :: string
  pm_address :: string
  pm_status :: status
  pm_leader :: bool
  pm_role :: string

definition memberToProto :: "member \<Rightarrow> pb_member" where
  "memberToProto m =
     \<lparr>pm_id = mb_id m, pm_address = mb_address m, pm_status = NormalizeStatus (mb_status m),
      pm_leader = mb_leader m, pm_role = NormalizeRole (mb_role m)\<rparr>"

definition ListMembers :: "engine \<Rightarrow> pb_member list" where
  "ListMembers en = map memberToProto (Members en)"

datatype leader_detail = NoLeaderElected

definition GetLeader :: "engine \<Rightarrow> leader_detail rpc_error + string \<times> string" where
  "GetLeader en =
     (case Leader en of
        None \<Rightarrow> Inl (Rpc Unavailable NoLeaderElected)
      | Some l \<Rightarrow> Inr (mb_id l, mb_address l))"

record node_info =
  ni_NodeID :: string
  ni_ClusterID :: string
  ni_Role :: string

record health_response =
  hr_node_id :: string
  hr_cluster_id :: string
  hr_role :: string
  hr_healthy :: bool

definition Health :: "node_info \<Rightarrow> health_response" where
  "Health info =
     \<lparr>hr_node_id = ni_NodeID info, hr_cluster_id = ni_ClusterID info, hr_role = ni_Role info,
      hr_healthy = True\<rparr>"

definition Ping :: "string \<Rightarrow> string \<times> bool" where
  "Ping nodeID = (nodeID, True)"

section \<open>Client certificates\<close>

text \<open>
  What the gRPC library knows of the caller: nothing, a caller without TLS, or a TLS connection with
  the certificates the caller presented. The names of the two public methods are generated code.
\<close>

datatype 'c peer_info = NoPeer | PlainPeer | TLSPeer (peer_certs: "'c list")

record rpc_names =
  rn_Join :: string
  rn_Health :: string

datatype server_detail = MtlsRequired | PanicRecovered | HandlerError

definition publicRPC :: "rpc_names \<Rightarrow> string \<Rightarrow> bool" where
  "publicRPC rn method \<longleftrightarrow>
     method = rn_Join rn \<or> method = rn_Health rn \<or> HasPrefix method ''/grpc.reflection.''"

definition requirePeerCert ::
  "rpc_names \<Rightarrow> 'c peer_info \<Rightarrow> string \<Rightarrow> server_detail rpc_error option" where
  "requirePeerCert rn p method =
     (if publicRPC rn method then None
      else case p of
        NoPeer \<Rightarrow> Some (Rpc Unauthenticated MtlsRequired)
      | PlainPeer \<Rightarrow> Some (Rpc Unauthenticated MtlsRequired)
      | TLSPeer cs \<Rightarrow> if cs = [] then Some (Rpc Unauthenticated MtlsRequired) else None)"

section \<open>Interceptors\<close>

text \<open>
  A handler panics or returns an error or a value, and changes the world. An interceptor turns a
  handler into a handler. Logging only writes to the log, which is not part of the world.
\<close>

datatype ('d, 'a) outcome = Panic | Fails "'d rpc_error" | Returns 'a

type_synonym ('w, 'a) rpc_handler = "'w \<Rightarrow> (server_detail, 'a) outcome \<times> 'w"

definition loggingInterceptor :: "('w, 'a) rpc_handler \<Rightarrow> ('w, 'a) rpc_handler" where
  "loggingInterceptor handler w = handler w"

definition recoveryInterceptor :: "('w, 'a) rpc_handler \<Rightarrow> ('w, 'a) rpc_handler" where
  "recoveryInterceptor handler w =
     (case handler w of
        (Panic, w') \<Rightarrow> (Fails (Rpc Internal PanicRecovered), w')
      | r \<Rightarrow> r)"

definition peerCertInterceptor ::
  "rpc_names \<Rightarrow> 'c peer_info \<Rightarrow> string \<Rightarrow> ('w, 'a) rpc_handler \<Rightarrow> ('w, 'a) rpc_handler" where
  "peerCertInterceptor rn p method handler w =
     (case requirePeerCert rn p method of
        Some err \<Rightarrow> (Fails err, w)
      | None \<Rightarrow> handler w)"

text \<open>
  New chains the interceptors, the first one outermost; the certificate check comes first and only
  with TLS. The chain is the same for unary and stream calls.
\<close>

definition server_New ::
  "bool \<Rightarrow> rpc_names \<Rightarrow> 'c peer_info \<Rightarrow> string \<Rightarrow> (('w, 'a) rpc_handler \<Rightarrow> ('w, 'a) rpc_handler) list" where
  "server_New tls rn p method =
     (let chain = [loggingInterceptor, recoveryInterceptor]
      in if tls then peerCertInterceptor rn p method # chain else chain)"

definition run_chain ::
  "(('w, 'a) rpc_handler \<Rightarrow> ('w, 'a) rpc_handler) list \<Rightarrow> ('w, 'a) rpc_handler \<Rightarrow> ('w, 'a) rpc_handler" where
  "run_chain chain handler = foldr (\<lambda>i h. i h) chain handler"

text \<open>Shutdown: whichever comes first, the end of the graceful stop or of the context.\<close>

datatype stop_event = StopDone | CtxDone

datatype stop_call = GracefulStop | HardStop

definition server_Shutdown :: "stop_event \<Rightarrow> bool \<times> stop_call list" where
  "server_Shutdown ev = (case ev of StopDone \<Rightarrow> (True, [GracefulStop])
     | CtxDone \<Rightarrow> (False, [GracefulStop, HardStop]))"

section \<open>Properties\<close>

text \<open>
  C27. Access control of the server: with TLS, a call runs its handler exactly when its method is
  public or the caller presented a certificate; otherwise it fails as unauthenticated and changes
  nothing; and no call ever panics.
\<close>

theorem server_access:
  "run_chain (server_New True rn p method) handler w =
     (if publicRPC rn method \<or> (\<exists>cs. p = TLSPeer cs \<and> cs \<noteq> [])
      then run_chain (server_New False rn p method) handler w
      else (Fails (Rpc Unauthenticated MtlsRequired), w)) \<and>
   fst (run_chain (server_New tls rn p method) handler w) \<noteq> Panic"
proof -
  have np: "fst (run_chain (server_New False rn p method) handler w) \<noteq> Panic"
    by (cases "handler w"; cases "fst (handler w)")
      (simp_all add: run_chain_def server_New_def loggingInterceptor_def recoveryInterceptor_def)
  have tls: "run_chain (server_New True rn p method) handler w =
      (if publicRPC rn method \<or> (\<exists>cs. p = TLSPeer cs \<and> cs \<noteq> [])
       then run_chain (server_New False rn p method) handler w
       else (Fails (Rpc Unauthenticated MtlsRequired), w))"
    by (cases p) (auto simp: run_chain_def server_New_def peerCertInterceptor_def requirePeerCert_def)
  with np show ?thesis by (cases tls) auto
qed

end
