(* ===== verification/Join_Service.thy ===== *)
theory Join_Service
  imports Grpc_Server
begin

text \<open>
  Membership changes through the API (internal/grpcserver/join.go): the node-to-node JoinService and
  the ControlService the command line calls. The world \<open>'w\<close> holds the Raft library, the member list
  and what other daemons do; the daemons of other nodes and the certificate authority are
  parameters. The joiner is the membership engine of the daemon. Lemmas: a wrong token changes
  nothing, a request is forwarded at most once, and what an accepted join and a leave have done to
  the replicated member list.
\<close>

section \<open>Messages\<close>

record join_request =
  jq_NodeId :: string
  jq_ClusterId :: string
  jq_Address :: string
  jq_RaftAddr :: string
  jq_JoinToken :: string
  jq_Relay :: bool
  jq_Observer :: bool

datatype join_message = NoMessage | ClusterMismatch string | Rejected join_message

record join_response =
  jp_Accepted :: bool
  jp_Message :: join_message
  jp_Members :: "pb_member list"
  jp_NodeCert :: string
  jp_NodeKey :: string
  jp_CaCert :: string
  jp_JoinTokenHash :: string

record node_request =
  dq_NodeId :: string
  dq_Relay :: bool

record change_response =
  cp_Done :: bool
  cp_Message :: join_message
  cp_Members :: "pb_member list"

record rejoin_request =
  rq_NodeId :: string
  rq_Address :: string
  rq_Role :: string
  rq_Relay :: bool

datatype join_detail =
    NodeIDRequired
  | AddressRequired
  | InvalidToken
  | JoinNotLeader
  | JoinDial string
  | AddRaft bool node_error
  | ApplyMember node_error
  | LocalJoin member_error
  | IssueFailed string
  | SaveFailed string
  | MemberUnknown string
  | MemberStatus string status
  | PromoteRaft node_error
  | RemoveRaft node_error
  | NotRaftMember
  | RemoteJoin "join_detail rpc_error"
  | RemoteError string

type_synonym join_error = "join_detail rpc_error"

section \<open>Services\<close>

text \<open>JoinSecurity and JoinBootstrap.\<close>

record 'w join_security =
  sec_CheckToken :: "string \<Rightarrow> 'w \<Rightarrow> string option"
  sec_IssueNode :: "string \<Rightarrow> 'w \<Rightarrow> string + (string \<times> string \<times> string \<times> string)"

type_synonym 'w join_bootstrap = "string \<Rightarrow> string \<Rightarrow> string \<Rightarrow> string \<Rightarrow> 'w \<Rightarrow> string option \<times> 'w"

text \<open>
  The daemons of other nodes by address, with the time limit the caller sets (\<^term>\<open>None\<close> when it sets
  none).
\<close>

record 'w join_peer =
  jn_dial :: "string \<Rightarrow> 'w \<Rightarrow> bool"
  jn_Join :: "duration option \<Rightarrow> string \<Rightarrow> join_request \<Rightarrow> 'w \<Rightarrow> (join_error + join_response) \<times> 'w"
  jn_Promote :: "duration option \<Rightarrow> string \<Rightarrow> node_request \<Rightarrow> 'w \<Rightarrow> (join_error + change_response) \<times> 'w"
  jn_Leave :: "duration option \<Rightarrow> string \<Rightarrow> node_request \<Rightarrow> 'w \<Rightarrow> (join_error + change_response) \<times> 'w"
  jn_Rejoin :: "duration option \<Rightarrow> string \<Rightarrow> rejoin_request \<Rightarrow> 'w \<Rightarrow> (join_error + change_response) \<times> 'w"

text \<open>
  The joiner is read with \<open>js_joiner\<close>; without Raft it is written with \<open>js_set_joiner\<close>, which gets
  the events the engine emitted.
\<close>

record 'w join_service =
  js_clusterID :: string
  js_joiner :: "'w \<Rightarrow> engine"
  js_set_joiner :: "event list \<Rightarrow> engine \<Rightarrow> 'w \<Rightarrow> 'w"
  js_voter :: "'w raft_lib option"
  js_sec :: "'w join_security option"
  js_peer :: "'w join_peer"

definition fanoutTimeout :: duration where
  "fanoutTimeout = 3 * Second"

section \<open>Shared helpers\<close>

definition protoMembers :: "engine \<Rightarrow> pb_member list" where
  "protoMembers en = map memberToProto (Members en)"

definition memberByID :: "engine \<Rightarrow> string \<Rightarrow> member option" where
  "memberByID en nid = find (\<lambda>m. mb_id m = nid) (Members en)"

definition joinLocal ::
  "'w join_service \<Rightarrow> env \<Rightarrow> string \<Rightarrow> string \<Rightarrow> string \<Rightarrow> 'w \<Rightarrow> member_error option \<times> 'w" where
  "joinLocal j e nid addr role w =
     (case JoinAs e nid addr role (js_joiner j w) of
        (Inl err, evs, en) \<Rightarrow> (Some err, js_set_joiner j evs en w)
      | (Inr _, evs, en) \<Rightarrow> (None, js_set_joiner j evs en w))"

definition leaveLocal :: "'w join_service \<Rightarrow> string \<Rightarrow> 'w \<Rightarrow> 'w" where
  "leaveLocal j nid w =
     (case Leave nid (js_joiner j w) of (evs, en) \<Rightarrow> js_set_joiner j evs en w)"

definition promoteMember ::
  "'w join_service \<Rightarrow> env \<Rightarrow> string \<Rightarrow> 'w \<Rightarrow> join_error option \<times> 'w" where
  "promoteMember j e nid w =
     (case memberByID (js_joiner j w) nid of
        None \<Rightarrow> (Some (Rpc NotFound (MemberUnknown nid)), w)
      | Some m \<Rightarrow>
          if mb_status m \<noteq> StatusAlive
          then (Some (Rpc FailedPrecondition (MemberStatus nid (mb_status m))), w)
          else if NormalizeRole (mb_role m) = RoleVoter then (None, w)
          else (case js_voter j of
                  Some rl \<Rightarrow>
                    (case PromoteToVoter rl nid w of
                       (Some err, w1) \<Rightarrow> (Some (Rpc Internal (PromoteRaft err)), w1)
                     | (None, w1) \<Rightarrow>
                         (case ApplyAddMemberAs rl e nid (mb_address m) RoleVoter w1 of
                            (Some err, w2) \<Rightarrow> (Some (Rpc Internal (ApplyMember err)), w2)
                          | (None, w2) \<Rightarrow> (None, w2)))
                | None \<Rightarrow>
                    (case joinLocal j e nid (mb_address m) RoleVoter w of
                       (Some err, w1) \<Rightarrow> (Some (Rpc Internal (LocalJoin err)), w1)
                     | (None, w1) \<Rightarrow> (None, w1))))"

definition leaveMember ::
  "'w join_service \<Rightarrow> env \<Rightarrow> string \<Rightarrow> 'w \<Rightarrow> join_error option \<times> 'w" where
  "leaveMember j e nid w =
     (let inMem = memberByID (js_joiner j w) nid \<noteq> None;
          inRaft = HasServer (js_voter j) nid w;
          already = Left nid (js_joiner j w)
      in if \<not> inMem \<and> \<not> inRaft \<and> \<not> already then (Some (Rpc NotFound (MemberUnknown nid)), w)
         else if already \<and> \<not> inRaft then (None, w)
         else (case js_voter j of
                 Some rl \<Rightarrow>
                   (case ApplyDropMember rl e nid w of
                      (Some err, w1) \<Rightarrow> (Some (Rpc Internal (ApplyMember err)), w1)
                    | (None, w1) \<Rightarrow>
                        if inRaft
                        then (case RemoveVoter rl nid w1 of
                                (Some err, w2) \<Rightarrow> (Some (Rpc Internal (RemoveRaft err)), w2)
                              | (None, w2) \<Rightarrow> (None, w2))
                        else (None, w1))
               | None \<Rightarrow> (None, leaveLocal j nid w)))"

definition rejoinMember ::
  "'w join_service \<Rightarrow> env \<Rightarrow> string \<Rightarrow> string \<Rightarrow> string \<Rightarrow> 'w \<Rightarrow> join_error option \<times> 'w" where
  "rejoinMember j e nid addr role0 w =
     (if js_voter j \<noteq> None \<and> \<not> HasServer (js_voter j) nid w
      then (Some (Rpc FailedPrecondition NotRaftMember), w)
      else
        let role = (case memberByID (js_joiner j w) nid of
                      Some m \<Rightarrow> NormalizeRole (mb_role m)
                    | None \<Rightarrow> NormalizeRole role0)
        in (case js_voter j of
              Some rl \<Rightarrow>
                (case ApplyAddMemberAs rl e nid addr role w of
                   (Some err, w1) \<Rightarrow> (Some (Rpc Internal (ApplyMember err)), w1)
                 | (None, w1) \<Rightarrow> (None, w1))
            | None \<Rightarrow>
                (case joinLocal j e nid addr role w of
                   (Some err, w1) \<Rightarrow> (Some (Rpc Internal (LocalJoin err)), w1)
                 | (None, w1) \<Rightarrow> (None, w1))))"

definition join_not_leader :: "'w join_service \<Rightarrow> 'w \<Rightarrow> bool" where
  "join_not_leader j w = (case js_voter j of Some rl \<Rightarrow> \<not> IsLeader rl w | None \<Rightarrow> False)"

text \<open>The leader lookup and the dial that begin every forward.\<close>

definition leader_conn :: "'w join_service \<Rightarrow> 'w \<Rightarrow> join_error + string" where
  "leader_conn j w =
     (case Leader (js_joiner j w) of
        None \<Rightarrow> Inl (Rpc FailedPrecondition JoinNotLeader)
      | Some l \<Rightarrow>
          if mb_address l = '''' \<or> mb_id l = SelfID (js_joiner j w)
          then Inl (Rpc FailedPrecondition JoinNotLeader)
          else if jn_dial (js_peer j) (mb_address l) w then Inr (mb_address l)
          else Inl (Rpc Unavailable (JoinDial (mb_id l))))"

definition forwardToLeader ::
  "'w join_service \<Rightarrow> join_request \<Rightarrow> 'w \<Rightarrow> (join_error + join_response) \<times> 'w" where
  "forwardToLeader j req w =
     (case leader_conn j w of
        Inl err \<Rightarrow> (Inl err, w)
      | Inr addr \<Rightarrow>
          jn_Join (js_peer j) (Some fanoutTimeout) addr
            \<lparr>jq_NodeId = jq_NodeId req, jq_ClusterId = jq_ClusterId req,
             jq_Address = jq_Address req, jq_RaftAddr = jq_RaftAddr req,
             jq_JoinToken = jq_JoinToken req, jq_Relay = True, jq_Observer = jq_Observer req\<rparr> w)"

definition forwardPromote ::
  "'w join_service \<Rightarrow> node_request \<Rightarrow> 'w \<Rightarrow> (join_error + change_response) \<times> 'w" where
  "forwardPromote j req w =
     (case leader_conn j w of
        Inl err \<Rightarrow> (Inl err, w)
      | Inr addr \<Rightarrow>
          jn_Promote (js_peer j) (Some fanoutTimeout) addr
            \<lparr>dq_NodeId = dq_NodeId req, dq_Relay = True\<rparr> w)"

definition forwardLeave ::
  "'w join_service \<Rightarrow> node_request \<Rightarrow> 'w \<Rightarrow> (join_error + change_response) \<times> 'w" where
  "forwardLeave j req w =
     (case leader_conn j w of
        Inl err \<Rightarrow> (Inl err, w)
      | Inr addr \<Rightarrow>
          jn_Leave (js_peer j) (Some fanoutTimeout) addr
            \<lparr>dq_NodeId = dq_NodeId req, dq_Relay = True\<rparr> w)"

definition forwardRejoin ::
  "'w join_service \<Rightarrow> rejoin_request \<Rightarrow> 'w \<Rightarrow> (join_error + change_response) \<times> 'w" where
  "forwardRejoin j req w =
     (case leader_conn j w of
        Inl err \<Rightarrow> (Inl err, w)
      | Inr addr \<Rightarrow>
          jn_Rejoin (js_peer j) (Some fanoutTimeout) addr
            \<lparr>rq_NodeId = rq_NodeId req, rq_Address = rq_Address req, rq_Role = rq_Role req,
             rq_Relay = True\<rparr> w)"

section \<open>The JoinService\<close>

definition join_add ::
  "'w join_service \<Rightarrow> env \<Rightarrow> join_request \<Rightarrow> 'w \<Rightarrow> join_error option \<times> 'w" where
  "join_add j e req w =
     (let role = (if jq_Observer req then RoleObserver else RoleVoter) in
      case js_voter j of
        Some rl \<Rightarrow>
          (case (if jq_RaftAddr req \<noteq> ''''
                 then if jq_Observer req then AddNonvoter rl (jq_NodeId req) (jq_RaftAddr req) w
                      else AddVoter rl (jq_NodeId req) (jq_RaftAddr req) w
                 else (None, w)) of
             (Some err, w1) \<Rightarrow> (Some (Rpc Internal (AddRaft (jq_Observer req) err)), w1)
           | (None, w1) \<Rightarrow>
               (case ApplyAddMemberAs rl e (jq_NodeId req) (jq_Address req) role w1 of
                  (Some err, w2) \<Rightarrow> (Some (Rpc Internal (ApplyMember err)), w2)
                | (None, w2) \<Rightarrow> (None, w2)))
      | None \<Rightarrow>
          (case joinLocal j e (jq_NodeId req) (jq_Address req) role w of
             (Some err, w1) \<Rightarrow> (Some (Rpc Internal (LocalJoin err)), w1)
           | (None, w1) \<Rightarrow> (None, w1)))"

definition join_accept ::
  "'w join_service \<Rightarrow> join_request \<Rightarrow> 'w \<Rightarrow> (join_error + join_response) \<times> 'w" where
  "join_accept j req w =
     (let resp = \<lparr>jp_Accepted = True, jp_Message = NoMessage,
                  jp_Members = map memberToProto (Members (js_joiner j w)), jp_NodeCert = '''',
                  jp_NodeKey = '''', jp_CaCert = '''', jp_JoinTokenHash = ''''\<rparr> in
      case js_sec j of
        None \<Rightarrow> (Inr resp, w)
      | Some sec \<Rightarrow>
          (case sec_IssueNode sec (jq_NodeId req) w of
             Inl err \<Rightarrow> (Inl (Rpc Internal (IssueFailed err)), w)
           | Inr (cert, key, ca, hash) \<Rightarrow>
               (Inr (resp\<lparr>jp_NodeCert := cert, jp_NodeKey := key, jp_CaCert := ca,
                          jp_JoinTokenHash := hash\<rparr>), w)))"

definition svc_Join ::
  "'w join_service \<Rightarrow> env \<Rightarrow> join_request \<Rightarrow> 'w \<Rightarrow> (join_error + join_response) \<times> 'w" where
  "svc_Join j e req w =
     (if jq_NodeId req = '''' then (Inl (Rpc InvalidArgument NodeIDRequired), w)
      else if jq_Address req = '''' then (Inl (Rpc InvalidArgument AddressRequired), w)
      else if js_clusterID j \<noteq> '''' \<and> jq_ClusterId req \<noteq> '''' \<and> jq_ClusterId req \<noteq> js_clusterID j
      then (Inr \<lparr>jp_Accepted = False, jp_Message = ClusterMismatch (js_clusterID j),
                 jp_Members = [], jp_NodeCert = '''', jp_NodeKey = '''', jp_CaCert = '''',
                 jp_JoinTokenHash = ''''\<rparr>, w)
      else if (case js_sec j of
                 None \<Rightarrow> False | Some sec \<Rightarrow> sec_CheckToken sec (jq_JoinToken req) w \<noteq> None)
      then (Inl (Rpc Unauthenticated InvalidToken), w)
      else if join_not_leader j w
      then if jq_Relay req then (Inl (Rpc FailedPrecondition JoinNotLeader), w)
           else forwardToLeader j req w
      else (case join_add j e req w of
              (Some err, w1) \<Rightarrow> (Inl err, w1)
            | (None, w1) \<Rightarrow> join_accept j req w1))"

text \<open>What Promote, Leave and Rejoin share after the change: the error or the new member list.\<close>

definition change_result ::
  "'w join_service \<Rightarrow> join_error option \<times> 'w \<Rightarrow> (join_error + change_response) \<times> 'w" where
  "change_result j r =
     (case r of
        (Some err, w) \<Rightarrow> (Inl err, w)
      | (None, w) \<Rightarrow>
          (Inr \<lparr>cp_Done = True, cp_Message = NoMessage, cp_Members = protoMembers (js_joiner j w)\<rparr>,
           w))"

definition svc_Promote ::
  "'w join_service \<Rightarrow> env \<Rightarrow> node_request \<Rightarrow> 'w \<Rightarrow> (join_error + change_response) \<times> 'w" where
  "svc_Promote j e req w =
     (if dq_NodeId req = '''' then (Inl (Rpc InvalidArgument NodeIDRequired), w)
      else if join_not_leader j w
      then if dq_Relay req then (Inl (Rpc FailedPrecondition JoinNotLeader), w)
           else forwardPromote j req w
      else change_result j (promoteMember j e (dq_NodeId req) w))"

definition svc_Leave ::
  "'w join_service \<Rightarrow> env \<Rightarrow> node_request \<Rightarrow> 'w \<Rightarrow> (join_error + change_response) \<times> 'w" where
  "svc_Leave j e req w =
     (if dq_NodeId req = '''' then (Inl (Rpc InvalidArgument NodeIDRequired), w)
      else if join_not_leader j w
      then if dq_Relay req then (Inl (Rpc FailedPrecondition JoinNotLeader), w)
           else forwardLeave j req w
      else change_result j (leaveMember j e (dq_NodeId req) w))"

definition svc_Rejoin ::
  "'w join_service \<Rightarrow> env \<Rightarrow> rejoin_request \<Rightarrow> 'w \<Rightarrow> (join_error + change_response) \<times> 'w" where
  "svc_Rejoin j e req w =
     (if rq_NodeId req = '''' then (Inl (Rpc InvalidArgument NodeIDRequired), w)
      else if rq_Address req = '''' then (Inl (Rpc InvalidArgument AddressRequired), w)
      else if join_not_leader j w
      then if rq_Relay req then (Inl (Rpc FailedPrecondition JoinNotLeader), w)
           else forwardRejoin j req w
      else change_result j (rejoinMember j e (rq_NodeId req) (rq_Address req) (rq_Role req) w))"

section \<open>The ControlService\<close>

text \<open>The service of the daemon plus its Raft address and the store for certificates.\<close>

record 'w control_service =
  ct_clusterID :: string
  ct_raftAddr :: string
  ct_join :: "'w join_service"
  ct_boot :: "'w join_bootstrap option"

record request_join_response =
  rj_Joined :: bool
  rj_Message :: join_message
  rj_Members :: "pb_member list"
  rj_CertIssued :: bool

definition RequestJoin ::
  "'w control_service \<Rightarrow> string \<Rightarrow> string \<Rightarrow> bool \<Rightarrow> 'w \<Rightarrow>
   (join_error + request_join_response) \<times> 'w" where
  "RequestJoin c addr token observer w =
     (if addr = '''' then (Inl (Rpc InvalidArgument AddressRequired), w)
      else if \<not> jn_dial (js_peer (ct_join c)) addr w then (Inl (Rpc Unavailable (JoinDial addr)), w)
      else
        let en = js_joiner (ct_join c) w;
            selfID = SelfID en;
            selfAddr = (case find (\<lambda>m. mb_id m = selfID) (Members en) of
                          Some m \<Rightarrow> mb_address m | None \<Rightarrow> '''')
        in (case jn_Join (js_peer (ct_join c)) None addr
                   \<lparr>jq_NodeId = selfID, jq_ClusterId = ct_clusterID c, jq_Address = selfAddr,
                    jq_RaftAddr = ct_raftAddr c, jq_JoinToken = token, jq_Relay = False,
                    jq_Observer = observer\<rparr> w of
              (Inl err, w1) \<Rightarrow>
                if rpc_code err = Unauthenticated then (Inl err, w1)
                else (Inl (Rpc Unavailable (RemoteJoin err)), w1)
            | (Inr resp, w1) \<Rightarrow>
                if \<not> jp_Accepted resp
                then (Inr \<lparr>rj_Joined = False, rj_Message = Rejected (jp_Message resp),
                           rj_Members = [], rj_CertIssued = False\<rparr>, w1)
                else
                  (case (case ct_boot c of
                           Some save \<Rightarrow>
                             if jp_NodeCert resp \<noteq> ''''
                             then save (jp_CaCert resp) (jp_NodeCert resp) (jp_NodeKey resp)
                                    (jp_JoinTokenHash resp) w1
                             else (None, w1)
                         | None \<Rightarrow> (None, w1)) of
                     (Some err, w2) \<Rightarrow> (Inl (Rpc Internal (SaveFailed err)), w2)
                   | (None, w2) \<Rightarrow>
                       (Inr \<lparr>rj_Joined = True, rj_Message = NoMessage,
                             rj_Members = jp_Members resp,
                             rj_CertIssued = (jp_NodeCert resp \<noteq> '''')\<rparr>, w2))))"

definition ctl_forwardPromote ::
  "'w control_service \<Rightarrow> string \<Rightarrow> 'w \<Rightarrow> (join_error + change_response) \<times> 'w" where
  "ctl_forwardPromote c nid w =
     (case leader_conn (ct_join c) w of
        Inl err \<Rightarrow> (Inl err, w)
      | Inr addr \<Rightarrow>
          jn_Promote (js_peer (ct_join c)) (Some fanoutTimeout) addr
            \<lparr>dq_NodeId = nid, dq_Relay = True\<rparr> w)"

definition ctl_forwardLeave ::
  "'w control_service \<Rightarrow> string \<Rightarrow> 'w \<Rightarrow> (join_error + change_response) \<times> 'w" where
  "ctl_forwardLeave c nid w =
     (case leader_conn (ct_join c) w of
        Inl err \<Rightarrow> (Inl err, w)
      | Inr addr \<Rightarrow>
          jn_Leave (js_peer (ct_join c)) (Some fanoutTimeout) addr
            \<lparr>dq_NodeId = nid, dq_Relay = True\<rparr> w)"

definition RequestPromote ::
  "'w control_service \<Rightarrow> env \<Rightarrow> string \<Rightarrow> 'w \<Rightarrow> (join_error + change_response) \<times> 'w" where
  "RequestPromote c e nid0 w =
     (let nid = (if nid0 = '''' then SelfID (js_joiner (ct_join c) w) else nid0) in
      if nid = '''' then (Inl (Rpc InvalidArgument NodeIDRequired), w)
      else if join_not_leader (ct_join c) w
      then ctl_forwardPromote c nid w
      else change_result (ct_join c) (promoteMember (ct_join c) e nid w))"

definition RequestLeave ::
  "'w control_service \<Rightarrow> env \<Rightarrow> string \<Rightarrow> 'w \<Rightarrow> (join_error + change_response) \<times> 'w" where
  "RequestLeave c e nid0 w =
     (let nid = (if nid0 = '''' then SelfID (js_joiner (ct_join c) w) else nid0) in
      if nid = '''' then (Inl (Rpc InvalidArgument NodeIDRequired), w)
      else if join_not_leader (ct_join c) w
      then ctl_forwardLeave c nid w
      else change_result (ct_join c) (leaveMember (ct_join c) e nid w))"

section \<open>Effect on the replicated member list\<close>

text \<open>
  The second thing the service relies on: a change of the Raft configuration reaches the state
  machine only through log entries.
\<close>

definition raft_config_logs :: "'r raft_lib \<Rightarrow> ('r \<Rightarrow> raft_log) \<Rightarrow> bool" where
  "raft_config_logs rl lg \<longleftrightarrow>
     (\<forall>nid addr r. log_extends (lg r) (lg (snd (rl_RemoveServer rl nid r))) \<and>
        log_extends (lg r) (lg (snd (rl_AddVoter rl nid addr r))) \<and>
        log_extends (lg r) (lg (snd (rl_AddNonvoter rl nid addr r))))"

lemma apply_command_effect:
  assumes "raft_applies rl f0 lg" and "command_ok cmd" and "apply_command rl e cmd r = (None, r')"
    and "\<And>e' l. P (snd (snd (fsm_switch e' cmd (apply_log l f0))))"
  shows "log_reaches f0 (lg r) (lg r') P"
proof -
  obtain resp where "rl_Apply rl e (encodeCommand cmd) r = (Inr resp, r')"
    using assms(3) by (auto simp: apply_command_def split: prod.splits sum.splits)
  then show ?thesis by (rule raft_appliesD [OF assms(1) _ assms(2)]) (use assms(4) in blast)
qed

lemma ApplyAddMemberAs_effect:
  assumes "raft_applies rl f0 lg" and "valid_utf8 nid" and "valid_utf8 addr" and "nid \<noteq> ''''"
    and "ApplyAddMemberAs rl e nid addr role r = (None, r')"
  shows "log_reaches f0 (lg r) (lg r')
    (\<lambda>f. member_view (fsm_applier f) nid = Some (addr, StatusAlive, NormalizeRole role))"
proof -
  let ?cmd = "zero_command\<lparr>cmd_Kind := CmdAddMember, cmd_ID := nid, cmd_Address := addr,
                            cmd_Role := NormalizeRole role\<rparr>"
  have "valid_utf8 (NormalizeRole role)"
    by (simp add: NormalizeRole_def RoleVoter_def RoleObserver_def valid_utf8_ascii byte_def)
  then have ok: "command_ok ?cmd"
    using assms(2,3) by (simp add: command_ok_def zero_command_def in_i64_def)
  have "NormalizeRole (NormalizeRole role) = NormalizeRole role" by (simp add: NormalizeRole_def)
  then have "member_view (fsm_applier (snd (snd (fsm_switch e' ?cmd f)))) nid =
      Some (addr, StatusAlive, NormalizeRole role)" for e' f
    using assms(4)
    by (simp add: fsm_switch_def member_kind_def apply_member_def JoinAs_def Let_def member_view_def)
  then show ?thesis
    by (rule apply_command_effect [OF assms(1) ok assms(5) [unfolded ApplyAddMemberAs_def]])
qed

lemma ApplyDropMember_effect:
  assumes "raft_applies rl f0 lg" and "valid_utf8 nid" and "membership_inv (fsm_applier f0)"
    and "ApplyDropMember rl e nid r = (None, r')"
  shows "log_reaches f0 (lg r) (lg r') (\<lambda>f. member_view (fsm_applier f) nid = None)"
proof -
  let ?cmd = "zero_command\<lparr>cmd_Kind := CmdDropMember, cmd_ID := nid\<rparr>"
  have ok: "command_ok ?cmd"
    using assms(2) by (simp add: command_ok_def zero_command_def in_i64_def)
  have "member_view (fsm_applier (snd (snd (fsm_switch e' ?cmd (apply_log l f0))))) nid = None" for e' l
  proof -
    let ?en = "fsm_applier (apply_log l f0)"
    have "membership_inv ?en" by (rule apply_log_member_view(2) [OF assms(3)])
    then have "nid |\<in>| en_dropped ?en \<Longrightarrow> fmlookup (en_members ?en) nid = None"
      unfolding membership_inv_def by (metis not_None_eq)
    then show ?thesis
      by (simp add: fsm_switch_def member_kind_def apply_member_def Drop_def Leave_def kind_defs
          member_view_def)
  qed
  then show ?thesis
    by (rule apply_command_effect [OF assms(1) ok assms(4) [unfolded ApplyDropMember_def]])
qed

lemma join_accept_world: "snd (join_accept j req w) = w"
  by (simp add: join_accept_def Let_def split: option.split sum.split prod.split)

lemma svc_Join_accepted:
  assumes "svc_Join j e req w = (Inr resp, w')" and "jp_Accepted resp" and "\<not> join_not_leader j w"
  shows "jq_NodeId req \<noteq> '''' \<and> join_add j e req w = (None, w')"
proof -
  have "jq_NodeId req \<noteq> ''''" and "\<exists>w1. join_add j e req w = (None, w1) \<and>
      join_accept j req w1 = (Inr resp, w')"
    using assms by (auto simp: svc_Join_def split: if_splits prod.splits option.splits)
  with join_accept_world show ?thesis by (metis snd_conv)
qed

lemma join_add_steps:
  assumes "join_add j e req w = (None, w')" and "js_voter j = Some rl" and "raft_config_logs rl lg"
  obtains w1 where "ApplyAddMemberAs rl e (jq_NodeId req) (jq_Address req)
      (if jq_Observer req then RoleObserver else RoleVoter) w1 = (None, w')"
    and "log_extends (lg w) (lg w1)"
proof -
  let ?role = "if jq_Observer req then RoleObserver else RoleVoter"
  consider "ApplyAddMemberAs rl e (jq_NodeId req) (jq_Address req) ?role w = (None, w')"
    | w1 where "ApplyAddMemberAs rl e (jq_NodeId req) (jq_Address req) ?role w1 = (None, w')"
        "w1 = snd (rl_AddNonvoter rl (jq_NodeId req) (jq_RaftAddr req) w) \<or>
         w1 = snd (rl_AddVoter rl (jq_NodeId req) (jq_RaftAddr req) w)"
    using assms(1,2)
    by (auto simp: join_add_def Let_def AddNonvoter_def AddVoter_def split: prod.splits option.splits
        if_splits)
  then show thesis
  proof cases
    case 1
    then show thesis by (rule that) simp
  next
    case 2
    then show thesis by (intro that) (use assms(3) in \<open>auto simp: raft_config_logs_def\<close>)
  qed
qed

text \<open>
  A leader that cannot issue the certificate fails the request after the node has been added to the
  Raft configuration and to the member list: the world is the one the addition left.
\<close>

lemma join_fails_after_add:
  assumes "js_sec j = Some sec" and "sec_CheckToken sec (jq_JoinToken req) w = None"
    and "\<not> join_not_leader j w" and "jq_NodeId req \<noteq> []" and "jq_Address req \<noteq> []"
    and "jq_ClusterId req = js_clusterID j" and "join_add j e req w = (None, w1)"
    and "sec_IssueNode sec (jq_NodeId req) w1 = Inl err"
  shows "svc_Join j e req w = (Inl (Rpc Internal (IssueFailed err)), w1)"
  using assms by (simp add: svc_Join_def join_accept_def Let_def)

section \<open>Properties\<close>

text \<open>
  C10. The join token guards the cluster: on a daemon with security, a Join request with a wrong
  token is never accepted, changes nothing on this daemon and is not forwarded to the leader.
\<close>

theorem join_token_guard:
  assumes "js_sec j = Some sec" and "sec_CheckToken sec (jq_JoinToken req) w \<noteq> None"
  shows "snd (svc_Join j e req w) = w \<and>
    (\<forall>resp. fst (svc_Join j e req w) = Inr resp \<longrightarrow> \<not> jp_Accepted resp)"
  using assms by (simp add: svc_Join_def)

text \<open>
  Requests are forwarded at most once: when the daemon that a follower takes for the leader is
  not the leader either, every membership request ends there with an error (or, for Join, the
  rejection of a foreign cluster) and changes nothing, whatever that daemon believes the leader is.
\<close>

theorem forward_once:
  assumes "join_not_leader j w" and "join_not_leader j' w"
    and "\<forall>tmo addr. jn_Join (js_peer j) tmo addr = svc_Join j' e'"
    and "\<forall>tmo addr. jn_Promote (js_peer j) tmo addr = svc_Promote j' e'"
    and "\<forall>tmo addr. jn_Leave (js_peer j) tmo addr = svc_Leave j' e'"
    and "\<forall>tmo addr. jn_Rejoin (js_peer j) tmo addr = svc_Rejoin j' e'"
  shows "snd (svc_Join j e req w) = w \<and>
    (\<forall>resp. fst (svc_Join j e req w) = Inr resp \<longrightarrow> \<not> jp_Accepted resp) \<and>
    (\<exists>err. svc_Promote j e nreq w = (Inl err, w)) \<and> (\<exists>err. svc_Leave j e nreq w = (Inl err, w)) \<and>
    (\<exists>err. svc_Rejoin j e rreq w = (Inl err, w))"
proof -
  have "snd (svc_Join j e req w) = w \<and>
      (\<forall>resp. fst (svc_Join j e req w) = Inr resp \<longrightarrow> \<not> jp_Accepted resp)"
    using assms(1,2,3) by (auto simp: svc_Join_def forwardToLeader_def split: sum.split)
  moreover have "\<exists>err. svc_Promote j e nreq w = (Inl err, w)"
    using assms(1,2,4) by (auto simp: svc_Promote_def forwardPromote_def split: sum.split)
  moreover have "\<exists>err. svc_Leave j e nreq w = (Inl err, w)"
    using assms(1,2,5) by (auto simp: svc_Leave_def forwardLeave_def split: sum.split)
  moreover have "\<exists>err. svc_Rejoin j e rreq w = (Inl err, w)"
    using assms(1,2,6) by (auto simp: svc_Rejoin_def forwardRejoin_def split: sum.split)
  ultimately show ?thesis by blast
qed

text \<open>
  C7. What an accepted Join has done: the log of the leader has only grown during the call, and in
  one of the states it went through meanwhile the member list holds the node as alive, with the
  address of the request and the role it asked for.
\<close>

theorem Join_sound:
  assumes "js_voter j = Some rl" and "raft_applies rl f0 lg" and "raft_config_logs rl lg"
    and "\<not> join_not_leader j w" and "valid_utf8 (jq_NodeId req)" and "valid_utf8 (jq_Address req)"
    and "svc_Join j e req w = (Inr resp, w')" and "jp_Accepted resp"
  shows "log_reaches f0 (lg w) (lg w') (\<lambda>f. member_view (fsm_applier f) (jq_NodeId req) =
    Some (jq_Address req, StatusAlive, if jq_Observer req then RoleObserver else RoleVoter))"
proof -
  let ?role = "if jq_Observer req then RoleObserver else RoleVoter"
  have nid: "jq_NodeId req \<noteq> ''''" and add: "join_add j e req w = (None, w')"
    using svc_Join_accepted [OF assms(7,8,4)] by simp_all
  obtain w1 where app: "ApplyAddMemberAs rl e (jq_NodeId req) (jq_Address req) ?role w1 = (None, w')"
    and ext: "log_extends (lg w) (lg w1)"
    by (rule join_add_steps [OF add assms(1,3)])
  have "NormalizeRole ?role = ?role" by (simp add: NormalizeRole_def)
  with log_reaches_widen [OF ApplyAddMemberAs_effect [OF assms(2,5,6) nid app] ext log_extends_refl]
  show ?thesis by (simp only:)
qed

text \<open>
  C8. What a successful Leave has done: the log of the leader has only grown during the call, and
  in one of the states it went through meanwhile the member list does not hold the node.
\<close>

theorem Leave_sound:
  assumes "js_voter j = Some rl" and "raft_applies rl f0 lg" and "raft_config_logs rl lg"
    and "\<not> join_not_leader j w" and "valid_utf8 (dq_NodeId req)"
    and "js_joiner j w = fsm_applier (apply_log (lg w) f0)" and "membership_inv (fsm_applier f0)"
    and "svc_Leave j e req w = (Inr resp, w')"
  shows "log_reaches f0 (lg w) (lg w') (\<lambda>f. member_view (fsm_applier f) (dq_NodeId req) = None)"
proof -
  let ?nid = "dq_NodeId req"
  have run: "leaveMember j e ?nid w = (None, w')"
    using assms(4,8)
    by (auto simp: svc_Leave_def change_result_def split: if_splits option.splits prod.splits)
  consider "Left ?nid (js_joiner j w)" "w' = w"
    | w1 where "ApplyDropMember rl e ?nid w = (None, w1)" "w' = w1 \<or> w' = snd (rl_RemoveServer rl ?nid w1)"
    using run assms(1)
    by (auto simp: leaveMember_def Let_def RemoveVoter_def split: if_splits option.splits prod.splits)
  then show ?thesis
  proof cases
    case 1
    have "membership_inv (js_joiner j w)"
      unfolding assms(6) by (rule apply_log_member_view(2) [OF assms(7)])
    with 1(1) have "fmlookup (en_members (js_joiner j w)) ?nid = None"
      unfolding Left_def membership_inv_def by (metis not_None_eq)
    then have "member_view (fsm_applier (apply_log (lg w) f0)) ?nid = None"
      by (simp add: member_view_def assms(6))
    with 1(2) show ?thesis unfolding log_reaches_iff by (intro exI [of _ "[]"]) simp
  next
    case 2
    have "log_extends (lg w1) (lg w')"
      using 2(2) assms(3) by (auto simp: raft_config_logs_def)
    then show ?thesis
      by (rule log_reaches_widen [OF ApplyDropMember_effect [OF assms(2,5,7) 2(1)] log_extends_refl])
  qed
qed

section \<open>Witnesses\<close>

definition lone_peer :: "'w join_peer" where
  "lone_peer = \<lparr>jn_dial = (\<lambda>addr w. False),
     jn_Join = (\<lambda>tmo addr req w. (Inl (Rpc Unavailable (RemoteError ''down'')), w)),
     jn_Promote = (\<lambda>tmo addr req w. (Inl (Rpc Unavailable (RemoteError ''down'')), w)),
     jn_Leave = (\<lambda>tmo addr req w. (Inl (Rpc Unavailable (RemoteError ''down'')), w)),
     jn_Rejoin = (\<lambda>tmo addr req w. (Inl (Rpc Unavailable (RemoteError ''down'')), w))\<rparr>"

definition demo_security :: "'w join_security" where
  "demo_security = \<lparr>sec_CheckToken = (\<lambda>tok w. if tok = ''k'' then None else Some ''unauthorized''),
     sec_IssueNode = (\<lambda>nid w. Inr (''cert'', ''key'', ''ca'', ''hash''))\<rparr>"

definition solo_join :: "raft_log join_service" where
  "solo_join = \<lparr>js_clusterID = ''c'', js_joiner = (\<lambda>l. fsm_applier (solo_fsm (demo_engine ''a'') l)),
     js_set_joiner = (\<lambda>evs en l. l), js_voter = Some (solo_raft (demo_engine ''a'')),
     js_sec = Some demo_security, js_peer = lone_peer\<rparr>"

definition demo_join :: "string \<Rightarrow> join_request" where
  "demo_join tok = \<lparr>jq_NodeId = ''b'', jq_ClusterId = ''c'', jq_Address = ''b:1'', jq_RaftAddr = ''b:2'',
     jq_JoinToken = tok, jq_Relay = False, jq_Observer = True\<rparr>"

lemma solo_join_sel [simp]:
  "js_clusterID solo_join = ''c''"
  "js_joiner solo_join = (\<lambda>l. fsm_applier (solo_fsm (demo_engine ''a'') l))"
  "js_voter solo_join = Some (solo_raft (demo_engine ''a''))" "js_sec solo_join = Some demo_security"
  "\<not> join_not_leader solo_join w"
  by (simp_all add: solo_join_def join_not_leader_def IsLeader_def solo_raft_def)

lemma solo_config_logs: "raft_config_logs (solo_raft en) (\<lambda>l. l)"
  by (simp add: raft_config_logs_def solo_raft_def)

theorem join_token_guard_witness:
  "snd (svc_Join solo_join (ascii_env 5) (demo_join ''x'') []) = []"
proof -
  have "sec_CheckToken demo_security (jq_JoinToken (demo_join ''x'')) ([] :: raft_log) \<noteq> None"
    by (simp add: demo_security_def demo_join_def)
  from join_token_guard [OF solo_join_sel(4) this] show ?thesis by blast
qed

text \<open>A follower, and a second one that it takes for the leader.\<close>

definition follower_raft :: "raft_log raft_lib" where
  "follower_raft = (solo_raft (demo_engine ''a''))\<lparr>rl_IsLeader := (\<lambda>l. False)\<rparr>"

definition stale_leader :: "raft_log join_service" where
  "stale_leader = solo_join\<lparr>js_voter := Some follower_raft\<rparr>"

definition follower_join :: "raft_log join_service" where
  "follower_join = stale_leader\<lparr>js_peer := \<lparr>jn_dial = (\<lambda>addr w. True),
     jn_Join = (\<lambda>tmo addr. svc_Join stale_leader (ascii_env 6)),
     jn_Promote = (\<lambda>tmo addr. svc_Promote stale_leader (ascii_env 6)),
     jn_Leave = (\<lambda>tmo addr. svc_Leave stale_leader (ascii_env 6)),
     jn_Rejoin = (\<lambda>tmo addr. svc_Rejoin stale_leader (ascii_env 6))\<rparr>\<rparr>"

theorem forward_once_witness:
  "snd (svc_Join follower_join (ascii_env 5) (demo_join ''k'') []) = [] \<and>
   (\<exists>err. svc_Leave follower_join (ascii_env 5) \<lparr>dq_NodeId = ''b'', dq_Relay = False\<rparr> [] = (Inl err, []))"
proof -
  have not: "join_not_leader follower_join w" "join_not_leader stale_leader w" for w
    by (simp_all add: follower_join_def stale_leader_def join_not_leader_def IsLeader_def
        follower_raft_def)
  have peer: "\<forall>tmo addr. jn_Join (js_peer follower_join) tmo addr = svc_Join stale_leader (ascii_env 6)"
    "\<forall>tmo addr. jn_Promote (js_peer follower_join) tmo addr = svc_Promote stale_leader (ascii_env 6)"
    "\<forall>tmo addr. jn_Leave (js_peer follower_join) tmo addr = svc_Leave stale_leader (ascii_env 6)"
    "\<forall>tmo addr. jn_Rejoin (js_peer follower_join) tmo addr = svc_Rejoin stale_leader (ascii_env 6)"
    by (simp_all add: follower_join_def)
  from forward_once [OF not peer] show ?thesis by blast
qed

theorem Join_sound_witness:
  "log_reaches (fsm_start (demo_engine ''a'')) []
     (snd (svc_Join solo_join (ascii_env 5) (demo_join ''k'') []))
     (\<lambda>f. member_view (fsm_applier f) ''b'' = Some (''b:1'', StatusAlive, RoleObserver))"
proof -
  have "\<exists>resp w'. svc_Join solo_join (ascii_env 5) (demo_join ''k'') [] = (Inr resp, w') \<and> jp_Accepted resp"
    by (simp add: svc_Join_def demo_join_def join_add_def join_accept_def AddNonvoter_def
        ApplyAddMemberAs_def apply_command_def solo_raft_def demo_security_def Let_def)
  then obtain resp w' where run: "svc_Join solo_join (ascii_env 5) (demo_join ''k'') [] = (Inr resp, w')"
    "jp_Accepted resp" by blast
  have "valid_utf8 (jq_NodeId (demo_join ''k''))" "valid_utf8 (jq_Address (demo_join ''k''))"
    by (simp_all add: demo_join_def valid_utf8_ascii byte_def)
  from Join_sound [OF solo_join_sel(3) solo_applies solo_config_logs solo_join_sel(5) this run]
  show ?thesis unfolding run(1) by (simp add: demo_join_def)
qed

theorem Leave_sound_witness:
  "log_reaches (fsm_start (demo_engine ''a'')) []
     (snd (svc_Leave solo_join (ascii_env 5) \<lparr>dq_NodeId = ''a'', dq_Relay = False\<rparr> []))
     (\<lambda>f. member_view (fsm_applier f) ''a'' = None)"
proof -
  let ?req = "\<lparr>dq_NodeId = ''a'', dq_Relay = False\<rparr>"
  have "HasServer (Some (solo_raft (demo_engine ''a''))) ''a'' w" for w
    by (simp add: HasServer_def solo_raft_def)
  then have "\<exists>resp w'. svc_Leave solo_join (ascii_env 5) ?req [] = (Inr resp, w')"
    by (simp add: svc_Leave_def change_result_def leaveMember_def Let_def
        ApplyDropMember_def apply_command_def RemoveVoter_def solo_raft_def)
  then obtain resp w' where run: "svc_Leave solo_join (ascii_env 5) ?req [] = (Inr resp, w')" by blast
  have "membership_inv (fsm_applier (fsm_start (demo_engine ''a'')))"
    by (simp add: fsm_start_def demo_engine_def membership_inv_New)
  moreover have "valid_utf8 (dq_NodeId ?req)" by (simp add: valid_utf8_ascii byte_def)
  moreover have "js_joiner solo_join [] = fsm_applier (apply_log [] (fsm_start (demo_engine ''a'')))"
    by (simp add: solo_fsm_def)
  ultimately have "log_reaches (fsm_start (demo_engine ''a'')) [] w'
      (\<lambda>f. member_view (fsm_applier f) (dq_NodeId ?req) = None)"
    by (intro Leave_sound [OF solo_join_sel(3) solo_applies solo_config_logs solo_join_sel(5) _ _ _ run])
  then show ?thesis by (simp add: run)
qed

end
