(* ===== verification/Liveness.thy ===== *)
theory Liveness
  imports Raft_Node Event_Service Lease_Service
begin

text \<open>
  Dead-node detection: the heartbeat monitor (internal/heartbeat/monitor.go) and the presence leases
  (internal/presence). The world \<open>'w\<close> holds the member list and what the callbacks change; pings and
  the daemons of other nodes are parameters. Goroutines run over lists of ticks or channel events.
  Lemmas: a peer is reported exactly after enough consecutive misses, and an expired lease removes a
  member exactly when it is the presence lease of another node and this node leads.
\<close>

section \<open>Heartbeat monitor\<close>

record hb_config =
  hc_Interval :: duration
  hc_Timeout :: duration
  hc_MaxMisses :: int

record 'w monitor =
  mo_cfg :: hb_config
  mo_engine :: "'w \<Rightarrow> engine"
  mo_MarkDead :: "string \<Rightarrow> 'w \<Rightarrow> 'w"
  mo_reportDead :: "(string \<Rightarrow> 'w \<Rightarrow> 'w) option"

type_synonym misses = "(string, int) fmap"

text \<open>
  One ping: the address of the peer; true when the dial or the call failed. The miss counter of an
  absent key is zero.
\<close>

definition tick_one ::
  "'w monitor \<Rightarrow> (string \<Rightarrow> bool) \<Rightarrow> string \<Rightarrow> member \<Rightarrow> misses \<times> 'w \<Rightarrow> misses \<times> 'w" where
  "tick_one m ping selfID mem s =
     (case s of (misses, w) \<Rightarrow>
        if mb_id mem = selfID then (misses, w)
        else if mb_status mem \<noteq> StatusAlive then (misses, w)
        else if ping (mb_address mem) then
          let n = (case fmlookup misses (mb_id mem) of Some k \<Rightarrow> k | None \<Rightarrow> 0) + 1;
              misses1 = fmupd (mb_id mem) n misses
          in if n \<ge> hc_MaxMisses (mo_cfg m) then
               (fmdrop (mb_id mem) misses1,
                (case mo_reportDead m of
                   Some report \<Rightarrow> report (mb_id mem) w
                 | None \<Rightarrow> mo_MarkDead m (mb_id mem) w))
             else (misses1, w)
        else (fmdrop (mb_id mem) misses, w))"

definition hb_tick ::
  "'w monitor \<Rightarrow> (string \<Rightarrow> bool) \<Rightarrow> misses \<times> 'w \<Rightarrow> misses \<times> 'w" where
  "hb_tick m ping s =
     (case s of (misses, w) \<Rightarrow>
        fold (tick_one m ping (SelfID (mo_engine m w))) (Members (mo_engine m w)) (misses, w))"

text \<open>The loop: ticks until the end of the context.\<close>

datatype hb_wake = HbDone | HbTick "string \<Rightarrow> bool"

fun hb_run :: "'w monitor \<Rightarrow> hb_wake list \<Rightarrow> misses \<times> 'w \<Rightarrow> misses \<times> 'w" where
  "hb_run m [] s = s"
| "hb_run m (HbDone # ws) s = s"
| "hb_run m (HbTick ping # ws) s = hb_run m ws (hb_tick m ping s)"

definition monitor_New :: "hb_config \<Rightarrow> ('w \<Rightarrow> engine) \<Rightarrow> (string \<Rightarrow> 'w \<Rightarrow> 'w) \<Rightarrow> 'w monitor \<times> misses" where
  "monitor_New cfg engine markDead =
     (\<lparr>mo_cfg = cfg, mo_engine = engine, mo_MarkDead = markDead, mo_reportDead = None\<rparr>, fmempty)"

definition SetReportDead :: "(string \<Rightarrow> 'w \<Rightarrow> 'w) option \<Rightarrow> 'w monitor \<Rightarrow> 'w monitor" where
  "SetReportDead fn m = m\<lparr>mo_reportDead := fn\<rparr>"

section \<open>Presence names\<close>

definition Prefix :: string where
  "Prefix = ''presence.''"

definition LeaseName :: "string \<Rightarrow> string" where
  "LeaseName nodeID = Prefix @ nodeID"

definition presence_NodeID :: "string \<Rightarrow> string option" where
  "presence_NodeID leaseName =
     (if \<not> HasPrefix leaseName Prefix then None
      else let nid = TrimPrefix leaseName Prefix in if nid = '''' then None else Some nid)"

section \<open>Expired presence leases\<close>

text \<open>The result is the list of ids for which the callback is called.\<close>

definition OnExpired :: "event \<Rightarrow> string \<Rightarrow> bool \<Rightarrow> bool \<Rightarrow> string list" where
  "OnExpired ev selfID isLeader has_remove =
     (if ev_type ev \<noteq> TypeLeaseExpired then []
      else (case presence_NodeID (ev_source ev) of
              None \<Rightarrow> []
            | Some nid \<Rightarrow>
                if nid = '''' \<or> nid = selfID \<or> \<not> isLeader \<or> \<not> has_remove then [] else [nid]))"

datatype expired_wake = EwCtx | EwSubDone | EwClosed | EwEvent event "bool option"

text \<open>A nil subscription ends the loop at once; a nil leader function counts as not leading.\<close>

fun WatchExpired_loop :: "string \<Rightarrow> bool \<Rightarrow> expired_wake list \<Rightarrow> string list" where
  "WatchExpired_loop selfID has_remove [] = []"
| "WatchExpired_loop selfID has_remove (EwEvent ev lead # ws) =
     OnExpired ev selfID (lead = Some True) has_remove @ WatchExpired_loop selfID has_remove ws"
| "WatchExpired_loop selfID has_remove (_ # ws) = []"

definition WatchExpired :: "bool \<Rightarrow> string \<Rightarrow> bool \<Rightarrow> expired_wake list \<Rightarrow> string list" where
  "WatchExpired has_sub selfID has_remove ws =
     (if \<not> has_sub then [] else WatchExpired_loop selfID has_remove ws)"

section \<open>The holder of the presence lease\<close>

datatype presence_error =
    PErrHeld | PNotLeader | PDial string | PApply node_error | PRemote lock_error | PRejected

record 'w raft_holder =
  rh_Raft :: "'w raft_lib option"
  rh_Nodes :: "('w \<Rightarrow> engine) option"
  rh_peer :: "'w lease_peer"

definition presence_dialLeader :: "'w raft_holder \<Rightarrow> 'w \<Rightarrow> presence_error + string" where
  "presence_dialLeader h w =
     (case rh_Nodes h of
        None \<Rightarrow> Inl PNotLeader
      | Some nodes \<Rightarrow>
          (case Leader (nodes w) of
             None \<Rightarrow> Inl PNotLeader
           | Some l \<Rightarrow>
               if mb_address l = '''' \<or> mb_id l = SelfID (nodes w) then Inl PNotLeader
               else if ep_dial (rh_peer h) (mb_address l) w then Inr (mb_address l)
               else Inl (PDial (mb_id l))))"

definition holder_leads :: "'w raft_holder \<Rightarrow> 'w \<Rightarrow> 'w raft_lib option" where
  "holder_leads h w =
     (case rh_Raft h of Some rl \<Rightarrow> if IsLeader rl w then Some rl else None | None \<Rightarrow> None)"

definition holder_Grant ::
  "'w raft_holder \<Rightarrow> env \<Rightarrow> string \<Rightarrow> string \<Rightarrow> duration \<Rightarrow> 'w \<Rightarrow> (presence_error + u64) \<times> 'w" where
  "holder_Grant h e name owner ttl w =
     (case holder_leads h w of
        Some rl \<Rightarrow>
          (case ApplyLeaseGrant rl e name owner ttl w of
             (Inl err, w1) \<Rightarrow> (Inl (PApply err), w1)
           | (Inr (tok, ok), w1) \<Rightarrow> if \<not> ok then (Inl PErrHeld, w1) else (Inr tok, w1))
      | None \<Rightarrow>
          (case presence_dialLeader h w of
             Inl err \<Rightarrow> (Inl err, w)
           | Inr addr \<Rightarrow>
               (case ep_Grant (rh_peer h) addr
                       \<lparr>gq_name = name, gq_owner = owner, gq_ttl_ms = Milliseconds ttl\<rparr> w of
                  (Inl err, w1) \<Rightarrow> (Inl (PRemote err), w1)
                | (Inr resp, w1) \<Rightarrow>
                    if \<not> gp_granted resp then (Inl PErrHeld, w1) else (Inr (gp_token resp), w1))))"

definition holder_Renew ::
  "'w raft_holder \<Rightarrow> env \<Rightarrow> string \<Rightarrow> string \<Rightarrow> u64 \<Rightarrow> duration \<Rightarrow> 'w \<Rightarrow> presence_error option \<times> 'w" where
  "holder_Renew h e name owner token ttl w =
     (case holder_leads h w of
        Some rl \<Rightarrow>
          (case ApplyLeaseRenew rl e name owner token ttl w of
             (Inl err, w1) \<Rightarrow> (Some (PApply err), w1)
           | (Inr _, w1) \<Rightarrow> (None, w1))
      | None \<Rightarrow>
          (case presence_dialLeader h w of
             Inl err \<Rightarrow> (Some err, w)
           | Inr addr \<Rightarrow>
               (case ep_Renew (rh_peer h) addr
                       \<lparr>nq_name = name, nq_holder = owner, nq_token = token,
                        nq_ttl_ms = Milliseconds ttl\<rparr> w of
                  (Inl err, w1) \<Rightarrow> (Some (PRemote err), w1)
                | (Inr resp, w1) \<Rightarrow> if \<not> np_renewed resp then (Some PRejected, w1) else (None, w1))))"

section \<open>The keeper\<close>

record keeper_config =
  kc_NodeID :: string
  kc_TTL :: duration
  kc_RenewInterval :: duration
  kc_RequestTimeout :: duration

text \<open>Durations divide with truncation; here the dividend is positive.\<close>

definition NewKeeper :: "keeper_config \<Rightarrow> keeper_config" where
  "NewKeeper cfg0 =
     (let cfg1 = (if kc_TTL cfg0 \<le> 0 then cfg0\<lparr>kc_TTL := 3 * Second\<rparr> else cfg0);
          cfg2 = (if kc_RenewInterval cfg1 \<le> 0
                  then let iv = kc_TTL cfg1 div 3
                       in cfg1\<lparr>kc_RenewInterval := (if iv \<le> 0 then kc_TTL cfg1 else iv)\<rparr>
                  else cfg1)
      in if kc_RequestTimeout cfg2 \<le> 0 then cfg2\<lparr>kc_RequestTimeout := 5 * Second\<rparr> else cfg2)"

text \<open>One call of ensure on the token of the keeper.\<close>

definition ensure ::
  "keeper_config \<Rightarrow> 'w raft_holder option \<Rightarrow> env \<Rightarrow> u64 \<times> 'w \<Rightarrow> u64 \<times> 'w" where
  "ensure cfg holder e s =
     (case s of (tok, w) \<Rightarrow>
        (case holder of
           None \<Rightarrow> (tok, w)
         | Some h \<Rightarrow>
             if kc_NodeID cfg = '''' then (tok, w)
             else
               let name = LeaseName (kc_NodeID cfg);
                   renewed = (if tok \<noteq> 0
                     then holder_Renew h e name (kc_NodeID cfg) tok (kc_TTL cfg) w
                     else (Some PErrHeld, w))
               in (case renewed of
                     (None, w1) \<Rightarrow> (tok, w1)
                   | (Some _, w1) \<Rightarrow>
                       (case holder_Grant h e name (kc_NodeID cfg) (kc_TTL cfg) w1 of
                          (Inl err, w2) \<Rightarrow> (tok, w2)
                        | (Inr newTok, w2) \<Rightarrow> (newTok, w2)))))"

datatype keeper_wake = KDone | KTick env

fun keeper_loop ::
  "keeper_config \<Rightarrow> 'w raft_holder option \<Rightarrow> keeper_wake list \<Rightarrow> u64 \<times> 'w \<Rightarrow> u64 \<times> 'w" where
  "keeper_loop cfg holder [] s = s"
| "keeper_loop cfg holder (KDone # ws) s = s"
| "keeper_loop cfg holder (KTick e # ws) s = keeper_loop cfg holder ws (ensure cfg holder e s)"

definition keeper_run ::
  "keeper_config \<Rightarrow> 'w raft_holder option \<Rightarrow> env \<Rightarrow> keeper_wake list \<Rightarrow> u64 \<times> 'w \<Rightarrow> u64 \<times> 'w" where
  "keeper_run cfg holder e ws s = keeper_loop cfg holder ws (ensure cfg holder e s)"

section \<open>Lemmas on the monitor\<close>

text \<open>A monitor over a fixed member list whose callback records the reported ids.\<close>

definition recording :: "(engine \<times> string list) monitor \<Rightarrow> bool" where
  "recording m \<longleftrightarrow> mo_engine m = fst \<and>
     mo_reportDead m = Some (\<lambda>nid w. (fst w, snd w @ [nid]))"

definition miss_of :: "misses \<Rightarrow> string \<Rightarrow> int" where
  "miss_of misses nid = (case fmlookup misses nid of Some k \<Rightarrow> k | None \<Rightarrow> 0)"

text \<open>One peer: its counter and whether it was reported.\<close>

definition peer_step :: "int \<Rightarrow> bool \<Rightarrow> int \<times> bool \<Rightarrow> int \<times> bool" where
  "peer_step lim failed s =
     (if \<not> failed then (0, snd s)
      else if fst s + 1 \<ge> lim then (0, True) else (fst s + 1, snd s))"

definition peer_view :: "string \<Rightarrow> misses \<times> engine \<times> string list \<Rightarrow> int \<times> bool" where
  "peer_view nid s = (miss_of (fst s) nid, nid \<in> set (snd (snd s)))"

lemma tick_one_view:
  assumes "recording m"
  shows "fst (snd (tick_one m ping self mem s)) = fst (snd s)"
    and "mb_id mem \<noteq> nid \<Longrightarrow> peer_view nid (tick_one m ping self mem s) = peer_view nid s"
    and "mb_id mem = nid \<Longrightarrow> nid \<noteq> self \<Longrightarrow> mb_status mem = StatusAlive \<Longrightarrow>
      peer_view nid (tick_one m ping self mem s) =
        peer_step (hc_MaxMisses (mo_cfg m)) (ping (mb_address mem)) (peer_view nid s)"
  using assms
  by (cases s; simp add: recording_def tick_one_def peer_view_def peer_step_def miss_of_def Let_def)+

lemma fold_tick_view:
  assumes "recording m" and "nid \<notin> set (map mb_id ms)"
  shows "fst (snd (fold (tick_one m ping self) ms s)) = fst (snd s) \<and>
    peer_view nid (fold (tick_one m ping self) ms s) = peer_view nid s"
  using assms(2)
  by (induction ms arbitrary: s) (auto simp: tick_one_view(1,2) [OF assms(1)])

lemma Members_distinct: "membership_inv en \<Longrightarrow> distinct (map mb_id (Members en))"
  by (simp add: Members_vals keyed_range_vals membership_inv_keyed)

lemma hb_tick_view:
  assumes "recording m" and "membership_inv en" and "mem \<in> set (Members en)"
    and "mb_id mem \<noteq> SelfID en" and "mb_status mem = StatusAlive" and "fst (snd s) = en"
  shows "fst (snd (hb_tick m ping s)) = en \<and>
    peer_view (mb_id mem) (hb_tick m ping s) =
      peer_step (hc_MaxMisses (mo_cfg m)) (ping (mb_address mem)) (peer_view (mb_id mem) s)"
proof -
  obtain xs ys where split: "Members en = xs @ mem # ys" using assms(3) by (meson split_list)
  have "distinct (map mb_id (xs @ mem # ys))" using Members_distinct [OF assms(2)] split by simp
  then have "mb_id mem \<notin> set (map mb_id xs)" "mb_id mem \<notin> set (map mb_id ys)" by auto
  moreover have "hb_tick m ping s = fold (tick_one m ping (SelfID en)) (xs @ mem # ys) s"
    using assms(1,6) split by (cases s) (simp add: hb_tick_def recording_def)
  ultimately show ?thesis
    using assms(4,5,6)
    by (simp add: fold_tick_view [OF assms(1)] tick_one_view [OF assms(1)])
qed

lemma hb_run_view:
  assumes "recording m" and "membership_inv en" and "mem \<in> set (Members en)"
    and "mb_id mem \<noteq> SelfID en" and "mb_status mem = StatusAlive" and "fst (snd s) = en"
  shows "peer_view (mb_id mem) (hb_run m (map HbTick pings) s) =
    fold (peer_step (hc_MaxMisses (mo_cfg m))) (map (\<lambda>p. p (mb_address mem)) pings)
      (peer_view (mb_id mem) s)"
  using assms(6)
proof (induction pings arbitrary: s)
  case (Cons p ps)
  then show ?case using hb_tick_view [OF assms(1-5) Cons.prems, of p] by simp
qed simp

text \<open>A window of \<open>k\<close> failures in a list of outcomes.\<close>

definition window :: "nat \<Rightarrow> bool list \<Rightarrow> bool" where
  "window k bs \<longleftrightarrow> (\<exists>xs ys. bs = xs @ replicate k True @ ys)"

lemma window_Cons: "window k (b # bs) \<longleftrightarrow> (\<exists>ys. b # bs = replicate k True @ ys) \<or> window k bs"
proof
  assume "window k (b # bs)"
  then obtain xs ys where "b # bs = xs @ replicate k True @ ys" unfolding window_def by blast
  then show "(\<exists>ys. b # bs = replicate k True @ ys) \<or> window k bs"
    by (cases xs) (auto simp: window_def)
next
  assume "(\<exists>ys. b # bs = replicate k True @ ys) \<or> window k bs"
  then show "window k (b # bs)"
  proof
    assume "\<exists>ys. b # bs = replicate k True @ ys"
    then obtain ys where "b # bs = replicate k True @ ys" by blast
    then show ?thesis unfolding window_def by (intro exI [of _ "[]"] exI [of _ ys]) simp
  next
    assume "window k bs"
    then obtain xs ys where "bs = xs @ replicate k True @ ys" unfolding window_def by blast
    then show ?thesis unfolding window_def by (intro exI [of _ "b # xs"] exI [of _ ys]) simp
  qed
qed

lemma window_prefix: "bs = replicate k True @ ys \<Longrightarrow> window k bs"
  unfolding window_def by (intro exI [of _ "[]"] exI [of _ ys]) simp

lemma peer_step_simps:
  "peer_step (int k) False (c, d) = (int 0, d)"
  "Suc n = k \<Longrightarrow> peer_step (int k) True (int n, d) = (int 0, True)"
  "Suc n < k \<Longrightarrow> peer_step (int k) True (int n, d) = (int (Suc n), d)"
  by (auto simp: peer_step_def)

lemma prefix_replicate: "(\<exists>ys. bs = replicate k True @ ys) \<longleftrightarrow> k \<le> length bs \<and> (\<forall>i<k. bs ! i)"
proof
  assume "k \<le> length bs \<and> (\<forall>i<k. bs ! i)"
  then have "take k bs = replicate k True"
    by (intro nth_equalityI) auto
  then show "\<exists>ys. bs = replicate k True @ ys" by (metis append_take_drop_id)
qed (auto simp: nth_append)

lemma peer_steps:
  assumes "0 < k" and "c < k"
  shows "snd (fold (peer_step (int k)) bs (int c, d)) \<longleftrightarrow>
    d \<or> (\<exists>ys. bs = replicate (k - c) True @ ys) \<or> window k bs"
  using assms(2)
proof (induction bs arbitrary: c d)
  case Nil
  then show ?case using assms(1) by (simp add: window_def)
next
  case (Cons b bs)
  obtain j where j: "k - c = Suc j" using Cons.prems by (metis Suc_diff_Suc)
  show ?case
  proof (cases b)
    case False
    then have "snd (fold (peer_step (int k)) (b # bs) (int c, d)) \<longleftrightarrow> d \<or> window k bs"
      using Cons.IH [of 0 d] assms(1) window_prefix [of bs k]
      by (auto simp: peer_step_simps(1) simp del: of_nat_0)
    moreover have "window k (b # bs) \<longleftrightarrow> window k bs"
      using False assms(1) by (cases k) (auto simp: window_Cons)
    ultimately show ?thesis using False j by simp
  next
    case True
    show ?thesis
    proof (cases "Suc c = k")
      case True
      then have "snd (fold (peer_step (int k)) (b # bs) (int c, d))"
        using \<open>b\<close> Cons.IH [of 0 True] assms(1) peer_step_simps(2) [OF True, of d]
        by (simp del: of_nat_0)
      then show ?thesis using True \<open>b\<close> by auto
    next
      case False
      with Cons.prems have lt: "Suc c < k" by simp
      have "snd (fold (peer_step (int k)) (b # bs) (int c, d)) \<longleftrightarrow>
          d \<or> (\<exists>ys. bs = replicate (k - Suc c) True @ ys) \<or> window k bs"
        using \<open>b\<close> Cons.IH [OF lt, of d] peer_step_simps(3) [OF lt, of d] by (simp del: of_nat_Suc)
      moreover have "(\<exists>ys. b # bs = replicate (k - c) True @ ys) \<longleftrightarrow>
          (\<exists>ys. bs = replicate (k - Suc c) True @ ys)"
        using \<open>b\<close> j by (simp add: diff_Suc)
      moreover have "(\<exists>ys. b # bs = replicate k True @ ys) \<Longrightarrow>
          (\<exists>ys. b # bs = replicate (k - c) True @ ys)"
        unfolding prefix_replicate by auto
      ultimately show ?thesis by (auto simp: window_Cons)
    qed
  qed
qed

section \<open>Properties\<close>

text \<open>
  C28. The monitor reports a peer exactly when it should: over any sequence of ticks with a fixed
  member list, an alive peer is reported as dead if and only if at least MaxMisses consecutive pings
  to its address failed; pings of other peers and earlier misses before a success do not count.
\<close>

theorem heartbeat_reports:
  assumes "recording m" and "membership_inv en" and "mem \<in> set (Members en)"
    and "mb_id mem \<noteq> SelfID en" and "mb_status mem = StatusAlive"
    and "hc_MaxMisses (mo_cfg m) = int k" and "0 < k"
  shows "mb_id mem \<in> set (snd (snd (hb_run m (map HbTick pings) (fmempty, en, [])))) \<longleftrightarrow>
    (\<exists>xs ys. map (\<lambda>ping. ping (mb_address mem)) pings = xs @ replicate k True @ ys)"
proof -
  let ?bs = "map (\<lambda>ping. ping (mb_address mem)) pings"
  have "peer_view (mb_id mem) (fmempty, en, []) = (int 0, False)"
    by (simp add: peer_view_def miss_of_def)
  then have "peer_view (mb_id mem) (hb_run m (map HbTick pings) (fmempty, en, [])) =
      fold (peer_step (int k)) ?bs (int 0, False)"
    using hb_run_view [OF assms(1-5), of "(fmempty, en, [])"] assms(6) by simp
  then have "mb_id mem \<in> set (snd (snd (hb_run m (map HbTick pings) (fmempty, en, [])))) \<longleftrightarrow>
      (\<exists>ys. ?bs = replicate (k - 0) True @ ys) \<or> window k ?bs"
    using peer_steps [OF assms(7,7), of ?bs False] by (simp add: peer_view_def prod_eq_iff)
  then show ?thesis using window_prefix [of ?bs k] unfolding window_def [symmetric] by auto
qed

lemma presence_NodeID_iff:
  "presence_NodeID name = Some nid \<longleftrightarrow> name = LeaseName nid \<and> nid \<noteq> ''''"
  by (auto simp: presence_NodeID_def LeaseName_def HasPrefix_iff Let_def)

lemma OnExpired_set:
  "set (OnExpired ev selfID leads True) =
     {nid. ev_type ev = TypeLeaseExpired \<and> ev_source ev = LeaseName nid \<and> nid \<noteq> '''' \<and>
        nid \<noteq> selfID \<and> leads}"
proof (cases "presence_NodeID (ev_source ev)")
  case None
  then have "ev_source ev \<noteq> LeaseName nid \<or> nid = ''''" for nid
    using presence_NodeID_iff [of "ev_source ev" nid] by auto
  with None show ?thesis by (auto simp: OnExpired_def)
next
  case (Some x)
  then have "ev_source ev = LeaseName x" "x \<noteq> ''''" using presence_NodeID_iff by blast+
  with Some show ?thesis by (auto simp: OnExpired_def LeaseName_def)
qed

text \<open>
  C29. Expired leases and membership: when the lease table expires a lease and its event reaches the
  watcher of a node, the node removes exactly the node whose presence lease it is, and only if it
  leads and that node is not itself; grants and revocations of leases never remove anybody.
\<close>

theorem presence_expiry:
  assumes "keyed le_name (tab_leases t)" and "ltab_Emit t"
    and "leases_Expire e name tok t = (True, evs, t')"
  shows "set (WatchExpired True selfID True (map (\<lambda>ev. EwEvent ev (Some leads)) evs)) =
      {nid. leads \<and> name = LeaseName nid \<and> nid \<noteq> '''' \<and> nid \<noteq> selfID} \<and>
    WatchExpired True selfID True
      (map (\<lambda>ev. EwEvent ev (Some leads)) (fst (snd (leases_Grant e n h dl ttl t)))) = [] \<and>
    WatchExpired True selfID True
      (map (\<lambda>ev. EwEvent ev (Some leads)) (fst (snd (leases_Revoke e n h k t)))) = []"
proof -
  note sel = mk_event_def Let_def OnExpired_def leases_emit_def WatchExpired_def
    TypeLeaseExpired_def TypeLeaseGranted_def TypeLeaseRevoked_def
  obtain rec where rec: "fmlookup (tab_leases t) name = Some rec"
    "evs = leases_emit True TypeLeaseExpired rec"
    using assms(2,3) by (auto simp: leases_Expire_def split: option.splits if_splits)
  have "le_name rec = name" using assms(1) rec(1) by (auto simp: keyed_def)
  then have "set (WatchExpired True selfID True (map (\<lambda>ev. EwEvent ev (Some leads)) evs)) =
      {nid. leads \<and> name = LeaseName nid \<and> nid \<noteq> '''' \<and> nid \<noteq> selfID}"
    by (auto simp: rec(2) leases_emit_def WatchExpired_def OnExpired_set mk_event_def)
  moreover have "WatchExpired True selfID True
      (map (\<lambda>ev. EwEvent ev (Some leads)) (fst (snd (leases_Grant e n h dl ttl t)))) = []"
    by (cases "leases_ValidName e n"; cases "fmlookup (tab_leases t) n")
      (simp_all add: leases_Grant_def sel)
  moreover have "WatchExpired True selfID True
      (map (\<lambda>ev. EwEvent ev (Some leads)) (fst (snd (leases_Revoke e n h k t)))) = []"
    by (cases "leases_ValidName e n"; cases "fmlookup (tab_leases t) n")
      (simp_all add: leases_Revoke_def sel)
  ultimately show ?thesis by blast
qed

section \<open>Witnesses\<close>

definition demo_monitor :: "(engine \<times> string list) monitor" where
  "demo_monitor = SetReportDead (Some (\<lambda>nid w. (fst w, snd w @ [nid])))
     (fst (monitor_New \<lparr>hc_Interval = 2 * Second, hc_Timeout = Second, hc_MaxMisses = 2\<rparr> fst
       (\<lambda>nid w. w)))"

definition pair_engine :: engine where
  "pair_engine = snd (snd (JoinAs (ascii_env 2) ''b'' ''b:1'' RoleVoter (demo_engine ''a'')))"

theorem heartbeat_reports_witness:
  "''b'' \<in> set (snd (snd (hb_run demo_monitor
      (map HbTick [\<lambda>a. True, \<lambda>a. False, \<lambda>a. True, \<lambda>a. True]) (fmempty, pair_engine, []))))"
proof -
  let ?mem = "\<lparr>mb_id = ''b'', mb_address = ''b:1'', mb_status = StatusAlive, mb_leader = False,
    mb_role = RoleVoter, mb_joined_at = 2\<rparr>"
  have "recording demo_monitor"
    by (simp add: recording_def demo_monitor_def SetReportDead_def monitor_New_def)
  moreover have "membership_inv pair_engine"
    unfolding pair_engine_def demo_engine_def by (intro membership_inv_JoinAs membership_inv_New)
  moreover have "list_ex (\<lambda>m. m = ?mem) (Members pair_engine)" by code_simp
  then have "?mem \<in> set (Members pair_engine)" by (simp add: list_ex_iff)
  moreover have "SelfID pair_engine = ''a''" by code_simp
  moreover have "hc_MaxMisses (mo_cfg demo_monitor) = int 2"
    by (simp add: demo_monitor_def SetReportDead_def monitor_New_def)
  moreover have "\<exists>xs ys. map (\<lambda>ping. ping (mb_address ?mem))
      [\<lambda>a. True, \<lambda>a. False, \<lambda>a. True, \<lambda>a. True] = xs @ replicate 2 True @ ys"
    by (intro exI [of _ "[True, False]"] exI [of _ "[]"]) (simp add: numeral_2_eq_2)
  ultimately show ?thesis
    using heartbeat_reports [of demo_monitor pair_engine ?mem 2
        "[\<lambda>a. True, \<lambda>a. False, \<lambda>a. True, \<lambda>a. True]"] by simp
qed

theorem presence_expiry_witness:
  "set (WatchExpired True ''a'' True (map (\<lambda>ev. EwEvent ev (Some True))
     (fst (snd (leases_Expire (ascii_env 9) ''presence.b'' 1
       (snd (snd (leases_Grant (ascii_env 1) ''presence.b'' ''b'' 5 4 (leases_New\<lparr>ltab_Emit := True\<rparr>)))))))))
   = {''b''}"
proof -
  let ?t = "snd (snd (leases_Grant (ascii_env 1) ''presence.b'' ''b'' 5 4 (leases_New\<lparr>ltab_Emit := True\<rparr>)))"
  have ok: "leases_ValidName (ascii_env s) ''presence.b'' = None" for s
    by (simp add: leases_ValidName_def leases_MaxNameLen_def runes_def byte_def name_rune_def
        IsLetter_def latin1_letter_def)
  have t: "keyed le_name (tab_leases ?t)" "ltab_Emit ?t"
    by (auto simp: leases_Grant_def ok leases_New_def MaxLeases_def Let_def keyed_def split: if_splits)
  have run: "leases_Expire (ascii_env 9) ''presence.b'' 1 ?t =
      (True, fst (snd (leases_Expire (ascii_env 9) ''presence.b'' 1 ?t)),
       snd (snd (leases_Expire (ascii_env 9) ''presence.b'' 1 ?t)))"
    by (simp add: leases_Expire_def ok leases_Grant_def leases_New_def MaxLeases_def Let_def)
  have "{nid. True \<and> ''presence.b'' = LeaseName nid \<and> nid \<noteq> '''' \<and> nid \<noteq> ''a''} = {''b''}"
    by (auto simp: LeaseName_def Prefix_def)
  with presence_expiry [OF t run, of "''a''" True "[]" "[]" 0 0 0] show ?thesis by simp
qed

end
