(* ===== verification/State_Store.thy ===== *)
theory State_Store
  imports Join_Service
begin

text \<open>
  The persistent state of a daemon (internal/store/store.go) and the join security built on it
  (internal/app/joinsec.go, the token check of internal/pki/pki.go). A bucket of the database is a
  value of type \<open>'b\<close> with the operations of the library as parameters; \<open>bolt_laws\<close> names their
  documented behaviour. The hash, the certificate authority and the file writes are parameters too.
  Lemmas: what is saved is what is loaded, and a node that joined cannot issue certificates.
\<close>

section \<open>The database\<close>

text \<open>
  A missing key reads as the empty slice. Put and Delete may fail. A transaction fails as a whole
  when it cannot begin or commit (\<open>db_err\<close>) or when its body fails; then nothing is written.
\<close>

record 'b bolt =
  bo_get :: "string \<Rightarrow> 'b \<Rightarrow> string"
  bo_put :: "string \<Rightarrow> string \<Rightarrow> 'b \<Rightarrow> string + 'b"
  bo_delete :: "string \<Rightarrow> 'b \<Rightarrow> string + 'b"

definition bolt_laws :: "'b bolt \<Rightarrow> bool" where
  "bolt_laws bo \<longleftrightarrow>
     (\<forall>k v b b'. bo_put bo k v b = Inr b' \<longrightarrow>
        (\<forall>j. bo_get bo j b' = (if j = k then v else bo_get bo j b))) \<and>
     (\<forall>k b b'. bo_delete bo k b = Inr b' \<longrightarrow>
        (\<forall>j. bo_get bo j b' = (if j = k then '''' else bo_get bo j b)))"

record 'b store =
  db_err :: "string option"
  db_node :: 'b
  db_certs :: 'b

datatype store_error = NotInitialized | BoltErr string | PutErr string string | DeleteErr string

definition keyNodeID :: string where "keyNodeID = ''node.id''"
definition keyClusterID :: string where "keyClusterID = ''cluster.id''"
definition keyCACert :: string where "keyCACert = ''ca.crt''"
definition keyCAKey :: string where "keyCAKey = ''ca.key''"
definition keyNodeCert :: string where "keyNodeCert = ''node.crt''"
definition keyNodeKey :: string where "keyNodeKey = ''node.key''"
definition keyJoinTokenHash :: string where "keyJoinTokenHash = ''join_token.sha256''"

lemmas key_defs = keyNodeID_def keyClusterID_def keyCACert_def keyCAKey_def keyNodeCert_def
  keyNodeKey_def keyJoinTokenHash_def

definition store_put :: "'b bolt \<Rightarrow> string \<Rightarrow> string \<Rightarrow> 'b \<Rightarrow> store_error + 'b" where
  "store_put bo k v b = (case bo_put bo k v b of Inl err \<Rightarrow> Inl (PutErr k err) | Inr b' \<Rightarrow> Inr b')"

definition SaveIdentity ::
  "'b bolt \<Rightarrow> string \<Rightarrow> string \<Rightarrow> 'b store \<Rightarrow> store_error option \<times> 'b store" where
  "SaveIdentity bo nodeID clusterID s =
     (case db_err s of
        Some err \<Rightarrow> (Some (BoltErr err), s)
      | None \<Rightarrow>
          (case store_put bo keyNodeID nodeID (db_node s) of
             Inl err \<Rightarrow> (Some err, s)
           | Inr b1 \<Rightarrow>
               (case store_put bo keyClusterID clusterID b1 of
                  Inl err \<Rightarrow> (Some err, s)
                | Inr b2 \<Rightarrow> (None, s\<lparr>db_node := b2\<rparr>))))"

definition Identity :: "'b bolt \<Rightarrow> 'b store \<Rightarrow> store_error + string \<times> string" where
  "Identity bo s =
     (case db_err s of
        Some err \<Rightarrow> Inl (BoltErr err)
      | None \<Rightarrow>
          let nid = bo_get bo keyNodeID (db_node s); cid = bo_get bo keyClusterID (db_node s)
          in if nid = '''' \<or> cid = '''' then Inl NotInitialized else Inr (nid, cid))"

record certs =
  CACert :: string
  CAKey :: string
  NodeCert :: string
  NodeKey :: string
  JoinTokenHash :: string

text \<open>The loop over the pairs: empty values are skipped.\<close>

fun put_pairs :: "'b bolt \<Rightarrow> (string \<times> string) list \<Rightarrow> 'b \<Rightarrow> store_error + 'b" where
  "put_pairs bo [] b = Inr b"
| "put_pairs bo ((k, v) # ps) b =
     (if v = '''' then put_pairs bo ps b
      else (case store_put bo k v b of Inl err \<Rightarrow> Inl err | Inr b' \<Rightarrow> put_pairs bo ps b'))"

definition SaveCerts :: "'b bolt \<Rightarrow> certs \<Rightarrow> 'b store \<Rightarrow> store_error option \<times> 'b store" where
  "SaveCerts bo c s =
     (case db_err s of
        Some err \<Rightarrow> (Some (BoltErr err), s)
      | None \<Rightarrow>
          (case put_pairs bo [(keyCACert, CACert c), (keyCAKey, CAKey c), (keyNodeCert, NodeCert c),
                   (keyNodeKey, NodeKey c), (keyJoinTokenHash, JoinTokenHash c)] (db_certs s) of
             Inl err \<Rightarrow> (Some err, s)
           | Inr b \<Rightarrow> (None, s\<lparr>db_certs := b\<rparr>)))"

definition SaveJoinCerts ::
  "'b bolt \<Rightarrow> string \<Rightarrow> string \<Rightarrow> string \<Rightarrow> string \<Rightarrow> 'b store \<Rightarrow> store_error option \<times> 'b store" where
  "SaveJoinCerts bo caCert nodeCert nodeKey tokenHash s =
     (case db_err s of
        Some err \<Rightarrow> (Some (BoltErr err), s)
      | None \<Rightarrow>
          (case put_pairs bo [(keyCACert, caCert), (keyNodeCert, nodeCert), (keyNodeKey, nodeKey),
                   (keyJoinTokenHash, tokenHash)] (db_certs s) of
             Inl err \<Rightarrow> (Some err, s)
           | Inr b \<Rightarrow>
               (case bo_delete bo keyCAKey b of
                  Inl err \<Rightarrow> (Some (DeleteErr err), s)
                | Inr b' \<Rightarrow> (None, s\<lparr>db_certs := b'\<rparr>))))"

text \<open>The struct is returned beside the error; it is empty when the view cannot begin.\<close>

definition store_Certs :: "'b bolt \<Rightarrow> 'b store \<Rightarrow> certs \<times> store_error option" where
  "store_Certs bo s =
     (case db_err s of
        Some err \<Rightarrow> (\<lparr>CACert = '''', CAKey = '''', NodeCert = '''', NodeKey = '''',
                       JoinTokenHash = ''''\<rparr>, Some (BoltErr err))
      | None \<Rightarrow>
          let b = db_certs s;
              c = \<lparr>CACert = bo_get bo keyCACert b, CAKey = bo_get bo keyCAKey b,
                   NodeCert = bo_get bo keyNodeCert b, NodeKey = bo_get bo keyNodeKey b,
                   JoinTokenHash = bo_get bo keyJoinTokenHash b\<rparr>
          in (c, if CACert c = '''' then Some NotInitialized else None))"

section \<open>Join security\<close>

definition pki_CheckToken :: "(string \<Rightarrow> string) \<Rightarrow> string \<Rightarrow> string \<Rightarrow> bool" where
  "pki_CheckToken sha256 wantHash token =
     (if wantHash = '''' then True
      else let got = sha256 token
           in if length got \<noteq> length wantHash then False else wantHash = got)"

datatype sec_error = SecUnauthorized | SecStore store_error | SecNoCAKey | SecIssue string

definition sec_check :: "(string \<Rightarrow> string) \<Rightarrow> 'b bolt \<Rightarrow> string \<Rightarrow> 'b store \<Rightarrow> sec_error option" where
  "sec_check sha256 bo token s =
     (case store_Certs bo s of (c, err) \<Rightarrow>
        if err \<noteq> None \<or> JoinTokenHash c = '''' then None
        else if \<not> pki_CheckToken sha256 (JoinTokenHash c) token then Some SecUnauthorized
        else None)"

text \<open>The signing of a certificate (package pki) is the parameter \<open>issue\<close>.\<close>

definition sec_issue ::
  "(string \<Rightarrow> string \<Rightarrow> string \<Rightarrow> string + string \<times> string) \<Rightarrow> 'b bolt \<Rightarrow> string \<Rightarrow> 'b store \<Rightarrow>
   sec_error + string \<times> string \<times> string \<times> string" where
  "sec_issue issue bo nodeID s =
     (case store_Certs bo s of
        (c, Some err) \<Rightarrow> Inl (SecStore err)
      | (c, None) \<Rightarrow>
          if CAKey c = '''' then Inl SecNoCAKey
          else (case issue (CACert c) (CAKey c) nodeID of
                  Inl err \<Rightarrow> Inl (SecIssue err)
                | Inr (cert, key) \<Rightarrow> Inr (cert, key, CACert c, JoinTokenHash c)))"

text \<open>joinBoot: the store, then the files beside it when there is a directory.\<close>

datatype boot_error = BootStore store_error | BootFiles string

definition boot_SaveJoinCerts ::
  "'b bolt \<Rightarrow> string \<Rightarrow> (string \<Rightarrow> string \<Rightarrow> string \<Rightarrow> string \<Rightarrow> string option) \<Rightarrow>
   string \<Rightarrow> string \<Rightarrow> string \<Rightarrow> string \<Rightarrow> 'b store \<Rightarrow> boot_error option \<times> 'b store" where
  "boot_SaveJoinCerts bo dataDir write_files caCert nodeCert nodeKey tokenHash s =
     (case SaveJoinCerts bo caCert nodeCert nodeKey tokenHash s of
        (Some err, s') \<Rightarrow> (Some (BootStore err), s')
      | (None, s') \<Rightarrow>
          if dataDir = '''' then (None, s')
          else (map_option BootFiles (write_files dataDir caCert nodeCert nodeKey), s'))"

section \<open>Lemmas\<close>

lemma put_pairs_get:
  assumes "bolt_laws bo" and "put_pairs bo ps b = Inr b'" and "distinct (map fst ps)"
  shows "bo_get bo k b' = (case map_of ps k of
      Some v \<Rightarrow> if v = '''' then bo_get bo k b else v | None \<Rightarrow> bo_get bo k b)"
  using assms(2,3)
proof (induction ps arbitrary: b)
  case (Cons p ps)
  obtain j v where p: "p = (j, v)" by fastforce
  have new: "map_of ps j = None" using Cons.prems(2) p by (simp add: map_of_eq_None_iff)
  show ?case
  proof (cases "v = ''''")
    case True
    have "put_pairs bo ps b = Inr b'" "distinct (map fst ps)" using Cons.prems True p by simp_all
    note Cons.IH [OF this]
    then show ?thesis using True p new by (cases "k = j") simp_all
  next
    case False
    then obtain b1 where b1: "bo_put bo j v b = Inr b1" "put_pairs bo ps b1 = Inr b'"
      using Cons.prems(1) p by (auto simp: store_put_def split: sum.splits)
    have "bo_get bo k b1 = (if k = j then v else bo_get bo k b)"
      using assms(1) b1(1) unfolding bolt_laws_def by blast
    moreover have "distinct (map fst ps)" using Cons.prems(2) by simp
    note Cons.IH [OF b1(2) this]
    ultimately show ?thesis using False p new by (cases "k = j") (simp_all split: option.split)
  qed
qed simp

text \<open>The token check is open: when the store cannot be read, every token passes.\<close>

lemma token_check_open: "db_err s = Some err \<Longrightarrow> sec_check sha256 bo token s = None"
  by (simp add: sec_check_def store_Certs_def)

section \<open>Properties\<close>

text \<open>
  C38. A node that has joined cannot mint certificates: when SaveJoinCerts succeeds, the store loads
  exactly the material of the join, without the CA key even if one was stored before, issuing a
  certificate is refused, and a token is accepted exactly if it has the hash of the cluster.
\<close>

theorem join_drops_ca_key:
  assumes "bolt_laws bo" and "SaveJoinCerts bo ca cert key hash s = (None, s')"
    and "ca \<noteq> ''''" and "cert \<noteq> ''''" and "key \<noteq> ''''" and "hash \<noteq> ''''"
  shows "store_Certs bo s' =
      (\<lparr>CACert = ca, CAKey = '''', NodeCert = cert, NodeKey = key, JoinTokenHash = hash\<rparr>, None) \<and>
    sec_issue issue bo nid s' = Inl SecNoCAKey \<and>
    (sec_check sha256 bo token s' = None \<longleftrightarrow> sha256 token = hash)"
proof -
  let ?ps = "[(keyCACert, ca), (keyNodeCert, cert), (keyNodeKey, key), (keyJoinTokenHash, hash)]"
  obtain b b' where err: "db_err s = None" and b: "put_pairs bo ?ps (db_certs s) = Inr b"
    "bo_delete bo keyCAKey b = Inr b'" "s' = s\<lparr>db_certs := b'\<rparr>"
    using assms(2) by (auto simp: SaveJoinCerts_def simp del: put_pairs.simps split: option.splits sum.splits)
  have "distinct (map fst ?ps)" by (simp add: key_defs)
  note get = put_pairs_get [OF assms(1) b(1) this]
  have del: "\<forall>j. bo_get bo j b' = (if j = keyCAKey then '''' else bo_get bo j b)"
    using assms(1) b(2) unfolding bolt_laws_def by blast
  have certs: "store_Certs bo s' =
      (\<lparr>CACert = ca, CAKey = '''', NodeCert = cert, NodeKey = key, JoinTokenHash = hash\<rparr>, None)"
    using err assms(3-6) by (simp add: store_Certs_def b(3) Let_def del get key_defs)
  then show ?thesis using assms(6) by (auto simp: sec_issue_def sec_check_def pki_CheckToken_def Let_def)
qed

section \<open>Witnesses\<close>

definition map_bolt :: "(string, string) fmap bolt" where
  "map_bolt = \<lparr>bo_get = (\<lambda>k b. case fmlookup b k of Some v \<Rightarrow> v | None \<Rightarrow> ''''),
     bo_put = (\<lambda>k v b. Inr (fmupd k v b)), bo_delete = (\<lambda>k b. Inr (fmdrop k b))\<rparr>"

lemma map_bolt_laws: "bolt_laws map_bolt"
  by (auto simp: bolt_laws_def map_bolt_def)

theorem join_drops_ca_key_witness:
  "sec_issue (\<lambda>ca key nid. Inr (''c'', ''k'')) map_bolt ''b''
     (snd (SaveJoinCerts map_bolt ''ca'' ''cert'' ''key'' ''h''
       \<lparr>db_err = None, db_node = fmempty, db_certs = fmupd keyCAKey ''old'' fmempty\<rparr>)) =
   Inl SecNoCAKey"
proof -
  let ?s = "\<lparr>db_err = None, db_node = fmempty, db_certs = fmupd keyCAKey ''old'' fmempty\<rparr>"
  have run: "SaveJoinCerts map_bolt ''ca'' ''cert'' ''key'' ''h'' ?s =
      (None, snd (SaveJoinCerts map_bolt ''ca'' ''cert'' ''key'' ''h'' ?s))"
    by (simp add: SaveJoinCerts_def store_put_def map_bolt_def)
  show ?thesis
    using join_drops_ca_key [OF map_bolt_laws run, of "\<lambda>ca key nid. Inr (''c'', ''k'')" "''b''"] by simp
qed

end
