(* ===== verification/Sdk_Client.thy ===== *)
theory Sdk_Client
  imports Lease_Service Grpc_Server
begin

text \<open>
  The client library (sdk/retry.go, sdk/lock.go, sdk/lease.go, the backoff of sdk/client.go): the
  retry loop, the locks and leases a connection holds, their release, and the background renewal.
  The daemon is a record of functions over a world \<open>'w\<close>. The context of a call is a list of
  attempts, each with the state of the context before it and whether the sleep after it ran to its
  end. A lock object lives in the map of the client under its name; a function that returns the
  pointer returns the object. Lemmas: the exact backoff sequence, and that Unlock undoes Lock.
\<close>

section \<open>Retry\<close>

definition sdk_transient :: "'d rpc_error \<Rightarrow> bool" where
  "sdk_transient err \<longleftrightarrow> rpc_code err \<in> {Unavailable, ResourceExhausted, Aborted}"

definition maxBackoff :: duration where
  "maxBackoff = 2 * Second"

datatype ('d, 'a) retry_exit = RetryOk 'a | RetryErr "'d rpc_error" | RetryCtx ctx_error

type_synonym attempts = "(ctx_error option \<times> bool) list"

text \<open>
  The result is \<^term>\<open>None\<close> while the loop still runs; the durations are the sleeps it has begun.
\<close>

fun retry_loop ::
  "('w \<Rightarrow> ('d rpc_error + 'a) \<times> 'w) \<Rightarrow> duration \<Rightarrow> 'd rpc_error option \<Rightarrow> attempts \<Rightarrow> 'w \<Rightarrow>
   ('d, 'a) retry_exit option \<times> duration list \<times> 'w" where
  "retry_loop fn backoff prev [] w = (None, [], w)"
| "retry_loop fn backoff prev ((ctx, slept) # ats) w =
     (case ctx of
        Some err \<Rightarrow> (Some (case prev of Some l \<Rightarrow> RetryErr l | None \<Rightarrow> RetryCtx err), [], w)
      | None \<Rightarrow>
          (case fn w of
             (Inr a, w1) \<Rightarrow> (Some (RetryOk a), [], w1)
           | (Inl err, w1) \<Rightarrow>
               if \<not> sdk_transient err then (Some (RetryErr err), [], w1)
               else if \<not> slept then (Some (RetryErr err), [backoff], w1)
               else
                 let b = backoff * 2; b = (if b > maxBackoff then maxBackoff else b) in
                 (case retry_loop fn b (Some err) ats w1 of
                    (r, sleeps, w2) \<Rightarrow> (r, backoff # sleeps, w2))))"

definition sdk_retry ::
  "('w \<Rightarrow> ('d rpc_error + 'a) \<times> 'w) \<Rightarrow> attempts \<Rightarrow> 'w \<Rightarrow>
   ('d, 'a) retry_exit option \<times> duration list \<times> 'w" where
  "sdk_retry fn ats w = retry_loop fn (50 * Millisecond) None ats w"

definition nextBackoff :: "duration \<Rightarrow> duration" where
  "nextBackoff d = (let d = d * 2 in if d > 2 * Second then 2 * Second else d)"

section \<open>The client\<close>

record sdk_lock =
  sk_Name :: string
  sk_Holder :: string
  sk_Token :: u64
  sk_deadline :: gotime
  sk_renewing :: bool

record sdk_lease =
  se_Name :: string
  se_Owner :: string
  se_Token :: u64
  se_deadline :: gotime
  se_renewing :: bool

record sdk_client =
  sc_holder :: string
  sc_held :: "(string, sdk_lock) fmap"
  sc_leased :: "(string, sdk_lease) fmap"

text \<open>
  The answers of Unlock and Revoke are a flag and a message; the renewal answers of the daemon never
  carry a message.
\<close>

record 'w daemon =
  da_Lock :: "lock_request \<Rightarrow> 'w \<Rightarrow> (lock_error + lock_response) \<times> 'w"
  da_TryLock :: "lock_request \<Rightarrow> 'w \<Rightarrow> (lock_error + lock_response) \<times> 'w"
  da_Unlock :: "unlock_request \<Rightarrow> 'w \<Rightarrow> (lock_error + bool \<times> string) \<times> 'w"
  da_Renew :: "renew_request \<Rightarrow> 'w \<Rightarrow> (lock_error + renew_response) \<times> 'w"
  da_Grant :: "grant_request \<Rightarrow> 'w \<Rightarrow> (lock_error + grant_response) \<times> 'w"
  da_lease_Renew :: "renew_request \<Rightarrow> 'w \<Rightarrow> (lock_error + renew_response) \<times> 'w"
  da_Revoke :: "revoke_request \<Rightarrow> 'w \<Rightarrow> (lock_error + bool \<times> string) \<times> 'w"

datatype sdk_error =
    SdkRpc lock_error
  | SdkCtx ctx_error
  | SdkRefused string
  | SdkNotHeld string

definition ttlMs :: "duration \<Rightarrow> int" where
  "ttlMs d = (if d \<le> 0 then 0 else Milliseconds d)"

text \<open>The difference of two times saturates at the range of a duration.\<close>

definition time_Until :: "env \<Rightarrow> gotime \<Rightarrow> duration" where
  "time_Until e t = max (- (2 ^ 63)) (min (2 ^ 63 - 1) (t - env_now e))"

definition renewInterval :: "env \<Rightarrow> gotime \<Rightarrow> duration \<Rightarrow> duration" where
  "renewInterval e deadline ttl =
     (let d = ttl;
          d = (if d \<le> 0 then time_Until e deadline else d);
          d = (if d \<le> 0 then 15 * Second else d);
          iv = d div 3
      in if iv < 50 * Millisecond then 50 * Millisecond else iv)"

definition retry_result :: "(lock_detail, 'a) retry_exit \<Rightarrow> sdk_error + 'a" where
  "retry_result r = (case r of RetryOk a \<Rightarrow> Inr a | RetryErr err \<Rightarrow> Inl (SdkRpc err)
     | RetryCtx err \<Rightarrow> Inl (SdkCtx err))"

section \<open>Locks\<close>

definition heldLock :: "string \<Rightarrow> sdk_client \<Rightarrow> sdk_lock option" where
  "heldLock name c = fmlookup (sc_held c) name"

definition lockFromResp :: "lock_response \<Rightarrow> string \<Rightarrow> sdk_lock" where
  "lockFromResp resp name =
     \<lparr>sk_Name = name, sk_Holder = lp_holder resp, sk_Token = lp_token resp,
      sk_deadline = (if lp_deadline resp > 0 then UnixMilli (lp_deadline resp) else 0),
      sk_renewing = False\<rparr>"

text \<open>startRenew sets the stop function of the object; the loop it starts is \<open>renew_loop\<close> below.\<close>

definition startRenew :: "sdk_lock \<Rightarrow> sdk_lock" where
  "startRenew l = l\<lparr>sk_renewing := True\<rparr>"

definition stopRenew :: "sdk_lock \<Rightarrow> sdk_lock" where
  "stopRenew l = l\<lparr>sk_renewing := False\<rparr>"

definition sdk_adopt :: "lock_response \<Rightarrow> string \<Rightarrow> sdk_client \<Rightarrow> sdk_lock \<times> sdk_client" where
  "sdk_adopt resp name c =
     (let l = lockFromResp resp name in
      case fmlookup (sc_held c) name of
        Some existing \<Rightarrow>
          if sk_Token existing = sk_Token l then (existing, c)
          else (startRenew l, c\<lparr>sc_held := fmupd name (startRenew l) (sc_held c)\<rparr>)
      | None \<Rightarrow> (startRenew l, c\<lparr>sc_held := fmupd name (startRenew l) (sc_held c)\<rparr>))"

definition sdk_Lock ::
  "'w daemon \<Rightarrow> attempts \<Rightarrow> string \<Rightarrow> duration \<Rightarrow> sdk_client \<Rightarrow> 'w \<Rightarrow>
   (sdk_error + sdk_lock) option \<times> sdk_client \<times> 'w" where
  "sdk_Lock da ats name ttl c w =
     (case heldLock name c of
        Some l \<Rightarrow> (Some (Inr l), c, w)
      | None \<Rightarrow>
          (case sdk_retry (da_Lock da \<lparr>lq_name = name, lq_holder = sc_holder c,
                                       lq_ttl_ms = ttlMs ttl\<rparr>) ats w of
             (None, _, w1) \<Rightarrow> (None, c, w1)
           | (Some r, _, w1) \<Rightarrow>
               (case retry_result r of
                  Inl err \<Rightarrow> (Some (Inl err), c, w1)
                | Inr resp \<Rightarrow>
                    if \<not> lp_acquired resp
                    then (Some (Inl (SdkRefused (if lp_message resp \<noteq> '''' then lp_message resp
                                                 else ''not acquired''))), c, w1)
                    else (case sdk_adopt resp name c of
                            (l, c1) \<Rightarrow> (Some (Inr l), c1, w1)))))"

definition sdk_TryLock ::
  "'w daemon \<Rightarrow> attempts \<Rightarrow> string \<Rightarrow> duration \<Rightarrow> sdk_client \<Rightarrow> 'w \<Rightarrow>
   (sdk_error + sdk_lock \<times> bool) option \<times> sdk_client \<times> 'w" where
  "sdk_TryLock da ats name ttl c w =
     (case heldLock name c of
        Some l \<Rightarrow> (Some (Inr (l, True)), c, w)
      | None \<Rightarrow>
          (case sdk_retry (da_TryLock da \<lparr>lq_name = name, lq_holder = sc_holder c,
                                          lq_ttl_ms = ttlMs ttl\<rparr>) ats w of
             (None, _, w1) \<Rightarrow> (None, c, w1)
           | (Some r, _, w1) \<Rightarrow>
               (case retry_result r of
                  Inl err \<Rightarrow> (Some (Inl err), c, w1)
                | Inr resp \<Rightarrow>
                    if \<not> lp_acquired resp
                    then (Some (Inr (lockFromResp resp name, False)), c, w1)
                    else (case sdk_adopt resp name c of
                            (l, c1) \<Rightarrow> (Some (Inr (l, True)), c1, w1)))))"

definition sdk_forget :: "string \<Rightarrow> u64 \<Rightarrow> sdk_client \<Rightarrow> sdk_client" where
  "sdk_forget name token c =
     (case fmlookup (sc_held c) name of
        Some l \<Rightarrow> if sk_Token l = token then c\<lparr>sc_held := fmdrop name (sc_held c)\<rparr> else c
      | None \<Rightarrow> c)"

text \<open>The release of an object of the map: it stops its renewal first.\<close>

definition sdk_release ::
  "'w daemon \<Rightarrow> attempts \<Rightarrow> sdk_lock \<Rightarrow> sdk_client \<Rightarrow> 'w \<Rightarrow>
   sdk_error option option \<times> sdk_client \<times> 'w" where
  "sdk_release da ats l c0 w =
     (let c = (case fmlookup (sc_held c0) (sk_Name l) of
                 Some x \<Rightarrow> if sk_Token x = sk_Token l
                           then c0\<lparr>sc_held := fmupd (sk_Name l) (stopRenew x) (sc_held c0)\<rparr>
                           else c0
               | None \<Rightarrow> c0) in
      case sdk_retry (da_Unlock da \<lparr>uq_name = sk_Name l, uq_holder = sk_Holder l,
                                     uq_token = sk_Token l\<rparr>) ats w of
        (None, _, w1) \<Rightarrow> (None, c, w1)
      | (Some r, _, w1) \<Rightarrow>
          (case retry_result r of
             Inl (SdkRpc err) \<Rightarrow>
               (Some (Some (SdkRpc err)),
                if rpc_code err = FailedPrecondition then sdk_forget (sk_Name l) (sk_Token l) c else c,
                w1)
           | Inl err \<Rightarrow> (Some (Some err), c, w1)
           | Inr (released, msg) \<Rightarrow>
               if \<not> released then (Some (Some (SdkRefused msg)), c, w1)
               else (Some None, sdk_forget (sk_Name l) (sk_Token l) c, w1)))"

definition sdk_Unlock ::
  "'w daemon \<Rightarrow> attempts \<Rightarrow> string \<Rightarrow> sdk_client \<Rightarrow> 'w \<Rightarrow>
   sdk_error option option \<times> sdk_client \<times> 'w" where
  "sdk_Unlock da ats name c w =
     (case heldLock name c of
        None \<Rightarrow> (Some (Some (SdkNotHeld name)), c, w)
      | Some l \<Rightarrow> sdk_release da ats l c w)"

text \<open>releaseHeld: the objects in the iteration order \<open>ks\<close> of the map; errors are dropped.\<close>

fun sdk_release_all ::
  "'w daemon \<Rightarrow> attempts list \<Rightarrow> sdk_lock list \<Rightarrow> sdk_client \<Rightarrow> 'w \<Rightarrow> sdk_client \<times> 'w" where
  "sdk_release_all da (ats # atss) (l # ls) c w =
     (case sdk_release da ats l c w of (_, c1, w1) \<Rightarrow> sdk_release_all da atss ls c1 w1)"
| "sdk_release_all da _ _ c w = (c, w)"

definition releaseHeld ::
  "'w daemon \<Rightarrow> attempts list \<Rightarrow> string list \<Rightarrow> sdk_client \<Rightarrow> 'w \<Rightarrow> sdk_client \<times> 'w" where
  "releaseHeld da atss ks c w = sdk_release_all da atss (range_vals (sc_held c) ks) c w"

text \<open>
  The renewal loop of one object. A tick carries whether the context of the loop has ended when the
  call returns. The result says whether the loop still runs.
\<close>

datatype renew_wake = RwDone | RwTick bool

fun renew_loop ::
  "'w daemon \<Rightarrow> renew_wake list \<Rightarrow> sdk_lock \<Rightarrow> 'w \<Rightarrow> bool \<times> sdk_lock \<times> 'w" where
  "renew_loop da [] l w = (True, l, w)"
| "renew_loop da (RwDone # ws) l w = (False, l, w)"
| "renew_loop da (RwTick ctx_done # ws) l w =
     (case da_Renew da \<lparr>nq_name = sk_Name l, nq_holder = sk_Holder l, nq_token = sk_Token l,
                        nq_ttl_ms = 0\<rparr> w of
        (Inl err, w1) \<Rightarrow>
          if ctx_done then (False, l, w1)
          else if rpc_code err = FailedPrecondition \<or> rpc_code err = Canceled then (False, l, w1)
          else renew_loop da ws l w1
      | (Inr resp, w1) \<Rightarrow>
          renew_loop da ws
            (if np_deadline resp > 0 then l\<lparr>sk_deadline := UnixMilli (np_deadline resp)\<rparr> else l) w1)"

section \<open>Leases\<close>

definition heldLease :: "string \<Rightarrow> sdk_client \<Rightarrow> sdk_lease option" where
  "heldLease name c = fmlookup (sc_leased c) name"

definition leaseFromResp :: "grant_response \<Rightarrow> string \<Rightarrow> sdk_lease" where
  "leaseFromResp resp name =
     \<lparr>se_Name = name, se_Owner = gp_owner resp, se_Token = gp_token resp,
      se_deadline = (if gp_deadline resp > 0 then UnixMilli (gp_deadline resp) else 0),
      se_renewing = False\<rparr>"

definition startLeaseRenew :: "sdk_lease \<Rightarrow> sdk_lease" where
  "startLeaseRenew l = l\<lparr>se_renewing := True\<rparr>"

definition stopLeaseRenew :: "sdk_lease \<Rightarrow> sdk_lease" where
  "stopLeaseRenew l = l\<lparr>se_renewing := False\<rparr>"

definition adoptLease :: "grant_response \<Rightarrow> string \<Rightarrow> sdk_client \<Rightarrow> sdk_lease \<times> sdk_client" where
  "adoptLease resp name c =
     (let l = leaseFromResp resp name in
      case fmlookup (sc_leased c) name of
        Some existing \<Rightarrow>
          if se_Token existing = se_Token l then (existing, c)
          else (startLeaseRenew l, c\<lparr>sc_leased := fmupd name (startLeaseRenew l) (sc_leased c)\<rparr>)
      | None \<Rightarrow>
          (startLeaseRenew l, c\<lparr>sc_leased := fmupd name (startLeaseRenew l) (sc_leased c)\<rparr>))"

text \<open>The refusal carries the message and the owner, empty when the daemon names none.\<close>

definition sdk_Lease ::
  "'w daemon \<Rightarrow> attempts \<Rightarrow> string \<Rightarrow> duration \<Rightarrow> sdk_client \<Rightarrow> 'w \<Rightarrow>
   ((sdk_error \<times> string) + sdk_lease) option \<times> sdk_client \<times> 'w" where
  "sdk_Lease da ats name ttl c w =
     (case heldLease name c of
        Some l \<Rightarrow> (Some (Inr l), c, w)
      | None \<Rightarrow>
          (case sdk_retry (da_Grant da \<lparr>gq_name = name, gq_owner = sc_holder c,
                                        gq_ttl_ms = ttlMs ttl\<rparr>) ats w of
             (None, _, w1) \<Rightarrow> (None, c, w1)
           | (Some r, _, w1) \<Rightarrow>
               (case retry_result r of
                  Inl err \<Rightarrow> (Some (Inl (err, '''')), c, w1)
                | Inr resp \<Rightarrow>
                    if \<not> gp_granted resp
                    then (Some (Inl (SdkRefused (if gp_message resp \<noteq> '''' then gp_message resp
                                                 else ''not granted''), gp_owner resp)), c, w1)
                    else (case adoptLease resp name c of
                            (l, c1) \<Rightarrow> (Some (Inr l), c1, w1)))))"

definition sdk_lease_deadline :: "renew_response \<Rightarrow> sdk_lease \<Rightarrow> sdk_lease" where
  "sdk_lease_deadline resp l =
     (if np_deadline resp > 0 then l\<lparr>se_deadline := UnixMilli (np_deadline resp)\<rparr> else l)"

definition sdk_Renew ::
  "'w daemon \<Rightarrow> attempts \<Rightarrow> string \<Rightarrow> sdk_client \<Rightarrow> 'w \<Rightarrow>
   sdk_error option option \<times> sdk_client \<times> 'w" where
  "sdk_Renew da ats name c w =
     (case heldLease name c of
        None \<Rightarrow> (Some (Some (SdkNotHeld name)), c, w)
      | Some l \<Rightarrow>
          (case sdk_retry (da_lease_Renew da \<lparr>nq_name = se_Name l, nq_holder = se_Owner l,
                                              nq_token = se_Token l, nq_ttl_ms = 0\<rparr>) ats w of
             (None, _, w1) \<Rightarrow> (None, c, w1)
           | (Some r, _, w1) \<Rightarrow>
               (case retry_result r of
                  Inl err \<Rightarrow> (Some (Some err), c, w1)
                | Inr resp \<Rightarrow>
                    if \<not> np_renewed resp then (Some (Some (SdkRefused '''')), c, w1)
                    else (Some None,
                          c\<lparr>sc_leased := fmupd name (sdk_lease_deadline resp l) (sc_leased c)\<rparr>,
                          w1))))"

definition forgetLease :: "string \<Rightarrow> u64 \<Rightarrow> sdk_client \<Rightarrow> sdk_client" where
  "forgetLease name token c =
     (case fmlookup (sc_leased c) name of
        Some l \<Rightarrow> if se_Token l = token then c\<lparr>sc_leased := fmdrop name (sc_leased c)\<rparr> else c
      | None \<Rightarrow> c)"

definition lease_drop ::
  "'w daemon \<Rightarrow> attempts \<Rightarrow> sdk_lease \<Rightarrow> sdk_client \<Rightarrow> 'w \<Rightarrow>
   sdk_error option option \<times> sdk_client \<times> 'w" where
  "lease_drop da ats l c0 w =
     (let c = (case fmlookup (sc_leased c0) (se_Name l) of
                 Some x \<Rightarrow> if se_Token x = se_Token l
                           then c0\<lparr>sc_leased := fmupd (se_Name l) (stopLeaseRenew x) (sc_leased c0)\<rparr>
                           else c0
               | None \<Rightarrow> c0) in
      case sdk_retry (da_Revoke da \<lparr>vq_name = se_Name l, vq_owner = se_Owner l,
                                     vq_token = se_Token l\<rparr>) ats w of
        (None, _, w1) \<Rightarrow> (None, c, w1)
      | (Some r, _, w1) \<Rightarrow>
          (case retry_result r of
             Inl (SdkRpc err) \<Rightarrow>
               (Some (Some (SdkRpc err)),
                if rpc_code err = FailedPrecondition then forgetLease (se_Name l) (se_Token l) c else c,
                w1)
           | Inl err \<Rightarrow> (Some (Some err), c, w1)
           | Inr (revoked, msg) \<Rightarrow>
               if \<not> revoked then (Some (Some (SdkRefused msg)), c, w1)
               else (Some None, forgetLease (se_Name l) (se_Token l) c, w1)))"

definition sdk_Revoke ::
  "'w daemon \<Rightarrow> attempts \<Rightarrow> string \<Rightarrow> sdk_client \<Rightarrow> 'w \<Rightarrow>
   sdk_error option option \<times> sdk_client \<times> 'w" where
  "sdk_Revoke da ats name c w =
     (case heldLease name c of
        None \<Rightarrow> (Some (Some (SdkNotHeld name)), c, w)
      | Some l \<Rightarrow> lease_drop da ats l c w)"

fun lease_drop_all ::
  "'w daemon \<Rightarrow> attempts list \<Rightarrow> sdk_lease list \<Rightarrow> sdk_client \<Rightarrow> 'w \<Rightarrow> sdk_client \<times> 'w" where
  "lease_drop_all da (ats # atss) (l # ls) c w =
     (case lease_drop da ats l c w of (_, c1, w1) \<Rightarrow> lease_drop_all da atss ls c1 w1)"
| "lease_drop_all da _ _ c w = (c, w)"

definition releaseLeases ::
  "'w daemon \<Rightarrow> attempts list \<Rightarrow> string list \<Rightarrow> sdk_client \<Rightarrow> 'w \<Rightarrow> sdk_client \<times> 'w" where
  "releaseLeases da atss ks c w = lease_drop_all da atss (range_vals (sc_leased c) ks) c w"

fun lease_renew_loop ::
  "'w daemon \<Rightarrow> renew_wake list \<Rightarrow> sdk_lease \<Rightarrow> 'w \<Rightarrow> bool \<times> sdk_lease \<times> 'w" where
  "lease_renew_loop da [] l w = (True, l, w)"
| "lease_renew_loop da (RwDone # ws) l w = (False, l, w)"
| "lease_renew_loop da (RwTick ctx_done # ws) l w =
     (case da_lease_Renew da \<lparr>nq_name = se_Name l, nq_holder = se_Owner l, nq_token = se_Token l,
                              nq_ttl_ms = 0\<rparr> w of
        (Inl err, w1) \<Rightarrow>
          if ctx_done then (False, l, w1)
          else if rpc_code err = FailedPrecondition \<or> rpc_code err = Canceled then (False, l, w1)
          else lease_renew_loop da ws l w1
      | (Inr resp, w1) \<Rightarrow> lease_renew_loop da ws (sdk_lease_deadline resp l) w1)"

section \<open>Lemmas\<close>

text \<open>
  A handle in the map answers every later call without asking the daemon, also after its renewal
  loop has ended because the daemon refused the renewal.
\<close>

lemma stale_handle:
  assumes "fmlookup (sc_held c) name = Some l"
    and "da_Renew da \<lparr>nq_name = sk_Name l, nq_holder = sk_Holder l, nq_token = sk_Token l,
           nq_ttl_ms = 0\<rparr> w = (Inl (Rpc FailedPrecondition d), w1)"
  shows "renew_loop da (RwTick False # ws) l w = (False, l, w1) \<and>
    sdk_Lock da ats name ttl c w1 = (Some (Inr l), c, w1)"
  using assms by (simp add: sdk_Lock_def heldLock_def)

lemma stale_lease_handle:
  assumes "fmlookup (sc_leased c) name = Some l"
  shows "lease_renew_loop da (RwDone # ws) l w = (False, l, w) \<and>
    sdk_Lease da ats name ttl c w = (Some (Inr l), c, w)"
  using assms by (simp add: sdk_Lease_def heldLease_def)

lemma adopt_fresh:
  assumes "fmlookup (sc_held c) name = None"
  shows "sdk_adopt resp name c =
    (startRenew (lockFromResp resp name),
     c\<lparr>sc_held := fmupd name (startRenew (lockFromResp resp name)) (sc_held c)\<rparr>)"
  using assms by (simp add: sdk_adopt_def Let_def)

lemma Lock_fresh:
  assumes "fmlookup (sc_held c) name = None" and "sdk_Lock da ats name ttl c w = (Some (Inr l), c1, w1)"
  shows "sc_held c1 = fmupd name l (sc_held c) \<and> sk_Name l = name \<and> sk_renewing l"
proof -
  obtain r sleeps w2 where retry: "sdk_retry (da_Lock da \<lparr>lq_name = name, lq_holder = sc_holder c,
      lq_ttl_ms = ttlMs ttl\<rparr>) ats w = (r, sleeps, w2)" by (metis prod_cases3)
  have "\<exists>resp. sdk_adopt resp name c = (l, c1)"
    using assms retry
    by (auto simp: sdk_Lock_def heldLock_def split: option.splits sum.splits if_splits prod.splits)
  then show ?thesis
    using assms(1) by (auto simp: adopt_fresh startRenew_def lockFromResp_def)
qed

text \<open>The outcomes of a release after which the client has dropped the handle.\<close>

definition settled :: "sdk_error option option \<Rightarrow> bool" where
  "settled r \<longleftrightarrow> r = Some None \<or> (\<exists>d. r = Some (Some (SdkRpc (Rpc FailedPrecondition d))))"

lemma release_settled:
  assumes "fmlookup (sc_held c) (sk_Name l) = Some l"
    and "sdk_release da ats l c w = (r, c1, w1)" and "settled r"
  shows "sc_held c1 = fmdrop (sk_Name l) (sc_held c)"
proof -
  let ?c = "c\<lparr>sc_held := fmupd (sk_Name l) (stopRenew l) (sc_held c)\<rparr>"
  have drop: "sc_held (sdk_forget (sk_Name l) (sk_Token l) ?c) = fmdrop (sk_Name l) (sc_held c)"
    by (simp add: sdk_forget_def stopRenew_def) (rule fmap_ext, simp)
  obtain q sleeps w2 where retry: "sdk_retry (da_Unlock da \<lparr>uq_name = sk_Name l,
      uq_holder = sk_Holder l, uq_token = sk_Token l\<rparr>) ats w = (q, sleeps, w2)" by (metis prod_cases3)
  have "c1 = sdk_forget (sk_Name l) (sk_Token l) ?c"
  proof (cases q)
    case None
    with assms retry show ?thesis by (simp add: sdk_release_def Let_def settled_def)
  next
    case (Some x)
    show ?thesis
    proof (cases "retry_result x")
      case (Inl err)
      with assms retry Some show ?thesis
        by (cases err) (auto simp: sdk_release_def Let_def settled_def split: if_splits)
    next
      case (Inr p)
      with assms retry Some show ?thesis
        by (cases p) (auto simp: sdk_release_def Let_def settled_def split: if_splits)
    qed
  qed
  with drop show ?thesis by simp
qed

lemma backoff_next:
  fixes b :: int
  assumes "0 < b" and "b \<le> cap"
  shows "min (min (b * 2) cap * 2 ^ i) cap = min (b * 2 ^ Suc i) cap"
proof (cases "b * 2 \<le> cap")
  case True
  then show ?thesis by (simp add: mult.assoc)
next
  case False
  have one: "(1::int) \<le> 2 ^ i" by simp
  have "cap * 1 \<le> cap * 2 ^ i" using assms one by (intro mult_left_mono) auto
  moreover have "b * 2 * 1 \<le> b * 2 * 2 ^ i" using assms one by (intro mult_left_mono) auto
  ultimately show ?thesis using False by (simp add: mult.assoc min_def)
qed

lemma retry_step:
  assumes "fn w = (Inl err, w1)" and "sdk_transient err"
  shows "retry_loop fn b prev ((None, True) # ats) w =
    (case retry_loop fn (min (b * 2) maxBackoff) (Some err) ats w1 of
       (r, sleeps, w2) \<Rightarrow> (r, b # sleeps, w2))"
proof -
  have "(if b * 2 > maxBackoff then maxBackoff else b * 2) = min (b * 2) maxBackoff" by auto
  then show ?thesis using assms by (simp add: Let_def)
qed

lemma retry_loop_ok:
  assumes "\<forall>i<k. \<exists>err. fst (fn (((\<lambda>w. snd (fn w)) ^^ i) w)) = Inl err \<and> sdk_transient err"
    and "fst (fn (((\<lambda>w. snd (fn w)) ^^ k) w)) = Inr a" and "0 < b" and "b \<le> maxBackoff"
  shows "retry_loop fn b prev (replicate (Suc k) (None, True) @ ats) w =
    (Some (RetryOk a), map (\<lambda>i. min (b * 2 ^ i) maxBackoff) [0..<k], ((\<lambda>w. snd (fn w)) ^^ Suc k) w)"
  using assms
proof (induction k arbitrary: w b prev)
  case 0
  then show ?case by (cases "fn w") simp
next
  case (Suc k)
  let ?next = "\<lambda>w. snd (fn w)" and ?b = "min (b * 2) maxBackoff"
  obtain err where err: "fst (fn w) = Inl err" "sdk_transient err" using Suc.prems(1) by fastforce
  have tl: "(?next ^^ i) (?next w) = (?next ^^ Suc i) w" for i
    by (simp add: funpow_Suc_right del: funpow.simps)
  have "\<forall>i<k. \<exists>err. fst (fn ((?next ^^ i) (?next w))) = Inl err \<and> sdk_transient err"
    unfolding tl using Suc.prems(1) by blast
  moreover have "fst (fn ((?next ^^ k) (?next w))) = Inr a" unfolding tl by (rule Suc.prems(2))
  moreover have "0 < ?b" "?b \<le> maxBackoff" using Suc.prems(3,4) by auto
  ultimately have IH: "retry_loop fn ?b (Some err) (replicate (Suc k) (None, True) @ ats) (?next w) =
      (Some (RetryOk a), map (\<lambda>i. min (?b * 2 ^ i) maxBackoff) [0..<k], (?next ^^ Suc k) (?next w))"
    by (rule Suc.IH)
  have sleeps: "map (\<lambda>i. min (b * 2 ^ i) maxBackoff) [0..<Suc k] =
      b # map (\<lambda>i. min (?b * 2 ^ i) maxBackoff) [0..<k]"
    using Suc.prems(3,4)
    by (simp add: backoff_next map_Suc_upt [symmetric] upt_rec [of 0 "Suc k"] del: upt_Suc)
  have "fn w = (Inl err, ?next w)" using err(1) by (metis prod.collapse)
  note step = retry_step [of fn w err "?next w" b prev "replicate (Suc k) (None, True) @ ats", OF this err(2)]
  have "replicate (Suc (Suc k)) (None, True) @ ats =
      (None, True) # (replicate (Suc k) (None, True) @ ats)" by simp
  then show ?case unfolding sleeps tl [symmetric] using step IH by (simp only: prod.case)
qed

section \<open>Properties\<close>

text \<open>
  C32. The retry loop: when the call fails with a transient error \<open>k\<close> times and then succeeds, and
  the context lives on, the loop returns that success after exactly \<open>k + 1\<close> calls; its sleeps start at
  50 milliseconds, double each time and are capped at two seconds.
\<close>

theorem retry_succeeds:
  assumes "\<forall>i<k. \<exists>err. fst (fn (((\<lambda>w. snd (fn w)) ^^ i) w)) = Inl err \<and> sdk_transient err"
    and "fst (fn (((\<lambda>w. snd (fn w)) ^^ k) w)) = Inr a"
  shows "sdk_retry fn (replicate (Suc k) (None, True) @ ats) w =
    (Some (RetryOk a), map (\<lambda>i. min (50 * Millisecond * 2 ^ i) (2 * Second)) [0..<k],
     ((\<lambda>w. snd (fn w)) ^^ Suc k) w)"
  using retry_loop_ok [OF assms, of "50 * Millisecond" None ats]
  by (simp add: sdk_retry_def maxBackoff_def Millisecond_def Second_def)

text \<open>
  Unlock undoes Lock in the client: after a Lock of a name the client did not hold, the handle
  is in its map under that name and is being renewed; and when a later Unlock succeeds, or the
  daemon answers that the lock is not held any more, the map is the one from before the Lock.
\<close>

theorem lock_unlock_roundtrip:
  assumes "fmlookup (sc_held c) name = None"
    and "sdk_Lock da ats name ttl c w = (Some (Inr l), c1, w1)"
    and "sdk_Unlock da' ats' name c1 w2 = (r, c2, w3)" and "settled r"
  shows "sc_held c1 = fmupd name l (sc_held c) \<and> sk_renewing l \<and> sc_held c2 = sc_held c"
proof -
  note fresh = Lock_fresh [OF assms(1,2)]
  then have held: "fmlookup (sc_held c1) (sk_Name l) = Some l" by simp
  have "sdk_release da' ats' l c1 w2 = (r, c2, w3)"
    using assms(3) fresh by (simp add: sdk_Unlock_def heldLock_def)
  from release_settled [OF held this assms(4)] fresh
  have "sc_held c2 = fmdrop name (fmupd name l (sc_held c))" by simp
  also have "\<dots> = sc_held c" using assms(1) by (intro fmap_ext) auto
  finally show ?thesis using fresh by simp
qed

section \<open>Witnesses\<close>

text \<open>A daemon whose world counts its calls: the first two of Lock are unavailable.\<close>

definition flaky_Lock :: "lock_request \<Rightarrow> nat \<Rightarrow> (lock_error + lock_response) \<times> nat" where
  "flaky_Lock req n =
     (if n < 2 then (Inl (Rpc Unavailable RemoteFailed), Suc n)
      else (Inr \<lparr>lp_acquired = True, lp_message = '''', lp_token = 7, lp_holder = lq_holder req,
                 lp_deadline = 0\<rparr>, Suc n))"

definition flaky_daemon :: "nat daemon" where
  "flaky_daemon =
     \<lparr>da_Lock = flaky_Lock, da_TryLock = flaky_Lock, da_Unlock = (\<lambda>req n. (Inr (True, ''''), Suc n)),
      da_Renew = (\<lambda>req n. (Inl (Rpc Unavailable RemoteFailed), n)),
      da_Grant = (\<lambda>req n. (Inl (Rpc Unavailable RemoteFailed), n)),
      da_lease_Renew = (\<lambda>req n. (Inl (Rpc Unavailable RemoteFailed), n)),
      da_Revoke = (\<lambda>req n. (Inr (True, ''''), n))\<rparr>"

definition demo_client :: sdk_client where
  "demo_client = \<lparr>sc_holder = ''h'', sc_held = fmempty, sc_leased = fmempty\<rparr>"

theorem retry_succeeds_witness:
  "fst (snd (sdk_retry (flaky_Lock \<lparr>lq_name = ''db'', lq_holder = ''h'', lq_ttl_ms = 0\<rparr>)
     (replicate 3 (None, True)) 0)) = [50 * Millisecond, 100 * Millisecond]"
proof -
  let ?fn = "flaky_Lock \<lparr>lq_name = ''db'', lq_holder = ''h'', lq_ttl_ms = 0\<rparr>"
  have run: "((\<lambda>w. snd (?fn w)) ^^ i) 0 = i" for i
    by (induction i) (simp_all add: flaky_Lock_def)
  have "\<forall>i<2. \<exists>err. fst (?fn (((\<lambda>w. snd (?fn w)) ^^ i) 0)) = Inl err \<and> sdk_transient err"
    unfolding run by (simp add: flaky_Lock_def sdk_transient_def)
  moreover have "fst (?fn (((\<lambda>w. snd (?fn w)) ^^ 2) 0)) =
      Inr \<lparr>lp_acquired = True, lp_message = '''', lp_token = 7, lp_holder = ''h'', lp_deadline = 0\<rparr>"
    unfolding run by (simp add: flaky_Lock_def)
  ultimately show ?thesis
    using retry_succeeds [of 2 ?fn 0 _ "[]"]
    by (simp add: numeral_3_eq_3 numeral_2_eq_2 Millisecond_def Second_def)
qed

theorem lock_unlock_roundtrip_witness:
  "case sdk_Lock flaky_daemon (replicate 3 (None, True)) ''db'' Second demo_client 0 of
     (Some (Inr l), c1, w1) \<Rightarrow>
       sk_renewing l \<and> sc_held (fst (snd (sdk_Unlock flaky_daemon [(None, True)] ''db'' c1 w1))) = fmempty
   | _ \<Rightarrow> False"
proof -
  let ?l = "\<lparr>sk_Name = ''db'', sk_Holder = ''h'', sk_Token = 7, sk_deadline = 0, sk_renewing = True\<rparr>"
  let ?c = "demo_client\<lparr>sc_held := fmupd ''db'' ?l fmempty\<rparr>"
  have lock: "sdk_Lock flaky_daemon (replicate 3 (None, True)) ''db'' Second demo_client 0 =
      (Some (Inr ?l), ?c, 3)"
    by (simp add: sdk_Lock_def heldLock_def demo_client_def sdk_retry_def flaky_daemon_def
        flaky_Lock_def numeral_3_eq_3 sdk_transient_def Let_def retry_result_def sdk_adopt_def
        startRenew_def lockFromResp_def)
  obtain c2 w2 where unlock: "sdk_Unlock flaky_daemon [(None, True)] ''db'' ?c 3 = (Some None, c2, w2)"
    by (simp add: sdk_Unlock_def heldLock_def sdk_release_def Let_def sdk_retry_def flaky_daemon_def
        retry_result_def)
  have empty: "sc_held demo_client = fmempty" by (simp add: demo_client_def)
  then have "fmlookup (sc_held demo_client) ''db'' = None" "settled (Some None)"
    by (simp_all add: settled_def)
  from lock_unlock_roundtrip [OF this(1) lock unlock this(2)] show ?thesis
    unfolding lock by (simp add: unlock empty)
qed

end
