(* ===== verification/Go_Text.thy ===== *)
theory Go_Text
  imports Go_Json
begin

text \<open>
  More of Go's standard library, as the configuration, the daemon assembly, the operator and the
  client library use it: trimming, lower case, searching, decimal numbers (strings, strconv,
  unicode/utf8), and durations as text (time.ParseDuration). Lemmas: what the functions do on ASCII
  text, and that a parsed duration is in the range of an int64.
\<close>

section \<open>Trimming\<close>

definition IsSpace :: "nat \<Rightarrow> bool" where
  "IsSpace r \<longleftrightarrow> (9 \<le> r \<and> r \<le> 13) \<or> r = 32 \<or> r = 133 \<or> r = 160 \<or> r = 5760 \<or>
     (8192 \<le> r \<and> r \<le> 8202) \<or> r = 8232 \<or> r = 8233 \<or> r = 8239 \<or> r = 8287 \<or> r = 12288"

function trim_left :: "nat list \<Rightarrow> nat list" where
  "trim_left [] = []"
| "trim_left (b # bs) =
     (if IsSpace (fst (decode_rune (b # bs)))
      then trim_left (drop (snd (decode_rune (b # bs)) - 1) bs) else b # bs)"
  by pat_completeness auto
termination
  by (relation "measure length") (simp_all del: decode_rune.simps)

text \<open>
  The last rune of a byte list: the start is searched backwards over at most three continuation
  bytes, and a rune that does not end with the list counts as an invalid byte.
\<close>

definition rune_start :: "nat \<Rightarrow> bool" where
  "rune_start b \<longleftrightarrow> \<not> is_cont b"

fun start_before :: "nat list \<Rightarrow> nat \<Rightarrow> nat \<Rightarrow> nat" where
  "start_before bs 0 i = i"
| "start_before bs (Suc n) i =
     (if i = 0 then 0
      else if rune_start (bs ! (i - 1)) then i - 1 else start_before bs n (i - 1))"

definition decode_last_rune :: "nat list \<Rightarrow> nat \<times> nat" where
  "decode_last_rune bs =
     (if bs = [] then (rune_error, 0)
      else if last bs < 128 then (last bs, 1)
      else
        let i = start_before bs 3 (length bs - 1);
            d = decode_rune (drop i bs)
        in if i + snd d = length bs then d else (rune_error, 1))"

function trim_right :: "nat list \<Rightarrow> nat list" where
  "trim_right bs =
     (if bs \<noteq> [] \<and> IsSpace (fst (decode_last_rune bs))
      then trim_right (take (length bs - max 1 (snd (decode_last_rune bs))) bs) else bs)"
  by pat_completeness auto
termination
  by (relation "measure length") auto

declare trim_right.simps [simp del]

definition TrimSpace :: "string \<Rightarrow> string" where
  "TrimSpace s = map char_of (trim_right (trim_left (map byte s)))"

section \<open>Lower case\<close>

definition ascii_lower :: "nat \<Rightarrow> nat" where
  "ascii_lower b = (if 65 \<le> b \<and> b \<le> 90 then b + 32 else b)"

definition lower_rune :: "env \<Rightarrow> nat \<Rightarrow> nat" where
  "lower_rune e r = (if r < 128 then ascii_lower r else lower_table e r)"

definition encode_rune :: "nat \<Rightarrow> nat list" where
  "encode_rune r0 =
     (let r = (if r0 > 1114111 \<or> (55296 \<le> r0 \<and> r0 \<le> 57343) then rune_error else r0) in
      if r < 128 then [r]
      else if r < 2048 then [192 + r div 64, 128 + r mod 64]
      else if r < 65536 then [224 + r div 4096, 128 + r div 64 mod 64, 128 + r mod 64]
      else [240 + r div 262144, 128 + r div 4096 mod 64, 128 + r div 64 mod 64, 128 + r mod 64])"

definition ToLower :: "env \<Rightarrow> string \<Rightarrow> string" where
  "ToLower e s = map char_of (concat (map (encode_rune \<circ> lower_rune e) (runes s)))"

section \<open>Searching\<close>

fun Contains :: "string \<Rightarrow> string \<Rightarrow> bool" where
  "Contains [] p = (p = [])"
| "Contains (c # s) p = (HasPrefix (c # s) p \<or> Contains s p)"

text \<open>\<^verbatim>\<open>strings.LastIndex(s, "c")\<close> for a separator of one byte, as the part after it.\<close>

fun after_last :: "char \<Rightarrow> string \<Rightarrow> string option" where
  "after_last c [] = None"
| "after_last c (x # s) =
     (case after_last c s of Some t \<Rightarrow> Some t | None \<Rightarrow> if x = c then Some s else None)"

section \<open>Decimal numbers\<close>

definition is_digit :: "char \<Rightarrow> bool" where
  "is_digit c \<longleftrightarrow> 48 \<le> byte c \<and> byte c \<le> 57"

definition digits_value :: "string \<Rightarrow> nat" where
  "digits_value s = foldl (\<lambda>n c. n * 10 + (byte c - 48)) 0 s"

definition Atoi :: "string \<Rightarrow> int option" where
  "Atoi s =
     (let neg = HasPrefix s ''-'';
          ds = (if neg \<or> HasPrefix s ''+'' then tl s else s);
          n = int (digits_value ds);
          v = (if neg then - n else n)
      in if ds = '''' \<or> \<not> list_all is_digit ds \<or> \<not> in_i64 v then None else Some v)"

section \<open>Durations\<close>

text \<open>
  \<^verbatim>\<open>time.ParseDuration\<close>. Fractions are computed in float64: \<open>dbl\<close> rounds a fraction to the nearest
  number with a significand of 53 bits, ties to even. The numbers here are far from the ends of the
  exponent range.
\<close>

fun bit_len :: "nat \<Rightarrow> nat" where
  "bit_len n = (if n = 0 then 0 else Suc (bit_len (n div 2)))"

declare bit_len.simps [simp del]

definition round_even :: "nat \<Rightarrow> nat \<Rightarrow> nat" where
  "round_even n d =
     (let q = n div d; r = n mod d in
      if 2 * r < d then q else if 2 * r > d then q + 1 else if even q then q else q + 1)"

definition dbl_at :: "int \<Rightarrow> nat \<times> nat \<Rightarrow> nat \<times> nat" where
  "dbl_at ex q =
     (if 0 \<le> ex then (round_even (fst q) (snd q * 2 ^ nat ex) * 2 ^ nat ex, 1)
      else (round_even (fst q * 2 ^ nat (- ex)) (snd q), 2 ^ nat (- ex)))"

definition dbl :: "nat \<times> nat \<Rightarrow> nat \<times> nat" where
  "dbl q =
     (if fst q = 0 then (0, 1)
      else
        let ex = int (bit_len (fst q)) - int (bit_len (snd q)) - 53;
            big = (if 0 \<le> ex then 2 ^ 53 * snd q * 2 ^ nat ex \<le> fst q
                   else 2 ^ 53 * snd q \<le> fst q * 2 ^ nat (- ex))
        in dbl_at (if big then ex + 1 else ex) q)"

definition frac_ns :: "nat \<Rightarrow> nat \<Rightarrow> nat \<Rightarrow> nat" where
  "frac_ns f unit scale =
     (let a = dbl (f, 1); b = dbl (unit, scale); p = dbl (fst a * fst b, snd a * snd b)
      in fst p div snd p)"

fun leading_int :: "nat \<Rightarrow> string \<Rightarrow> nat option" where
  "leading_int x [] = Some x"
| "leading_int x (c # s) =
     (if x > 2 ^ 63 div 10 then None
      else let y = x * 10 + (byte c - 48) in if y > 2 ^ 63 then None else leading_int y s)"

fun leading_fraction :: "nat \<Rightarrow> nat \<Rightarrow> string \<Rightarrow> nat \<times> nat" where
  "leading_fraction x scale [] = (x, scale)"
| "leading_fraction x scale (c # s) =
     (if x > (2 ^ 63 - 1) div 10 then (x, scale)
      else let y = x * 10 + (byte c - 48) in
        if y > 2 ^ 63 then (x, scale) else leading_fraction y (scale * 10) s)"

definition unit_of :: "string \<Rightarrow> nat option" where
  "unit_of u =
     (if u = ''ns'' then Some 1
      else if u = ''us'' \<or> map byte u = [194, 181, 115] \<or> map byte u = [206, 188, 115] then Some 1000
      else if u = ''ms'' then Some 1000000
      else if u = ''s'' then Some 1000000000
      else if u = ''m'' then Some 60000000000
      else if u = ''h'' then Some 3600000000000 else None)"

definition number_char :: "char \<Rightarrow> bool" where
  "number_char c \<longleftrightarrow> c = CHR ''.'' \<or> is_digit c"

definition fraction_of :: "string \<Rightarrow> string" where
  "fraction_of s = (if HasPrefix s ''.'' then takeWhile is_digit (tl s) else [])"

definition after_number :: "string \<Rightarrow> string" where
  "after_number s =
     (let s1 = dropWhile is_digit s in
      if HasPrefix s1 ''.'' then dropWhile is_digit (tl s1) else s1)"

text \<open>One number with its unit, in nanoseconds, and the rest of the text.\<close>

definition parse_part :: "string \<Rightarrow> (nat \<times> string) option" where
  "parse_part s =
     (let ds = takeWhile is_digit s;
          fs = fraction_of (dropWhile is_digit s);
          s2 = after_number s;
          u = takeWhile (\<lambda>c. \<not> number_char c) s2
      in if \<not> (s \<noteq> [] \<and> number_char (hd s)) then None
         else
           (case leading_int 0 ds of
              None \<Rightarrow> None
            | Some v \<Rightarrow>
                if (ds = [] \<and> fs = []) \<or> u = [] then None
                else
                  (case unit_of u of
                     None \<Rightarrow> None
                   | Some un \<Rightarrow>
                       if v > 2 ^ 63 div un then None
                       else
                         let f = leading_fraction 0 1 fs;
                             v' = v * un + (if fst f > 0 then frac_ns (fst f) un (snd f) else 0)
                         in if fst f > 0 \<and> v' > 2 ^ 63 then None
                            else Some (v', drop (length u) s2))))"

lemma after_number_le: "length (after_number s) \<le> length s"
proof -
  have d: "length (dropWhile is_digit t) \<le> length t" for t by (rule length_dropWhile_le)
  have "length (dropWhile is_digit (tl (dropWhile is_digit s))) \<le> length (dropWhile is_digit s)"
    using d [of "tl (dropWhile is_digit s)"] by simp
  then show ?thesis using d [of s] by (auto simp: after_number_def Let_def)
qed

lemma parse_part_shorter: "parse_part s = Some (v, t) \<Longrightarrow> length t < length s"
proof -
  assume p: "parse_part s = Some (v, t)"
  let ?s2 = "after_number s" let ?u = "takeWhile (\<lambda>c. \<not> number_char c) ?s2"
  have "?u \<noteq> []" "t = drop (length ?u) ?s2"
    using p by (auto simp: parse_part_def Let_def split: if_splits option.splits)
  moreover have "length ?u \<le> length ?s2" by (rule length_takeWhile_le)
  ultimately show ?thesis using after_number_le [of s] by (cases ?u) auto
qed

function parse_parts :: "nat \<Rightarrow> string \<Rightarrow> nat option" where
  "parse_parts d s =
     (if s = [] then Some d
      else case parse_part s of
        None \<Rightarrow> None
      | Some (v, t) \<Rightarrow>
          let d' = (d + v) mod 2 ^ 64 in if d' > 2 ^ 63 then None else parse_parts d' t)"
  by pat_completeness auto
termination
  by (relation "measure (\<lambda>(d, s). length s)") (auto dest: parse_part_shorter)

declare parse_parts.simps [simp del]

definition ParseDuration :: "string \<Rightarrow> duration option" where
  "ParseDuration s0 =
     (let neg = HasPrefix s0 ''-'';
          s = (if neg \<or> HasPrefix s0 ''+'' then tl s0 else s0)
      in if s = ''0'' then Some 0
         else if s = '''' then None
         else case parse_parts 0 s of
           None \<Rightarrow> None
         | Some d \<Rightarrow>
             if neg then Some (i64 (- i64 (int d)))
             else if d > 2 ^ 63 - 1 then None else Some (int d))"

section \<open>Lemmas\<close>

definition ascii :: "string \<Rightarrow> bool" where
  "ascii s \<longleftrightarrow> list_all (\<lambda>c. byte c < 128) s"

lemma char_of_byte [simp]: "char_of (byte c) = c"
  by (simp add: byte_def)

lemma trim_left_ascii: "list_all (\<lambda>b. b < 128) bs \<Longrightarrow> trim_left bs = dropWhile IsSpace bs"
  by (induction bs rule: trim_left.induct) auto

lemma trim_right_ascii: "list_all (\<lambda>b. b < 128) bs \<Longrightarrow> trim_right bs = rev (dropWhile IsSpace (rev bs))"
proof (induction bs rule: rev_induct)
  case (snoc b bs)
  have d: "decode_last_rune (bs @ [b]) = (b, 1)"
    using snoc.prems by (simp add: decode_last_rune_def)
  show ?case
    using snoc by (subst trim_right.simps) (simp add: d)
qed (simp add: trim_right.simps)

lemma dropWhile_bytes: "dropWhile P (map byte s) = map byte (dropWhile (\<lambda>c. P (byte c)) s)"
  by (induction s) simp_all

lemma list_all_dropWhile: "list_all Q s \<Longrightarrow> list_all Q (dropWhile P s)"
  by (induction s) auto

lemma TrimSpace_ascii:
  assumes "ascii s"
  shows "TrimSpace s =
    rev (dropWhile (\<lambda>c. IsSpace (byte c)) (rev (dropWhile (\<lambda>c. IsSpace (byte c)) s)))"
proof -
  let ?t = "dropWhile (\<lambda>c. IsSpace (byte c)) s"
  have a: "list_all (\<lambda>b. b < 128) (map byte s)"
    using assms by (simp add: ascii_def list.pred_map comp_def)
  have "list_all (\<lambda>b. b < 128) (map byte ?t)"
    using assms by (simp add: ascii_def list.pred_map comp_def list_all_dropWhile)
  then show ?thesis
    unfolding TrimSpace_def trim_left_ascii [OF a] dropWhile_bytes
    by (simp add: trim_right_ascii rev_map dropWhile_bytes comp_def)
qed

lemma ToLower_ascii:
  assumes "ascii s"
  shows "ToLower e s = map (\<lambda>c. char_of (ascii_lower (byte c))) s"
proof -
  have "runes s = map byte s" by (rule runes_ascii) (use assms in \<open>simp add: ascii_def list_all_iff\<close>)
  moreover have "concat (map (encode_rune \<circ> lower_rune e) (map byte s)) = map (ascii_lower \<circ> byte) s"
    using assms
    by (induction s) (auto simp: ascii_def encode_rune_def lower_rune_def ascii_lower_def Let_def)
  ultimately show ?thesis by (simp add: ToLower_def comp_def)
qed

lemma Contains_iff: "Contains s p \<longleftrightarrow> (\<exists>a b. s = a @ p @ b)"
proof (induction s)
  case (Cons c s)
  show ?case
  proof
    assume "Contains (c # s) p"
    then consider "HasPrefix (c # s) p" | "Contains s p" by auto
    then show "\<exists>a b. c # s = a @ p @ b"
    proof cases
      case 1
      then obtain t where "c # s = [] @ p @ t" by (auto simp: HasPrefix_iff)
      then show ?thesis by blast
    next
      case 2
      then obtain a b where "c # s = (c # a) @ p @ b" using Cons by auto
      then show ?thesis by blast
    qed
  next
    assume "\<exists>a b. c # s = a @ p @ b"
    then obtain a b where ab: "c # s = a @ p @ b" by blast
    show "Contains (c # s) p"
    proof (cases a)
      case Nil
      then have "HasPrefix (c # s) p" using ab by (simp add: HasPrefix_iff)
      then show ?thesis by simp
    next
      case (Cons x a')
      then have "s = a' @ p @ b" using ab by simp
      then show ?thesis using Cons.IH by auto
    qed
  qed
qed auto

lemma ParseDuration_range: "ParseDuration s = Some d \<Longrightarrow> in_i64 d"
proof -
  assume p: "ParseDuration s = Some d"
  then consider "d = 0" | x where "d = i64 (- i64 (int x))" | x where "d = int x" "x \<le> 2 ^ 63 - 1"
    by (auto simp: ParseDuration_def Let_def split: if_splits option.splits)
  then show ?thesis by cases (auto simp: in_i64_def [of 0] in_i64_def [of "int _"])
qed

end
