(* ===== verification/Config.thy ===== *)
theory Config
  imports Go_Text
begin

text \<open>
  The configuration of a daemon (internal/config/config.go): defaults, the YAML file, the environment
  variables, and the correction of the Raft timeouts. The home directory, the file system, the YAML
  parser and the environment are arguments. Lemmas: which source decides each setting, and that what
  is loaded satisfies the constraint that Validate checks.
\<close>

section \<open>The struct\<close>

record node_config =
  nc_ID :: string
  nc_Addr :: string

record cluster_config =
  cc_ID :: string

record data_config =
  dc_Dir :: string

record log_config =
  gc_Level :: string
  gc_Format :: string

record grpc_config =
  rpc_Addr :: string
  rpc_ControlSocket :: string
  rpc_DialTimeout :: duration
  rpc_RequestTimeout :: duration

record heartbeat_config =
  hbc_Interval :: duration
  hbc_Timeout :: duration
  hbc_MaxMisses :: int

record raft_settings =
  rc_Addr :: string
  rc_Bootstrap :: bool
  rc_HeartbeatTimeout :: duration
  rc_ElectionTimeout :: duration
  rc_LeaderLeaseTimeout :: duration

record tls_config =
  tc_Mode :: string

record lock_config =
  lkc_TTL :: duration
  lkc_ExpireInterval :: duration

record lease_config =
  ec_TTL :: duration
  ec_ExpireInterval :: duration
  ec_Presence :: bool
  ec_PresenceTTL :: duration

record config =
  Cf_Node :: node_config
  Cf_Cluster :: cluster_config
  Cf_Data :: data_config
  Cf_Log :: log_config
  Cf_GRPC :: grpc_config
  Cf_ShutdownTimeout :: duration
  Cf_Heartbeat :: heartbeat_config
  Cf_Raft :: raft_settings
  Cf_TLS :: tls_config
  Cf_Lock :: lock_config
  Cf_Lease :: lease_config

section \<open>Defaults\<close>

text \<open>The home directory is \<^term>\<open>None\<close> when the system reports an error.\<close>

definition defaultDataDir :: "string option \<Rightarrow> string" where
  "defaultDataDir home =
     (case home of
        None \<Rightarrow> ''/var/lib/clusdr''
      | Some h \<Rightarrow> if h = '''' then ''/var/lib/clusdr'' else h @ ''/.clusdr'')"

definition defaultControlSocket :: "string option \<Rightarrow> string" where
  "defaultControlSocket home =
     (case home of
        None \<Rightarrow> ''/var/lib/clusdr/clusdr.sock''
      | Some h \<Rightarrow> if h = '''' then ''/var/lib/clusdr/clusdr.sock'' else h @ ''/.clusdr/clusdr.sock'')"

definition Defaults :: "string option \<Rightarrow> config" where
  "Defaults home =
     \<lparr>Cf_Node = \<lparr>nc_ID = '''', nc_Addr = ''0.0.0.0:7947''\<rparr>,
      Cf_Cluster = \<lparr>cc_ID = ''''\<rparr>,
      Cf_Data = \<lparr>dc_Dir = defaultDataDir home\<rparr>,
      Cf_Log = \<lparr>gc_Level = ''info'', gc_Format = ''text''\<rparr>,
      Cf_GRPC = \<lparr>rpc_Addr = ''127.0.0.1:7947'', rpc_ControlSocket = defaultControlSocket home,
                 rpc_DialTimeout = 5 * Second, rpc_RequestTimeout = 10 * Second\<rparr>,
      Cf_ShutdownTimeout = 0,
      Cf_Heartbeat = \<lparr>hbc_Interval = 2 * Second, hbc_Timeout = 1 * Second, hbc_MaxMisses = 3\<rparr>,
      Cf_Raft = \<lparr>rc_Addr = ''127.0.0.1:7946'', rc_Bootstrap = False,
                 rc_HeartbeatTimeout = 150 * Millisecond, rc_ElectionTimeout = 150 * Millisecond,
                 rc_LeaderLeaseTimeout = 75 * Millisecond\<rparr>,
      Cf_TLS = \<lparr>tc_Mode = ''enabled''\<rparr>,
      Cf_Lock = \<lparr>lkc_TTL = 15 * Second, lkc_ExpireInterval = 100 * Millisecond\<rparr>,
      Cf_Lease = \<lparr>ec_TTL = 15 * Second, ec_ExpireInterval = 100 * Millisecond, ec_Presence = True,
                  ec_PresenceTTL = 3 * Second\<rparr>\<rparr>"

definition TLSEnabled :: "env \<Rightarrow> config \<Rightarrow> bool" where
  "TLSEnabled e c =
     (let mode = ToLower e (TrimSpace (tc_Mode (Cf_TLS c))) in
      \<not> (mode = ''disabled'' \<or> mode = ''off'' \<or> mode = ''false'' \<or> mode = ''0''))"

section \<open>Environment\<close>

text \<open>\<^verbatim>\<open>if v := getenv(key); v != "" { ... }\<close>\<close>

definition env_string :: "(string \<Rightarrow> string) \<Rightarrow> string \<Rightarrow> (string \<Rightarrow> config \<Rightarrow> config) \<Rightarrow> config \<Rightarrow> config" where
  "env_string getenv key upd c = (if getenv key \<noteq> '''' then upd (getenv key) c else c)"

definition envDuration ::
  "(string \<Rightarrow> string) \<Rightarrow> string \<Rightarrow> (duration \<Rightarrow> config \<Rightarrow> config) \<Rightarrow> config \<Rightarrow> config" where
  "envDuration getenv key upd c =
     (if getenv key = '''' then c
      else case ParseDuration (getenv key) of None \<Rightarrow> c | Some d \<Rightarrow> upd d c)"

definition envBool ::
  "env \<Rightarrow> (string \<Rightarrow> string) \<Rightarrow> string \<Rightarrow> (bool \<Rightarrow> config \<Rightarrow> config) \<Rightarrow> config \<Rightarrow> config" where
  "envBool e getenv key upd c =
     (let v = ToLower e (TrimSpace (getenv key)) in
      if v = ''true'' \<or> v = ''1'' \<or> v = ''on'' \<or> v = ''enabled'' then upd True c
      else if v = ''false'' \<or> v = ''0'' \<or> v = ''off'' \<or> v = ''disabled'' then upd False c
      else c)"

definition env_bootstrap :: "(string \<Rightarrow> string) \<Rightarrow> config \<Rightarrow> config" where
  "env_bootstrap getenv c =
     (let v = getenv ''CLUSDR_RAFT_BOOTSTRAP'' in
      if v = ''true'' \<or> v = ''1'' then Cf_Raft_update (rc_Bootstrap_update (\<lambda>_. True)) c else c)"

definition env_steps :: "env \<Rightarrow> (string \<Rightarrow> string) \<Rightarrow> (config \<Rightarrow> config) list" where
  "env_steps e getenv =
     [env_string getenv ''CLUSDR_NODE_ID'' (\<lambda>v. Cf_Node_update (nc_ID_update (\<lambda>_. v))),
      env_string getenv ''CLUSDR_NODE_ADDR'' (\<lambda>v. Cf_Node_update (nc_Addr_update (\<lambda>_. v))),
      env_string getenv ''CLUSDR_CLUSTER_ID'' (\<lambda>v. Cf_Cluster_update (cc_ID_update (\<lambda>_. v))),
      env_string getenv ''CLUSDR_DATA_DIR'' (\<lambda>v. Cf_Data_update (dc_Dir_update (\<lambda>_. v))),
      env_string getenv ''CLUSDR_LOG_LEVEL'' (\<lambda>v. Cf_Log_update (gc_Level_update (\<lambda>_. v))),
      env_string getenv ''CLUSDR_LOG_FORMAT'' (\<lambda>v. Cf_Log_update (gc_Format_update (\<lambda>_. v))),
      env_string getenv ''CLUSDR_GRPC_ADDR'' (\<lambda>v. Cf_GRPC_update (rpc_Addr_update (\<lambda>_. v))),
      env_string getenv ''CLUSDR_CONTROL_SOCKET''
        (\<lambda>v. Cf_GRPC_update (rpc_ControlSocket_update (\<lambda>_. v))),
      env_string getenv ''CLUSDR_RAFT_ADDR'' (\<lambda>v. Cf_Raft_update (rc_Addr_update (\<lambda>_. v))),
      env_bootstrap getenv,
      envDuration getenv ''CLUSDR_RAFT_HEARTBEAT_TIMEOUT''
        (\<lambda>d. Cf_Raft_update (rc_HeartbeatTimeout_update (\<lambda>_. d))),
      envDuration getenv ''CLUSDR_RAFT_ELECTION_TIMEOUT''
        (\<lambda>d. Cf_Raft_update (rc_ElectionTimeout_update (\<lambda>_. d))),
      envDuration getenv ''CLUSDR_RAFT_LEADER_LEASE_TIMEOUT''
        (\<lambda>d. Cf_Raft_update (rc_LeaderLeaseTimeout_update (\<lambda>_. d))),
      env_string getenv ''CLUSDR_TLS'' (\<lambda>v. Cf_TLS_update (tc_Mode_update (\<lambda>_. v))),
      envDuration getenv ''CLUSDR_LOCK_TTL'' (\<lambda>d. Cf_Lock_update (lkc_TTL_update (\<lambda>_. d))),
      envDuration getenv ''CLUSDR_LOCK_EXPIRE_INTERVAL''
        (\<lambda>d. Cf_Lock_update (lkc_ExpireInterval_update (\<lambda>_. d))),
      envDuration getenv ''CLUSDR_LEASE_TTL'' (\<lambda>d. Cf_Lease_update (ec_TTL_update (\<lambda>_. d))),
      envDuration getenv ''CLUSDR_LEASE_EXPIRE_INTERVAL''
        (\<lambda>d. Cf_Lease_update (ec_ExpireInterval_update (\<lambda>_. d))),
      envBool e getenv ''CLUSDR_LEASE_PRESENCE'' (\<lambda>b. Cf_Lease_update (ec_Presence_update (\<lambda>_. b))),
      envDuration getenv ''CLUSDR_LEASE_PRESENCE_TTL''
        (\<lambda>d. Cf_Lease_update (ec_PresenceTTL_update (\<lambda>_. d)))]"

definition applyEnv :: "env \<Rightarrow> (string \<Rightarrow> string) \<Rightarrow> config \<Rightarrow> config" where
  "applyEnv e getenv c = fold (\<lambda>step. step) (env_steps e getenv) c"

section \<open>Correction and validation\<close>

definition clampRaft :: "config \<Rightarrow> config" where
  "clampRaft c =
     (let hb = rc_HeartbeatTimeout (Cf_Raft c) in
      if hb > 0 \<and> rc_LeaderLeaseTimeout (Cf_Raft c) > hb
      then Cf_Raft_update (rc_LeaderLeaseTimeout_update (\<lambda>_. if hb div 2 \<le> 0 then hb else hb div 2)) c
      else c)"

datatype config_error =
    ReadConfig string string
  | ParseConfig string string
  | YamlError string
  | LeaseAboveHeartbeat duration duration

definition Validate :: "config \<Rightarrow> config_error option" where
  "Validate c =
     (let hb = rc_HeartbeatTimeout (Cf_Raft c); lease = rc_LeaderLeaseTimeout (Cf_Raft c) in
      if hb > 0 \<and> lease > hb then Some (LeaseAboveHeartbeat lease hb) else None)"

section \<open>Loading\<close>

datatype read_result = FileData string | FileMissing | FileError string

text \<open>
  The parser merges a document into a configuration or reports an error text; after an error it may
  have changed the configuration, which the callers discard.
\<close>

type_synonym yaml_parser = "string \<Rightarrow> config \<Rightarrow> string + config"

definition checked :: "config \<Rightarrow> config_error + config" where
  "checked c0 =
     (let c = clampRaft c0 in case Validate c of Some err \<Rightarrow> Inl err | None \<Rightarrow> Inr c)"

definition LoadFrom ::
  "env \<Rightarrow> string option \<Rightarrow> (string \<Rightarrow> read_result) \<Rightarrow> yaml_parser \<Rightarrow> string \<Rightarrow> (string \<Rightarrow> string) \<Rightarrow>
   config_error + config" where
  "LoadFrom e home readFile unmarshal path getenv =
     (if path = '''' then checked (applyEnv e getenv (Defaults home))
      else
        (case readFile path of
           FileError err \<Rightarrow> Inl (ReadConfig path err)
         | FileMissing \<Rightarrow> checked (applyEnv e getenv (Defaults home))
         | FileData data \<Rightarrow>
             (case unmarshal data (Defaults home) of
                Inl err \<Rightarrow> Inl (ParseConfig path err)
              | Inr c \<Rightarrow> checked (applyEnv e getenv c))))"

definition ParseYAML :: "string option \<Rightarrow> yaml_parser \<Rightarrow> string \<Rightarrow> config_error + config" where
  "ParseYAML home unmarshal data =
     (case unmarshal data (Defaults home) of
        Inl err \<Rightarrow> Inl (YamlError err)
      | Inr c \<Rightarrow> checked c)"

section \<open>Lemmas\<close>

text \<open>What a setting is after the environment: its variable, if set (and well-formed), or as before.\<close>

definition env_text :: "(string \<Rightarrow> string) \<Rightarrow> string \<Rightarrow> string \<Rightarrow> string" where
  "env_text getenv key x = (if getenv key = [] then x else getenv key)"

definition env_dur :: "(string \<Rightarrow> string) \<Rightarrow> string \<Rightarrow> duration \<Rightarrow> duration" where
  "env_dur getenv key x =
     (if getenv key = [] then x
      else case ParseDuration (getenv key) of None \<Rightarrow> x | Some d \<Rightarrow> d)"

definition env_flag :: "env \<Rightarrow> (string \<Rightarrow> string) \<Rightarrow> string \<Rightarrow> bool \<Rightarrow> bool" where
  "env_flag e getenv key x =
     (let v = ToLower e (TrimSpace (getenv key)) in
      if v \<in> {''true'', ''1'', ''on'', ''enabled''} then True
      else if v \<in> {''false'', ''0'', ''off'', ''disabled''} then False
      else x)"

lemma step_other:
  "(\<And>v c. S (u v c) = S c) \<Longrightarrow> S (env_string g key u c) = S c"
  "(\<And>d c. S (du d c) = S c) \<Longrightarrow> S (envDuration g key du c) = S c"
  "(\<And>b c. S (bu b c) = S c) \<Longrightarrow> S (envBool e g key bu c) = S c"
  "(\<And>c. S (Cf_Raft_update (rc_Bootstrap_update (\<lambda>_. True)) c) = S c) \<Longrightarrow> S (env_bootstrap g c) = S c"
  by (simp_all add: env_string_def envDuration_def envBool_def env_bootstrap_def Let_def split: option.split)

lemma step_text: "(\<And>v c. S (u v c) = v) \<Longrightarrow> S (env_string g key u c) = env_text g key (S c)"
  by (simp add: env_string_def env_text_def)

lemma step_dur: "(\<And>d c. S (u d c) = d) \<Longrightarrow> S (envDuration g key u c) = env_dur g key (S c)"
  by (simp add: envDuration_def env_dur_def split: option.split)

lemma step_flag: "(\<And>b c. S (u b c) = b) \<Longrightarrow> S (envBool e g key u c) = env_flag e g key (S c)"
  by (simp add: envBool_def env_flag_def Let_def)

lemma applyEnv_other:
  "Cf_ShutdownTimeout (applyEnv e g c) = Cf_ShutdownTimeout c"
  "Cf_Heartbeat (applyEnv e g c) = Cf_Heartbeat c"
  by (simp_all add: applyEnv_def env_steps_def step_other [of Cf_ShutdownTimeout]
      step_other [of Cf_Heartbeat])

lemma applyEnv_node:
  "nc_ID (Cf_Node (applyEnv e g c)) =
     env_text g ''CLUSDR_NODE_ID'' (nc_ID (Cf_Node c))"
  "nc_Addr (Cf_Node (applyEnv e g c)) =
     env_text g ''CLUSDR_NODE_ADDR'' (nc_Addr (Cf_Node c))"
  by (simp_all add: applyEnv_def env_steps_def step_other [of "\<lambda>c. nc_ID (Cf_Node c)"] step_text [of "\<lambda>c. nc_ID (Cf_Node c)"]
      step_other [of "\<lambda>c. nc_Addr (Cf_Node c)"] step_text [of "\<lambda>c. nc_Addr (Cf_Node c)"])

lemma applyEnv_ids:
  "cc_ID (Cf_Cluster (applyEnv e g c)) =
     env_text g ''CLUSDR_CLUSTER_ID'' (cc_ID (Cf_Cluster c))"
  "dc_Dir (Cf_Data (applyEnv e g c)) =
     env_text g ''CLUSDR_DATA_DIR'' (dc_Dir (Cf_Data c))"
  "tc_Mode (Cf_TLS (applyEnv e g c)) =
     env_text g ''CLUSDR_TLS'' (tc_Mode (Cf_TLS c))"
  by (simp_all add: applyEnv_def env_steps_def step_other [of "\<lambda>c. cc_ID (Cf_Cluster c)"] step_text [of "\<lambda>c. cc_ID (Cf_Cluster c)"]
      step_other [of "\<lambda>c. dc_Dir (Cf_Data c)"] step_text [of "\<lambda>c. dc_Dir (Cf_Data c)"]
      step_other [of "\<lambda>c. tc_Mode (Cf_TLS c)"] step_text [of "\<lambda>c. tc_Mode (Cf_TLS c)"])

lemma applyEnv_log:
  "gc_Level (Cf_Log (applyEnv e g c)) =
     env_text g ''CLUSDR_LOG_LEVEL'' (gc_Level (Cf_Log c))"
  "gc_Format (Cf_Log (applyEnv e g c)) =
     env_text g ''CLUSDR_LOG_FORMAT'' (gc_Format (Cf_Log c))"
  by (simp_all add: applyEnv_def env_steps_def step_other [of "\<lambda>c. gc_Level (Cf_Log c)"] step_text [of "\<lambda>c. gc_Level (Cf_Log c)"]
      step_other [of "\<lambda>c. gc_Format (Cf_Log c)"] step_text [of "\<lambda>c. gc_Format (Cf_Log c)"])

lemma applyEnv_grpc:
  "rpc_Addr (Cf_GRPC (applyEnv e g c)) =
     env_text g ''CLUSDR_GRPC_ADDR'' (rpc_Addr (Cf_GRPC c))"
  "rpc_ControlSocket (Cf_GRPC (applyEnv e g c)) =
     env_text g ''CLUSDR_CONTROL_SOCKET'' (rpc_ControlSocket (Cf_GRPC c))"
  by (simp_all add: applyEnv_def env_steps_def step_other [of "\<lambda>c. rpc_Addr (Cf_GRPC c)"] step_text [of "\<lambda>c. rpc_Addr (Cf_GRPC c)"]
      step_other [of "\<lambda>c. rpc_ControlSocket (Cf_GRPC c)"] step_text [of "\<lambda>c. rpc_ControlSocket (Cf_GRPC c)"])

lemma applyEnv_raft:
  "rc_Addr (Cf_Raft (applyEnv e g c)) =
     env_text g ''CLUSDR_RAFT_ADDR'' (rc_Addr (Cf_Raft c))"
  "rc_HeartbeatTimeout (Cf_Raft (applyEnv e g c)) =
     env_dur g ''CLUSDR_RAFT_HEARTBEAT_TIMEOUT'' (rc_HeartbeatTimeout (Cf_Raft c))"
  "rc_ElectionTimeout (Cf_Raft (applyEnv e g c)) =
     env_dur g ''CLUSDR_RAFT_ELECTION_TIMEOUT'' (rc_ElectionTimeout (Cf_Raft c))"
  "rc_LeaderLeaseTimeout (Cf_Raft (applyEnv e g c)) =
     env_dur g ''CLUSDR_RAFT_LEADER_LEASE_TIMEOUT'' (rc_LeaderLeaseTimeout (Cf_Raft c))"
  by (simp_all add: applyEnv_def env_steps_def step_other [of "\<lambda>c. rc_Addr (Cf_Raft c)"] step_text [of "\<lambda>c. rc_Addr (Cf_Raft c)"]
      step_other [of "\<lambda>c. rc_HeartbeatTimeout (Cf_Raft c)"] step_dur [of "\<lambda>c. rc_HeartbeatTimeout (Cf_Raft c)"]
      step_other [of "\<lambda>c. rc_ElectionTimeout (Cf_Raft c)"] step_dur [of "\<lambda>c. rc_ElectionTimeout (Cf_Raft c)"]
      step_other [of "\<lambda>c. rc_LeaderLeaseTimeout (Cf_Raft c)"] step_dur [of "\<lambda>c. rc_LeaderLeaseTimeout (Cf_Raft c)"])

lemma applyEnv_lock:
  "lkc_TTL (Cf_Lock (applyEnv e g c)) =
     env_dur g ''CLUSDR_LOCK_TTL'' (lkc_TTL (Cf_Lock c))"
  "lkc_ExpireInterval (Cf_Lock (applyEnv e g c)) =
     env_dur g ''CLUSDR_LOCK_EXPIRE_INTERVAL'' (lkc_ExpireInterval (Cf_Lock c))"
  by (simp_all add: applyEnv_def env_steps_def step_other [of "\<lambda>c. lkc_TTL (Cf_Lock c)"] step_dur [of "\<lambda>c. lkc_TTL (Cf_Lock c)"]
      step_other [of "\<lambda>c. lkc_ExpireInterval (Cf_Lock c)"] step_dur [of "\<lambda>c. lkc_ExpireInterval (Cf_Lock c)"])

lemma applyEnv_lease:
  "ec_TTL (Cf_Lease (applyEnv e g c)) =
     env_dur g ''CLUSDR_LEASE_TTL'' (ec_TTL (Cf_Lease c))"
  "ec_ExpireInterval (Cf_Lease (applyEnv e g c)) =
     env_dur g ''CLUSDR_LEASE_EXPIRE_INTERVAL'' (ec_ExpireInterval (Cf_Lease c))"
  "ec_PresenceTTL (Cf_Lease (applyEnv e g c)) =
     env_dur g ''CLUSDR_LEASE_PRESENCE_TTL'' (ec_PresenceTTL (Cf_Lease c))"
  by (simp_all add: applyEnv_def env_steps_def step_other [of "\<lambda>c. ec_TTL (Cf_Lease c)"] step_dur [of "\<lambda>c. ec_TTL (Cf_Lease c)"]
      step_other [of "\<lambda>c. ec_ExpireInterval (Cf_Lease c)"] step_dur [of "\<lambda>c. ec_ExpireInterval (Cf_Lease c)"]
      step_other [of "\<lambda>c. ec_PresenceTTL (Cf_Lease c)"] step_dur [of "\<lambda>c. ec_PresenceTTL (Cf_Lease c)"])

lemma applyEnv_presence:
  "ec_Presence (Cf_Lease (applyEnv e g c)) =
     env_flag e g ''CLUSDR_LEASE_PRESENCE'' (ec_Presence (Cf_Lease c))"
  by (simp add: applyEnv_def env_steps_def step_other [of "\<lambda>c. ec_Presence (Cf_Lease c)"]
      step_flag [of "\<lambda>c. ec_Presence (Cf_Lease c)"])

lemma applyEnv_rest:
  "rpc_DialTimeout (Cf_GRPC (applyEnv e g c)) = rpc_DialTimeout (Cf_GRPC c)"
  "rpc_RequestTimeout (Cf_GRPC (applyEnv e g c)) = rpc_RequestTimeout (Cf_GRPC c)"
  "rc_Bootstrap (Cf_Raft (applyEnv e g c)) \<longleftrightarrow> rc_Bootstrap (Cf_Raft c) \<or>
     g ''CLUSDR_RAFT_BOOTSTRAP'' = ''true'' \<or> g ''CLUSDR_RAFT_BOOTSTRAP'' = ''1''"
proof -
  show "rpc_DialTimeout (Cf_GRPC (applyEnv e g c)) = rpc_DialTimeout (Cf_GRPC c)"
    "rpc_RequestTimeout (Cf_GRPC (applyEnv e g c)) = rpc_RequestTimeout (Cf_GRPC c)"
    by (simp_all add: applyEnv_def env_steps_def step_other [of "\<lambda>c. rpc_DialTimeout (Cf_GRPC c)"]
        step_other [of "\<lambda>c. rpc_RequestTimeout (Cf_GRPC c)"])
  have boot: "rc_Bootstrap (Cf_Raft (env_bootstrap g c)) \<longleftrightarrow> rc_Bootstrap (Cf_Raft c) \<or>
      g ''CLUSDR_RAFT_BOOTSTRAP'' = ''true'' \<or> g ''CLUSDR_RAFT_BOOTSTRAP'' = ''1''" for c
    by (simp add: env_bootstrap_def Let_def)
  show "rc_Bootstrap (Cf_Raft (applyEnv e g c)) \<longleftrightarrow> rc_Bootstrap (Cf_Raft c) \<or>
      g ''CLUSDR_RAFT_BOOTSTRAP'' = ''true'' \<or> g ''CLUSDR_RAFT_BOOTSTRAP'' = ''1''"
    by (simp add: applyEnv_def env_steps_def step_other(1-3) [of "\<lambda>c. rc_Bootstrap (Cf_Raft c)"] boot)
qed

lemmas applyEnv_fields =
  applyEnv_node applyEnv_ids applyEnv_log applyEnv_grpc applyEnv_raft applyEnv_lock applyEnv_lease
  applyEnv_presence applyEnv_other applyEnv_rest

lemma clampRaft_valid: "Validate (clampRaft c) = None"
  by (auto simp: Validate_def clampRaft_def Let_def)

lemma checked_ok: "checked c = Inr (clampRaft c)"
  by (simp add: checked_def Let_def clampRaft_valid)

lemma clampRaft_fields:
  "Cf_Node (clampRaft c) = Cf_Node c" "Cf_Cluster (clampRaft c) = Cf_Cluster c"
  "Cf_Data (clampRaft c) = Cf_Data c" "Cf_Log (clampRaft c) = Cf_Log c"
  "Cf_GRPC (clampRaft c) = Cf_GRPC c" "Cf_ShutdownTimeout (clampRaft c) = Cf_ShutdownTimeout c"
  "Cf_Heartbeat (clampRaft c) = Cf_Heartbeat c" "Cf_TLS (clampRaft c) = Cf_TLS c"
  "Cf_Lock (clampRaft c) = Cf_Lock c" "Cf_Lease (clampRaft c) = Cf_Lease c"
  "rc_Addr (Cf_Raft (clampRaft c)) = rc_Addr (Cf_Raft c)"
  "rc_Bootstrap (Cf_Raft (clampRaft c)) = rc_Bootstrap (Cf_Raft c)"
  "rc_HeartbeatTimeout (Cf_Raft (clampRaft c)) = rc_HeartbeatTimeout (Cf_Raft c)"
  "rc_ElectionTimeout (Cf_Raft (clampRaft c)) = rc_ElectionTimeout (Cf_Raft c)"
  by (simp_all add: clampRaft_def Let_def)

text \<open>The configuration that the environment is applied to: the file merged into the defaults.\<close>

definition file_config ::
  "string option \<Rightarrow> (string \<Rightarrow> read_result) \<Rightarrow> yaml_parser \<Rightarrow> string \<Rightarrow> config_error + config" where
  "file_config home readFile unmarshal path =
     (if path = [] then Inr (Defaults home)
      else case readFile path of
        FileMissing \<Rightarrow> Inr (Defaults home)
      | FileError err \<Rightarrow> Inl (ReadConfig path err)
      | FileData data \<Rightarrow>
          (case unmarshal data (Defaults home) of
             Inl err \<Rightarrow> Inl (ParseConfig path err) | Inr c \<Rightarrow> Inr c))"

lemma LoadFrom_eq:
  "LoadFrom e home readFile unmarshal path g =
     (case file_config home readFile unmarshal path of
        Inl err \<Rightarrow> Inl err | Inr c \<Rightarrow> Inr (clampRaft (applyEnv e g c)))"
  by (simp add: LoadFrom_def file_config_def checked_ok split: read_result.split sum.split)

text \<open>
  The variable that the comment on the field names does not exist: the shutdown timeout is the one
  of the file whatever the environment contains.
\<close>

lemma shutdown_timeout_env_ignored:
  "LoadFrom e home readFile unmarshal path g = Inr cfg \<Longrightarrow>
   file_config home readFile unmarshal path = Inr c \<Longrightarrow> Cf_ShutdownTimeout cfg = Cf_ShutdownTimeout c"
  by (auto simp: LoadFrom_eq clampRaft_fields applyEnv_fields)

section \<open>Properties\<close>

text \<open>
  C33. Precedence of the sources, for every setting. The file is merged into the defaults by the YAML
  parser; without a path or without the file the defaults stand alone; a file that cannot be read or
  parsed is an error whatever the environment says. In the result, every text with a variable takes
  the value of the variable when that is not empty, every duration with a variable takes it when it
  is well-formed, and lease.presence takes it when it is one of the eight recognised words. The
  variable of raft.bootstrap can only switch it on: no value of it overrides a file that says true.
  The shutdown timeout, the heartbeat settings and the two gRPC timeouts have no variable and are
  those of the file. Only the leader lease timeout may be corrected afterwards, and it is then at
  most the heartbeat timeout and positive. Loading never fails because of the timeouts.
\<close>

theorem config_precedence:
  "case file_config home readFile unmarshal path of
     Inl err \<Rightarrow> LoadFrom e home readFile unmarshal path g = Inl err
   | Inr c \<Rightarrow>
  (\<exists>cfg. LoadFrom e home readFile unmarshal path g = Inr cfg \<and> Validate cfg = None \<and>
    nc_ID (Cf_Node cfg) = env_text g ''CLUSDR_NODE_ID'' (nc_ID (Cf_Node c)) \<and>
    nc_Addr (Cf_Node cfg) = env_text g ''CLUSDR_NODE_ADDR'' (nc_Addr (Cf_Node c)) \<and>
    cc_ID (Cf_Cluster cfg) = env_text g ''CLUSDR_CLUSTER_ID'' (cc_ID (Cf_Cluster c)) \<and>
    dc_Dir (Cf_Data cfg) = env_text g ''CLUSDR_DATA_DIR'' (dc_Dir (Cf_Data c)) \<and>
    gc_Level (Cf_Log cfg) = env_text g ''CLUSDR_LOG_LEVEL'' (gc_Level (Cf_Log c)) \<and>
    gc_Format (Cf_Log cfg) = env_text g ''CLUSDR_LOG_FORMAT'' (gc_Format (Cf_Log c)) \<and>
    rpc_Addr (Cf_GRPC cfg) = env_text g ''CLUSDR_GRPC_ADDR'' (rpc_Addr (Cf_GRPC c)) \<and>
    rpc_ControlSocket (Cf_GRPC cfg) = env_text g ''CLUSDR_CONTROL_SOCKET'' (rpc_ControlSocket (Cf_GRPC c)) \<and>
    tc_Mode (Cf_TLS cfg) = env_text g ''CLUSDR_TLS'' (tc_Mode (Cf_TLS c)) \<and>
    rc_Addr (Cf_Raft cfg) = env_text g ''CLUSDR_RAFT_ADDR'' (rc_Addr (Cf_Raft c)) \<and>
    rc_HeartbeatTimeout (Cf_Raft cfg) =
      env_dur g ''CLUSDR_RAFT_HEARTBEAT_TIMEOUT'' (rc_HeartbeatTimeout (Cf_Raft c)) \<and>
    rc_ElectionTimeout (Cf_Raft cfg) =
      env_dur g ''CLUSDR_RAFT_ELECTION_TIMEOUT'' (rc_ElectionTimeout (Cf_Raft c)) \<and>
    rc_Bootstrap (Cf_Raft cfg) = (rc_Bootstrap (Cf_Raft c) \<or>
      g ''CLUSDR_RAFT_BOOTSTRAP'' = ''true'' \<or> g ''CLUSDR_RAFT_BOOTSTRAP'' = ''1'') \<and>
    lkc_TTL (Cf_Lock cfg) = env_dur g ''CLUSDR_LOCK_TTL'' (lkc_TTL (Cf_Lock c)) \<and>
    lkc_ExpireInterval (Cf_Lock cfg) =
      env_dur g ''CLUSDR_LOCK_EXPIRE_INTERVAL'' (lkc_ExpireInterval (Cf_Lock c)) \<and>
    ec_TTL (Cf_Lease cfg) = env_dur g ''CLUSDR_LEASE_TTL'' (ec_TTL (Cf_Lease c)) \<and>
    ec_ExpireInterval (Cf_Lease cfg) =
      env_dur g ''CLUSDR_LEASE_EXPIRE_INTERVAL'' (ec_ExpireInterval (Cf_Lease c)) \<and>
    ec_Presence (Cf_Lease cfg) = env_flag e g ''CLUSDR_LEASE_PRESENCE'' (ec_Presence (Cf_Lease c)) \<and>
    ec_PresenceTTL (Cf_Lease cfg) = env_dur g ''CLUSDR_LEASE_PRESENCE_TTL'' (ec_PresenceTTL (Cf_Lease c)) \<and>
    Cf_ShutdownTimeout cfg = Cf_ShutdownTimeout c \<and> Cf_Heartbeat cfg = Cf_Heartbeat c \<and>
    rpc_DialTimeout (Cf_GRPC cfg) = rpc_DialTimeout (Cf_GRPC c) \<and>
    rpc_RequestTimeout (Cf_GRPC cfg) = rpc_RequestTimeout (Cf_GRPC c) \<and>
    (rc_LeaderLeaseTimeout (Cf_Raft cfg) \<noteq>
       env_dur g ''CLUSDR_RAFT_LEADER_LEASE_TIMEOUT'' (rc_LeaderLeaseTimeout (Cf_Raft c)) \<longrightarrow>
     rc_HeartbeatTimeout (Cf_Raft cfg) <
       env_dur g ''CLUSDR_RAFT_LEADER_LEASE_TIMEOUT'' (rc_LeaderLeaseTimeout (Cf_Raft c)) \<and>
     0 < rc_LeaderLeaseTimeout (Cf_Raft cfg) \<and>
     rc_LeaderLeaseTimeout (Cf_Raft cfg) \<le> rc_HeartbeatTimeout (Cf_Raft cfg)))"
proof (cases "file_config home readFile unmarshal path")
  case (Inl err)
  then show ?thesis by (simp add: LoadFrom_eq)
next
  case (Inr c)
  let ?c = "applyEnv e g c"
  have "rc_LeaderLeaseTimeout (Cf_Raft (clampRaft ?c)) \<noteq> rc_LeaderLeaseTimeout (Cf_Raft ?c) \<Longrightarrow>
      rc_HeartbeatTimeout (Cf_Raft ?c) < rc_LeaderLeaseTimeout (Cf_Raft ?c) \<and>
      0 < rc_LeaderLeaseTimeout (Cf_Raft (clampRaft ?c)) \<and>
      rc_LeaderLeaseTimeout (Cf_Raft (clampRaft ?c)) \<le> rc_HeartbeatTimeout (Cf_Raft ?c)"
    by (auto simp: clampRaft_def Let_def split: if_splits)
  then show ?thesis
    unfolding Inr sum.case
    by (intro exI [of _ "clampRaft ?c"])
      (simp add: LoadFrom_eq Inr clampRaft_valid clampRaft_fields applyEnv_fields)
qed

section \<open>Witnesses\<close>

definition demo_getenv :: "string \<Rightarrow> string" where
  "demo_getenv key =
     (if key = ''CLUSDR_NODE_ID'' then ''a''
      else if key = ''CLUSDR_RAFT_BOOTSTRAP'' then ''false''
      else if key = ''CLUSDR_RAFT_HEARTBEAT_TIMEOUT'' then ''50ms'' else [])"

text \<open>A parser for a document that says that the node bootstraps.\<close>

definition demo_unmarshal :: yaml_parser where
  "demo_unmarshal d c = Inr (Cf_Raft_update (rc_Bootstrap_update (\<lambda>_. True)) c)"

theorem config_precedence_witness:
  "case LoadFrom (ascii_env 0) (Some ''/root'') (\<lambda>_. FileData ''x'') demo_unmarshal ''c.yaml'' demo_getenv of
     Inl _ \<Rightarrow> False
   | Inr cfg \<Rightarrow> nc_ID (Cf_Node cfg) = ''a'' \<and> rc_HeartbeatTimeout (Cf_Raft cfg) = 50 * Millisecond \<and>
       rc_LeaderLeaseTimeout (Cf_Raft cfg) \<le> 50 * Millisecond \<and> rc_Bootstrap (Cf_Raft cfg) \<and>
       lkc_TTL (Cf_Lock cfg) = 15 * Second"
proof -
  let ?c = "Cf_Raft_update (rc_Bootstrap_update (\<lambda>_. True)) (Defaults (Some ''/root''))"
  have merged: "file_config (Some ''/root'') (\<lambda>_. FileData ''x'') demo_unmarshal ''c.yaml'' = Inr ?c"
    by (simp add: file_config_def demo_unmarshal_def)
  have "ParseDuration ''50ms'' = Some (50 * Millisecond)"
    by (simp add: ParseDuration_def parse_parts.simps parse_part_def after_number_def fraction_of_def
        number_char_def is_digit_def byte_def unit_of_def Millisecond_def)
  moreover have "\<not> 75 * Millisecond \<le> 50 * Millisecond" by (simp add: Millisecond_def)
  ultimately show ?thesis
    using config_precedence [where home = "Some ''/root''" and readFile = "\<lambda>_. FileData ''x''"
        and unmarshal = demo_unmarshal and path = "''c.yaml''" and e = "ascii_env 0" and g = demo_getenv,
        unfolded merged sum.case]
    by (auto simp: env_text_def env_dur_def demo_getenv_def Defaults_def Validate_def)
qed

end
