(* ===== verification/App_Lifecycle.thy ===== *)
theory App_Lifecycle
  imports Main
begin

text \<open>
  The life of the daemon (internal/app/app.go, lifecycle.go): the units are initialised in order, and
  closed in reverse order when one of them fails or when the daemon stops. The collaborators that the
  units put into the App are a state \<open>'s\<close>. The property says in which order the units are started and
  closed, that none is closed twice, and which error Wait returns.
\<close>

section \<open>Units\<close>

text \<open>
  A function of a unit sees the collaborators and the number of serve goroutines, which StartServe
  increases. It returns an error or none.
\<close>

type_synonym ('e, 's) unit_fn = "'s \<times> nat \<Rightarrow> 'e option \<times> 's \<times> nat"

record ('e, 's) app_unit =
  un_Name :: string
  un_InitFn :: "('e, 's) unit_fn option"
  un_CloseFn :: "('e, 's) unit_fn option"

record ('e, 's) app =
  ap_bag :: "'s \<times> nat"
  ap_closeFns :: "(string \<times> ('e, 's) unit_fn) list"
  ap_serveTaken :: bool
  ap_stopped :: bool
  ap_closed :: bool
  ap_waited :: bool
  ap_waitErr :: "'e option"

definition StartServe :: "'s \<times> nat \<Rightarrow> 's \<times> nat" where
  "StartServe b = (fst b, Suc (snd b))"

definition Stop :: "('e, 's) app \<Rightarrow> ('e, 's) app" where
  "Stop a = a\<lparr>ap_stopped := True\<rparr>"

text \<open>The loop of Close over the close functions from the last to the first; errors are only logged.\<close>

fun close_all :: "(string \<times> ('e, 's) unit_fn) list \<Rightarrow> 's \<times> nat \<Rightarrow> 's \<times> nat" where
  "close_all [] b = b"
| "close_all ((name, fn) # cs) b = close_all cs (snd (fn b))"

definition Close :: "('e, 's) app \<Rightarrow> ('e, 's) app" where
  "Close a =
     (if ap_closed a then a
      else a\<lparr>ap_closed := True, ap_bag := close_all (rev (ap_closeFns a)) (ap_bag a), ap_closeFns := []\<rparr>)"

text \<open>The deadline of the context is not part of the state; its length is.\<close>

definition fallbackShutdown :: int where
  "fallbackShutdown = 15000000000"

definition shutdown_grace :: "int \<Rightarrow> int" where
  "shutdown_grace configured = (if configured > 0 then configured else fallbackShutdown)"

definition closeWithTimeout :: "('e, 's) app \<Rightarrow> ('e, 's) app" where
  "closeWithTimeout a = Close a"

section \<open>Start\<close>

datatype 'e init_error = NilInitFn string | InitFailed string 'e

definition new_app :: "'s \<Rightarrow> ('e, 's) app" where
  "new_app s = \<lparr>ap_bag = (s, 0), ap_closeFns = [], ap_serveTaken = False, ap_stopped = False,
     ap_closed = False, ap_waited = False, ap_waitErr = None\<rparr>"

fun init_units :: "('e, 's) app_unit list \<Rightarrow> ('e, 's) app \<Rightarrow> 'e init_error option \<times> ('e, 's) app" where
  "init_units [] a = (None, a)"
| "init_units (u # us) a =
     (case un_InitFn u of
        None \<Rightarrow> (Some (NilInitFn (un_Name u)), closeWithTimeout a)
      | Some f \<Rightarrow>
          (case f (ap_bag a) of
             (Some err, b) \<Rightarrow> (Some (InitFailed (un_Name u) err), closeWithTimeout (a\<lparr>ap_bag := b\<rparr>))
           | (None, b) \<Rightarrow>
               init_units us
                 (a\<lparr>ap_bag := b,
                    ap_closeFns := ap_closeFns a @
                      (case un_CloseFn u of None \<Rightarrow> [] | Some g \<Rightarrow> [(un_Name u, g)])\<rparr>)))"

definition InitApp :: "('e, 's) app_unit list \<Rightarrow> 's \<Rightarrow> 'e init_error option \<times> ('e, 's) app" where
  "InitApp units s = init_units units (new_app s)"

section \<open>Wait\<close>

text \<open>
  Wait receives from the channel of serve results or from the stop channel; then it receives the
  results of the other serve goroutines. The results arrive in the order of the list \<open>results\<close>, and
  \<open>stop_first\<close> says which case of the select was taken. It is \<^term>\<open>None\<close> when the call blocks.
\<close>

definition keep_first :: "'e option \<Rightarrow> 'e option \<Rightarrow> 'e option" where
  "keep_first err se = (if se \<noteq> None \<and> err = None then se else err)"

fun drain :: "nat \<Rightarrow> 'e option list \<Rightarrow> 'e option \<Rightarrow> 'e option option" where
  "drain 0 results err = Some err"
| "drain (Suc n) [] err = None"
| "drain (Suc n) (se # results) err = drain n results (keep_first err se)"

definition drainServeErr :: "('e, 's) app \<Rightarrow> 'e option list \<Rightarrow> 'e option \<Rightarrow> 'e option option" where
  "drainServeErr a results already =
     drain (snd (ap_bag a) - (if ap_serveTaken a then 1 else 0)) results already"

definition wait_select ::
  "bool \<Rightarrow> 'e option list \<Rightarrow> ('e, 's) app \<Rightarrow> (('e, 's) app \<times> 'e option list) option" where
  "wait_select stop_first results a =
     (if snd (ap_bag a) > 0 then
        if stop_first then (if ap_stopped a then Some (a, results) else None)
        else (case results of [] \<Rightarrow> None
              | se # rest \<Rightarrow> Some (a\<lparr>ap_serveTaken := True, ap_waitErr := se\<rparr>, rest))
      else if ap_stopped a then Some (a, results) else None)"

definition Wait :: "bool \<Rightarrow> 'e option list \<Rightarrow> ('e, 's) app \<Rightarrow> ('e option \<times> ('e, 's) app) option" where
  "Wait stop_first results a =
     (if ap_waited a then Some (ap_waitErr a, a)
      else (case wait_select stop_first results a of
              None \<Rightarrow> None
            | Some (a1, rest) \<Rightarrow>
                let a2 = closeWithTimeout a1 in
                (case drainServeErr a2 rest (ap_waitErr a2) of
                   None \<Rightarrow> None
                 | Some err \<Rightarrow> Some (err, a2\<lparr>ap_waitErr := err, ap_waited := True\<rparr>))))"

section \<open>The order of events\<close>

text \<open>The functions of a unit with a log of their calls.\<close>

datatype life_event = Started string | StartFailed string | Closed string

definition log_init :: "string \<Rightarrow> ('e, 's) unit_fn \<Rightarrow> ('e, 's \<times> life_event list) unit_fn" where
  "log_init name f b =
     (case f (fst (fst b), snd b) of (r, s, n) \<Rightarrow>
        (r, (s, snd (fst b) @ [if r = None then Started name else StartFailed name]), n))"

definition log_close :: "string \<Rightarrow> ('e, 's) unit_fn \<Rightarrow> ('e, 's \<times> life_event list) unit_fn" where
  "log_close name f b =
     (case f (fst (fst b), snd b) of (r, s, n) \<Rightarrow> (r, (s, snd (fst b) @ [Closed name]), n))"

definition log_unit :: "('e, 's) app_unit \<Rightarrow> ('e, 's \<times> life_event list) app_unit" where
  "log_unit u =
     \<lparr>un_Name = un_Name u, un_InitFn = map_option (log_init (un_Name u)) (un_InitFn u),
      un_CloseFn = map_option (log_close (un_Name u)) (un_CloseFn u)\<rparr>"

definition life_log :: "('e, 's \<times> life_event list) app \<Rightarrow> life_event list" where
  "life_log a = snd (fst (ap_bag a))"

text \<open>The log of a start that ends at the unit \<open>u\<close>; a unit without a function is not even called.\<close>

definition start_log :: "('e, 's) app_unit list \<Rightarrow> ('e, 's) app_unit \<Rightarrow> life_event list" where
  "start_log pre u = map (Started \<circ> un_Name) pre @
     (if un_InitFn u = None then [] else [StartFailed (un_Name u)])"

definition closable :: "('e, 's) app_unit list \<Rightarrow> string list" where
  "closable us = map un_Name (filter (\<lambda>u. un_CloseFn u \<noteq> None) us)"

section \<open>Lemmas\<close>

definition logged_fns :: "(string \<times> ('e, 's) unit_fn) list \<Rightarrow> (string \<times> ('e, 's \<times> life_event list) unit_fn) list" where
  "logged_fns cs = map (\<lambda>(n, f). (n, log_close n f)) cs"

definition close_fns :: "('e, 's) app_unit list \<Rightarrow> (string \<times> ('e, 's) unit_fn) list" where
  "close_fns us = concat (map (\<lambda>u. case un_CloseFn u of None \<Rightarrow> [] | Some g \<Rightarrow> [(un_Name u, g)]) us)"

lemma log_unit_sel [simp]:
  "un_Name (log_unit u) = un_Name u"
  "un_InitFn (log_unit u) = map_option (log_init (un_Name u)) (un_InitFn u)"
  "un_CloseFn (log_unit u) = map_option (log_close (un_Name u)) (un_CloseFn u)"
  by (simp_all add: log_unit_def)

lemma start_log_Cons: "start_log (v # pre) u = Started (un_Name v) # start_log pre u"
  by (simp add: start_log_def)

lemma close_fns_names: "map fst (close_fns us) = closable us"
  by (induction us) (auto simp: close_fns_def closable_def split: option.split)

lemma close_all_log:
  "snd (fst (close_all (logged_fns cs) b)) = snd (fst b) @ map (Closed \<circ> fst) cs"
  by (induction cs arbitrary: b) (auto simp: logged_fns_def log_close_def split: prod.split)

lemma Close_log:
  assumes "\<not> ap_closed a" and "ap_closeFns a = logged_fns cs"
  shows "life_log (Close a) = life_log a @ map Closed (rev (map fst cs))" "ap_closed (Close a)"
    "ap_closeFns (Close a) = []"
proof -
  have "rev (logged_fns cs) = logged_fns (rev cs)" by (simp add: logged_fns_def rev_map)
  then show "life_log (Close a) = life_log a @ map Closed (rev (map fst cs))"
    using assms by (simp add: Close_def life_log_def close_all_log rev_map)
qed (use assms in \<open>simp_all add: Close_def\<close>)

lemma Close_idem: "Close (Close a) = Close a"
  by (simp add: Close_def)

text \<open>One unit that starts adds its name to the log and its close function to the list.\<close>

lemma init_units_log:
  assumes "\<not> ap_closed a" and "ap_closeFns a = logged_fns cs"
    and "init_units (map log_unit us) a = (r, a')"
  shows "case r of
      None \<Rightarrow> life_log a' = life_log a @ map (Started \<circ> un_Name) us \<and> \<not> ap_closed a' \<and>
        ap_closeFns a' = logged_fns (cs @ close_fns us)
    | Some err \<Rightarrow> \<exists>pre u post. us = pre @ u # post \<and>
        life_log a' = life_log a @ start_log pre u @ map Closed (rev (map fst cs @ closable pre)) \<and> ap_closed a' \<and> ap_closeFns a' = []"
  using assms
proof (induction us arbitrary: a cs)
  case Nil
  then show ?case by (auto simp: close_fns_def)
next
  case (Cons u us)
  show ?case
  proof (cases "un_InitFn u")
    case None
    then have "r = Some (NilInitFn (un_Name u))" "a' = Close a"
      using Cons.prems(3) by (auto simp: closeWithTimeout_def)
    then show ?thesis
      using Close_log [OF Cons.prems(1,2)] None
      by simp (rule exI [of _ "[]"], rule exI [of _ u], simp add: closable_def start_log_def)
  next
    case (Some f)
    obtain res s n where f: "f (fst (fst (ap_bag a)), snd (ap_bag a)) = (res, s, n)" by (metis prod_cases3)
    show ?thesis
    proof (cases res)
      case None
      let ?a = "a\<lparr>ap_bag := ((s, life_log a @ [Started (un_Name u)]), n),
                 ap_closeFns := logged_fns (cs @ close_fns [u])\<rparr>"
      have fns: "logged_fns (cs @ close_fns [u]) = ap_closeFns a @
          (case un_CloseFn (log_unit u) of None \<Rightarrow> [] | Some g \<Rightarrow> [(un_Name u, g)])"
        by (simp add: Cons.prems(2) logged_fns_def close_fns_def split: option.split)
      have run: "init_units (map log_unit us) ?a = (r, a')"
        using Cons.prems(3) Some f None unfolding fns
        by (cases "un_CloseFn u") (simp_all add: log_init_def life_log_def)
      have log: "life_log ?a = life_log a @ [Started (un_Name u)]" by (simp add: life_log_def)
      have names: "map fst (cs @ close_fns [u]) @ closable vs = map fst cs @ closable (u # vs)" for vs
        by (simp add: close_fns_names closable_def)
      show ?thesis
      proof (cases r)
        case None
        then show ?thesis
          using Cons.IH [OF _ _ run, of "cs @ close_fns [u]"] Cons.prems(1) log
          by (simp add: close_fns_def)
      next
        case (Some err)
        then obtain pre v post where "us = pre @ v # post"
          "life_log a' = life_log a @ [Started (un_Name u)] @ start_log pre v @
            map Closed (rev (map fst (cs @ close_fns [u]) @ closable pre))" "ap_closed a'" "ap_closeFns a' = []"
          using Cons.IH [OF _ _ run, of "cs @ close_fns [u]"] Cons.prems(1) log by auto
        then show ?thesis
          using Some unfolding names
          by simp (rule exI [of _ "u # pre"], rule exI [of _ v], simp add: start_log_Cons)
      qed
    next
      case (Some e)
      let ?a = "a\<lparr>ap_bag := ((s, life_log a @ [StartFailed (un_Name u)]), n)\<rparr>"
      have "r = Some (InitFailed (un_Name u) e)" "a' = Close ?a"
        using Cons.prems(3) \<open>un_InitFn u = Some f\<close> f Some
        by (auto simp: log_init_def closeWithTimeout_def life_log_def)
      moreover have "life_log ?a = life_log a @ [StartFailed (un_Name u)]" by (simp add: life_log_def)
      ultimately show ?thesis
        using Close_log [of ?a cs] Cons.prems(1,2) \<open>un_InitFn u = Some f\<close>
        by simp (rule exI [of _ "[]"], rule exI [of _ u], simp add: closable_def start_log_def)
    qed
  qed
qed

lemma drain_first:
  "n \<le> length results \<Longrightarrow> drain n results err =
     Some (case filter (\<lambda>x. x \<noteq> None) (err # take n results) of [] \<Rightarrow> None | x # _ \<Rightarrow> x)"
  by (induction n results err rule: drain.induct) (auto simp: keep_first_def)

definition first_error :: "'e option list \<Rightarrow> 'e option" where
  "first_error results = (case filter (\<lambda>x. x \<noteq> None) results of [] \<Rightarrow> None | x # _ \<Rightarrow> x)"

lemma init_units_flags:
  "init_units us a = (r, a') \<Longrightarrow> ap_waited a' = ap_waited a \<and> ap_waitErr a' = ap_waitErr a \<and>
     ap_serveTaken a' = ap_serveTaken a"
  by (induction us a rule: init_units.induct)
    (auto simp: closeWithTimeout_def Close_def split: option.splits prod.splits if_splits)

lemma Close_flags:
  "Close (a\<lparr>ap_serveTaken := t, ap_waitErr := se\<rparr>) = (Close a)\<lparr>ap_serveTaken := t, ap_waitErr := se\<rparr>"
  "Close (a\<lparr>ap_stopped := b\<rparr>) = (Close a)\<lparr>ap_stopped := b\<rparr>"
  "ap_waitErr (Close a) = ap_waitErr a" "ap_serveTaken (Close a) = ap_serveTaken a"
  by (simp_all add: Close_def)

lemma Wait_served:
  assumes "\<not> ap_waited a" and "snd (ap_bag a) > 0" and "results \<noteq> []"
    and "snd (ap_bag (Close a)) \<le> length results"
  shows "\<exists>a'. Wait False results a = Some (first_error (take (max 1 (snd (ap_bag (Close a)))) results), a') \<and>
    life_log a' = life_log (Close a) \<and> ap_waited a' \<and>
    ap_waitErr a' = first_error (take (max 1 (snd (ap_bag (Close a)))) results)"
proof -
  obtain se rest where res: "results = se # rest" using assms(3) by (cases results) auto
  have "take (max 1 (snd (ap_bag (Close a)))) results = se # take (snd (ap_bag (Close a)) - 1) rest"
    using res by (cases "snd (ap_bag (Close a))") auto
  then show ?thesis
    using assms res
    by (simp add: Wait_def wait_select_def drainServeErr_def drain_first closeWithTimeout_def
        Close_flags first_error_def life_log_def)
qed

lemma Wait_stopped:
  assumes "\<not> ap_waited a" and "\<not> ap_serveTaken a" and "ap_waitErr a = None"
    and "snd (ap_bag (Close a)) \<le> length results"
  shows "\<exists>a'. Wait True results (Stop a) = Some (first_error (take (snd (ap_bag (Close a))) results), a') \<and>
    life_log a' = life_log (Close a) \<and> ap_waited a' \<and>
    ap_waitErr a' = first_error (take (snd (ap_bag (Close a))) results)"
  using assms
  by (simp add: Wait_def wait_select_def drainServeErr_def drain_first closeWithTimeout_def
      Close_flags Stop_def first_error_def life_log_def)

lemma Wait_again: "ap_waited a \<Longrightarrow> Wait stop_first results a = Some (ap_waitErr a, a)"
  by (simp add: Wait_def)

section \<open>Properties\<close>

text \<open>
  C18. The life of the daemon. The units are started in order, and when one of them fails, exactly those
  that were started before it and have a close function are closed, from the last to the first.
  Otherwise all of them are started, and the first Close closes them in reverse order; a second Close
  does nothing. Wait returns once every serve goroutine has returned: it has closed the units, and its
  error is the first one that a goroutine returned; a second Wait returns the same.
\<close>

theorem app_lifecycle:
  fixes units :: "('e, 's) app_unit list" and s :: 's
  assumes "InitApp (map log_unit units) (s, []) = (r, a)"
  shows "case r of
      Some err \<Rightarrow> Close a = a \<and> (\<exists>pre u post. units = pre @ u # post \<and>
        life_log a = start_log pre u @ map Closed (rev (closable pre)))
    | None \<Rightarrow>
        life_log a = map (Started \<circ> un_Name) units \<and>
        life_log (Close a) = life_log a @ map Closed (rev (closable units)) \<and>
        Close (Close a) = Close a \<and>
        (snd (ap_bag a) > 0 \<and> results \<noteq> [] \<and> snd (ap_bag (Close a)) \<le> length results \<longrightarrow>
          (\<exists>a'. Wait False results a =
              Some (first_error (take (max 1 (snd (ap_bag (Close a)))) results), a') \<and>
            life_log a' = life_log (Close a) \<and>
            Wait stop_first results' a' = Some (first_error (take (max 1 (snd (ap_bag (Close a)))) results), a'))) \<and>
        (snd (ap_bag (Close a)) \<le> length results \<longrightarrow>
          (\<exists>a'. Wait True results (Stop a) =
              Some (first_error (take (snd (ap_bag (Close a))) results), a') \<and>
            life_log a' = life_log (Close a) \<and>
            Wait stop_first results' a' = Some (first_error (take (snd (ap_bag (Close a))) results), a')))"
proof -
  note run = init_units_log [of "new_app (s, [])" "[]", OF _ _ assms [unfolded InitApp_def]]
  let ?new = "new_app (s, []) :: ('e, 's \<times> life_event list) app"
  have new: "\<not> ap_closed ?new" "ap_closeFns ?new = logged_fns []" "life_log ?new = []"
    by (simp_all add: new_app_def logged_fns_def life_log_def)
  show ?thesis
  proof (cases r)
    case (Some err)
    then show ?thesis using run [OF new(1,2)] new(3) by (auto simp: Close_def)
  next
    case None
    have a: "life_log a = map (Started \<circ> un_Name) units" "\<not> ap_closed a"
      "ap_closeFns a = logged_fns (close_fns units)"
      using run [OF new(1,2)] new(3) None by auto
    have close: "life_log (Close a) = life_log a @ map Closed (rev (closable units))"
      by (simp add: Close_log(1) [OF a(2,3)] close_fns_names)
    have "ap_waited a = False \<and> ap_waitErr a = None \<and> ap_serveTaken a = False"
      using init_units_flags [OF assms [unfolded InitApp_def]] by (simp add: new_app_def)
    then show ?thesis
      using None a(1) close Close_idem Wait_served [of a results] Wait_stopped [of a results] Wait_again
      by fastforce
  qed
qed

text \<open>Two units that serve, one of which has nothing to close, and one that fails.\<close>

definition serving_unit :: "string \<Rightarrow> bool \<Rightarrow> (string, unit) app_unit" where
  "serving_unit name closes =
     \<lparr>un_Name = name, un_InitFn = Some (\<lambda>b. (None, StartServe b)),
      un_CloseFn = (if closes then Some (\<lambda>b. (Some ''late'', b)) else None)\<rparr>"

definition failing_unit :: "string \<Rightarrow> (string, unit) app_unit" where
  "failing_unit name = \<lparr>un_Name = name, un_InitFn = Some (\<lambda>b. (Some ''no'', b)), un_CloseFn = None\<rparr>"

definition demo_units :: "(string, unit) app_unit list" where
  "demo_units = [serving_unit ''a'' True, serving_unit ''b'' False, serving_unit ''c'' True]"

lemma demo_start:
  "InitApp (map log_unit demo_units) ((), []) =
     (None, snd (InitApp (map log_unit demo_units) ((), [])))"
proof -
  have "fst (InitApp (map log_unit demo_units) ((), [])) = None" by code_simp
  then show ?thesis by (metis prod.collapse)
qed

theorem app_lifecycle_witness:
  "life_log (snd (InitApp (map log_unit demo_units) ((), []))) = [Started ''a'', Started ''b'', Started ''c''] \<and>
   map_option fst (Wait False [None, Some ''x'', Some ''y''] (snd (InitApp (map log_unit demo_units) ((), [])))) =
     Some (Some ''x'')"
proof -
  let ?a = "snd (InitApp (map log_unit demo_units) ((), []))"
  let ?rs = "[None, Some ''x'', Some ''y'']"
  have n: "snd (ap_bag ?a) = 3" "snd (ap_bag (Close ?a)) = 3" by code_simp+
  note run = app_lifecycle [OF demo_start, where results = ?rs and results' = ?rs and stop_first = False]
  have "\<exists>a'. Wait False ?rs ?a = Some (first_error (take 3 ?rs), a')"
    using run n by auto
  moreover have "first_error (take 3 ?rs) = Some ''x''" by code_simp
  moreover have "life_log ?a = [Started ''a'', Started ''b'', Started ''c'']"
    using run by (simp add: demo_units_def serving_unit_def)
  ultimately show ?thesis by auto
qed

end
