(* ===== verification/App_Units.thy ===== *)
theory App_Units
  imports App_Lifecycle Config State_Store Liveness
begin

text \<open>
  The units of the daemon (internal/app/units.go): how each of them builds its collaborator from the
  configuration and from those before it, the callbacks that tie the collaborators together, and the
  announcement of a restarted node. What the system and the libraries answer is the record \<open>host\<close>.
  Lemmas: no unit uses a collaborator that is not there yet, when the server demands certificates,
  what the announcement and the callback on a new leader write into the replicated member list, and
  that only the leader marks members dead and never itself.
\<close>

section \<open>Collaborators\<close>

datatype unit_error =
    CfgErr config_error
  | OpenStore string
  | CloseStoreErr string
  | TLSErr string
  | ListenErr string string
  | ConsensusInit new_error
  | ConsensusShutdown shutdown_error
  | GRPCShutdown
  | NotClusterMember string
  | NilDeref string

datatype slog_level = LevelDebug | LevelInfo | LevelWarn | LevelError

datatype slog_handler = JSONHandler slog_level | TextHandler slog_level

text \<open>The server: whether it demands certificates, and the services registered on it.\<close>

datatype rpc_service =
    HealthSvc node_info | MembershipSvc | JoinSvc string bool | ControlSvc string string bool bool
  | HeartbeatSvc string | WatchSvc | EventSvc | LockSvc duration | LeaseSvc duration

record grpc_server =
  gs_TLS :: bool
  gs_Services :: "rpc_service list"
  gs_Control :: bool

record 'b daemon_app =
  dm_Cfg :: config
  dm_Log :: "slog_handler option"
  dm_Store :: "'b store option"
  dm_Membership :: "engine option"
  dm_Bus :: "bus option"
  dm_Locks :: "locks_table option"
  dm_Leases :: "leases_table option"
  dm_Consensus :: "raft_config option"
  dm_GRPC :: "grpc_server option"
  dm_Heartbeat :: "hb_config option"
  dm_Presence :: "(keeper_config \<times> bool) option"

text \<open>
  The host: the clock and tables, the files, the environment variables, bbolt, the outcomes of opening
  the store, starting Raft, building credentials and listening; mtls.WriteFiles (theory \<open>Pki\<close>) on the
  files, which are part of the world \<open>'w\<close>; the Raft library and the daemons of
  other nodes over the world, which also holds the membership engine that the state machine
  writes; what happens in the world during each pause of the announcement.
\<close>

record ('b, 'w) host =
  ho_env :: env
  ho_home :: "string option"
  ho_readFile :: "string \<Rightarrow> read_result"
  ho_yaml :: yaml_parser
  ho_ConfigPath :: string
  ho_getenv :: "string \<Rightarrow> string"
  ho_bolt :: "'b bolt"
  ho_Open :: "string \<Rightarrow> string + 'b store"
  ho_CloseStore :: "'b store \<Rightarrow> string option"
  ho_new :: new_outcomes
  ho_shutdown :: "err_text option \<times> err_text option option"
  ho_serverTLS :: "string \<Rightarrow> string \<Rightarrow> string \<Rightarrow> string option"
  ho_clientTLS :: "string \<Rightarrow> string \<Rightarrow> string \<Rightarrow> string option"
  ho_writeTLS :: "string \<Rightarrow> string \<Rightarrow> string \<Rightarrow> string \<Rightarrow> 'w \<Rightarrow> string option \<times> 'w"
  ho_listen :: "string \<Rightarrow> string option"
  ho_control :: "string \<Rightarrow> bool"
  ho_stop :: stop_event
  ho_raft :: "'w raft_lib"
  ho_engine :: "'w \<Rightarrow> engine"
  ho_set_engine :: "event list \<Rightarrow> engine \<Rightarrow> 'w \<Rightarrow> 'w"
  ho_peer :: "'w join_peer"
  ho_sleeps :: "('w \<Rightarrow> 'w) list"

type_synonym ('b, 'w) daemon_fn = "(unit_error, 'b daemon_app \<times> 'w) unit_fn"

text \<open>A step on the collaborators alone.\<close>

definition on_daemon :: "('b daemon_app \<Rightarrow> unit_error option \<times> 'b daemon_app) \<Rightarrow> ('b, 'w) daemon_fn" where
  "on_daemon f b = (case b of ((d, w), n) \<Rightarrow> (case f d of (r, d') \<Rightarrow> (r, (d', w), n)))"

text \<open>A method call on a collaborator that must be there.\<close>

definition needs :: "string \<Rightarrow> 'a option \<Rightarrow> unit_error option" where
  "needs what x = (if x = None then Some (NilDeref what) else None)"

section \<open>Configuration, log, store, membership\<close>

definition InitConfig :: "('b, 'w) host \<Rightarrow> ('b, 'w) daemon_fn" where
  "InitConfig h = on_daemon (\<lambda>d.
     case LoadFrom (ho_env h) (ho_home h) (ho_readFile h) (ho_yaml h) (ho_ConfigPath h) (ho_getenv h) of
       Inl err \<Rightarrow> (Some (CfgErr err), d)
     | Inr cfg \<Rightarrow> (None, d\<lparr>dm_Cfg := cfg\<rparr>))"

definition log_level :: "string \<Rightarrow> slog_level" where
  "log_level l =
     (if l = ''debug'' then LevelDebug else if l = ''warn'' then LevelWarn
      else if l = ''error'' then LevelError else LevelInfo)"

definition InitLogger :: "('b, 'w) daemon_fn" where
  "InitLogger = on_daemon (\<lambda>d.
     let c = Cf_Log (dm_Cfg d); level = log_level (gc_Level c) in
     (None, d\<lparr>dm_Log := Some (if gc_Format c = ''json'' then JSONHandler level else TextHandler level)\<rparr>))"

definition InitStore :: "('b, 'w) host \<Rightarrow> ('b, 'w) daemon_fn" where
  "InitStore h = on_daemon (\<lambda>d.
     case ho_Open h (dc_Dir (Cf_Data (dm_Cfg d))) of
       Inl err \<Rightarrow> (Some (OpenStore err), d)
     | Inr s \<Rightarrow>
         let d1 = d\<lparr>dm_Store := Some s\<rparr> in
         (case Identity (ho_bolt h) s of
            Inl err \<Rightarrow> (needs ''Log'' (dm_Log d1), d1)
          | Inr (nodeID, clusterID) \<Rightarrow>
              let set_node = (if nc_ID (Cf_Node (dm_Cfg d1)) = ''''
                              then Cf_Node_update (nc_ID_update (\<lambda>_. nodeID)) else (\<lambda>c. c));
                  set_cluster = (if cc_ID (Cf_Cluster (dm_Cfg d1)) = ''''
                                 then Cf_Cluster_update (cc_ID_update (\<lambda>_. clusterID)) else (\<lambda>c. c))
              in (needs ''Log'' (dm_Log d1), d1\<lparr>dm_Cfg := set_cluster (set_node (dm_Cfg d1))\<rparr>)))"

definition CloseStore :: "('b, 'w) host \<Rightarrow> ('b, 'w) daemon_fn" where
  "CloseStore h = on_daemon (\<lambda>d.
     case dm_Store d of
       None \<Rightarrow> (None, d)
     | Some s \<Rightarrow> (map_option CloseStoreErr (ho_CloseStore h s), d\<lparr>dm_Store := None\<rparr>))"

definition InitMembership :: "('b, 'w) host \<Rightarrow> ('b, 'w) daemon_fn" where
  "InitMembership h = on_daemon (\<lambda>d.
     let c = Cf_Node (dm_Cfg d) in
     (None, d\<lparr>dm_Membership := Some (membership_New (ho_env h) (nc_ID c) (nc_Addr c))\<rparr>))"

definition InitBus :: "('b, 'w) daemon_fn" where
  "InitBus = on_daemon (\<lambda>d.
     let d1 = d\<lparr>dm_Bus := Some bus_New\<rparr> in
     (case dm_Membership d1 of
        None \<Rightarrow> (Some (NilDeref ''Membership''), d1)
      | Some en \<Rightarrow> (None, d1\<lparr>dm_Membership := Some (en\<lparr>en_Emit := True\<rparr>)\<rparr>)))"

definition InitLocks :: "('b, 'w) daemon_fn" where
  "InitLocks = on_daemon (\<lambda>d.
     (None, d\<lparr>dm_Locks := Some (if dm_Bus d \<noteq> None then locks_New\<lparr>tab_Emit := True\<rparr> else locks_New)\<rparr>))"

definition InitLeases :: "('b, 'w) daemon_fn" where
  "InitLeases = on_daemon (\<lambda>d.
     (None, d\<lparr>dm_Leases := Some (if dm_Bus d \<noteq> None then leases_New\<lparr>ltab_Emit := True\<rparr> else leases_New)\<rparr>))"

section \<open>Consensus\<close>

definition consensus_config :: "config \<Rightarrow> raft_config" where
  "consensus_config c =
     (let r = Cf_Raft c in
      \<lparr>cfg_Addr = rc_Addr r, cfg_Bootstrap = rc_Bootstrap r, cfg_HeartbeatTimeout = rc_HeartbeatTimeout r,
       cfg_ElectionTimeout = rc_ElectionTimeout r, cfg_LeaderLeaseTimeout = rc_LeaderLeaseTimeout r,
       cfg_Transport = None\<rparr>)"

text \<open>The goroutines that expire locks and leases need the tables.\<close>

definition InitConsensus :: "('b, 'w) host \<Rightarrow> ('b, 'w) daemon_fn" where
  "InitConsensus h = on_daemon (\<lambda>d.
     let cfg = consensus_config (dm_Cfg d) in
     (case fst (node_New cfg (nc_ID (Cf_Node (dm_Cfg d))) (ho_new h)) of
        Some err \<Rightarrow> (Some (ConsensusInit err), d)
      | None \<Rightarrow>
          (if dm_Membership d = None then (Some (NilDeref ''Membership''), d)
           else if dm_Locks d = None then (Some (NilDeref ''Locks''), d)
           else if dm_Leases d = None then (Some (NilDeref ''Leases''), d)
           else (None, d\<lparr>dm_Consensus := Some cfg\<rparr>))))"

definition CloseConsensus :: "('b, 'w) host \<Rightarrow> ('b, 'w) daemon_fn" where
  "CloseConsensus h = on_daemon (\<lambda>d.
     if dm_Consensus d = None then (None, d)
     else (case fst (node_Shutdown (fst (ho_shutdown h)) (snd (ho_shutdown h))) of
             Some err \<Rightarrow> (Some (ConsensusShutdown err), d)
           | None \<Rightarrow> (None, d\<lparr>dm_Consensus := None\<rparr>)))"

text \<open>The callback on a change of the leader, with the error that is only logged.\<close>

definition leader_changed ::
  "('b, 'w) host \<Rightarrow> 'b daemon_app \<Rightarrow> string \<Rightarrow> 'w \<Rightarrow> node_error option \<times> 'w" where
  "leader_changed h d leaderID w =
     (if leaderID = '''' then (None, w)
      else
        let selfID = nc_ID (Cf_Node (dm_Cfg d));
            selfAddr = rpc_Addr (Cf_GRPC (dm_Cfg d));
            (evs, en) = SetLeader leaderID (ho_engine h w);
            w1 = ho_set_engine h evs en w
        in if leaderID = selfID then ApplyAddMember (ho_raft h) (ho_env h) selfID selfAddr w1
           else (None, w1))"

definition removeDeadMember ::
  "('b, 'w) host \<Rightarrow> 'b daemon_app \<Rightarrow> string \<Rightarrow> 'w \<Rightarrow> node_error option \<times> 'w" where
  "removeDeadMember h d nid w =
     (if nid = '''' \<or> dm_Consensus d = None \<or> \<not> IsLeader (ho_raft h) w then (None, w)
      else if dm_Membership d \<noteq> None \<and> nid = SelfID (ho_engine h w) then (None, w)
      else ApplyRemoveMember (ho_raft h) (ho_env h) nid w)"

section \<open>Certificates\<close>

datatype tls_error = NoStore | TLSStore store_error | IncompleteCerts

definition loadTLSMaterial ::
  "('b, 'w) host \<Rightarrow> 'b daemon_app \<Rightarrow> tls_error + string \<times> string \<times> string" where
  "loadTLSMaterial h d =
     (case dm_Store d of
        None \<Rightarrow> Inl NoStore
      | Some s \<Rightarrow>
          (case store_Certs (ho_bolt h) s of
             (c, Some err) \<Rightarrow> Inl (TLSStore err)
           | (c, None) \<Rightarrow>
               if CACert c = '''' \<or> NodeCert c = '''' \<or> NodeKey c = '''' then Inl IncompleteCerts
               else Inr (CACert c, NodeCert c, NodeKey c)))"

text \<open>The credentials for dialing other nodes: none means an insecure connection.\<close>

definition peerTransportCreds :: "('b, 'w) host \<Rightarrow> 'b daemon_app \<Rightarrow> (string \<times> string \<times> string) option" where
  "peerTransportCreds h d =
     (if \<not> TLSEnabled (ho_env h) (dm_Cfg d) then None
      else (case loadTLSMaterial h d of
              Inl err \<Rightarrow> None
            | Inr (ca, cert, key) \<Rightarrow>
                if ho_clientTLS h ca cert key \<noteq> None then None else Some (ca, cert, key)))"

text \<open>The credentials of RequestJoin: BootstrapTLS or none.\<close>

definition credentialsOrNil :: "bool \<Rightarrow> bool" where
  "credentialsOrNil tlsOn = tlsOn"

section \<open>Servers\<close>

definition server_tls :: "('b, 'w) host \<Rightarrow> 'b daemon_app \<Rightarrow> string + bool" where
  "server_tls h d =
     (if \<not> TLSEnabled (ho_env h) (dm_Cfg d) then Inr False
      else (case loadTLSMaterial h d of
              Inl err \<Rightarrow> Inr False
            | Inr (ca, cert, key) \<Rightarrow>
                (case ho_serverTLS h ca cert key of Some err \<Rightarrow> Inl err | None \<Rightarrow> Inr True)))"

definition server_services :: "'b daemon_app \<Rightarrow> bool \<Rightarrow> rpc_service list" where
  "server_services d tls =
     (let c = dm_Cfg d; cid = cc_ID (Cf_Cluster c); nid = nc_ID (Cf_Node c) in
      [HealthSvc \<lparr>ni_NodeID = nid, ni_ClusterID = cid, ni_Role = ''standalone''\<rparr>, MembershipSvc,
       JoinSvc cid (dm_Store d \<noteq> None),
       ControlSvc cid (rc_Addr (Cf_Raft c)) (dm_Store d \<noteq> None) (credentialsOrNil tls),
       HeartbeatSvc nid] @
      (if dm_Bus d \<noteq> None then [WatchSvc, EventSvc] else []) @
      (if dm_Locks d \<noteq> None \<and> dm_Membership d \<noteq> None then [LockSvc (lkc_TTL (Cf_Lock c))] else []) @
      (if dm_Leases d \<noteq> None \<and> dm_Membership d \<noteq> None then [LeaseSvc (ec_TTL (Cf_Lease c))] else []))"

text \<open>
  The stored certificates are written out as files; a failure is only logged, and the log must be
  there for it.
\<close>

definition write_tls :: "('b, 'w) host \<Rightarrow> 'b daemon_app \<Rightarrow> 'w \<Rightarrow> unit_error option \<times> 'w" where
  "write_tls h d w =
     (let (ca, cert, key) =
            (case loadTLSMaterial h d of Inl err \<Rightarrow> ('''', '''', '''') | Inr material \<Rightarrow> material)
      in case ho_writeTLS h (dc_Dir (Cf_Data (dm_Cfg d))) ca cert key w of
           (None, w1) \<Rightarrow> (None, w1)
         | (Some err, w1) \<Rightarrow> (needs ''Log'' (dm_Log d), w1))"

text \<open>
  The log is used when TLS is skipped and at the end. Both listeners serve; the control
  socket only if it can be had.
\<close>

definition InitGRPC :: "('b, 'w) host \<Rightarrow> ('b, 'w) daemon_fn" where
  "InitGRPC h b =
     (case b of ((d, w), n) \<Rightarrow>
        (case server_tls h d of
           Inl err \<Rightarrow> (Some (TLSErr err), (d, w), n)
         | Inr tls \<Rightarrow>
             (case (if tls then write_tls h d w
                    else if TLSEnabled (ho_env h) (dm_Cfg d) then (needs ''Log'' (dm_Log d), w)
                    else (None, w)) of
                (Some err, w1) \<Rightarrow> (Some err, (d, w1), n)
              | (None, w1) \<Rightarrow>
                  let c = Cf_GRPC (dm_Cfg d) in
                  (case ho_listen h (rpc_Addr c) of
                     Some err \<Rightarrow> (Some (ListenErr (rpc_Addr c) err), (d, w1), n)
                   | None \<Rightarrow>
                       let control = ho_control h (rpc_ControlSocket c);
                           d1 = d\<lparr>dm_GRPC := Some \<lparr>gs_TLS = tls, gs_Services = server_services d tls,
                                                   gs_Control = control\<rparr>\<rparr>;
                           b1 = StartServe ((d1, w1), n);
                           b2 = (if control then StartServe b1 else b1)
                       in (needs ''Log'' (dm_Log d), b2)))))"

definition CloseGRPC :: "('b, 'w) host \<Rightarrow> ('b, 'w) daemon_fn" where
  "CloseGRPC h = on_daemon (\<lambda>d.
     if dm_GRPC d = None then (None, d)
     else ((if fst (server_Shutdown (ho_stop h)) then None else Some GRPCShutdown), d\<lparr>dm_GRPC := None\<rparr>))"

section \<open>Liveness\<close>

definition InitHeartbeat :: "('b, 'w) daemon_fn" where
  "InitHeartbeat = on_daemon (\<lambda>d.
     if dm_Membership d = None then (Some (NilDeref ''Membership''), d)
     else
       let c = Cf_Heartbeat (dm_Cfg d) in
       (None, d\<lparr>dm_Heartbeat := Some \<lparr>hc_Interval = hbc_Interval c, hc_Timeout = hbc_Timeout c,
                                       hc_MaxMisses = hbc_MaxMisses c\<rparr>\<rparr>))"

definition CloseHeartbeat :: "('b, 'w) daemon_fn" where
  "CloseHeartbeat = on_daemon (\<lambda>d. (None, d\<lparr>dm_Heartbeat := None\<rparr>))"

text \<open>The keeper, and whether expired leases are watched.\<close>

definition InitPresence :: "('b, 'w) daemon_fn" where
  "InitPresence = on_daemon (\<lambda>d.
     let c = dm_Cfg d in
     if \<not> ec_Presence (Cf_Lease c) \<or> dm_Consensus d = None \<or> dm_Membership d = None then (None, d)
     else
       (needs ''Log'' (dm_Log d),
        d\<lparr>dm_Presence := Some
             (NewKeeper \<lparr>kc_NodeID = nc_ID (Cf_Node c), kc_TTL = ec_PresenceTTL (Cf_Lease c),
                kc_RenewInterval = 0, kc_RequestTimeout = rpc_RequestTimeout (Cf_GRPC c)\<rparr>,
              dm_Bus d \<noteq> None)\<rparr>))"

definition ClosePresence :: "('b, 'w) daemon_fn" where
  "ClosePresence = on_daemon (\<lambda>d. (None, d\<lparr>dm_Presence := None\<rparr>))"

definition leaderFinder :: "engine \<Rightarrow> string \<times> (string \<times> string) option" where
  "leaderFinder en = (SelfID en, map_option (\<lambda>m. (mb_id m, mb_address m)) (Leader en))"

section \<open>The announcement\<close>

datatype announce_error =
    AnnNotMember string
  | AnnWaiting
  | AnnDial string
  | AnnApply node_error
  | AnnRpc join_error
  | AnnRejected join_message

definition daemon_raft :: "('b, 'w) host \<Rightarrow> 'b daemon_app \<Rightarrow> 'w raft_lib option" where
  "daemon_raft h d = (if dm_Consensus d = None then None else Some (ho_raft h))"

definition announce_addr :: "config \<Rightarrow> string" where
  "announce_addr c = (if nc_Addr (Cf_Node c) \<noteq> '''' then nc_Addr (Cf_Node c) else rpc_Addr (Cf_GRPC c))"

definition own_role :: "('b, 'w) host \<Rightarrow> 'b daemon_app \<Rightarrow> 'w \<Rightarrow> string" where
  "own_role h d w =
     (if dm_Membership d = None then RoleVoter
      else (case find (\<lambda>m. mb_id m = nc_ID (Cf_Node (dm_Cfg d))) (Members (ho_engine h w)) of
              Some m \<Rightarrow> NormalizeRole (mb_role m) | None \<Rightarrow> RoleVoter))"

definition announceSelfOnce ::
  "('b, 'w) host \<Rightarrow> 'b daemon_app \<Rightarrow> 'w \<Rightarrow> announce_error option \<times> 'w" where
  "announceSelfOnce h d w =
     (let nid = nc_ID (Cf_Node (dm_Cfg d)); node = daemon_raft h d;
          addr = announce_addr (dm_Cfg d); role = own_role h d w in
      if \<not> HasServer node nid w
      then (if node \<noteq> None \<and> ServerCount node w > 0 then (Some (AnnNotMember nid), w) else (None, w))
      else if IsLeader (ho_raft h) w
      then (case ApplyAddMemberAs (ho_raft h) (ho_env h) nid addr role w of
              (err, w1) \<Rightarrow> (map_option AnnApply err, w1))
      else if dm_Membership d = None then (Some AnnWaiting, w)
      else (case Leader (ho_engine h w) of
              None \<Rightarrow> (Some AnnWaiting, w)
            | Some l \<Rightarrow>
                if mb_address l = '''' \<or> mb_id l = nid then (Some AnnWaiting, w)
                else if \<not> jn_dial (ho_peer h) (mb_address l) w then (Some (AnnDial (mb_id l)), w)
                else (case jn_Rejoin (ho_peer h) (Some (3 * Second)) (mb_address l)
                             \<lparr>rq_NodeId = nid, rq_Address = addr, rq_Role = role, rq_Relay = True\<rparr> w of
                        (Inl err, w1) \<Rightarrow> (Some (AnnRpc err), w1)
                      | (Inr resp, w1) \<Rightarrow>
                          (if cp_Done resp then None else Some (AnnRejected (cp_Message resp)), w1))))"

text \<open>
  The check looks at the code and the message of a status, and at the text of any error. The only
  messages with these words are those of the two errors; an error text of a library is taken not to
  contain them.
\<close>

definition isNotRaftMember :: "announce_error \<Rightarrow> bool" where
  "isNotRaftMember err =
     (case err of
        AnnRpc (Rpc c dt) \<Rightarrow> c = FailedPrecondition \<and> dt = NotRaftMember
      | AnnNotMember nid \<Rightarrow> True
      | _ \<Rightarrow> False)"

text \<open>The loop until the deadline; then the daemon goes on announcing in the background.\<close>

fun announce_loop ::
  "('b, 'w) host \<Rightarrow> 'b daemon_app \<Rightarrow> ('w \<Rightarrow> 'w) list \<Rightarrow> 'w \<Rightarrow> unit_error option \<times> 'w" where
  "announce_loop h d [] w = (None, w)"
| "announce_loop h d (sleep # sleeps) w =
     (case announceSelfOnce h d w of
        (None, w1) \<Rightarrow> (None, w1)
      | (Some err, w1) \<Rightarrow>
          if isNotRaftMember err then (Some (NotClusterMember (nc_ID (Cf_Node (dm_Cfg d)))), w1)
          else announce_loop h d sleeps (sleep w1))"

definition InitAnnounce :: "('b, 'w) host \<Rightarrow> ('b, 'w) daemon_fn" where
  "InitAnnounce h b =
     (case b of ((d, w), n) \<Rightarrow>
        let nid = nc_ID (Cf_Node (dm_Cfg d)); node = daemon_raft h d in
        if node = None then (None, (d, w), n)
        else if \<not> HasServer node nid w
        then (if ServerCount node w > 0 then (Some (NotClusterMember nid), (d, w), n)
              else (None, (d, w), n))
        else (case announce_loop h d (ho_sleeps h) w of (r, w1) \<Rightarrow> (r, (d, w1), n)))"

text \<open>In the background: each round begins with the context, which may be done, and ends with a pause.\<close>

fun announceUntil :: "('b, 'w) host \<Rightarrow> 'b daemon_app \<Rightarrow> ('w \<Rightarrow> 'w) option list \<Rightarrow> 'w \<Rightarrow> 'w" where
  "announceUntil h d [] w = w"
| "announceUntil h d (None # rounds) w = w"
| "announceUntil h d (Some pause # rounds) w =
     (case announceSelfOnce h d w of
        (None, w1) \<Rightarrow> w1
      | (Some err, w1) \<Rightarrow> if isNotRaftMember err then w1 else announceUntil h d rounds (pause w1))"

section \<open>The list of units\<close>

definition mk_unit :: "string \<Rightarrow> ('b, 'w) daemon_fn \<Rightarrow> ('b, 'w) daemon_fn option \<Rightarrow>
    (unit_error, 'b daemon_app \<times> 'w) app_unit" where
  "mk_unit name init close = \<lparr>un_Name = name, un_InitFn = Some init, un_CloseFn = close\<rparr>"

definition DefaultUnits :: "('b, 'w) host \<Rightarrow> (unit_error, 'b daemon_app \<times> 'w) app_unit list" where
  "DefaultUnits h =
     [mk_unit ''config'' (InitConfig h) None, mk_unit ''logger'' InitLogger None,
      mk_unit ''store'' (InitStore h) (Some (CloseStore h)), mk_unit ''membership'' (InitMembership h) None,
      mk_unit ''bus'' InitBus None, mk_unit ''locks'' InitLocks None, mk_unit ''leases'' InitLeases None,
      mk_unit ''consensus'' (InitConsensus h) (Some (CloseConsensus h)),
      mk_unit ''grpc'' (InitGRPC h) (Some (CloseGRPC h)),
      mk_unit ''heartbeat'' InitHeartbeat (Some CloseHeartbeat),
      mk_unit ''presence'' InitPresence (Some ClosePresence), mk_unit ''announce'' (InitAnnounce h) None]"

section \<open>Lemmas on the start\<close>

fun nil_error :: "unit_error init_error \<Rightarrow> bool" where
  "nil_error (NilInitFn name) = True"
| "nil_error (InitFailed name (NilDeref what)) = True"
| "nil_error (InitFailed name err) = False"

definition init_ok ::
  "('s \<Rightarrow> bool) \<Rightarrow> (unit_error, 's) app_unit list \<Rightarrow> 's \<times> nat \<Rightarrow> bool" where
  "init_ok Q us b \<longleftrightarrow>
     (\<forall>a. ap_bag a = b \<longrightarrow>
        (case init_units us a of
           (None, a') \<Rightarrow> Q (fst (ap_bag a')) | (Some err, a') \<Rightarrow> \<not> nil_error err))"

lemma init_ok_Nil: "Q (fst b) \<Longrightarrow> init_ok Q [] b"
  by (simp add: init_ok_def)

lemma init_ok_Cons:
  assumes "\<And>e b'. f b = (Some e, b') \<Longrightarrow> \<not> nil_error (InitFailed name e)"
    and "\<And>b'. f b = (None, b') \<Longrightarrow> init_ok Q us b'"
  shows "init_ok Q (mk_unit name f close # us) b"
  unfolding init_ok_def
proof (intro allI impI)
  fix a :: "(unit_error, 'a daemon_app \<times> 'b) app"
  assume bag: "ap_bag a = b"
  obtain r b' where f: "f b = (r, b')" by (cases "f b")
  let ?a = "a\<lparr>ap_bag := b', ap_closeFns := ap_closeFns a @ (case close of None \<Rightarrow> [] | Some g \<Rightarrow> [(name, g)])\<rparr>"
  show "case init_units (mk_unit name f close # us) a of
      (None, a') \<Rightarrow> Q (fst (ap_bag a')) | (Some err, a') \<Rightarrow> \<not> nil_error err"
  proof (cases r)
    case None
    then have "init_units (mk_unit name f close # us) a = init_units us ?a"
      using f bag by (cases close) (simp_all add: mk_unit_def)
    moreover have "ap_bag ?a = b'" by simp
    ultimately show ?thesis using assms(2) [of b'] f None unfolding init_ok_def by presburger
  next
    case (Some e)
    then show ?thesis using f bag assms(1) by (simp add: mk_unit_def)
  qed
qed

text \<open>What the daemon consists of when the first \<open>k\<close> units have started.\<close>

definition grpc_ready :: "('b, 'w) host \<Rightarrow> 'b daemon_app \<Rightarrow> grpc_server \<Rightarrow> bool" where
  "grpc_ready h d s \<longleftrightarrow>
     gs_TLS s = (TLSEnabled (ho_env h) (dm_Cfg d) \<and> (case loadTLSMaterial h d of Inr m \<Rightarrow> True | Inl err \<Rightarrow> False)) \<and>
     gs_Services s =
       [HealthSvc \<lparr>ni_NodeID = nc_ID (Cf_Node (dm_Cfg d)), ni_ClusterID = cc_ID (Cf_Cluster (dm_Cfg d)),
                   ni_Role = ''standalone''\<rparr>,
        MembershipSvc, JoinSvc (cc_ID (Cf_Cluster (dm_Cfg d))) True,
        ControlSvc (cc_ID (Cf_Cluster (dm_Cfg d))) (rc_Addr (Cf_Raft (dm_Cfg d))) True (gs_TLS s),
        HeartbeatSvc (nc_ID (Cf_Node (dm_Cfg d))), WatchSvc, EventSvc,
        LockSvc (lkc_TTL (Cf_Lock (dm_Cfg d))), LeaseSvc (ec_TTL (Cf_Lease (dm_Cfg d)))]"

definition daemon_stage :: "('b, 'w) host \<Rightarrow> nat \<Rightarrow> 'b daemon_app \<Rightarrow> bool" where
  "daemon_stage h k d \<longleftrightarrow>
     (k \<ge> 2 \<longrightarrow> dm_Log d \<noteq> None) \<and>
     (k \<ge> 3 \<longrightarrow> dm_Store d \<noteq> None) \<and>
     (k \<ge> 4 \<longrightarrow> (case dm_Membership d of
        Some en \<Rightarrow> SelfID en = nc_ID (Cf_Node (dm_Cfg d)) \<and> (k \<ge> 5 \<longrightarrow> en_Emit en) | None \<Rightarrow> False)) \<and>
     (k \<ge> 5 \<longrightarrow> dm_Bus d \<noteq> None) \<and>
     (k \<ge> 6 \<longrightarrow> (case dm_Locks d of Some t \<Rightarrow> tab_Emit t | None \<Rightarrow> False)) \<and>
     (k \<ge> 7 \<longrightarrow> (case dm_Leases d of Some t \<Rightarrow> ltab_Emit t | None \<Rightarrow> False)) \<and>
     (k \<ge> 8 \<longrightarrow> dm_Consensus d = Some (consensus_config (dm_Cfg d))) \<and>
     (k \<ge> 9 \<longrightarrow> (case dm_GRPC d of Some s \<Rightarrow> grpc_ready h d s | None \<Rightarrow> False)) \<and>
     (k \<ge> 10 \<longrightarrow> dm_Heartbeat d \<noteq> None) \<and>
     (if k \<ge> 11 then (dm_Presence d \<noteq> None) = ec_Presence (Cf_Lease (dm_Cfg d)) else dm_Presence d = None)"

definition blank_daemon :: "config \<Rightarrow> 'b daemon_app" where
  "blank_daemon zero =
     \<lparr>dm_Cfg = zero, dm_Log = None, dm_Store = None, dm_Membership = None, dm_Bus = None,
      dm_Locks = None, dm_Leases = None, dm_Consensus = None, dm_GRPC = None, dm_Heartbeat = None,
      dm_Presence = None\<rparr>"

lemma loadTLSMaterial_store: "dm_Store d' = dm_Store d \<Longrightarrow> loadTLSMaterial h d' = loadTLSMaterial h d"
  by (simp add: loadTLSMaterial_def)

lemma announce_loop_errors: "fst (announce_loop h d ss w) \<noteq> Some (NilDeref what)"
  by (induction h d ss w rule: announce_loop.induct) (auto split: prod.split option.split)

lemma InitAnnounce_daemon:
  assumes "InitAnnounce h ((d, w), n) = (r, b)"
  shows "fst (fst b) = d" and "r \<noteq> Some (NilDeref what)"
  using assms announce_loop_errors [of h d "ho_sleeps h" w what]
  by (auto simp: InitAnnounce_def Let_def split: if_splits prod.splits)

text \<open>A unit that brings the daemon from one stage to the next without touching what is missing.\<close>

definition advances ::
  "('b, 'w) host \<Rightarrow> nat \<Rightarrow> ('b, 'w) daemon_fn \<Rightarrow> bool" where
  "advances h k f \<longleftrightarrow>
     (\<forall>d w n. daemon_stage h k d \<longrightarrow>
        (case f ((d, w), n) of
           (None, b) \<Rightarrow> daemon_stage h (Suc k) (fst (fst b))
         | (Some err, b) \<Rightarrow> (\<forall>what. err \<noteq> NilDeref what)))"

lemma advances_on_daemon:
  assumes "\<And>d. daemon_stage h k d \<Longrightarrow>
    (case f d of (None, d') \<Rightarrow> daemon_stage h (Suc k) d' | (Some err, d') \<Rightarrow> (\<forall>what. err \<noteq> NilDeref what))"
  shows "advances h k (on_daemon f)"
  using assms by (fastforce simp: advances_def on_daemon_def split: prod.splits option.splits)

lemma advances_early:
  "advances h 0 (InitConfig h)" "advances h 1 InitLogger" "advances h 2 (InitStore h)"
  "advances h 3 (InitMembership h)" "advances h 4 InitBus" "advances h 5 InitLocks" "advances h 6 InitLeases"
  unfolding InitConfig_def InitLogger_def InitStore_def InitMembership_def InitBus_def InitLocks_def
    InitLeases_def Let_def
  by (rule advances_on_daemon, auto simp: daemon_stage_def needs_def membership_New_def SelfID_def
      split: sum.split option.splits)+

lemma server_tls_iff:
  "server_tls h d = Inr tls \<Longrightarrow>
     tls = (TLSEnabled (ho_env h) (dm_Cfg d) \<and> (case loadTLSMaterial h d of Inr m \<Rightarrow> True | Inl err \<Rightarrow> False))"
  by (auto simp: server_tls_def split: if_splits sum.splits option.splits)

lemma advances_grpc: "advances h 8 (InitGRPC h)"
  unfolding advances_def
proof (intro allI impI)
  fix d w n
  assume st: "daemon_stage h 8 d"
  show "case InitGRPC h ((d, w), n) of (None, b) \<Rightarrow> daemon_stage h (Suc 8) (fst (fst b))
      | (Some err, b) \<Rightarrow> \<forall>what. err \<noteq> NilDeref what"
  proof (cases "server_tls h d")
    case (Inl err)
    then show ?thesis by (simp add: InitGRPC_def)
  next
    case (Inr tls)
    have ready: "grpc_ready h (d\<lparr>dm_GRPC := g\<rparr>) \<lparr>gs_TLS = tls, gs_Services = server_services d tls, gs_Control = c\<rparr>"
      for g c
      using st server_tls_iff [OF Inr] loadTLSMaterial_store [of "d\<lparr>dm_GRPC := g\<rparr>" d h]
      by (auto simp: grpc_ready_def server_services_def credentialsOrNil_def daemon_stage_def Let_def
          split: option.splits)
    have log: "needs ''Log'' (dm_Log d) = None" using st by (simp add: daemon_stage_def needs_def)
    then have files: "fst (write_tls h d w) = None"
      by (simp add: write_tls_def Let_def split_beta split: option.split)
    show ?thesis
      using st Inr ready log files
      by (cases "write_tls h d w")
        (auto simp: InitGRPC_def Let_def StartServe_def daemon_stage_def split: option.splits)
  qed
qed

lemma advances_late:
  "advances h 7 (InitConsensus h)" "advances h 9 InitHeartbeat" "advances h 10 InitPresence"
proof -
  have grpc: "grpc_ready h (d\<lparr>dm_Consensus := x\<rparr>) = grpc_ready h d"
    "grpc_ready h (d\<lparr>dm_Heartbeat := y\<rparr>) = grpc_ready h d"
    "grpc_ready h (d\<lparr>dm_Presence := z\<rparr>) = grpc_ready h d" for d x y z
    by (rule ext, simp add: grpc_ready_def loadTLSMaterial_def)+
  show "advances h 7 (InitConsensus h)" "advances h 9 InitHeartbeat" "advances h 10 InitPresence"
    unfolding InitConsensus_def InitHeartbeat_def InitPresence_def Let_def
    by (rule advances_on_daemon, auto simp: daemon_stage_def needs_def grpc
        split: option.splits)+
qed

lemma advancesD:
  assumes "advances h k f" and "daemon_stage h k (fst (fst b))" and "f b = (r, b')"
  shows "case r of None \<Rightarrow> daemon_stage h (Suc k) (fst (fst b')) | Some err \<Rightarrow> (\<forall>what. err \<noteq> NilDeref what)"
proof -
  obtain d w n where b: "b = ((d, w), n)" by (metis prod.collapse)
  then have "case f b of (None, b') \<Rightarrow> daemon_stage h (Suc k) (fst (fst b'))
      | (Some err, b') \<Rightarrow> \<forall>what. err \<noteq> NilDeref what"
    using assms(1,2) unfolding advances_def by simp
  then show ?thesis using assms(3) by (cases r) simp_all
qed

lemma init_ok_advances:
  assumes "advances h k f" and "daemon_stage h k (fst (fst b))" and "j = Suc k"
    and "\<And>b'. daemon_stage h j (fst (fst b')) \<Longrightarrow> init_ok Q us b'"
  shows "init_ok Q (mk_unit name f close # us) b"
proof (rule init_ok_Cons)
  fix e b'
  assume "f b = (Some e, b')"
  note advancesD [OF assms(1,2) this]
  then show "\<not> nil_error (InitFailed name e)" by (cases e) auto
next
  fix b'
  assume "f b = (None, b')"
  note advancesD [OF assms(1,2) this]
  then show "init_ok Q us b'" using assms(3,4) by simp
qed

lemma init_ok_announce:
  assumes "daemon_stage h 11 (fst (fst b))"
  shows "init_ok (\<lambda>(d, w). daemon_stage h 11 d) [mk_unit name (InitAnnounce h) close] b"
proof -
  obtain d w n where b: "b = ((d, w), n)" by (metis prod.collapse)
  show ?thesis
    unfolding b
  proof (rule init_ok_Cons)
    fix e b'
    assume "InitAnnounce h ((d, w), n) = (Some e, b')"
    then have "e \<noteq> NilDeref what" for what by (auto dest: InitAnnounce_daemon(2))
    then show "\<not> nil_error (InitFailed name e)" by (cases e) auto
  next
    fix b'
    assume "InitAnnounce h ((d, w), n) = (None, b')"
    note InitAnnounce_daemon(1) [OF this]
    then show "init_ok (\<lambda>(d, w). daemon_stage h 11 d) [] b'"
      using assms b by (intro init_ok_Nil) (simp add: split_beta)
  qed
qed

lemma default_start:
  "init_ok (\<lambda>(d, w). daemon_stage h 11 d) (DefaultUnits h) ((blank_daemon zero, w), 0)"
proof -
  note steps = init_ok_advances [of h _ _ _ _ "\<lambda>(d, w). daemon_stage h 11 d"]
  note early = advances_early [of h, THEN steps] and late = advances_late [of h, THEN steps]
    and grpc = advances_grpc [of h, THEN steps]
  show ?thesis
    unfolding DefaultUnits_def
    apply (rule early(1) [where j = 1], simp add: daemon_stage_def blank_daemon_def, simp)
    apply (rule early(2) [where j = 2], assumption, simp)
    apply (rule early(3) [where j = 3], assumption, simp)
    apply (rule early(4) [where j = 4], assumption, simp)
    apply (rule early(5) [where j = 5], assumption, simp)
    apply (rule early(6) [where j = 6], assumption, simp)
    apply (rule early(7) [where j = 7], assumption, simp)
    apply (rule late(1) [where j = 8], assumption, simp)
    apply (rule grpc [where j = 9], assumption, simp)
    apply (rule late(2) [where j = 10], assumption, simp)
    apply (rule late(3) [where j = 11], assumption, simp)
    by (rule init_ok_announce)
qed

section \<open>Properties\<close>

text \<open>
  C19. The units are in an order in which the daemon can start: whatever the files, the environment,
  the store and the libraries answer, no unit uses a collaborator that an earlier unit should have
  made. When all of them start, the daemon is complete: it logs, has opened its store, its member list,
  its locks and leases publish on the bus, Raft runs with the timeouts of the configuration, exactly the
  nine services (health, membership, join, control, heartbeat, watch, events, locks and leases) are
  registered, with the ids and the lifetimes of the configuration, and the server demands certificates exactly if TLS is enabled and the store
  holds a complete set of them.
\<close>

theorem daemon_start:
  fixes h :: "('b, 'w) host"
  shows "case InitApp (DefaultUnits h) (blank_daemon zero, w) of (r, a) \<Rightarrow>
     (case r of None \<Rightarrow> daemon_stage h 11 (fst (fst (ap_bag a))) | Some err \<Rightarrow> \<not> nil_error err)"
proof -
  let ?a = "new_app (blank_daemon zero, w) :: (unit_error, 'b daemon_app \<times> 'w) app"
  have bag: "ap_bag ?a = ((blank_daemon zero, w), 0)" by (simp add: new_app_def)
  have "case init_units (DefaultUnits h) ?a of
      (None, a') \<Rightarrow> case fst (ap_bag a') of (d, w) \<Rightarrow> daemon_stage h 11 d
    | (Some err, a') \<Rightarrow> \<not> nil_error err"
    by (rule mp [OF spec [OF default_start [of h zero w, unfolded init_ok_def]] bag])
  then show ?thesis
    unfolding InitApp_def by (cases "init_units (DefaultUnits h) ?a"; cases "fst (init_units (DefaultUnits h) ?a)")
      (simp_all add: split_beta)
qed

text \<open>
  C20. What the announcement of a restarted node has done. If the node leads, the log of its state
  machine has grown, and in one of the states it went through the node is alive at its advertised
  address with its role. If another node leads and answers the call with its own service, the same
  holds of the leader's log, with the role that the leader knows for the node.
\<close>

theorem announce_sound:
  assumes "announceSelfOnce h d w = (None, w')" and "HasServer (daemon_raft h d) (nc_ID (Cf_Node (dm_Cfg d))) w"
    and "valid_utf8 (nc_ID (Cf_Node (dm_Cfg d)))" and "valid_utf8 (announce_addr (dm_Cfg d))"
    and "leads = IsLeader (ho_raft h) w"
    and "\<not> leads \<longrightarrow> (\<forall>tmo at. jn_Rejoin (ho_peer h) tmo at = svc_Rejoin j (ho_env h)) \<and> \<not> join_not_leader j w"
    and "js_voter j = Some rl" and "leads \<longrightarrow> rl = ho_raft h" and "raft_applies rl f0 lg"
  shows "log_reaches f0 (lg w) (lg w') (\<lambda>f. member_view (fsm_applier f) (nc_ID (Cf_Node (dm_Cfg d))) =
    Some (announce_addr (dm_Cfg d), StatusAlive,
      case (if leads then None else memberByID (js_joiner j w) (nc_ID (Cf_Node (dm_Cfg d)))) of
        Some m \<Rightarrow> NormalizeRole (mb_role m) | None \<Rightarrow> own_role h d w))"
proof -
  let ?nid = "nc_ID (Cf_Node (dm_Cfg d))" and ?addr = "announce_addr (dm_Cfg d)"
  have nid: "?nid \<noteq> ''''" using assms(2) by (auto simp: HasServer_def split: option.splits)
  have role: "NormalizeRole (own_role h d w) = own_role h d w"
    by (auto simp: own_role_def NormalizeRole_def split: option.split)
  note effect = ApplyAddMemberAs_effect [OF assms(9,3,4) nid]
  show ?thesis
  proof (cases leads)
    case True
    then have "ApplyAddMemberAs rl (ho_env h) ?nid ?addr (own_role h d w) w = (None, w')"
      using assms(1,2,5,8) by (auto simp: announceSelfOnce_def Let_def split: prod.splits)
    from effect [OF this] show ?thesis using True by (simp add: role)
  next
    case False
    then obtain resp where "svc_Rejoin j (ho_env h)
        \<lparr>rq_NodeId = ?nid, rq_Address = ?addr, rq_Role = own_role h d w, rq_Relay = True\<rparr> w = (Inr resp, w')"
      using assms(1,2,5,6)
      by (auto simp: announceSelfOnce_def Let_def split: if_splits prod.splits option.splits sum.splits)
    then have "rejoinMember j (ho_env h) ?nid ?addr (own_role h d w) w = (None, w')"
      using assms(6) False
      by (auto simp: svc_Rejoin_def change_result_def split: if_splits option.splits prod.splits)
    then obtain r where "ApplyAddMemberAs rl (ho_env h) ?nid ?addr r w = (None, w')"
      and "r = (case memberByID (js_joiner j w) ?nid of
        Some m \<Rightarrow> NormalizeRole (mb_role m) | None \<Rightarrow> NormalizeRole (own_role h d w))"
      using assms(7) by (auto simp: rejoinMember_def Let_def split: if_splits option.splits prod.splits)
    moreover have "NormalizeRole (NormalizeRole x) = NormalizeRole x" for x by (simp add: NormalizeRole_def)
    ultimately show ?thesis
      using effect [of "ho_env h" r w w'] False by (auto simp: role split: option.splits)
  qed
qed

text \<open>
  C21. A new leader puts its listening address into the member list, whatever address it advertises:
  after the callback on its own election has succeeded, the replicated entry of the node carries the
  address of the gRPC listener, and not the one with which the node announced itself.
\<close>

theorem election_sets_listen_address:
  assumes "leader_changed h d (nc_ID (Cf_Node (dm_Cfg d))) w = (None, w')" and "nc_ID (Cf_Node (dm_Cfg d)) \<noteq> ''''"
    and "valid_utf8 (nc_ID (Cf_Node (dm_Cfg d)))" and "valid_utf8 (rpc_Addr (Cf_GRPC (dm_Cfg d)))"
    and "raft_applies (ho_raft h) f0 lg" and "\<forall>evs en v. lg (ho_set_engine h evs en v) = lg v"
  shows "log_reaches f0 (lg w) (lg w') (\<lambda>f. member_view (fsm_applier f) (nc_ID (Cf_Node (dm_Cfg d))) =
    Some (rpc_Addr (Cf_GRPC (dm_Cfg d)), StatusAlive, RoleVoter))"
proof -
  obtain evs en where "SetLeader (nc_ID (Cf_Node (dm_Cfg d))) (ho_engine h w) = (evs, en)" by fastforce
  then have "ApplyAddMemberAs (ho_raft h) (ho_env h) (nc_ID (Cf_Node (dm_Cfg d)))
      (rpc_Addr (Cf_GRPC (dm_Cfg d))) RoleVoter (ho_set_engine h evs en w) = (None, w')"
    using assms(1,2) by (simp add: leader_changed_def ApplyAddMember_def Let_def)
  from ApplyAddMemberAs_effect [OF assms(5,3,4,2) this] show ?thesis
    using assms(6) by (simp add: NormalizeRole_def RoleVoter_def RoleObserver_def)
qed

text \<open>Only the leader marks a member dead, and never itself.\<close>

lemma removeDeadMember_guard:
  assumes "snd (removeDeadMember h d nid w) \<noteq> w"
  shows "IsLeader (ho_raft h) w" and "dm_Membership d \<noteq> None \<Longrightarrow> nid \<noteq> SelfID (ho_engine h w)"
  using assms by (auto simp: removeDeadMember_def split: if_splits)

section \<open>Witnesses\<close>

text \<open>A node that listens on all interfaces and advertises one address, in a cluster of its own.\<close>

definition demo_host :: "((string, string) fmap, raft_log) host" where
  "demo_host =
     \<lparr>ho_env = ascii_env 5, ho_home = None, ho_readFile = (\<lambda>_. FileMissing), ho_yaml = (\<lambda>_ c. Inr c),
      ho_ConfigPath = '''', ho_getenv = (\<lambda>_. ''''), ho_bolt = map_bolt,
      ho_Open = (\<lambda>_. Inr \<lparr>db_err = None, db_node = fmempty, db_certs = fmempty\<rparr>),
      ho_CloseStore = (\<lambda>_. None),
      ho_new = \<lparr>no_mkdir = None, no_resolve = None, no_tcp = None, no_bolt = None, no_snap = None,
                no_raft = None, no_boot = BootOk\<rparr>,
      ho_shutdown = (None, Some None), ho_serverTLS = (\<lambda>_ _ _. None), ho_clientTLS = (\<lambda>_ _ _. None),
      ho_writeTLS = (\<lambda>dir ca cert key w. (None, w)),
      ho_listen = (\<lambda>_. None), ho_control = (\<lambda>_. True), ho_stop = StopDone,
      ho_raft = solo_raft (demo_engine ''a''),
      ho_engine = (\<lambda>l. fsm_applier (solo_fsm (demo_engine ''a'') l)), ho_set_engine = (\<lambda>_ _ l. l),
      ho_peer = lone_peer, ho_sleeps = []\<rparr>"

definition demo_daemon :: "(string, string) fmap daemon_app" where
  "demo_daemon =
     (let c = (Defaults None)\<lparr>Cf_Node := \<lparr>nc_ID = ''a'', nc_Addr = ''10.0.0.1:7947''\<rparr>\<rparr>;
          c' = c\<lparr>Cf_GRPC := (Cf_GRPC c)\<lparr>rpc_Addr := ''0.0.0.0:7947''\<rparr>\<rparr>
      in (blank_daemon c')\<lparr>dm_Consensus := Some (consensus_config c')\<rparr>)"

lemma demo_daemon_cfg:
  "nc_ID (Cf_Node (dm_Cfg demo_daemon)) = ''a''" "announce_addr (dm_Cfg demo_daemon) = ''10.0.0.1:7947''"
  "rpc_Addr (Cf_GRPC (dm_Cfg demo_daemon)) = ''0.0.0.0:7947''" "dm_Membership demo_daemon = None"
  "dm_Consensus demo_daemon \<noteq> None"
  by (simp_all add: demo_daemon_def announce_addr_def blank_daemon_def Defaults_def Let_def)

lemma demo_host_raft:
  "ho_raft demo_host = solo_raft (demo_engine ''a'')" "daemon_raft demo_host demo_daemon = Some (ho_raft demo_host)"
  "IsLeader (ho_raft demo_host) w" "HasServer (daemon_raft demo_host demo_daemon) ''a'' w"
  by (simp_all add: demo_host_def daemon_raft_def demo_daemon_cfg IsLeader_def HasServer_def solo_raft_def)

theorem announce_sound_witness:
  "log_reaches (fsm_start (demo_engine ''a'')) [] (snd (announceSelfOnce demo_host demo_daemon []))
     (\<lambda>f. member_view (fsm_applier f) ''a'' = Some (''10.0.0.1:7947'', StatusAlive, RoleVoter))"
proof -
  have "fst (announceSelfOnce demo_host demo_daemon []) = None"
    by (simp add: announceSelfOnce_def demo_daemon_cfg demo_host_raft Let_def ApplyAddMemberAs_def
        apply_command_def split_beta HasServer_def IsLeader_def) (simp add: solo_raft_def)
  then have run: "announceSelfOnce demo_host demo_daemon [] = (None, snd (announceSelfOnce demo_host demo_daemon []))"
    by (metis prod.collapse)
  have role: "own_role demo_host demo_daemon [] = RoleVoter" by (simp add: own_role_def demo_daemon_cfg)
  have utf8: "valid_utf8 ''a''" "valid_utf8 ''10.0.0.1:7947''" by (simp_all add: valid_utf8_ascii byte_def)
  have lead: "True = IsLeader (ho_raft demo_host) []" by (simp add: demo_host_raft(3))
  note sound = announce_sound [where leads = True and j = solo_join and lg = "\<lambda>l. l", OF run,
      unfolded demo_daemon_cfg role, OF demo_host_raft(4) utf8 lead]
  show ?thesis
    using sound [OF _ solo_join_sel(3) _ solo_applies] demo_host_raft(1) by simp
qed

theorem election_sets_listen_address_witness:
  "log_reaches (fsm_start (demo_engine ''a'')) (snd (announceSelfOnce demo_host demo_daemon []))
     (snd (leader_changed demo_host demo_daemon ''a'' (snd (announceSelfOnce demo_host demo_daemon []))))
     (\<lambda>f. member_view (fsm_applier f) ''a'' = Some (''0.0.0.0:7947'', StatusAlive, RoleVoter))"
proof -
  have run: "leader_changed demo_host demo_daemon ''a'' w =
      (None, snd (leader_changed demo_host demo_daemon ''a'' w))" for w
    by (simp add: leader_changed_def demo_daemon_cfg demo_host_raft Let_def ApplyAddMember_def
        ApplyAddMemberAs_def apply_command_def split_beta) (simp add: solo_raft_def)
  have "valid_utf8 ''a''" "valid_utf8 ''0.0.0.0:7947''" by (simp_all add: valid_utf8_ascii byte_def)
  moreover have "ho_set_engine demo_host = (\<lambda>_ _ l. l)" by (simp add: demo_host_def)
  ultimately show ?thesis
    using election_sets_listen_address [of demo_host demo_daemon _ _ "fsm_start (demo_engine ''a'')" "\<lambda>l. l",
        unfolded demo_daemon_cfg, OF run]
      solo_applies
    by (simp add: demo_host_raft)
qed

end
