(* ===== verification/Operator_Reconcile.thy ===== *)
theory Operator_Reconcile
  imports Go_Text
begin

text \<open>
  The Kubernetes operator (internal/operator): the reconciler that forms a cluster from a
  ClusdrCluster object (reconcile.go, reconcile_sidecar.go, seed.go, warning.go, token.go, member.go).
  The Kubernetes surface and the Runtime API are the records \<open>platform\<close> and \<open>joiner\<close> of functions
  over a world \<open>'w\<close>, as the interfaces Platform and Joiner of the code. The calls that a
  reconciliation makes are observed by wrapping both records so that they log. Lemmas: when a member
  is removed, which pods are joined and with which role, and in which order the seed is claimed and
  the cluster initialised.
\<close>

section \<open>Data\<close>

record op_spec =
  sp_Topology :: string
  sp_VoterCount :: int
  sp_Image :: string
  sp_DataDir :: string
  sp_SeedNodeName :: string
  sp_Leave :: "string list"

record op_cluster =
  cl_Namespace :: string
  cl_Name :: string
  cl_UID :: string
  cl_Generation :: int
  cl_ResourceVersion :: string
  cl_StatusSeed :: string
  cl_Warning :: string
  cl_Spec :: op_spec

record member_status =
  ms_ID :: string
  ms_Address :: string
  ms_Status :: string
  ms_Role :: string

text \<open>The message of a status; the topology is quoted when it is printed.\<close>

datatype status_message = Text string | UnknownTopology string

record op_status =
  st_ClusterID :: string
  st_Leader :: string
  st_SeedNodeName :: string
  st_Members :: "member_status list"
  st_ObservedGeneration :: int
  st_Phase :: string
  st_Message :: status_message
  st_Warning :: string

record pod_addr =
  pa_Name :: string
  pa_HostIP :: string
  pa_NodeName :: string
  pa_Addr :: string
  pa_Ready :: bool

datatype op_error = NotFoundErr (err_text: string) | OtherErr (err_text: string)

definition topoDaemon :: string where "topoDaemon = ''DaemonSet''"
definition topoSidecar :: string where "topoSidecar = ''Sidecar''"
definition grpcPort :: int where "grpcPort = 7947"

definition spec_topology :: "op_spec \<Rightarrow> string" where
  "spec_topology s = (if sp_Topology s = '''' then topoDaemon else sp_Topology s)"

section \<open>The interfaces\<close>

record 'w platform =
  pf_ReadyNodes :: "'w \<Rightarrow> (op_error + string list) \<times> 'w"
  pf_ClaimSeed :: "op_cluster \<Rightarrow> string \<Rightarrow> 'w \<Rightarrow> (op_error + unit) \<times> 'w"
  pf_EnsurePrepare :: "op_spec \<Rightarrow> op_cluster \<Rightarrow> 'w \<Rightarrow> (op_error + unit) \<times> 'w"
  pf_PrepareReady :: "op_cluster \<Rightarrow> 'w \<Rightarrow> (op_error + bool) \<times> 'w"
  pf_EnsureJob :: "op_spec \<Rightarrow> op_cluster \<Rightarrow> 'w \<Rightarrow> (op_error + unit) \<times> 'w"
  pf_JobComplete :: "op_cluster \<Rightarrow> 'w \<Rightarrow> (op_error + bool) \<times> 'w"
  pf_JobLogs :: "op_cluster \<Rightarrow> 'w \<Rightarrow> (op_error + string) \<times> 'w"
  pf_Token :: "op_cluster \<Rightarrow> 'w \<Rightarrow> (op_error + string option) \<times> 'w"
  pf_PutToken :: "op_cluster \<Rightarrow> string \<Rightarrow> 'w \<Rightarrow> (op_error + unit) \<times> 'w"
  pf_EnsureSeed :: "op_spec \<Rightarrow> op_cluster \<Rightarrow> 'w \<Rightarrow> (op_error + unit) \<times> 'w"
  pf_SeedReadyAddr :: "op_cluster \<Rightarrow> 'w \<Rightarrow> (op_error + string) \<times> 'w"
  pf_EnsureDaemonSet :: "op_spec \<Rightarrow> op_cluster \<Rightarrow> 'w \<Rightarrow> (op_error + unit) \<times> 'w"
  pf_MemberPods :: "op_cluster \<Rightarrow> 'w \<Rightarrow> (op_error + pod_addr list) \<times> 'w"
  pf_PatchStatus :: "op_cluster \<Rightarrow> op_status \<Rightarrow> 'w \<Rightarrow> (op_error + unit) \<times> 'w"
  pf_EnsurePVC :: "op_spec \<Rightarrow> op_cluster \<Rightarrow> 'w \<Rightarrow> (op_error + unit) \<times> 'w"
  pf_EnsureBootstrapJob :: "op_spec \<Rightarrow> op_cluster \<Rightarrow> 'w \<Rightarrow> (op_error + unit) \<times> 'w"
  pf_BootstrapReady :: "op_cluster \<Rightarrow> 'w \<Rightarrow> (op_error + bool) \<times> 'w"
  pf_JobExists :: "op_cluster \<Rightarrow> 'w \<Rightarrow> (op_error + bool) \<times> 'w"
  pf_DeleteJob :: "op_cluster \<Rightarrow> 'w \<Rightarrow> (op_error + unit) \<times> 'w"
  pf_EnsureHeadless :: "op_spec \<Rightarrow> op_cluster \<Rightarrow> 'w \<Rightarrow> (op_error + unit) \<times> 'w"
  pf_EnsureStatefulSet :: "op_spec \<Rightarrow> op_cluster \<Rightarrow> 'w \<Rightarrow> (op_error + unit) \<times> 'w"
  pf_ClusterCount :: "'w \<Rightarrow> (op_error + int) \<times> 'w"

record 'w joiner =
  jo_Join :: "string \<Rightarrow> string \<Rightarrow> string \<Rightarrow> bool \<Rightarrow> 'w \<Rightarrow> (op_error + unit) \<times> 'w"
  jo_Leave :: "string \<Rightarrow> string \<Rightarrow> 'w \<Rightarrow> (op_error + unit) \<times> 'w"
  jo_Snapshot :: "string \<Rightarrow> 'w \<Rightarrow> (op_error + op_status) \<times> 'w"

text \<open>A call followed by the rest of a function that returns on error.\<close>

definition kbind ::
  "('w \<Rightarrow> (op_error + 'a) \<times> 'w) \<Rightarrow> ('a \<Rightarrow> 'w \<Rightarrow> (op_error + 'b) \<times> 'w) \<Rightarrow> 'w \<Rightarrow> (op_error + 'b) \<times> 'w" where
  "kbind m f w = (case m w of (Inl err, w') \<Rightarrow> (Inl err, w') | (Inr x, w') \<Rightarrow> f x w')"

text \<open>A call whose error the function handles itself.\<close>

definition ktry ::
  "('w \<Rightarrow> (op_error + 'a) \<times> 'w) \<Rightarrow> (op_error \<Rightarrow> 'w \<Rightarrow> (op_error + 'b) \<times> 'w) \<Rightarrow>
   ('a \<Rightarrow> 'w \<Rightarrow> (op_error + 'b) \<times> 'w) \<Rightarrow> 'w \<Rightarrow> (op_error + 'b) \<times> 'w" where
  "ktry m h f w = (case m w of (Inl err, w') \<Rightarrow> h err w' | (Inr x, w') \<Rightarrow> f x w')"

definition kreturn :: "'a \<Rightarrow> 'w \<Rightarrow> (op_error + 'a) \<times> 'w" where
  "kreturn x w = (Inr x, w)"

section \<open>Tokens, members, pods\<close>

text \<open>
  \<^verbatim>\<open>(?m)^\s*join token\s*:\s*(\S+)\s*$\<close>. White space is the class of the regular expressions, without
  the vertical tab. Every part of the expression is delimited by a character that the next one cannot
  match, so a match at a line start is determined: the group is the whole run of other characters,
  and after it there are only spaces up to a line end.
\<close>

definition re_space :: "char \<Rightarrow> bool" where
  "re_space c \<longleftrightarrow> byte c = 9 \<or> byte c = 10 \<or> byte c = 12 \<or> byte c = 13 \<or> byte c = 32"

definition newline :: char where
  "newline = char_of (10 :: nat)"

definition line_end :: "string \<Rightarrow> bool" where
  "line_end s \<longleftrightarrow>
     (let sp = takeWhile re_space s in newline \<in> set sp \<or> dropWhile re_space s = [])"

definition match_token :: "string \<Rightarrow> string option" where
  "match_token s =
     (let s1 = dropWhile re_space s in
      if \<not> HasPrefix s1 ''join token'' then None
      else
        let s2 = dropWhile re_space (drop 10 s1) in
        if \<not> HasPrefix s2 '':'' then None
        else
          let s3 = dropWhile re_space (tl s2);
              tok = takeWhile (\<lambda>c. \<not> re_space c) s3
          in if tok \<noteq> [] \<and> line_end (drop (length tok) s3) then Some tok else None)"

text \<open>The leftmost match: the starts of the lines are tried in order.\<close>

fun find_token :: "bool \<Rightarrow> string \<Rightarrow> string option" where
  "find_token line_start [] = (if line_start then match_token [] else None)"
| "find_token line_start (c # s) =
     (case (if line_start then match_token (c # s) else None) of
        Some tok \<Rightarrow> Some tok
      | None \<Rightarrow> find_token (c = newline) s)"

definition ParseJoinToken :: "string \<Rightarrow> string option" where
  "ParseJoinToken logs =
     (case find_token True logs of
        None \<Rightarrow> None
      | Some m \<Rightarrow> let tok = TrimSpace m in if tok = '''' then None else Some tok)"

definition MemberObserver :: "int \<Rightarrow> int \<Rightarrow> bool" where
  "MemberObserver dsIndex voterCount \<longleftrightarrow> (if voterCount < 1 then True else dsIndex + 2 > voterCount)"

definition dropSet :: "string list \<Rightarrow> string fset" where
  "dropSet ids = fset_of_list (filter (\<lambda>i. i \<noteq> '''') (map TrimSpace ids))"

definition memberAddr :: "pod_addr \<Rightarrow> string" where
  "memberAddr p = (if pa_HostIP p = '''' then '''' else pa_HostIP p @ '':'' @ decimal_int grpcPort)"

definition joinAddr :: "pod_addr \<Rightarrow> string" where
  "joinAddr p = (if pa_Addr p \<noteq> '''' then pa_Addr p else memberAddr p)"

definition podOrdinal :: "string \<Rightarrow> int" where
  "podOrdinal name =
     (case after_last (CHR ''-'') name of
        None \<Rightarrow> -1
      | Some suffix \<Rightarrow>
          if suffix = '''' then -1 else (case Atoi suffix of None \<Rightarrow> -1 | Some n \<Rightarrow> n))"

definition alreadyMember :: "op_status \<Rightarrow> pod_addr \<Rightarrow> bool" where
  "alreadyMember st p =
     (let addr = joinAddr p in
      list_ex (\<lambda>m. (pa_NodeName p \<noteq> '''' \<and> ms_ID m = pa_NodeName p) \<or>
                   (addr \<noteq> '''' \<and> ms_Address m \<noteq> '''' \<and>
                    (ms_Address m = addr \<or> ms_Address m = pa_HostIP p))) (st_Members st))"

definition memberListed :: "op_status \<Rightarrow> string \<Rightarrow> bool" where
  "memberListed st i = list_ex (\<lambda>m. ms_ID m = i) (st_Members st)"

section \<open>Status, warning, seed\<close>

definition zero_status :: op_status where
  "zero_status = \<lparr>st_ClusterID = '''', st_Leader = '''', st_SeedNodeName = '''', st_Members = [],
     st_ObservedGeneration = 0, st_Phase = '''', st_Message = Text '''', st_Warning = ''''\<rparr>"

definition patchStatus ::
  "'w platform \<Rightarrow> op_cluster \<Rightarrow> op_status \<Rightarrow> 'w \<Rightarrow> (op_error + unit) \<times> 'w" where
  "patchStatus pf c st0 =
     (let st1 = (if st_SeedNodeName st0 = ''''
                 then st0\<lparr>st_SeedNodeName := sp_SeedNodeName (cl_Spec c)\<rparr> else st0)
      in pf_PatchStatus pf c (st1\<lparr>st_Warning := cl_Warning c\<rparr>))"

text \<open>The status of a reconciliation that stops with a phase and a message.\<close>

definition report ::
  "'w platform \<Rightarrow> op_cluster \<Rightarrow> string \<Rightarrow> status_message \<Rightarrow> 'w \<Rightarrow> (op_error + unit) \<times> 'w" where
  "report pf c phase msg =
     patchStatus pf c (zero_status\<lparr>st_ObservedGeneration := cl_Generation c, st_Phase := phase,
                                   st_Message := msg\<rparr>)"

definition warnTwoClusters :: string where
  "warnTwoClusters = ''two clusters''"

definition noteWarning :: "'w platform \<Rightarrow> op_cluster \<Rightarrow> 'w \<Rightarrow> (op_error + op_cluster) \<times> 'w" where
  "noteWarning pf c =
     kbind (pf_ClusterCount pf) (\<lambda>n.
       kreturn (if n \<ge> 2 then c\<lparr>cl_Warning := warnTwoClusters\<rparr> else c))"

definition set_seed :: "string \<Rightarrow> op_cluster \<Rightarrow> op_cluster" where
  "set_seed want c = c\<lparr>cl_Spec := (cl_Spec c)\<lparr>sp_SeedNodeName := want\<rparr>\<rparr>"

definition resolveSeed :: "'w platform \<Rightarrow> op_cluster \<Rightarrow> 'w \<Rightarrow> (op_error + op_cluster) \<times> 'w" where
  "resolveSeed pf c =
     (let want = (if sp_SeedNodeName (cl_Spec c) = '''' then cl_StatusSeed c
                  else sp_SeedNodeName (cl_Spec c)) in
      if want = '''' then
        kbind (pf_ReadyNodes pf) (\<lambda>nodes.
          if nodes = [] then kreturn c
          else
            let first = hd (sort nodes) in
            kbind (pf_ClaimSeed pf c first) (\<lambda>_.
              kreturn ((set_seed first c)\<lparr>cl_StatusSeed := first\<rparr>)))
      else
        let c1 = set_seed want c in
        if cl_StatusSeed c1 \<noteq> want
        then kbind (pf_ClaimSeed pf c1 want) (\<lambda>_. kreturn (c1\<lparr>cl_StatusSeed := want\<rparr>))
        else kreturn c1)"

section \<open>Membership\<close>

text \<open>
  The loops return from the reconciler on an error; otherwise they go on with the rest of it, the
  argument \<open>k\<close>. The loop over the set of ids to drop visits them in the order \<open>ks\<close>.
\<close>

fun leave_loop ::
  "'w platform \<Rightarrow> 'w joiner \<Rightarrow> op_cluster \<Rightarrow> string \<Rightarrow> op_status \<Rightarrow> string list \<Rightarrow>
   ('w \<Rightarrow> (op_error + unit) \<times> 'w) \<Rightarrow> 'w \<Rightarrow> (op_error + unit) \<times> 'w" where
  "leave_loop pf jn c seedAddr st [] k = k"
| "leave_loop pf jn c seedAddr st (i # ks) k =
     (if \<not> memberListed st i then leave_loop pf jn c seedAddr st ks k
      else ktry (jo_Leave jn seedAddr i)
        (\<lambda>err. report pf c ''Pending'' (Text (''leave '' @ i @ '': '' @ err_text err)))
        (\<lambda>_. leave_loop pf jn c seedAddr st ks k))"

fun daemon_joins ::
  "'w platform \<Rightarrow> 'w joiner \<Rightarrow> op_cluster \<Rightarrow> string \<Rightarrow> string \<Rightarrow> op_status \<Rightarrow> string fset \<Rightarrow> int \<Rightarrow>
   pod_addr list \<Rightarrow> ('w \<Rightarrow> (op_error + unit) \<times> 'w) \<Rightarrow> 'w \<Rightarrow> (op_error + unit) \<times> 'w" where
  "daemon_joins pf jn c seedAddr token st gone i [] k = k"
| "daemon_joins pf jn c seedAddr token st gone i (p # ps) k =
     (if pa_HostIP p = [] \<or> \<not> pa_Ready p \<or> pa_NodeName p |\<in>| gone \<or> alreadyMember st p
      then daemon_joins pf jn c seedAddr token st gone (i + 1) ps k
      else ktry (jo_Join jn (joinAddr p) seedAddr token (MemberObserver i (sp_VoterCount (cl_Spec c))))
        (\<lambda>err. report pf c ''Pending'' (Text (''join '' @ pa_Name p @ '': '' @ err_text err)))
        (\<lambda>_. daemon_joins pf jn c seedAddr token st gone (i + 1) ps k))"

fun sidecar_joins ::
  "'w platform \<Rightarrow> 'w joiner \<Rightarrow> op_cluster \<Rightarrow> string \<Rightarrow> string \<Rightarrow> op_status \<Rightarrow> string fset \<Rightarrow>
   pod_addr list \<Rightarrow> ('w \<Rightarrow> (op_error + unit) \<times> 'w) \<Rightarrow> 'w \<Rightarrow> (op_error + unit) \<times> 'w" where
  "sidecar_joins pf jn c seedAddr token st gone [] k = k"
| "sidecar_joins pf jn c seedAddr token st gone (p # ps) k =
     (if podOrdinal (pa_Name p) \<le> 0 \<or> \<not> pa_Ready p \<or> pa_NodeName p |\<in>| gone \<or> alreadyMember st p
      then sidecar_joins pf jn c seedAddr token st gone ps k
      else ktry (jo_Join jn (joinAddr p) seedAddr token
               (MemberObserver (podOrdinal (pa_Name p) - 1) (sp_VoterCount (cl_Spec c))))
        (\<lambda>err. report pf c ''Pending'' (Text (''join '' @ pa_Name p @ '': '' @ err_text err)))
        (\<lambda>_. sidecar_joins pf jn c seedAddr token st gone ps k))"

definition members_failed :: "'w platform \<Rightarrow> op_cluster \<Rightarrow> op_error \<Rightarrow> 'w \<Rightarrow> (op_error + unit) \<times> 'w" where
  "members_failed pf c err = report pf c ''Pending'' (Text (''members: '' @ err_text err))"

definition publish_members ::
  "'w platform \<Rightarrow> 'w joiner \<Rightarrow> op_cluster \<Rightarrow> string \<Rightarrow> 'w \<Rightarrow> (op_error + unit) \<times> 'w" where
  "publish_members pf jn c seedAddr =
     ktry (jo_Snapshot jn seedAddr) (members_failed pf c)
       (\<lambda>st. patchStatus pf c
          (st\<lparr>st_ObservedGeneration := cl_Generation c,
              st_Phase := (if st_Phase st = '''' then ''Ready'' else st_Phase st),
              st_Message := Text ''''\<rparr>))"

section \<open>Reconcile\<close>

definition bad_voters :: "op_spec \<Rightarrow> bool" where
  "bad_voters s \<longleftrightarrow> sp_VoterCount s < 1 \<or> sp_VoterCount s mod 2 = 0"

definition report_voters :: "'w platform \<Rightarrow> op_cluster \<Rightarrow> 'w \<Rightarrow> (op_error + unit) \<times> 'w" where
  "report_voters pf c = report pf c ''Error'' (Text ''voterCount must be an odd integer >= 1'')"

text \<open>From the point where the join token is known.\<close>

definition daemon_members ::
  "'w platform \<Rightarrow> 'w joiner \<Rightarrow> string list \<Rightarrow> op_cluster \<Rightarrow> string \<Rightarrow> 'w \<Rightarrow> (op_error + unit) \<times> 'w" where
  "daemon_members pf jn ks c token =
     kbind (pf_EnsureSeed pf (cl_Spec c) c) (\<lambda>_.
     ktry (pf_SeedReadyAddr pf c)
       (\<lambda>err. report pf c ''Pending'' (Text (''waiting for seed Runtime: '' @ err_text err)))
       (\<lambda>seedAddr.
     kbind (pf_EnsureDaemonSet pf (cl_Spec c) c) (\<lambda>_.
     kbind (pf_MemberPods pf c) (\<lambda>pods.
     ktry (jo_Snapshot jn seedAddr) (members_failed pf c) (\<lambda>st.
     leave_loop pf jn c seedAddr st ks
       (daemon_joins pf jn c seedAddr token st (dropSet (sp_Leave (cl_Spec c))) 0 (sort_key pa_Name pods)
         (publish_members pf jn c seedAddr)))))))"

definition daemon_token ::
  "'w platform \<Rightarrow> op_cluster \<Rightarrow> (string \<Rightarrow> 'w \<Rightarrow> (op_error + unit) \<times> 'w) \<Rightarrow> 'w \<Rightarrow> (op_error + unit) \<times> 'w" where
  "daemon_token pf c k =
     kbind (pf_Token pf c) (\<lambda>stored.
       case stored of
         Some token \<Rightarrow> k token
       | None \<Rightarrow>
           kbind (pf_JobLogs pf c) (\<lambda>logs.
             case ParseJoinToken logs of
               None \<Rightarrow> report pf c ''Error''
                 (Text ''init finished but join token missing (re-init or set secret)'')
             | Some token \<Rightarrow> kbind (pf_PutToken pf c token) (\<lambda>_. k token)))"

definition daemon_init ::
  "'w platform \<Rightarrow> 'w joiner \<Rightarrow> string list \<Rightarrow> op_cluster \<Rightarrow> 'w \<Rightarrow> (op_error + unit) \<times> 'w" where
  "daemon_init pf jn ks c =
     kbind (pf_EnsurePrepare pf (cl_Spec c) c) (\<lambda>_.
     kbind (pf_PrepareReady pf c) (\<lambda>ready.
     if \<not> ready then report pf c ''Pending'' (Text ''waiting for hostPath prepare'')
     else
     kbind (pf_EnsureJob pf (cl_Spec c) c) (\<lambda>_.
     kbind (pf_JobComplete pf c) (\<lambda>finished.
     if \<not> finished then report pf c ''Pending'' (Text ''waiting for seed init'')
     else daemon_token pf c (daemon_members pf jn ks c)))))"

definition reconcileDaemon ::
  "'w platform \<Rightarrow> 'w joiner \<Rightarrow> string list \<Rightarrow> op_cluster \<Rightarrow> 'w \<Rightarrow> (op_error + unit) \<times> 'w" where
  "reconcileDaemon pf jn ks c0 =
     (if bad_voters (cl_Spec c0) then report_voters pf c0
      else
        kbind (resolveSeed pf c0) (\<lambda>c.
          if sp_SeedNodeName (cl_Spec c) = ''''
          then report pf c ''Pending'' (Text ''waiting for a Ready node'')
          else daemon_init pf jn ks c))"

definition sidecar_bootstrap :: "'w platform \<Rightarrow> op_cluster \<Rightarrow> 'w \<Rightarrow> (op_error + unit) \<times> 'w" where
  "sidecar_bootstrap pf c =
     kbind (pf_EnsurePVC pf (cl_Spec c) c) (\<lambda>_.
     kbind (pf_EnsureBootstrapJob pf (cl_Spec c) c) (\<lambda>_.
     kbind (pf_BootstrapReady pf c) (\<lambda>ready.
     if \<not> ready then report pf c ''Pending'' (Text ''waiting for sidecar bootstrap'')
     else
     kbind (pf_JobLogs pf c) (\<lambda>logs.
       case ParseJoinToken logs of
         None \<Rightarrow> report pf c ''Error''
           (Text ''bootstrap finished but join token missing (re-init or set secret)'')
       | Some token \<Rightarrow>
           kbind (pf_PutToken pf c token) (\<lambda>_.
           kbind (pf_DeleteJob pf c) (\<lambda>_.
           report pf c ''Pending'' (Text ''waiting to start StatefulSet'')))))))"

definition sidecar_members ::
  "'w platform \<Rightarrow> 'w joiner \<Rightarrow> string list \<Rightarrow> op_cluster \<Rightarrow> string \<Rightarrow> 'w \<Rightarrow> (op_error + unit) \<times> 'w" where
  "sidecar_members pf jn ks c token =
     kbind (pf_EnsureHeadless pf (cl_Spec c) c) (\<lambda>_.
     kbind (pf_EnsureStatefulSet pf (cl_Spec c) c) (\<lambda>_.
     ktry (pf_SeedReadyAddr pf c)
       (\<lambda>err. report pf c ''Pending'' (Text (''waiting for sidecar-0 Runtime: '' @ err_text err)))
       (\<lambda>seedAddr.
     kbind (pf_MemberPods pf c) (\<lambda>pods.
     ktry (jo_Snapshot jn seedAddr) (members_failed pf c) (\<lambda>st.
     leave_loop pf jn c seedAddr st ks
       (sidecar_joins pf jn c seedAddr token st (dropSet (sp_Leave (cl_Spec c))) pods
         (publish_members pf jn c seedAddr)))))))"

definition reconcileSidecar ::
  "'w platform \<Rightarrow> 'w joiner \<Rightarrow> string list \<Rightarrow> op_cluster \<Rightarrow> 'w \<Rightarrow> (op_error + unit) \<times> 'w" where
  "reconcileSidecar pf jn ks c =
     (if bad_voters (cl_Spec c) then report_voters pf c
      else
        kbind (pf_Token pf c) (\<lambda>stored.
          case stored of
            None \<Rightarrow> sidecar_bootstrap pf c
          | Some token \<Rightarrow>
              kbind (pf_JobExists pf c) (\<lambda>exists.
                if exists
                then kbind (pf_DeleteJob pf c) (\<lambda>_.
                  report pf c ''Pending'' (Text ''waiting for bootstrap Job to release PVC''))
                else sidecar_members pf jn ks c token)))"

definition Reconcile ::
  "'w platform \<Rightarrow> 'w joiner \<Rightarrow> string list \<Rightarrow> op_cluster \<Rightarrow> 'w \<Rightarrow> (op_error + unit) \<times> 'w" where
  "Reconcile pf jn ks c0 =
     kbind (noteWarning pf c0) (\<lambda>c.
       if spec_topology (cl_Spec c) = topoSidecar then reconcileSidecar pf jn ks c
       else if spec_topology (cl_Spec c) = topoDaemon then reconcileDaemon pf jn ks c
       else report pf c ''Error'' (UnknownTopology (sp_Topology (cl_Spec c))))"

section \<open>The calls of a reconciliation\<close>

text \<open>A call with its arguments and its result.\<close>

datatype op_call =
    CReadyNodes "op_error + string list"
  | CClaimSeed op_cluster string "op_error + unit"
  | CEnsurePrepare op_spec op_cluster "op_error + unit"
  | CPrepareReady op_cluster "op_error + bool"
  | CEnsureJob op_spec op_cluster "op_error + unit"
  | CJobComplete op_cluster "op_error + bool"
  | CJobLogs op_cluster "op_error + string"
  | CToken op_cluster "op_error + string option"
  | CPutToken op_cluster string "op_error + unit"
  | CEnsureSeed op_spec op_cluster "op_error + unit"
  | CSeedReadyAddr op_cluster "op_error + string"
  | CEnsureDaemonSet op_spec op_cluster "op_error + unit"
  | CMemberPods op_cluster "op_error + pod_addr list"
  | CPatchStatus op_cluster op_status "op_error + unit"
  | CEnsurePVC op_spec op_cluster "op_error + unit"
  | CEnsureBootstrapJob op_spec op_cluster "op_error + unit"
  | CBootstrapReady op_cluster "op_error + bool"
  | CJobExists op_cluster "op_error + bool"
  | CDeleteJob op_cluster "op_error + unit"
  | CEnsureHeadless op_spec op_cluster "op_error + unit"
  | CEnsureStatefulSet op_spec op_cluster "op_error + unit"
  | CClusterCount "op_error + int"
  | CJoin string string string bool "op_error + unit"
  | CLeave string string "op_error + unit"
  | CSnapshot string "op_error + op_status"

definition logged ::
  "((op_error + 'a) \<Rightarrow> op_call) \<Rightarrow> ('w \<Rightarrow> (op_error + 'a) \<times> 'w) \<Rightarrow> 'w \<times> op_call list \<Rightarrow>
   (op_error + 'a) \<times> 'w \<times> op_call list" where
  "logged mk m wl = (case m (fst wl) of (r, w') \<Rightarrow> (r, w', snd wl @ [mk r]))"

definition traced :: "'w platform \<Rightarrow> ('w \<times> op_call list) platform" where
  "traced pf =
     \<lparr>pf_ReadyNodes = (logged CReadyNodes (pf_ReadyNodes pf)),
      pf_ClaimSeed = (\<lambda>c n. logged (CClaimSeed c n) (pf_ClaimSeed pf c n)),
      pf_EnsurePrepare = (\<lambda>s c. logged (CEnsurePrepare s c) (pf_EnsurePrepare pf s c)),
      pf_PrepareReady = (\<lambda>c. logged (CPrepareReady c) (pf_PrepareReady pf c)),
      pf_EnsureJob = (\<lambda>s c. logged (CEnsureJob s c) (pf_EnsureJob pf s c)),
      pf_JobComplete = (\<lambda>c. logged (CJobComplete c) (pf_JobComplete pf c)),
      pf_JobLogs = (\<lambda>c. logged (CJobLogs c) (pf_JobLogs pf c)),
      pf_Token = (\<lambda>c. logged (CToken c) (pf_Token pf c)),
      pf_PutToken = (\<lambda>c t. logged (CPutToken c t) (pf_PutToken pf c t)),
      pf_EnsureSeed = (\<lambda>s c. logged (CEnsureSeed s c) (pf_EnsureSeed pf s c)),
      pf_SeedReadyAddr = (\<lambda>c. logged (CSeedReadyAddr c) (pf_SeedReadyAddr pf c)),
      pf_EnsureDaemonSet = (\<lambda>s c. logged (CEnsureDaemonSet s c) (pf_EnsureDaemonSet pf s c)),
      pf_MemberPods = (\<lambda>c. logged (CMemberPods c) (pf_MemberPods pf c)),
      pf_PatchStatus = (\<lambda>c st. logged (CPatchStatus c st) (pf_PatchStatus pf c st)),
      pf_EnsurePVC = (\<lambda>s c. logged (CEnsurePVC s c) (pf_EnsurePVC pf s c)),
      pf_EnsureBootstrapJob = (\<lambda>s c. logged (CEnsureBootstrapJob s c) (pf_EnsureBootstrapJob pf s c)),
      pf_BootstrapReady = (\<lambda>c. logged (CBootstrapReady c) (pf_BootstrapReady pf c)),
      pf_JobExists = (\<lambda>c. logged (CJobExists c) (pf_JobExists pf c)),
      pf_DeleteJob = (\<lambda>c. logged (CDeleteJob c) (pf_DeleteJob pf c)),
      pf_EnsureHeadless = (\<lambda>s c. logged (CEnsureHeadless s c) (pf_EnsureHeadless pf s c)),
      pf_EnsureStatefulSet = (\<lambda>s c. logged (CEnsureStatefulSet s c) (pf_EnsureStatefulSet pf s c)),
      pf_ClusterCount = (logged CClusterCount (pf_ClusterCount pf))\<rparr>"

definition traced_joiner :: "'w joiner \<Rightarrow> ('w \<times> op_call list) joiner" where
  "traced_joiner jn =
     \<lparr>jo_Join = (\<lambda>a s t b. logged (CJoin a s t b) (jo_Join jn a s t b)),
      jo_Leave = (\<lambda>s i. logged (CLeave s i) (jo_Leave jn s i)),
      jo_Snapshot = (\<lambda>s. logged (CSnapshot s) (jo_Snapshot jn s))\<rparr>"

lemma traced_sel [simp]:
  "pf_ReadyNodes (traced pf) = logged CReadyNodes (pf_ReadyNodes pf)"
  "pf_ClaimSeed (traced pf) c n = logged (CClaimSeed c n) (pf_ClaimSeed pf c n)"
  "pf_EnsurePrepare (traced pf) s c = logged (CEnsurePrepare s c) (pf_EnsurePrepare pf s c)"
  "pf_PrepareReady (traced pf) c = logged (CPrepareReady c) (pf_PrepareReady pf c)"
  "pf_EnsureJob (traced pf) s c = logged (CEnsureJob s c) (pf_EnsureJob pf s c)"
  "pf_JobComplete (traced pf) c = logged (CJobComplete c) (pf_JobComplete pf c)"
  "pf_JobLogs (traced pf) c = logged (CJobLogs c) (pf_JobLogs pf c)"
  "pf_Token (traced pf) c = logged (CToken c) (pf_Token pf c)"
  "pf_PutToken (traced pf) c t = logged (CPutToken c t) (pf_PutToken pf c t)"
  "pf_EnsureSeed (traced pf) s c = logged (CEnsureSeed s c) (pf_EnsureSeed pf s c)"
  "pf_SeedReadyAddr (traced pf) c = logged (CSeedReadyAddr c) (pf_SeedReadyAddr pf c)"
  "pf_EnsureDaemonSet (traced pf) s c = logged (CEnsureDaemonSet s c) (pf_EnsureDaemonSet pf s c)"
  "pf_MemberPods (traced pf) c = logged (CMemberPods c) (pf_MemberPods pf c)"
  "pf_PatchStatus (traced pf) c st = logged (CPatchStatus c st) (pf_PatchStatus pf c st)"
  "pf_EnsurePVC (traced pf) s c = logged (CEnsurePVC s c) (pf_EnsurePVC pf s c)"
  "pf_EnsureBootstrapJob (traced pf) s c = logged (CEnsureBootstrapJob s c) (pf_EnsureBootstrapJob pf s c)"
  "pf_BootstrapReady (traced pf) c = logged (CBootstrapReady c) (pf_BootstrapReady pf c)"
  "pf_JobExists (traced pf) c = logged (CJobExists c) (pf_JobExists pf c)"
  "pf_DeleteJob (traced pf) c = logged (CDeleteJob c) (pf_DeleteJob pf c)"
  "pf_EnsureHeadless (traced pf) s c = logged (CEnsureHeadless s c) (pf_EnsureHeadless pf s c)"
  "pf_EnsureStatefulSet (traced pf) s c = logged (CEnsureStatefulSet s c) (pf_EnsureStatefulSet pf s c)"
  "pf_ClusterCount (traced pf) = logged CClusterCount (pf_ClusterCount pf)"
  by (simp_all add: traced_def)

lemma traced_joiner_sel [simp]:
  "jo_Join (traced_joiner jn) a s t b = logged (CJoin a s t b) (jo_Join jn a s t b)"
  "jo_Leave (traced_joiner jn) s i = logged (CLeave s i) (jo_Leave jn s i)"
  "jo_Snapshot (traced_joiner jn) s = logged (CSnapshot s) (jo_Snapshot jn s)"
  by (simp_all add: traced_joiner_def)

text \<open>
  The rule that every call must obey, given the calls made before it.
  \<^item> Leave: only an id of the spec, and only if it is listed in a snapshot of the seed.
  \<^item> Join: only a ready pod that is neither in the spec's list nor in the snapshot, at its address,
    with the stored token.
  \<^item> The preparation, the init Job and the seed Deployment: only for a valid number of voters and a
    seed that the object already names or that was claimed before.
  \<^item> The seed Deployment and the DaemonSet: only after the init Job has completed, with a stored token.
  \<^item> The bootstrap Job of a sidecar cluster: only while no token is stored; its StatefulSet: only with
    a stored token and after the Job has gone.
\<close>

definition token_stored :: "op_call list \<Rightarrow> string \<Rightarrow> bool" where
  "token_stored pre tok \<longleftrightarrow>
     list_ex (\<lambda>call. case call of
        CToken c r \<Rightarrow> r = Inr (Some tok) | CPutToken c t r \<Rightarrow> t = tok \<and> r = Inr () | _ \<Rightarrow> False) pre"

definition seed_claimed :: "op_cluster \<Rightarrow> op_call list \<Rightarrow> op_cluster \<Rightarrow> bool" where
  "seed_claimed c0 pre c \<longleftrightarrow>
     (let seed = sp_SeedNodeName (cl_Spec c) in
      \<not> bad_voters (cl_Spec c0) \<and> seed \<noteq> [] \<and>
      (seed = cl_StatusSeed c0 \<or>
       list_ex (\<lambda>call. case call of CClaimSeed c' n r \<Rightarrow> n = seed \<and> r = Inr () | _ \<Rightarrow> False) pre))"

definition init_complete :: "op_call list \<Rightarrow> bool" where
  "init_complete pre \<longleftrightarrow>
     list_ex (\<lambda>call. case call of CJobComplete c r \<Rightarrow> r = Inr True | _ \<Rightarrow> False) pre \<and>
     list_ex (\<lambda>call. case call of
        CToken c r \<Rightarrow> (case r of Inr (Some t) \<Rightarrow> True | _ \<Rightarrow> False)
      | CPutToken c t r \<Rightarrow> r = Inr () | _ \<Rightarrow> False) pre"

definition leave_allowed :: "op_cluster \<Rightarrow> op_call list \<Rightarrow> string \<Rightarrow> string \<Rightarrow> bool" where
  "leave_allowed c0 pre seed i \<longleftrightarrow>
     i |\<in>| dropSet (sp_Leave (cl_Spec c0)) \<and>
     list_ex (\<lambda>call. case call of
        CSnapshot s r \<Rightarrow> s = seed \<and> (case r of Inr st \<Rightarrow> memberListed st i | Inl _ \<Rightarrow> False)
      | _ \<Rightarrow> False) pre"

definition not_listed :: "op_call list \<Rightarrow> string \<Rightarrow> pod_addr \<Rightarrow> bool" where
  "not_listed pre seed p \<longleftrightarrow>
     list_ex (\<lambda>call. case call of
        CSnapshot s (Inr st) \<Rightarrow> s = seed \<and> \<not> alreadyMember st p | _ \<Rightarrow> False) pre"

definition join_allowed :: "op_cluster \<Rightarrow> op_call list \<Rightarrow> string \<Rightarrow> string \<Rightarrow> string \<Rightarrow> bool" where
  "join_allowed c0 pre addr seed tok \<longleftrightarrow>
     token_stored pre tok \<and>
     list_ex (\<lambda>call. case call of
        CMemberPods c (Inr pods) \<Rightarrow>
          list_ex (\<lambda>p. pa_Ready p \<and> addr = joinAddr p \<and>
            pa_NodeName p |\<notin>| dropSet (sp_Leave (cl_Spec c0)) \<and> not_listed pre seed p) pods
      | _ \<Rightarrow> False) pre"

definition call_rule :: "op_cluster \<Rightarrow> op_call list \<Rightarrow> op_call \<Rightarrow> bool" where
  "call_rule c0 pre call \<longleftrightarrow>
     (case call of
        CLeave seed i r \<Rightarrow> leave_allowed c0 pre seed i
      | CJoin addr seed tok obs r \<Rightarrow> join_allowed c0 pre addr seed tok
      | CEnsurePrepare s c r \<Rightarrow> seed_claimed c0 pre c
      | CEnsureJob s c r \<Rightarrow> seed_claimed c0 pre c
      | CEnsureSeed s c r \<Rightarrow> seed_claimed c0 pre c \<and> init_complete pre
      | CEnsureDaemonSet s c r \<Rightarrow> seed_claimed c0 pre c \<and> init_complete pre
      | CEnsureBootstrapJob s c r \<Rightarrow>
          list_ex (\<lambda>x. case x of CToken c' r' \<Rightarrow> r' = Inr None | _ \<Rightarrow> False) pre
      | CEnsureStatefulSet s c r \<Rightarrow>
          list_ex (\<lambda>x. case x of CToken c' (Inr (Some t)) \<Rightarrow> True | _ \<Rightarrow> False) pre \<and>
          list_ex (\<lambda>x. case x of CJobExists c' r' \<Rightarrow> r' = Inr False | _ \<Rightarrow> False) pre
      | _ \<Rightarrow> True)"

fun obeys :: "(op_call list \<Rightarrow> op_call \<Rightarrow> bool) \<Rightarrow> op_call list \<Rightarrow> op_call list \<Rightarrow> bool" where
  "obeys rule pre [] = True"
| "obeys rule pre (call # calls) = (rule pre call \<and> obeys rule (pre @ [call]) calls)"

section \<open>Lemmas\<close>

definition safe ::
  "(op_call list \<Rightarrow> op_call \<Rightarrow> bool) \<Rightarrow> op_call list \<Rightarrow>
   ('w \<times> op_call list \<Rightarrow> (op_error + 'a) \<times> 'w \<times> op_call list) \<Rightarrow> bool" where
  "safe rule pre m \<longleftrightarrow> (\<forall>w. \<exists>new. snd (snd (m (w, pre))) = pre @ new \<and> obeys rule pre new)"

lemma obeys_append: "obeys rule pre (a @ b) \<longleftrightarrow> obeys rule pre a \<and> obeys rule (pre @ a) b"
  by (induction a arbitrary: pre) auto

lemma safe_return: "safe rule pre (kreturn x)"
  by (simp add: safe_def kreturn_def)

lemma safe_logged: "(\<And>r. rule pre (mk r)) \<Longrightarrow> safe rule pre (logged mk m)"
  by (simp add: safe_def logged_def split: prod.split)

lemma safe_try:
  assumes "\<And>r. rule pre (mk r)"
    and "\<And>err. safe rule (pre @ [mk (Inl err)]) (h err)" and "\<And>x. safe rule (pre @ [mk (Inr x)]) (f x)"
  shows "safe rule pre (ktry (logged mk m) h f)"
  unfolding safe_def
proof
  fix w
  obtain r w' where m: "m w = (r, w')" by fastforce
  have run: "ktry (logged mk m) h f (w, pre) =
      (case r of Inl err \<Rightarrow> h err (w', pre @ [mk r]) | Inr x \<Rightarrow> f x (w', pre @ [mk r]))"
    by (simp add: ktry_def logged_def m split: sum.split)
  have "\<exists>new. snd (snd (ktry (logged mk m) h f (w, pre))) = (pre @ [mk r]) @ new \<and>
      obeys rule (pre @ [mk r]) new"
    unfolding run using assms(2,3) by (cases r) (simp_all add: safe_def)
  then obtain new where "snd (snd (ktry (logged mk m) h f (w, pre))) = pre @ (mk r # new) \<and>
      obeys rule pre (mk r # new)"
    using assms(1) by auto
  then show "\<exists>new. snd (snd (ktry (logged mk m) h f (w, pre))) = pre @ new \<and> obeys rule pre new"
    by blast
qed

lemma kbind_ktry: "kbind m f = ktry m (\<lambda>err w. (Inl err, w)) f"
  by (rule ext) (simp add: kbind_def ktry_def)

lemma safe_error: "safe rule pre (\<lambda>w. (Inl err, w))"
  by (simp add: safe_def)

lemma safe_bind:
  assumes "\<And>r. rule pre (mk r)" and "\<And>x. safe rule (pre @ [mk (Inr x)]) (f x)"
  shows "safe rule pre (kbind (logged mk m) f)"
  unfolding kbind_ktry by (rule safe_try) (use assms safe_error in auto)

lemma list_ex_mono: "list_ex P pre \<Longrightarrow> set pre \<subseteq> set q \<Longrightarrow> list_ex P q"
  by (auto simp: list_ex_iff)

lemma safe_report: "safe (call_rule c0) pre (report (traced pf) c phase msg)"
  by (simp add: report_def patchStatus_def Let_def safe_logged call_rule_def)

lemma safe_leave:
  assumes "\<And>q. set pre \<subseteq> set q \<Longrightarrow> safe (call_rule c0) q k"
    and "set ks \<subseteq> fset (dropSet (sp_Leave (cl_Spec c0)))" and "CSnapshot seed (Inr st) \<in> set pre"
    and "set pre \<subseteq> set q"
  shows "safe (call_rule c0) q (leave_loop (traced pf) (traced_joiner jn) c seed st ks k)"
  using assms(2,4)
proof (induction ks arbitrary: q)
  case Nil
  then show ?case using assms(1) by simp
next
  case (Cons i ks)
  show ?case
  proof (cases "memberListed st i")
    case True
    have "call_rule c0 q (CLeave seed i r)" for r
      using Cons.prems assms(3) True
      by (auto simp: call_rule_def leave_allowed_def list_ex_iff intro!: bexI [of _ "CSnapshot seed (Inr st)"])
    moreover have "set pre \<subseteq> set (q @ [x])" for x using Cons.prems(2) by auto
    ultimately show ?thesis using True Cons.IH Cons.prems(1) by (auto intro!: safe_try safe_report)
  next
    case False
    then show ?thesis using Cons by simp
  qed
qed

lemma safe_publish: "safe (call_rule c0) q (publish_members (traced pf) (traced_joiner jn) c seed)"
  unfolding publish_members_def members_failed_def
  by (auto simp: call_rule_def patchStatus_def Let_def intro!: safe_try safe_report safe_logged)

lemma join_allowedI:
  assumes "token_stored pre tok" and "CMemberPods c (Inr pods) \<in> set pre" and "p \<in> set pods"
    and "CSnapshot seed (Inr st) \<in> set pre" and "pa_Ready p" and "\<not> alreadyMember st p"
    and "pa_NodeName p |\<notin>| dropSet (sp_Leave (cl_Spec c0))" and "set pre \<subseteq> set q"
  shows "call_rule c0 q (CJoin (joinAddr p) seed tok obs r)"
proof -
  have "not_listed q seed p"
    using assms(4,6,8)
    by (auto simp: not_listed_def list_ex_iff intro!: bexI [of _ "CSnapshot seed (Inr st)"])
  then have "list_ex (\<lambda>p'. pa_Ready p' \<and> joinAddr p = joinAddr p' \<and>
      pa_NodeName p' |\<notin>| dropSet (sp_Leave (cl_Spec c0)) \<and> not_listed q seed p') pods"
    using assms(3,5,7) by (auto simp: list_ex_iff)
  moreover have "token_stored q tok"
    using list_ex_mono [OF _ assms(8)] assms(1) by (auto simp: token_stored_def)
  ultimately show ?thesis
    unfolding call_rule_def join_allowed_def list_ex_iff [of _ q] using assms(2,8)
    by (auto intro!: bexI [of _ "CMemberPods c (Inr pods)"])
qed

lemma safe_daemon_joins:
  assumes "\<And>q. set pre \<subseteq> set q \<Longrightarrow> safe (call_rule c0) q k"
    and "token_stored pre tok" and "CMemberPods c (Inr pods) \<in> set pre"
    and "CSnapshot seed (Inr st) \<in> set pre" and "set ps \<subseteq> set pods" and "set pre \<subseteq> set q"
  shows "safe (call_rule c0) q (daemon_joins (traced pf) (traced_joiner jn) c seed tok st
    (dropSet (sp_Leave (cl_Spec c0))) i ps k)"
  using assms(5,6)
proof (induction ps arbitrary: q i)
  case Nil
  then show ?case using assms(1) by simp
next
  case (Cons p ps)
  have ext: "set pre \<subseteq> set (q @ [x])" for x using Cons.prems by auto
  note IH = Cons.IH [OF _ ext]
  show ?case
    using Cons.prems Cons.IH [of q] IH
    by (auto intro!: safe_try safe_report join_allowedI [OF assms(2,3) _ assms(4)])
qed

lemma safe_sidecar_joins:
  assumes "\<And>q. set pre \<subseteq> set q \<Longrightarrow> safe (call_rule c0) q k"
    and "token_stored pre tok" and "CMemberPods c (Inr pods) \<in> set pre"
    and "CSnapshot seed (Inr st) \<in> set pre" and "set ps \<subseteq> set pods" and "set pre \<subseteq> set q"
  shows "safe (call_rule c0) q (sidecar_joins (traced pf) (traced_joiner jn) c seed tok st
    (dropSet (sp_Leave (cl_Spec c0))) ps k)"
  using assms(5,6)
proof (induction ps arbitrary: q)
  case Nil
  then show ?case using assms(1) by simp
next
  case (Cons p ps)
  have ext: "set pre \<subseteq> set (q @ [x])" for x using Cons.prems by auto
  note IH = Cons.IH [OF _ ext]
  show ?case
    using Cons.prems Cons.IH [of q] IH
    by (auto intro!: safe_try safe_report join_allowedI [OF assms(2,3) _ assms(4)])
qed

lemma call_rule_other [simp]:
  "call_rule c0 pre (CSeedReadyAddr c r1)" "call_rule c0 pre (CMemberPods c r2)"
  "call_rule c0 pre (CSnapshot s r3)" "call_rule c0 pre (CToken c r4)" "call_rule c0 pre (CJobLogs c r5)"
  "call_rule c0 pre (CPutToken c t r6)" "call_rule c0 pre (CPrepareReady c r7)"
  "call_rule c0 pre (CJobComplete c r8)" "call_rule c0 pre (CClaimSeed c n r9)"
  "call_rule c0 pre (CReadyNodes r10)" "call_rule c0 pre (CClusterCount r11)"
  "call_rule c0 pre (CEnsurePVC sp c r12)" "call_rule c0 pre (CBootstrapReady c r13)"
  "call_rule c0 pre (CDeleteJob c r14)" "call_rule c0 pre (CJobExists c r15)"
  "call_rule c0 pre (CEnsureHeadless sp c r16)"
  by (simp_all add: call_rule_def)

lemma seed_claimed_mono: "seed_claimed c0 pre c \<Longrightarrow> set pre \<subseteq> set q \<Longrightarrow> seed_claimed c0 q c"
  unfolding seed_claimed_def Let_def using list_ex_mono by blast

lemma init_complete_mono: "init_complete pre \<Longrightarrow> set pre \<subseteq> set q \<Longrightarrow> init_complete q"
  unfolding init_complete_def using list_ex_mono by blast

lemma token_stored_mono: "token_stored pre tok \<Longrightarrow> set pre \<subseteq> set q \<Longrightarrow> token_stored q tok"
  unfolding token_stored_def using list_ex_mono by blast

lemma safe_members_rest:
  assumes "sp_Leave (cl_Spec c) = sp_Leave (cl_Spec c0)"
    and "set ks \<subseteq> fset (dropSet (sp_Leave (cl_Spec c0)))" and "token_stored pre tok"
    and "CMemberPods c (Inr pods) \<in> set pre" and "CSnapshot seed (Inr st) \<in> set pre"
  shows "safe (call_rule c0) pre (leave_loop (traced pf) (traced_joiner jn) c seed st ks
      (daemon_joins (traced pf) (traced_joiner jn) c seed tok st (dropSet (sp_Leave (cl_Spec c))) i
        (sort_key pa_Name pods) (publish_members (traced pf) (traced_joiner jn) c seed)))"
    and "safe (call_rule c0) pre (leave_loop (traced pf) (traced_joiner jn) c seed st ks
      (sidecar_joins (traced pf) (traced_joiner jn) c seed tok st (dropSet (sp_Leave (cl_Spec c)))
        pods (publish_members (traced pf) (traced_joiner jn) c seed)))"
  unfolding assms(1)
  by (rule safe_leave [OF _ assms(2,5) subset_refl],
      rule safe_daemon_joins [OF safe_publish assms(3-5)], simp, assumption)
    (rule safe_leave [OF _ assms(2,5) subset_refl],
      rule safe_sidecar_joins [OF safe_publish assms(3-5)], simp, assumption)

lemma safe_daemon_members:
  assumes "sp_Leave (cl_Spec c) = sp_Leave (cl_Spec c0)"
    and "set ks \<subseteq> fset (dropSet (sp_Leave (cl_Spec c0)))"
    and "seed_claimed c0 pre c" and "init_complete pre" and "token_stored pre tok"
  shows "safe (call_rule c0) pre (daemon_members (traced pf) (traced_joiner jn) ks c tok)"
  unfolding daemon_members_def members_failed_def traced_sel traced_joiner_sel
  by (intro safe_bind safe_try safe_report safe_members_rest assms(1,2)
      token_stored_mono [OF assms(5)] call_rule_other)
    (auto simp: call_rule_def intro: seed_claimed_mono [OF assms(3)] init_complete_mono [OF assms(4)])

lemma kbind_assoc: "kbind (kbind m f) g = kbind m (\<lambda>x. kbind (f x) g)"
  by (rule ext) (simp add: kbind_def split: prod.split sum.split)

lemma kbind_return: "kbind (kreturn x) g = g x"
  by (rule ext) (simp add: kbind_def kreturn_def)

lemma token_storedI:
  "CToken c (Inr (Some tok)) \<in> set pre \<Longrightarrow> token_stored pre tok"
  "CPutToken c tok (Inr ()) \<in> set pre \<Longrightarrow> token_stored pre tok"
  by (force simp: token_stored_def list_ex_iff)+

lemma seed_claimedI:
  assumes "\<not> bad_voters (cl_Spec c0)" and "sp_SeedNodeName (cl_Spec c) \<noteq> []"
    and "sp_SeedNodeName (cl_Spec c) = cl_StatusSeed c0 \<or>
      (\<exists>c'. CClaimSeed c' (sp_SeedNodeName (cl_Spec c)) (Inr ()) \<in> set pre)"
  shows "seed_claimed c0 pre c"
  using assms unfolding seed_claimed_def Let_def list_ex_iff by force

lemma init_completeI:
  assumes "CJobComplete c (Inr True) \<in> set pre"
    and "CToken c (Inr (Some tok)) \<in> set pre \<or> CPutToken c tok (Inr ()) \<in> set pre"
  shows "init_complete pre"
  using assms unfolding init_complete_def list_ex_iff
  by (intro conjI) (force intro: bexI [of _ "CJobComplete c (Inr True)"])+

lemma safe_daemon_init:
  assumes "sp_Leave (cl_Spec c) = sp_Leave (cl_Spec c0)"
    and "set ks \<subseteq> fset (dropSet (sp_Leave (cl_Spec c0)))" and "seed_claimed c0 pre c"
  shows "safe (call_rule c0) pre (daemon_init (traced pf) (traced_joiner jn) ks c)"
proof -
  have claimed: "call_rule c0 q (CEnsurePrepare sp c r)" "call_rule c0 q (CEnsureJob sp c r)"
    if "set pre \<subseteq> set q" for q sp r
    using seed_claimed_mono [OF assms(3) that] by (simp_all add: call_rule_def)
  have tok: "safe (call_rule c0) q
      (daemon_token (traced pf) c (daemon_members (traced pf) (traced_joiner jn) ks c))"
    if q: "set pre \<subseteq> set q" "CJobComplete c (Inr True) \<in> set q" for q
    unfolding daemon_token_def traced_sel
  proof (intro safe_bind call_rule_other)
    fix stored
    let ?q = "q @ [CToken c (Inr stored)]"
    have members: "safe (call_rule c0) q' (daemon_members (traced pf) (traced_joiner jn) ks c t)"
      if "set ?q \<subseteq> set q'" "CToken c (Inr (Some t)) \<in> set q' \<or> CPutToken c t (Inr ()) \<in> set q'" for q' t
      by (intro safe_daemon_members assms(1,2) seed_claimed_mono [OF assms(3)] init_completeI [OF _ that(2)])
        (use q that token_storedI in auto)
    show "safe (call_rule c0) ?q (case stored of
        Some token \<Rightarrow> daemon_members (traced pf) (traced_joiner jn) ks c token
      | None \<Rightarrow> kbind (logged (CJobLogs c) (pf_JobLogs pf c)) (\<lambda>logs.
          case ParseJoinToken logs of
            None \<Rightarrow> report (traced pf) c ''Error''
              (Text ''init finished but join token missing (re-init or set secret)'')
          | Some token \<Rightarrow> kbind (logged (CPutToken c token) (pf_PutToken pf c token))
              (\<lambda>_. daemon_members (traced pf) (traced_joiner jn) ks c token)))"
      by (auto split: option.split intro!: safe_bind safe_report members)
  qed
  show ?thesis
    unfolding daemon_init_def traced_sel
    by (auto intro!: safe_bind safe_report tok claimed)
qed

lemma safe_reconcileDaemon:
  assumes "set ks \<subseteq> fset (dropSet (sp_Leave (cl_Spec c0)))"
  shows "safe (call_rule c0) pre (reconcileDaemon (traced pf) (traced_joiner jn) ks c0)"
  unfolding reconcileDaemon_def resolveSeed_def report_voters_def Let_def
  by (auto simp: kbind_assoc kbind_return set_seed_def split: if_splits
      intro!: safe_bind safe_report safe_daemon_init assms seed_claimedI) blast

lemma safe_reconcileSidecar:
  assumes "set ks \<subseteq> fset (dropSet (sp_Leave (cl_Spec c0)))" and "sp_Leave (cl_Spec c) = sp_Leave (cl_Spec c0)"
  shows "safe (call_rule c0) pre (reconcileSidecar (traced pf) (traced_joiner jn) ks c)"
proof -
  have boot: "call_rule c0 q (CEnsureBootstrapJob sp c r)" if "CToken c (Inr None) \<in> set q" for q sp r
    using that unfolding call_rule_def list_ex_iff by force
  have sts: "call_rule c0 q (CEnsureStatefulSet sp c r)"
    if "CToken c (Inr (Some t)) \<in> set q" "CJobExists c (Inr False) \<in> set q" for q sp r t
    using that unfolding call_rule_def list_ex_iff op_call.case
    by (intro conjI bexI [OF _ that(1)] bexI [OF _ that(2)]) simp_all
  have members: "safe (call_rule c0) q (sidecar_members (traced pf) (traced_joiner jn) ks c t)"
    if "CToken c (Inr (Some t)) \<in> set q" "CJobExists c (Inr False) \<in> set q" for q t
    unfolding sidecar_members_def members_failed_def traced_sel traced_joiner_sel
    by (intro safe_bind safe_try safe_report safe_members_rest assms call_rule_other
        token_storedI(1) sts [of t]) (use that in auto)
  show ?thesis
    unfolding reconcileSidecar_def sidecar_bootstrap_def report_voters_def traced_sel
    by (auto split: option.split intro!: safe_bind safe_report members boot)
qed

lemma call_rule_warning: "call_rule (c0\<lparr>cl_Warning := x\<rparr>) = call_rule c0"
  by (intro ext) (simp add: call_rule_def leave_allowed_def join_allowed_def seed_claimed_def
      split: op_call.split)

lemma safe_Reconcile:
  assumes "set ks \<subseteq> fset (dropSet (sp_Leave (cl_Spec c0)))"
  shows "safe (call_rule c0) pre (Reconcile (traced pf) (traced_joiner jn) ks c0)"
proof -
  have step: "safe (call_rule c0) q (if spec_topology (cl_Spec c) = topoSidecar
      then reconcileSidecar (traced pf) (traced_joiner jn) ks c
      else if spec_topology (cl_Spec c) = topoDaemon then reconcileDaemon (traced pf) (traced_joiner jn) ks c
      else report (traced pf) c ''Error'' (UnknownTopology (sp_Topology (cl_Spec c))))"
    if c: "c = c0\<lparr>cl_Warning := x\<rparr> \<or> c = c0" for q c x
  proof -
    have "call_rule c0 = call_rule c" "sp_Leave (cl_Spec c) = sp_Leave (cl_Spec c0)"
      using c by (auto simp: call_rule_warning)
    then show ?thesis
      using assms by (simp add: safe_reconcileSidecar safe_reconcileDaemon safe_report)
  qed
  show ?thesis
    unfolding Reconcile_def noteWarning_def traced_sel kbind_assoc kbind_return
    by (rule safe_bind, simp) (rule step [of _ warnTwoClusters], simp)
qed

text \<open>Logging does not change what a reconciliation does.\<close>

definition erases ::
  "('w \<times> op_call list \<Rightarrow> (op_error + 'a) \<times> 'w \<times> op_call list) \<Rightarrow> ('w \<Rightarrow> (op_error + 'a) \<times> 'w) \<Rightarrow> bool" where
  "erases m m' \<longleftrightarrow> (\<forall>w l. fst (m (w, l)) = fst (m' w) \<and> fst (snd (m (w, l))) = snd (m' w))"

lemma erases_logged: "erases (logged mk m) m"
  by (simp add: erases_def logged_def split: prod.split)

lemma erases_try:
  assumes "erases m m'" and "\<And>err. erases (h err) (h' err)" and "\<And>x. erases (f x) (f' x)"
  shows "erases (ktry m h f) (ktry m' h' f')"
  unfolding erases_def
proof (intro allI)
  fix w l
  obtain r w' l' where m: "m (w, l) = (r, w', l')" by (metis prod_cases3)
  then have "m' w = (r, w')" using assms(1) unfolding erases_def by (metis fst_conv prod.collapse snd_conv)
  with m assms(2,3) show "fst (ktry m h f (w, l)) = fst (ktry m' h' f' w) \<and>
      fst (snd (ktry m h f (w, l))) = snd (ktry m' h' f' w)"
    by (cases r) (simp_all add: ktry_def erases_def)
qed

lemma erases_bind:
  "erases m m' \<Longrightarrow> (\<And>x. erases (f x) (f' x)) \<Longrightarrow> erases (kbind m f) (kbind m' f')"
  unfolding kbind_ktry by (rule erases_try) (simp_all add: erases_def)

lemma erases_return: "erases (kreturn x) (kreturn x)"
  by (simp add: erases_def kreturn_def)

lemma erases_report: "erases (report (traced pf) c ph msg) (report pf c ph msg)"
  by (simp add: report_def patchStatus_def Let_def erases_logged)

lemmas erases_rules = erases_try erases_bind erases_logged erases_return erases_report

lemma erases_leave:
  "erases k k' \<Longrightarrow> erases (leave_loop (traced pf) (traced_joiner jn) c seed st ks k) (leave_loop pf jn c seed st ks k')"
  by (induction ks) (auto intro!: erases_rules)

lemma erases_daemon_joins:
  "erases k k' \<Longrightarrow> erases (daemon_joins (traced pf) (traced_joiner jn) c seed tok st gone i ps k)
     (daemon_joins pf jn c seed tok st gone i ps k')"
  by (induction ps arbitrary: i) (auto intro!: erases_rules)

lemma erases_sidecar_joins:
  "erases k k' \<Longrightarrow> erases (sidecar_joins (traced pf) (traced_joiner jn) c seed tok st gone ps k)
     (sidecar_joins pf jn c seed tok st gone ps k')"
  by (induction ps) (auto intro!: erases_rules)

lemma erases_Reconcile: "erases (Reconcile (traced pf) (traced_joiner jn) ks c) (Reconcile pf jn ks c)"
  unfolding Reconcile_def noteWarning_def reconcileSidecar_def reconcileDaemon_def resolveSeed_def
    report_voters_def sidecar_bootstrap_def sidecar_members_def daemon_init_def daemon_token_def
    daemon_members_def members_failed_def publish_members_def patchStatus_def Let_def
  by (auto split: option.split intro!: erases_rules erases_leave erases_daemon_joins erases_sidecar_joins)

text \<open>The number of joins as a voter that a computation makes.\<close>

definition voter_join :: "op_call \<Rightarrow> bool" where
  "voter_join call = (case call of CJoin a s t obs r \<Rightarrow> \<not> obs | _ \<Rightarrow> False)"

definition voter_joins :: "op_call list \<Rightarrow> nat" where
  "voter_joins calls = length (filter voter_join calls)"

definition adds ::
  "nat \<Rightarrow> ('w \<times> op_call list \<Rightarrow> (op_error + 'a) \<times> 'w \<times> op_call list) \<Rightarrow> bool" where
  "adds n m \<longleftrightarrow> (\<forall>w l. voter_joins (snd (snd (m (w, l)))) \<le> voter_joins l + n)"

lemma adds_try_voter:
  assumes "\<And>err. adds n (h err)" and "\<And>x. adds n (f x)" and "n + 1 \<le> k \<or> n \<le> k \<and> (\<forall>r. \<not> voter_join (mk r))"
  shows "adds k (ktry (logged mk m) h f)"
  unfolding adds_def
proof (intro allI)
  fix w l
  obtain r w' where m: "m w = (r, w')" by fastforce
  have "voter_joins (snd (snd (ktry (logged mk m) h f (w, l)))) \<le> voter_joins (l @ [mk r]) + n"
    using assms(1,2) m unfolding adds_def
    by (cases r) (simp_all add: ktry_def logged_def)
  also have "voter_joins (l @ [mk r]) + n \<le> voter_joins l + k"
    using assms(3) by (cases "voter_join (mk r)") (auto simp: voter_joins_def)
  finally show "voter_joins (snd (snd (ktry (logged mk m) h f (w, l)))) \<le> voter_joins l + k" .
qed

lemma adds_simps: "adds n (kreturn x)" "adds n (\<lambda>w. (Inl err, w))"
  by (simp_all add: adds_def kreturn_def)

lemma adds_logged: "(\<And>r. \<not> voter_join (mk r)) \<Longrightarrow> adds n (logged mk m)"
  by (simp add: adds_def logged_def voter_joins_def split: prod.split)

lemma adds_try:
  "(\<And>r. \<not> voter_join (mk r)) \<Longrightarrow> (\<And>err. adds n (h err)) \<Longrightarrow> (\<And>x. adds n (f x)) \<Longrightarrow>
   adds n (ktry (logged mk m) h f)"
  by (rule adds_try_voter [of n]) simp_all

lemma adds_bind:
  "(\<And>r. \<not> voter_join (mk r)) \<Longrightarrow> (\<And>x. adds n (f x)) \<Longrightarrow> adds n (kbind (logged mk m) f)"
  unfolding kbind_ktry by (rule adds_try) (simp_all add: adds_simps)

lemma adds_report: "adds n (report (traced pf) c ph msg)"
  by (simp add: report_def patchStatus_def Let_def adds_logged voter_join_def)

lemma adds_publish: "adds n (publish_members (traced pf) (traced_joiner jn) c seed)"
  unfolding publish_members_def members_failed_def patchStatus_def Let_def
  by (auto simp: voter_join_def intro!: adds_try adds_report adds_logged)

lemma adds_leave:
  "adds n k \<Longrightarrow> adds n (leave_loop (traced pf) (traced_joiner jn) c seed st ks k)"
  by (induction ks) (auto simp: voter_join_def intro!: adds_try adds_report)

lemma adds_mono: "adds n m \<Longrightarrow> n \<le> k \<Longrightarrow> adds k m"
  unfolding adds_def by (meson add_left_mono order_trans)

lemma adds_daemon_joins:
  assumes "adds 0 k" and "0 \<le> i" and "n = nat (sp_VoterCount (cl_Spec c) - 1 - i)"
  shows "adds n (daemon_joins (traced pf) (traced_joiner jn) c seed tok st gone i ps k)"
  using assms(2,3)
proof (induction ps arbitrary: i n)
  case Nil
  then show ?case using assms(1) by (auto intro: adds_mono)
next
  case (Cons p ps)
  let ?n = "nat (sp_VoterCount (cl_Spec c) - 1 - (i + 1))"
  have IH: "adds ?n (daemon_joins (traced pf) (traced_joiner jn) c seed tok st gone (i + 1) ps k)"
    using Cons.IH [of "i + 1" ?n] Cons.prems(1) by simp
  have "?n + 1 \<le> n \<or> ?n \<le> n \<and> MemberObserver i (sp_VoterCount (cl_Spec c))"
    using Cons.prems by (auto simp: MemberObserver_def)
  then have "?n + 1 \<le> n \<or> ?n \<le> n \<and>
      (\<forall>r. \<not> voter_join (CJoin a seed tok (MemberObserver i (sp_VoterCount (cl_Spec c))) r))" for a
    by (auto simp: voter_join_def)
  moreover have "?n \<le> n" using Cons.prems by simp
  ultimately show ?case
    using IH by (auto intro!: adds_try_voter [of ?n] adds_report intro: adds_mono)
qed

lemma adds_reconcileDaemon:
  "adds (nat (sp_VoterCount (cl_Spec c) - 1)) (reconcileDaemon (traced pf) (traced_joiner jn) ks c)"
  unfolding reconcileDaemon_def resolveSeed_def daemon_init_def daemon_token_def daemon_members_def
    members_failed_def report_voters_def Let_def traced_sel traced_joiner_sel
  by (auto simp: kbind_assoc kbind_return set_seed_def voter_join_def split: option.split if_splits
      intro!: adds_bind adds_try adds_report adds_leave adds_daemon_joins adds_publish)

text \<open>
  The role of a pod depends on its place in the order of names alone: a new pod that comes first in
  that order is joined as a voter, however many voters the cluster has.
\<close>

lemma first_pod_votes:
  assumes "2 \<le> sp_VoterCount (cl_Spec c)" and "pa_HostIP p \<noteq> []" and "pa_Ready p"
    and "pa_NodeName p |\<notin>| gone" and "\<not> alreadyMember st p"
  shows "daemon_joins pf jn c seed tok st gone 0 (p # ps) k =
    ktry (jo_Join jn (joinAddr p) seed tok False)
      (\<lambda>err. report pf c ''Pending'' (Text (''join '' @ pa_Name p @ '': '' @ err_text err)))
      (\<lambda>_. daemon_joins pf jn c seed tok st gone 1 ps k)"
  using assms by (simp add: MemberObserver_def)

section \<open>Properties\<close>


text \<open>
  C34. One reconciliation of a DaemonSet cluster joins fewer pods as voters than the spec asks for:
  together with the seed there are at most \<open>voterCount\<close> of them, however many pods there are.
\<close>

theorem daemon_voters:
  assumes "spec_topology (cl_Spec c) = topoDaemon"
  shows "voter_joins (snd (snd (Reconcile (traced pf) (traced_joiner jn) ks c (w, [])))) \<le>
    nat (sp_VoterCount (cl_Spec c) - 1)"
proof -
  let ?n = "nat (sp_VoterCount (cl_Spec c) - 1)"
  have step: "adds ?n (reconcileDaemon (traced pf) (traced_joiner jn) ks c')"
    if "c' = c\<lparr>cl_Warning := warnTwoClusters\<rparr> \<or> c' = c" for c'
    using that adds_reconcileDaemon [of c' pf jn ks] by auto
  have "adds ?n (Reconcile (traced pf) (traced_joiner jn) ks c)"
    unfolding Reconcile_def noteWarning_def traced_sel kbind_assoc kbind_return
    by (rule adds_bind) (use assms step in \<open>auto simp: voter_join_def topoDaemon_def topoSidecar_def\<close>)
  then show ?thesis unfolding adds_def by (metis add_0 filter.simps(1) list.size(3) voter_joins_def)
qed

section \<open>Witnesses\<close>

text \<open>A cluster whose seed is up, with two pods that have not joined.\<close>

definition demo_pod :: "string \<Rightarrow> pod_addr" where
  "demo_pod n = \<lparr>pa_Name = n, pa_HostIP = ''10.0.0.2'', pa_NodeName = n, pa_Addr = n @ '':7947'', pa_Ready = True\<rparr>"

definition demo_platform :: "unit platform" where
  "demo_platform =
     \<lparr>pf_ReadyNodes = (\<lambda>w. (Inr [''n2'', ''n1''], w)), pf_ClaimSeed = (\<lambda>c n w. (Inr (), w)),
      pf_EnsurePrepare = (\<lambda>s c w. (Inr (), w)), pf_PrepareReady = (\<lambda>c w. (Inr True, w)),
      pf_EnsureJob = (\<lambda>s c w. (Inr (), w)), pf_JobComplete = (\<lambda>c w. (Inr True, w)),
      pf_JobLogs = (\<lambda>c w. (Inr ''join token : k'', w)), pf_Token = (\<lambda>c w. (Inr None, w)),
      pf_PutToken = (\<lambda>c t w. (Inr (), w)), pf_EnsureSeed = (\<lambda>s c w. (Inr (), w)),
      pf_SeedReadyAddr = (\<lambda>c w. (Inr ''s:7947'', w)), pf_EnsureDaemonSet = (\<lambda>s c w. (Inr (), w)),
      pf_MemberPods = (\<lambda>c w. (Inr [demo_pod ''b'', demo_pod ''a''], w)),
      pf_PatchStatus = (\<lambda>c st w. (Inr (), w)), pf_EnsurePVC = (\<lambda>s c w. (Inr (), w)),
      pf_EnsureBootstrapJob = (\<lambda>s c w. (Inr (), w)), pf_BootstrapReady = (\<lambda>c w. (Inr True, w)),
      pf_JobExists = (\<lambda>c w. (Inr False, w)), pf_DeleteJob = (\<lambda>c w. (Inr (), w)),
      pf_EnsureHeadless = (\<lambda>s c w. (Inr (), w)), pf_EnsureStatefulSet = (\<lambda>s c w. (Inr (), w)),
      pf_ClusterCount = (\<lambda>w. (Inr 1, w))\<rparr>"

definition demo_joiner :: "unit joiner" where
  "demo_joiner = \<lparr>jo_Join = (\<lambda>a s t b w. (Inr (), w)), jo_Leave = (\<lambda>s i w. (Inr (), w)),
     jo_Snapshot = (\<lambda>s w. (Inr zero_status, w))\<rparr>"

definition demo_cluster :: op_cluster where
  "demo_cluster = \<lparr>cl_Namespace = ''ns'', cl_Name = ''c'', cl_UID = ''u'', cl_Generation = 1,
     cl_ResourceVersion = ''7'', cl_StatusSeed = [], cl_Warning = [],
     cl_Spec = \<lparr>sp_Topology = [], sp_VoterCount = 1, sp_Image = [], sp_DataDir = [],
                sp_SeedNodeName = [], sp_Leave = []\<rparr>\<rparr>"

definition demo_calls :: "op_call list" where
  "demo_calls = snd (snd (Reconcile (traced demo_platform) (traced_joiner demo_joiner) [] demo_cluster ((), [])))"


theorem daemon_voters_witness: "voter_joins demo_calls = 0"
proof -
  have "spec_topology (cl_Spec demo_cluster) = topoDaemon"
    by (simp add: demo_cluster_def spec_topology_def)
  from daemon_voters [OF this, of demo_platform demo_joiner "[]" "()"]
  show ?thesis unfolding demo_calls_def by (simp add: demo_cluster_def)
qed

end
