(* ===== verification/Operator_Objects.thy ===== *)
theory Operator_Objects
  imports Operator_Reconcile
begin

text \<open>
  The Kubernetes objects that the operator creates (internal/operator/resources.go, sidecar.go): the
  fields that the code sets, as records. Lemmas: every object is well-formed (its selector selects its
  own pods and no other component's, every mount has its volume, probes and ports agree), and only
  the seed is started with \<^verbatim>\<open>--bootstrap\<close>.
\<close>

section \<open>Object fields\<close>

text \<open>A map of labels is an association list with distinct keys.\<close>

type_synonym label_map = "(string \<times> string) list"

datatype env_value = EnvValue string | EnvField string

record env_var =
  ev_Name :: string
  ev_Value :: env_value

record volume_mount =
  vm_Name :: string
  vm_MountPath :: string
  vm_ReadOnly :: bool

datatype volume_source = HostPathOrCreate string | ClaimSource string

record volume =
  vo_Name :: string
  vo_Source :: volume_source

record tcp_probe =
  tp_Port :: int
  tp_InitialDelaySeconds :: int
  tp_PeriodSeconds :: int
  tp_TimeoutSeconds :: int

record container_port =
  cp_Name :: string
  cp_Port :: int

record resource_req =
  rq_Requests :: label_map
  rq_Limits :: label_map

record security_ctx =
  se_RunAsUser :: int
  se_RunAsGroup :: int
  se_FSGroup :: "int option"

record container =
  co_Name :: string
  co_Image :: string
  co_IfNotPresent :: bool
  co_Command :: "string list"
  co_Args :: "string list"
  co_Env :: "env_var list"
  co_VolumeMounts :: "volume_mount list"
  co_Ports :: "container_port list"
  co_LivenessProbe :: "tcp_probe option"
  co_ReadinessProbe :: "tcp_probe option"
  co_Resources :: "resource_req option"
  co_SecurityContext :: "security_ctx option"

record toleration =
  to_Key :: string
  to_Operator :: string
  to_Effect :: string

text \<open>A required anti-affinity term is the topology key and the labels of the pods to avoid.\<close>

record pod_spec =
  ps_RestartNever :: bool
  ps_HostNetwork :: bool
  ps_DNSPolicy :: string
  ps_Tolerations :: "toleration list"
  ps_SecurityContext :: "security_ctx option"
  ps_NodeName :: string
  ps_AntiAffinity :: "(string \<times> label_map) list"
  ps_InitContainers :: "container list"
  ps_Containers :: "container list"
  ps_Volumes :: "volume list"

record owner_ref =
  ow_APIVersion :: string
  ow_Kind :: string
  ow_Name :: string
  ow_UID :: string
  ow_Controller :: bool
  ow_BlockOwnerDeletion :: bool

record object_meta =
  om_Name :: string
  om_Namespace :: string
  om_Labels :: label_map
  om_OwnerReferences :: "owner_ref list"

record k8s_job =
  jb_Meta :: object_meta
  jb_BackoffLimit :: int
  jb_PodLabels :: label_map
  jb_Pod :: pod_spec

record k8s_deployment =
  de_Meta :: object_meta
  de_Replicas :: int
  de_Selector :: label_map
  de_Recreate :: bool
  de_PodLabels :: label_map
  de_Pod :: pod_spec

record k8s_daemonset =
  da_Meta :: object_meta
  da_Selector :: label_map
  da_PodLabels :: label_map
  da_Pod :: pod_spec

record claim_spec =
  ks_AccessModes :: "string list"
  ks_Storage :: string

record k8s_statefulset =
  sf_Meta :: object_meta
  sf_ServiceName :: string
  sf_Replicas :: int
  sf_OrderedReady :: bool
  sf_Selector :: label_map
  sf_PodLabels :: label_map
  sf_Pod :: pod_spec
  sf_ClaimTemplates :: "(string \<times> claim_spec) list"

record k8s_service =
  sv_Meta :: object_meta
  sv_ClusterIPNone :: bool
  sv_PublishNotReady :: bool
  sv_Selector :: label_map
  sv_Ports :: "container_port list"

record k8s_pvc =
  pv_Meta :: object_meta
  pv_Spec :: claim_spec

record k8s_secret =
  sx_Meta :: object_meta
  sx_Type :: string
  sx_StringData :: label_map

section \<open>Constants, names, labels\<close>

definition appName :: string where "appName = ''clusdr''"
definition partOf :: string where "partOf = ''clusdr''"
definition compInit :: string where "compInit = ''seed-init''"
definition compSeed :: string where "compSeed = ''seed''"
definition compMember :: string where "compMember = ''member''"
definition compPrepare :: string where "compPrepare = ''prepare''"
definition compSidecar :: string where "compSidecar = ''sidecar''"
definition compSidecarBoot :: string where "compSidecarBoot = ''sidecar-bootstrap''"
definition runAs :: int where "runAs = 65532"
definition raftPort :: int where "raftPort = 7946"
definition defaultImg :: string where "defaultImg = ''durguto/clusdr:0.2.1''"
definition defaultPrepare :: string where "defaultPrepare = ''busybox:1.37.0''"
definition defaultDir :: string where "defaultDir = ''/var/lib/clusdr''"
definition pauseImg :: string where "pauseImg = ''registry.k8s.io/pause:3.10''"
definition pvcQty :: string where "pvcQty = ''1Gi''"

definition spec_image :: "op_spec \<Rightarrow> string" where
  "spec_image s = (if sp_Image s \<noteq> '''' then sp_Image s else defaultImg)"

definition spec_dataDir :: "op_spec \<Rightarrow> string" where
  "spec_dataDir s = (if sp_DataDir s \<noteq> '''' then sp_DataDir s else defaultDir)"

definition i32 :: "int \<Rightarrow> int" where
  "i32 n = (if n < 0 then 0 else if n > 2147483647 then 2147483647 else n)"

definition initJobName :: "string \<Rightarrow> string" where "initJobName cr = cr @ ''-seed-init''"
definition seedName :: "string \<Rightarrow> string" where "seedName cr = cr @ ''-seed''"
definition prepareName :: "string \<Rightarrow> string" where "prepareName cr = cr @ ''-prepare''"
definition tokenSecretName :: "string \<Rightarrow> string" where "tokenSecretName cr = cr @ ''-join-token''"
definition daemonSetName :: "string \<Rightarrow> string" where "daemonSetName cr = cr"
definition stsName :: "string \<Rightarrow> string" where "stsName cr = cr"
definition headlessName :: "string \<Rightarrow> string" where "headlessName cr = cr"
definition sidecarBootJob :: "string \<Rightarrow> string" where "sidecarBootJob cr = cr @ ''-sidecar-bootstrap''"
definition sidecarPVC0 :: "string \<Rightarrow> string" where "sidecarPVC0 cr = ''data-'' @ cr @ ''-0''"

definition op_labels :: "string \<Rightarrow> string \<Rightarrow> label_map" where
  "op_labels cr component =
     [(''app.kubernetes.io/name'', appName), (''app.kubernetes.io/instance'', cr),
      (''app.kubernetes.io/component'', component), (''app.kubernetes.io/part-of'', partOf)]"

definition selector :: "string \<Rightarrow> string \<Rightarrow> string" where
  "selector cr component =
     ''app.kubernetes.io/instance='' @ cr @ '',app.kubernetes.io/component='' @ component"

definition owner :: "string \<Rightarrow> string \<Rightarrow> owner_ref list" where
  "owner name uid =
     [\<lparr>ow_APIVersion = ''clusdr.io/v1alpha1'', ow_Kind = ''ClusdrCluster'', ow_Name = name,
       ow_UID = uid, ow_Controller = True, ow_BlockOwnerDeletion = True\<rparr>]"

definition op_meta :: "string \<Rightarrow> string \<Rightarrow> string \<Rightarrow> string \<Rightarrow> label_map \<Rightarrow> object_meta" where
  "op_meta name ns crName uid lbls =
     \<lparr>om_Name = name, om_Namespace = ns, om_Labels = lbls, om_OwnerReferences = owner crName uid\<rparr>"

definition controlPlaneToleration :: "toleration list" where
  "controlPlaneToleration =
     [\<lparr>to_Key = ''node-role.kubernetes.io/control-plane'', to_Operator = ''Exists'',
       to_Effect = ''NoSchedule''\<rparr>]"

definition live_probe :: tcp_probe where
  "live_probe = \<lparr>tp_Port = grpcPort, tp_InitialDelaySeconds = 3, tp_PeriodSeconds = 10, tp_TimeoutSeconds = 5\<rparr>"

definition ready_probe :: tcp_probe where
  "ready_probe = \<lparr>tp_Port = grpcPort, tp_InitialDelaySeconds = 2, tp_PeriodSeconds = 5, tp_TimeoutSeconds = 5\<rparr>"

definition hostPathVol :: "string \<Rightarrow> volume" where
  "hostPathVol dir = \<lparr>vo_Name = ''data'', vo_Source = HostPathOrCreate dir\<rparr>"

definition ev_text :: "string \<Rightarrow> string \<Rightarrow> env_var" where
  "ev_text n v = \<lparr>ev_Name = n, ev_Value = EnvValue v\<rparr>"

definition ev_field :: "string \<Rightarrow> string \<Rightarrow> env_var" where
  "ev_field n path = \<lparr>ev_Name = n, ev_Value = EnvField path\<rparr>"

definition daemonEnv :: "string \<Rightarrow> bool \<Rightarrow> env_var list" where
  "daemonEnv dir withNodeID =
     [ev_field ''NODE_IP'' ''status.hostIP'',
      ev_text ''CLUSDR_DATA_DIR'' dir,
      ev_text ''CLUSDR_CONTROL_SOCKET'' (dir @ ''/clusdr.sock''),
      ev_text ''CLUSDR_GRPC_ADDR'' ''0.0.0.0:7947'',
      ev_text ''CLUSDR_NODE_ADDR'' ''$(NODE_IP):7947'',
      ev_text ''CLUSDR_RAFT_ADDR'' ''$(NODE_IP):7946'',
      ev_text ''CLUSDR_LOG_FORMAT'' ''json'',
      ev_text ''CLUSDR_LOG_LEVEL'' ''info''] @
     (if withNodeID then [ev_field ''CLUSDR_NODE_ID'' ''spec.nodeName''] else [])"

definition op_resources :: resource_req where
  "op_resources = \<lparr>rq_Requests = [(''cpu'', ''20m''), (''memory'', ''64Mi'')], rq_Limits = [(''memory'', ''256Mi'')]\<rparr>"

definition prepareResources :: resource_req where
  "prepareResources = \<lparr>rq_Requests = [(''cpu'', ''1m''), (''memory'', ''8Mi'')], rq_Limits = [(''memory'', ''16Mi'')]\<rparr>"

definition podSecurity :: security_ctx where
  "podSecurity = \<lparr>se_RunAsUser = runAs, se_RunAsGroup = runAs, se_FSGroup = None\<rparr>"

definition sidecarFSGroup :: security_ctx where
  "sidecarFSGroup = \<lparr>se_RunAsUser = runAs, se_RunAsGroup = runAs, se_FSGroup = Some runAs\<rparr>"

definition root_security :: security_ctx where
  "root_security = \<lparr>se_RunAsUser = 0, se_RunAsGroup = 0, se_FSGroup = None\<rparr>"

definition op_ports :: "container_port list" where
  "op_ports = [\<lparr>cp_Name = ''grpc'', cp_Port = grpcPort\<rparr>, \<lparr>cp_Name = ''raft'', cp_Port = raftPort\<rparr>]"

definition nodeName :: "op_spec \<Rightarrow> string" where
  "nodeName s = sp_SeedNodeName s"

definition data_mount :: "string \<Rightarrow> volume_mount" where
  "data_mount dir = \<lparr>vm_Name = ''data'', vm_MountPath = dir, vm_ReadOnly = False\<rparr>"

definition zero_container :: container where
  "zero_container = \<lparr>co_Name = '''', co_Image = '''', co_IfNotPresent = False, co_Command = [],
     co_Args = [], co_Env = [], co_VolumeMounts = [], co_Ports = [], co_LivenessProbe = None,
     co_ReadinessProbe = None, co_Resources = None, co_SecurityContext = None\<rparr>"

definition zero_pod :: pod_spec where
  "zero_pod = \<lparr>ps_RestartNever = False, ps_HostNetwork = False, ps_DNSPolicy = '''', ps_Tolerations = [],
     ps_SecurityContext = None, ps_NodeName = '''', ps_AntiAffinity = [], ps_InitContainers = [],
     ps_Containers = [], ps_Volumes = []\<rparr>"


definition dnsHostNet :: string where
  "dnsHostNet = ''ClusterFirstWithHostNet''"

definition prepareContainer :: "string \<Rightarrow> bool \<Rightarrow> container" where
  "prepareContainer dir stay =
     (let cmd = ''mkdir -p \"$CLUSDR_DATA_DIR\" && chown 65532:65532 \"$CLUSDR_DATA_DIR\"'' @
                (if stay then '' && exec sleep infinity'' else '''')
      in zero_container\<lparr>co_Name := ''prepare'', co_Image := defaultPrepare, co_IfNotPresent := True,
           co_Command := [''sh'', ''-c'', cmd], co_Env := [ev_text ''CLUSDR_DATA_DIR'' dir],
           co_VolumeMounts := [data_mount dir], co_SecurityContext := Some root_security,
           co_Resources := Some prepareResources\<rparr>)"

text \<open>The container that runs \<^verbatim>\<open>clusdr init\<close>, of the init Job and of the sidecar bootstrap Job.\<close>

definition init_container :: "string \<Rightarrow> op_spec \<Rightarrow> container" where
  "init_container dir s =
     zero_container\<lparr>co_Name := ''init'', co_Image := spec_image s, co_IfNotPresent := True,
       co_Command := [''/clusdr'', ''init''], co_Args := [''--config'', dir @ ''/clusdr.yaml''],
       co_Env := [ev_text ''CLUSDR_DATA_DIR'' dir, ev_text ''CLUSDR_LOG_FORMAT'' ''json''],
       co_VolumeMounts := [data_mount dir]\<rparr>"

text \<open>The container that runs the daemon, without resources.\<close>

definition daemon_container :: "string \<Rightarrow> op_spec \<Rightarrow> string list \<Rightarrow> env_var list \<Rightarrow> container" where
  "daemon_container dir s args env =
     zero_container\<lparr>co_Name := ''clusdr'', co_Image := spec_image s, co_IfNotPresent := True,
       co_Args := args, co_Env := env, co_VolumeMounts := [data_mount dir], co_Ports := op_ports,
       co_LivenessProbe := Some live_probe, co_ReadinessProbe := Some ready_probe\<rparr>"

section \<open>DaemonSet topology\<close>

definition host_pod :: pod_spec where
  "host_pod = zero_pod\<lparr>ps_HostNetwork := True, ps_DNSPolicy := dnsHostNet,
     ps_Tolerations := controlPlaneToleration, ps_SecurityContext := Some podSecurity\<rparr>"

definition SeedInitJob :: "string \<Rightarrow> string \<Rightarrow> string \<Rightarrow> op_spec \<Rightarrow> k8s_job" where
  "SeedInitJob ns crName uid s =
     (let dir = spec_dataDir s in
      \<lparr>jb_Meta = op_meta (initJobName crName) ns crName uid (op_labels crName compInit),
       jb_BackoffLimit = 1, jb_PodLabels = op_labels crName compInit,
       jb_Pod = host_pod\<lparr>ps_RestartNever := True, ps_NodeName := nodeName s,
         ps_InitContainers := [prepareContainer dir False], ps_Containers := [init_container dir s],
         ps_Volumes := [hostPathVol dir]\<rparr>\<rparr>)"

definition SeedDeploy :: "string \<Rightarrow> string \<Rightarrow> string \<Rightarrow> op_spec \<Rightarrow> k8s_deployment" where
  "SeedDeploy ns crName uid s =
     (let dir = spec_dataDir s in
      \<lparr>de_Meta = op_meta (seedName crName) ns crName uid (op_labels crName compSeed),
       de_Replicas = 1, de_Selector = op_labels crName compSeed, de_Recreate = True,
       de_PodLabels = op_labels crName compSeed,
       de_Pod = host_pod\<lparr>ps_NodeName := nodeName s, ps_InitContainers := [prepareContainer dir False],
         ps_Containers := [(daemon_container dir s
           [''start'', ''--bootstrap'', ''--config'', dir @ ''/clusdr.yaml''] (daemonEnv dir False))
             \<lparr>co_Resources := Some op_resources\<rparr>],
         ps_Volumes := [hostPathVol dir]\<rparr>\<rparr>)"

definition MemberDaemonSet :: "string \<Rightarrow> string \<Rightarrow> string \<Rightarrow> op_spec \<Rightarrow> k8s_daemonset" where
  "MemberDaemonSet ns crName uid s =
     (let dir = spec_dataDir s; sel = op_labels crName compMember in
      \<lparr>da_Meta = op_meta (daemonSetName crName) ns crName uid sel, da_Selector = sel,
       da_PodLabels = sel,
       da_Pod = host_pod\<lparr>
         ps_AntiAffinity := [(''kubernetes.io/hostname'', op_labels crName compSeed)],
         ps_InitContainers := [prepareContainer dir False],
         ps_Containers := [(daemon_container dir s [''start''] (daemonEnv dir True))
           \<lparr>co_Resources := Some op_resources\<rparr>],
         ps_Volumes := [hostPathVol dir]\<rparr>\<rparr>)"

definition PrepareDaemonSet :: "string \<Rightarrow> string \<Rightarrow> string \<Rightarrow> op_spec \<Rightarrow> k8s_daemonset" where
  "PrepareDaemonSet ns crName uid s =
     (let dir = spec_dataDir s; sel = op_labels crName compPrepare in
      \<lparr>da_Meta = op_meta (prepareName crName) ns crName uid sel, da_Selector = sel,
       da_PodLabels = sel,
       da_Pod = zero_pod\<lparr>ps_Tolerations := controlPlaneToleration,
         ps_SecurityContext := Some root_security, ps_Containers := [prepareContainer dir True],
         ps_Volumes := [hostPathVol dir]\<rparr>\<rparr>)"

definition TokenSecret :: "string \<Rightarrow> string \<Rightarrow> string \<Rightarrow> string \<Rightarrow> k8s_secret" where
  "TokenSecret ns crName uid token =
     \<lparr>sx_Meta = op_meta (tokenSecretName crName) ns crName uid (op_labels crName compSeed),
      sx_Type = ''Opaque'', sx_StringData = [(''token'', token)]\<rparr>"

section \<open>Sidecar topology\<close>

definition dns_suffix :: "string \<Rightarrow> string \<Rightarrow> string" where
  "dns_suffix ns svc = ''.'' @ svc @ ''.'' @ ns @ ''.svc.cluster.local''"

definition sidecarDNSEnv :: "string \<Rightarrow> string \<Rightarrow> string \<Rightarrow> env_var list" where
  "sidecarDNSEnv ns svc dir =
     [ev_field ''POD_NAME'' ''metadata.name'',
      ev_text ''CLUSDR_NODE_ID'' ''$(POD_NAME)'',
      ev_text ''CLUSDR_DATA_DIR'' dir,
      ev_text ''CLUSDR_CONTROL_SOCKET'' (dir @ ''/clusdr.sock''),
      ev_text ''CLUSDR_GRPC_ADDR'' ''0.0.0.0:7947'',
      ev_text ''CLUSDR_NODE_ADDR'' (''$(POD_NAME)'' @ dns_suffix ns svc @ '':7947''),
      ev_text ''CLUSDR_RAFT_ADDR'' (''$(POD_NAME)'' @ dns_suffix ns svc @ '':7946''),
      ev_text ''CLUSDR_LOG_FORMAT'' ''json'',
      ev_text ''CLUSDR_LOG_LEVEL'' ''info'']"

definition pvcSpec :: claim_spec where
  "pvcSpec = \<lparr>ks_AccessModes = [''ReadWriteOnce''], ks_Storage = pvcQty\<rparr>"

definition SidecarPVC0 :: "string \<Rightarrow> string \<Rightarrow> string \<Rightarrow> k8s_pvc" where
  "SidecarPVC0 ns crName uid =
     \<lparr>pv_Meta = op_meta (sidecarPVC0 crName) ns crName uid (op_labels crName compSidecar),
      pv_Spec = pvcSpec\<rparr>"

definition SidecarBootstrapJob :: "string \<Rightarrow> string \<Rightarrow> string \<Rightarrow> op_spec \<Rightarrow> k8s_job" where
  "SidecarBootstrapJob ns crName uid s =
     (let dir = spec_dataDir s; svc = headlessName crName; seedID = stsName crName @ ''-0'' in
      \<lparr>jb_Meta = op_meta (sidecarBootJob crName) ns crName uid (op_labels crName compSidecarBoot),
       jb_BackoffLimit = 0, jb_PodLabels = op_labels crName compSidecarBoot,
       jb_Pod = zero_pod\<lparr>ps_RestartNever := True, ps_SecurityContext := Some sidecarFSGroup,
         ps_InitContainers := [init_container dir s],
         ps_Containers := [daemon_container dir s
           [''start'', ''--bootstrap'', ''--config'', dir @ ''/clusdr.yaml'']
           [ev_text ''CLUSDR_NODE_ID'' seedID,
            ev_text ''CLUSDR_DATA_DIR'' dir,
            ev_text ''CLUSDR_CONTROL_SOCKET'' (dir @ ''/clusdr.sock''),
            ev_text ''CLUSDR_GRPC_ADDR'' ''0.0.0.0:7947'',
            ev_text ''CLUSDR_NODE_ADDR'' (seedID @ dns_suffix ns svc @ '':7947''),
            ev_text ''CLUSDR_RAFT_ADDR'' (seedID @ dns_suffix ns svc @ '':7946''),
            ev_text ''CLUSDR_LOG_FORMAT'' ''json'']],
         ps_Volumes := [\<lparr>vo_Name = ''data'', vo_Source = ClaimSource (sidecarPVC0 crName)\<rparr>]\<rparr>\<rparr>)"

definition HeadlessService :: "string \<Rightarrow> string \<Rightarrow> string \<Rightarrow> k8s_service" where
  "HeadlessService ns crName uid =
     (let sel = op_labels crName compSidecar in
      \<lparr>sv_Meta = op_meta (headlessName crName) ns crName uid sel, sv_ClusterIPNone = True,
       sv_PublishNotReady = True, sv_Selector = sel, sv_Ports = op_ports\<rparr>)"

definition MemberStatefulSet :: "string \<Rightarrow> string \<Rightarrow> string \<Rightarrow> op_spec \<Rightarrow> k8s_statefulset" where
  "MemberStatefulSet ns crName uid s =
     (let dir = spec_dataDir s; svc = headlessName crName; sel = op_labels crName compSidecar in
      \<lparr>sf_Meta = op_meta (stsName crName) ns crName uid sel, sf_ServiceName = svc,
       sf_Replicas = i32 (sp_VoterCount s), sf_OrderedReady = True, sf_Selector = sel,
       sf_PodLabels = sel,
       sf_Pod = zero_pod\<lparr>ps_SecurityContext := Some sidecarFSGroup,
         ps_Containers :=
           [zero_container\<lparr>co_Name := ''app'', co_Image := pauseImg,
              co_Env := [ev_text ''CLUSDR_GRPC_ADDR'' ''127.0.0.1:7947'', ev_text ''CLUSDR_DATA_DIR'' dir],
              co_VolumeMounts := [(data_mount dir)\<lparr>vm_ReadOnly := True\<rparr>]\<rparr>,
            (daemon_container dir s [''start'', ''--config'', dir @ ''/clusdr.yaml'']
               (sidecarDNSEnv ns svc dir))\<lparr>co_Resources := Some op_resources\<rparr>]\<rparr>,
       sf_ClaimTemplates = [(''data'', pvcSpec)]\<rparr>)"

section \<open>Well-formedness\<close>

text \<open>A selector selects the pods whose labels contain all of its pairs.\<close>

definition selects :: "label_map \<Rightarrow> label_map \<Rightarrow> bool" where
  "selects sel lbls \<longleftrightarrow> list_all (\<lambda>(k, v). map_of lbls k = Some v) sel"

definition probe_ok :: "container \<Rightarrow> tcp_probe option \<Rightarrow> bool" where
  "probe_ok co pr \<longleftrightarrow> (case pr of None \<Rightarrow> True | Some p \<Rightarrow> tp_Port p \<in> set (map cp_Port (co_Ports co)))"

text \<open>
  A pod is well-formed when its containers have distinct names, every mount names a volume of the
  pod (or a claim of its StatefulSet), a variable is set at most once, and probes go to declared
  ports.
\<close>

definition container_ok :: "string list \<Rightarrow> container \<Rightarrow> bool" where
  "container_ok vols co \<longleftrightarrow>
     set (map vm_Name (co_VolumeMounts co)) \<subseteq> set vols \<and> distinct (map ev_Name (co_Env co)) \<and>
     probe_ok co (co_LivenessProbe co) \<and> probe_ok co (co_ReadinessProbe co)"

definition pod_ok :: "string list \<Rightarrow> pod_spec \<Rightarrow> bool" where
  "pod_ok claims p \<longleftrightarrow>
     (let cs = ps_InitContainers p @ ps_Containers p in
      distinct (map co_Name cs) \<and> list_all (container_ok (claims @ map vo_Name (ps_Volumes p))) cs)"

definition bootstraps :: "pod_spec \<Rightarrow> bool" where
  "bootstraps p \<longleftrightarrow> list_ex (\<lambda>co. ''--bootstrap'' \<in> set (co_Args co)) (ps_InitContainers p @ ps_Containers p)"

lemmas pod_defs = pod_ok_def container_ok_def probe_ok_def bootstraps_def Let_def
  zero_pod_def zero_container_def host_pod_def prepareContainer_def init_container_def
  daemon_container_def data_mount_def hostPathVol_def op_ports_def live_probe_def ready_probe_def
  ev_text_def ev_field_def

lemmas object_defs = SeedInitJob_def SeedDeploy_def MemberDaemonSet_def PrepareDaemonSet_def
  SidecarBootstrapJob_def MemberStatefulSet_def

lemma selects_labels: "selects (op_labels cr a) (op_labels cr' b) \<longleftrightarrow> cr = cr' \<and> a = b"
  by (auto simp: selects_def op_labels_def)

text \<open>The components have different labels.\<close>

lemma comps_distinct:
  "distinct [compInit, compSeed, compMember, compPrepare, compSidecar, compSidecarBoot]"
  by (simp add: compInit_def compSeed_def compMember_def compPrepare_def compSidecar_def
      compSidecarBoot_def)

text \<open>
  The names of the objects of a cluster are not reserved for it: the preparation of the cluster
  \<open>cr\<close> has the name of the member DaemonSet of a cluster called \<open>cr-prepare\<close>.
\<close>

lemma names_collide: "prepareName cr = daemonSetName (cr @ ''-prepare'')"
  by (simp add: prepareName_def daemonSetName_def)

section \<open>Properties\<close>

text \<open>The labels of the pods that the operator starts for a cluster.\<close>

definition operator_pod_labels :: "string \<Rightarrow> string \<Rightarrow> string \<Rightarrow> op_spec \<Rightarrow> label_map list" where
  "operator_pod_labels ns cr uid s =
     [jb_PodLabels (SeedInitJob ns cr uid s), de_PodLabels (SeedDeploy ns cr uid s),
      da_PodLabels (MemberDaemonSet ns cr uid s), da_PodLabels (PrepareDaemonSet ns cr uid s),
      jb_PodLabels (SidecarBootstrapJob ns cr uid s), sf_PodLabels (MemberStatefulSet ns cr uid s)]"

lemma operator_pod_labels_eq:
  "operator_pod_labels ns cr uid s =
     map (op_labels cr) [compInit, compSeed, compMember, compPrepare, compSidecarBoot, compSidecar]"
  by (simp add: operator_pod_labels_def SeedInitJob_def SeedDeploy_def MemberDaemonSet_def
      PrepareDaemonSet_def SidecarBootstrapJob_def MemberStatefulSet_def Let_def)

lemma operator_selectors:
  "de_Selector (SeedDeploy ns cr uid s) = op_labels cr compSeed"
  "da_Selector (MemberDaemonSet ns cr uid s) = op_labels cr compMember"
  "da_Selector (PrepareDaemonSet ns cr uid s) = op_labels cr compPrepare"
  "sf_Selector (MemberStatefulSet ns cr uid s) = op_labels cr compSidecar"
  "sv_Selector (HeadlessService ns cr uid) = op_labels cr compSidecar"
  by (simp_all add: SeedDeploy_def MemberDaemonSet_def PrepareDaemonSet_def MemberStatefulSet_def
      HeadlessService_def Let_def)

lemma selector_matches:
    "map (selects (de_Selector (SeedDeploy ns cr uid s))) (operator_pod_labels ns' cr' uid' s') =
      [False, cr = cr', False, False, False, False]"
    "map (selects (da_Selector (MemberDaemonSet ns cr uid s))) (operator_pod_labels ns' cr' uid' s') =
      [False, False, cr = cr', False, False, False]"
    "map (selects (da_Selector (PrepareDaemonSet ns cr uid s))) (operator_pod_labels ns' cr' uid' s') =
      [False, False, False, cr = cr', False, False]"
    "map (selects (sf_Selector (MemberStatefulSet ns cr uid s))) (operator_pod_labels ns' cr' uid' s') =
      [False, False, False, False, False, cr = cr']"
    "map (selects (sv_Selector (HeadlessService ns cr uid))) (operator_pod_labels ns' cr' uid' s') =
      [False, False, False, False, False, cr = cr']"
  using comps_distinct by (auto simp: operator_selectors operator_pod_labels_eq selects_labels)

text \<open>
  C35. The objects of the operator are well-formed: every pod template has distinct container names,
  mounts only declared volumes, sets no variable twice and probes declared ports; every selector
  selects the pods of its own template (that of the headless Service those of the StatefulSet), and
  of all the pods that the operator starts, for this cluster or for another one, no others; and only
  the seed Deployment (one replica, on the seed node) and the sidecar bootstrap Job (not retried)
  start a daemon with \<^verbatim>\<open>--bootstrap\<close>.
\<close>

theorem operator_objects:
  "pod_ok [] (jb_Pod (SeedInitJob ns cr uid s)) \<and> pod_ok [] (de_Pod (SeedDeploy ns cr uid s)) \<and>
   pod_ok [] (da_Pod (MemberDaemonSet ns cr uid s)) \<and> pod_ok [] (da_Pod (PrepareDaemonSet ns cr uid s)) \<and>
   pod_ok [] (jb_Pod (SidecarBootstrapJob ns cr uid s)) \<and>
   pod_ok (map fst (sf_ClaimTemplates (MemberStatefulSet ns cr uid s))) (sf_Pod (MemberStatefulSet ns cr uid s)) \<and>
   selects (de_Selector (SeedDeploy ns cr uid s)) (de_PodLabels (SeedDeploy ns cr uid s)) \<and>
   selects (da_Selector (MemberDaemonSet ns cr uid s)) (da_PodLabels (MemberDaemonSet ns cr uid s)) \<and>
   selects (da_Selector (PrepareDaemonSet ns cr uid s)) (da_PodLabels (PrepareDaemonSet ns cr uid s)) \<and>
   selects (sf_Selector (MemberStatefulSet ns cr uid s)) (sf_PodLabels (MemberStatefulSet ns cr uid s)) \<and>
   selects (sv_Selector (HeadlessService ns cr uid)) (sf_PodLabels (MemberStatefulSet ns cr uid s)) \<and>
   map (selects (de_Selector (SeedDeploy ns cr uid s))) (operator_pod_labels ns' cr' uid' s') =
     [False, cr = cr', False, False, False, False] \<and>
   map (selects (da_Selector (MemberDaemonSet ns cr uid s))) (operator_pod_labels ns' cr' uid' s') =
     [False, False, cr = cr', False, False, False] \<and>
   map (selects (da_Selector (PrepareDaemonSet ns cr uid s))) (operator_pod_labels ns' cr' uid' s') =
     [False, False, False, cr = cr', False, False] \<and>
   map (selects (sf_Selector (MemberStatefulSet ns cr uid s))) (operator_pod_labels ns' cr' uid' s') =
     [False, False, False, False, False, cr = cr'] \<and>
   map (selects (sv_Selector (HeadlessService ns cr uid))) (operator_pod_labels ns' cr' uid' s') =
     [False, False, False, False, False, cr = cr'] \<and>
   bootstraps (de_Pod (SeedDeploy ns cr uid s)) \<and> de_Replicas (SeedDeploy ns cr uid s) = 1 \<and>
   ps_NodeName (de_Pod (SeedDeploy ns cr uid s)) = sp_SeedNodeName s \<and>
   bootstraps (jb_Pod (SidecarBootstrapJob ns cr uid s)) \<and> jb_BackoffLimit (SidecarBootstrapJob ns cr uid s) = 0 \<and>
   \<not> bootstraps (jb_Pod (SeedInitJob ns cr uid s)) \<and> \<not> bootstraps (da_Pod (MemberDaemonSet ns cr uid s)) \<and>
   \<not> bootstraps (da_Pod (PrepareDaemonSet ns cr uid s)) \<and> \<not> bootstraps (sf_Pod (MemberStatefulSet ns cr uid s))"
proof -
  have pods: "pod_ok [] (jb_Pod (SeedInitJob ns cr uid s))" "pod_ok [] (de_Pod (SeedDeploy ns cr uid s))"
    "pod_ok [] (da_Pod (MemberDaemonSet ns cr uid s))" "pod_ok [] (da_Pod (PrepareDaemonSet ns cr uid s))"
    "pod_ok [] (jb_Pod (SidecarBootstrapJob ns cr uid s))"
    "pod_ok [''data''] (sf_Pod (MemberStatefulSet ns cr uid s))"
    by (simp_all add: object_defs pod_defs daemonEnv_def sidecarDNSEnv_def)
  have boot: "bootstraps (de_Pod (SeedDeploy ns cr uid s))" "bootstraps (jb_Pod (SidecarBootstrapJob ns cr uid s))"
    "\<not> bootstraps (jb_Pod (SeedInitJob ns cr uid s))" "\<not> bootstraps (da_Pod (MemberDaemonSet ns cr uid s))"
    "\<not> bootstraps (da_Pod (PrepareDaemonSet ns cr uid s))" "\<not> bootstraps (sf_Pod (MemberStatefulSet ns cr uid s))"
    by (simp_all add: object_defs pod_defs spec_dataDir_def)
  have own: "selects (de_Selector (SeedDeploy ns cr uid s)) (de_PodLabels (SeedDeploy ns cr uid s))"
    "selects (da_Selector (MemberDaemonSet ns cr uid s)) (da_PodLabels (MemberDaemonSet ns cr uid s))"
    "selects (da_Selector (PrepareDaemonSet ns cr uid s)) (da_PodLabels (PrepareDaemonSet ns cr uid s))"
    "selects (sf_Selector (MemberStatefulSet ns cr uid s)) (sf_PodLabels (MemberStatefulSet ns cr uid s))"
    "selects (sv_Selector (HeadlessService ns cr uid)) (sf_PodLabels (MemberStatefulSet ns cr uid s))"
    by (simp_all add: selects_labels Let_def MemberStatefulSet_def SeedDeploy_def MemberDaemonSet_def
        PrepareDaemonSet_def HeadlessService_def)
  have once: "de_Replicas (SeedDeploy ns cr uid s) = 1"
    "ps_NodeName (de_Pod (SeedDeploy ns cr uid s)) = sp_SeedNodeName s"
    "jb_BackoffLimit (SidecarBootstrapJob ns cr uid s) = 0"
    "map fst (sf_ClaimTemplates (MemberStatefulSet ns cr uid s)) = [''data'']"
    by (simp_all add: Let_def SeedDeploy_def SidecarBootstrapJob_def MemberStatefulSet_def nodeName_def)
  show ?thesis
    unfolding once by (intro conjI pods boot own selector_matches refl)
qed

end
