(* ===== verification/Operator_Kube.thy ===== *)
theory Operator_Kube
  imports Operator_Objects "HOL-Library.Sublist"
begin

text \<open>
  The operator's Platform on client-go (internal/operator/kube.go), the mapping of the custom resource
  (parse.go) and the work queue (controller.go). The API server and client-go are the record
  \<open>kube_api\<close>; the accessors of unstructured objects are part of it. Lemmas: ensuring an object
  creates it at most once, and a seed is claimed by at most one of the reconciliations that read the
  same version of the object.
\<close>

section \<open>The API\<close>

record kube_node =
  kn_Name :: string
  kn_Unschedulable :: bool
  kn_Conditions :: "(string \<times> string) list"

text \<open>A pod: its name, node, host address, and the name and readiness of its containers.\<close>

record kube_pod =
  kp_Name :: string
  kp_NodeName :: string
  kp_HostIP :: string
  kp_ContainerStatuses :: "(string \<times> bool) list"

type_synonym status_map = "(string \<times> json) list"

text \<open>
  Objects of type \<open>'u\<close> are unstructured. Reading a nested field ignores the errors, as the code does;
  \<^term>\<open>None\<close> stands for a missing map or slice, and the empty string for a missing string.
\<close>

record ('u, 'w) kube_api =
  us_Namespace :: "'u \<Rightarrow> string"
  us_Name :: "'u \<Rightarrow> string"
  us_UID :: "'u \<Rightarrow> string"
  us_Generation :: "'u \<Rightarrow> int"
  us_ResourceVersion :: "'u \<Rightarrow> string"
  us_SetResourceVersion :: "string \<Rightarrow> 'u \<Rightarrow> 'u"
  us_SpecString :: "string \<Rightarrow> 'u \<Rightarrow> string"
  us_SpecInt64 :: "string \<Rightarrow> 'u \<Rightarrow> int option"
  us_SpecSlice :: "string \<Rightarrow> 'u \<Rightarrow> json list option"
  us_Status :: "'u \<Rightarrow> status_map option"
  us_StatusString :: "string \<Rightarrow> 'u \<Rightarrow> string"
  us_SetStatus :: "status_map \<Rightarrow> 'u \<Rightarrow> op_error + 'u"
  ka_ListNodes :: "'w \<Rightarrow> (op_error + kube_node list) \<times> 'w"
  ka_GetCluster :: "string \<Rightarrow> string \<Rightarrow> 'w \<Rightarrow> (op_error + 'u) \<times> 'w"
  ka_UpdateStatus :: "string \<Rightarrow> 'u \<Rightarrow> 'w \<Rightarrow> (op_error + unit) \<times> 'w"
  ka_ListClusters :: "'w \<Rightarrow> (op_error + 'u list) \<times> 'w"
  ka_PatchStatus :: "string \<Rightarrow> string \<Rightarrow> json \<Rightarrow> 'w \<Rightarrow> (op_error + unit) \<times> 'w"
  ka_GetDaemonSet :: "string \<Rightarrow> string \<Rightarrow> 'w \<Rightarrow> (op_error + int \<times> int) \<times> 'w"
  ka_CreateDaemonSet :: "k8s_daemonset \<Rightarrow> 'w \<Rightarrow> (op_error + unit) \<times> 'w"
  ka_GetJob :: "string \<Rightarrow> string \<Rightarrow> 'w \<Rightarrow> (op_error + int) \<times> 'w"
  ka_CreateJob :: "k8s_job \<Rightarrow> 'w \<Rightarrow> (op_error + unit) \<times> 'w"
  ka_DeleteJob :: "string \<Rightarrow> string \<Rightarrow> 'w \<Rightarrow> (op_error + unit) \<times> 'w"
  ka_GetDeployment :: "string \<Rightarrow> string \<Rightarrow> 'w \<Rightarrow> (op_error + unit) \<times> 'w"
  ka_CreateDeployment :: "k8s_deployment \<Rightarrow> 'w \<Rightarrow> (op_error + unit) \<times> 'w"
  ka_GetStatefulSet :: "string \<Rightarrow> string \<Rightarrow> 'w \<Rightarrow> (op_error + unit) \<times> 'w"
  ka_CreateStatefulSet :: "k8s_statefulset \<Rightarrow> 'w \<Rightarrow> (op_error + unit) \<times> 'w"
  ka_GetService :: "string \<Rightarrow> string \<Rightarrow> 'w \<Rightarrow> (op_error + unit) \<times> 'w"
  ka_CreateService :: "k8s_service \<Rightarrow> 'w \<Rightarrow> (op_error + unit) \<times> 'w"
  ka_GetPVC :: "string \<Rightarrow> string \<Rightarrow> 'w \<Rightarrow> (op_error + unit) \<times> 'w"
  ka_CreatePVC :: "k8s_pvc \<Rightarrow> 'w \<Rightarrow> (op_error + unit) \<times> 'w"
  ka_GetSecret :: "string \<Rightarrow> string \<Rightarrow> 'w \<Rightarrow> (op_error + (string \<Rightarrow> string)) \<times> 'w"
  ka_CreateSecret :: "k8s_secret \<Rightarrow> 'w \<Rightarrow> (op_error + unit) \<times> 'w"
  ka_UpdateSecret :: "string \<Rightarrow> string \<Rightarrow> (string \<times> string) list \<Rightarrow> 'w \<Rightarrow> (op_error + unit) \<times> 'w"
  ka_ListPods :: "string \<Rightarrow> string \<Rightarrow> 'w \<Rightarrow> (op_error + kube_pod list) \<times> 'w"
  ka_GetPod :: "string \<Rightarrow> string \<Rightarrow> 'w \<Rightarrow> (op_error + kube_pod) \<times> 'w"
  ka_PodLogs :: "string \<Rightarrow> string \<Rightarrow> string \<Rightarrow> 'w \<Rightarrow> (op_error + string) \<times> 'w"

section \<open>Custom resources\<close>

definition leave_ids :: "json list \<Rightarrow> string list" where
  "leave_ids raw =
     concat (map (\<lambda>v. case v of JStr s \<Rightarrow> if s \<noteq> '''' then [s] else [] | _ \<Rightarrow> []) raw)"

definition ClusterFrom :: "('u, 'w) kube_api \<Rightarrow> 'u option \<Rightarrow> op_error + op_cluster" where
  "ClusterFrom api obj =
     (case obj of
        None \<Rightarrow> Inl (OtherErr ''nil ClusdrCluster'')
      | Some u \<Rightarrow> Inr
          \<lparr>cl_Namespace = us_Namespace api u, cl_Name = us_Name api u, cl_UID = us_UID api u,
           cl_Generation = us_Generation api u, cl_ResourceVersion = us_ResourceVersion api u,
           cl_StatusSeed = us_StatusString api ''seedNodeName'' u, cl_Warning = '''',
           cl_Spec =
             \<lparr>sp_Topology = us_SpecString api ''topology'' u,
              sp_VoterCount = (case us_SpecInt64 api ''voterCount'' u of Some n \<Rightarrow> n | None \<Rightarrow> 0),
              sp_Image = us_SpecString api ''image'' u, sp_DataDir = us_SpecString api ''dataDir'' u,
              sp_SeedNodeName = us_SpecString api ''seedNodeName'' u,
              sp_Leave = (case us_SpecSlice api ''leave'' u of Some raw \<Rightarrow> leave_ids raw | None \<Rightarrow> [])\<rparr>\<rparr>)"

text \<open>\<open>quote\<close> is \<^verbatim>\<open>%q\<close>, which depends on the Unicode tables.\<close>

definition message_text :: "(string \<Rightarrow> string) \<Rightarrow> status_message \<Rightarrow> string" where
  "message_text quote m =
     (case m of Text s \<Rightarrow> s | UnknownTopology t \<Rightarrow> ''unknown topology '' @ quote t)"

definition statusMap :: "(string \<Rightarrow> string) \<Rightarrow> op_status \<Rightarrow> status_map" where
  "statusMap quote st =
     [(''clusterID'', JStr (st_ClusterID st)), (''leader'', JStr (st_Leader st)),
      (''members'', JArr (map (\<lambda>m. JObj
         [(''address'', JStr (ms_Address m)), (''id'', JStr (ms_ID m)), (''role'', JStr (ms_Role m)),
          (''status'', JStr (ms_Status m))]) (st_Members st))),
      (''message'', JStr (message_text quote (st_Message st))),
      (''observedGeneration'', JInt (st_ObservedGeneration st)), (''phase'', JStr (st_Phase st))] @
     (if st_SeedNodeName st \<noteq> '''' then [(''seedNodeName'', JStr (st_SeedNodeName st))] else []) @
     [(''warning'', JStr (st_Warning st))]"

section \<open>Nodes, pods, jobs\<close>

definition ReadyNodes :: "('u, 'w) kube_api \<Rightarrow> 'w \<Rightarrow> (op_error + string list) \<times> 'w" where
  "ReadyNodes api =
     kbind (ka_ListNodes api) (\<lambda>ns.
       kreturn (map kn_Name (filter (\<lambda>n. \<not> kn_Unschedulable n \<and>
         list_ex (\<lambda>(t, s). t = ''Ready'' \<and> s = ''True'') (kn_Conditions n)) ns)))"

definition put_field :: "string \<Rightarrow> json \<Rightarrow> status_map \<Rightarrow> status_map" where
  "put_field k v m = (k, v) # filter (\<lambda>(k', _). k' \<noteq> k) m"

definition ClaimSeed ::
  "('u, 'w) kube_api \<Rightarrow> op_cluster \<Rightarrow> string \<Rightarrow> 'w \<Rightarrow> (op_error + unit) \<times> 'w" where
  "ClaimSeed api c node =
     kbind (ka_GetCluster api (cl_Namespace c) (cl_Name c)) (\<lambda>u0.
       let u = (if cl_ResourceVersion c \<noteq> '''' then us_SetResourceVersion api (cl_ResourceVersion c) u0
                else u0);
           st = (case us_Status api u of None \<Rightarrow> [] | Some m \<Rightarrow> m)
       in (case us_SetStatus api (put_field ''seedNodeName'' (JStr node) st) u of
             Inl err \<Rightarrow> (\<lambda>w. (Inl err, w))
           | Inr u' \<Rightarrow> ka_UpdateStatus api (cl_Namespace c) u'))"

definition ClusterCount :: "('u, 'w) kube_api \<Rightarrow> 'w \<Rightarrow> (op_error + int) \<times> 'w" where
  "ClusterCount api = kbind (ka_ListClusters api) (\<lambda>cs. kreturn (int (length cs)))"

text \<open>Get the object, and create it when it does not exist.\<close>

definition kube_ensure ::
  "('w \<Rightarrow> (op_error + 'a) \<times> 'w) \<Rightarrow> ('w \<Rightarrow> (op_error + unit) \<times> 'w) \<Rightarrow> 'w \<Rightarrow> (op_error + unit) \<times> 'w" where
  "kube_ensure get create =
     ktry get
       (\<lambda>err. case err of NotFoundErr _ \<Rightarrow> create | OtherErr t \<Rightarrow> (\<lambda>w. (Inl (OtherErr t), w)))
       (\<lambda>_. kreturn ())"

definition EnsurePrepare :: "('u, 'w) kube_api \<Rightarrow> op_spec \<Rightarrow> op_cluster \<Rightarrow> 'w \<Rightarrow> (op_error + unit) \<times> 'w" where
  "EnsurePrepare api s c =
     (let want = PrepareDaemonSet (cl_Namespace c) (cl_Name c) (cl_UID c) s in
      kube_ensure (ka_GetDaemonSet api (cl_Namespace c) (om_Name (da_Meta want))) (ka_CreateDaemonSet api want))"

definition PrepareReady :: "('u, 'w) kube_api \<Rightarrow> op_cluster \<Rightarrow> 'w \<Rightarrow> (op_error + bool) \<times> 'w" where
  "PrepareReady api c =
     ktry (ka_GetDaemonSet api (cl_Namespace c) (prepareName (cl_Name c)))
       (\<lambda>err. case err of NotFoundErr _ \<Rightarrow> kreturn False | OtherErr t \<Rightarrow> (\<lambda>w. (Inl (OtherErr t), w)))
       (\<lambda>(desired, ready). kreturn (desired > 0 \<and> ready \<ge> desired))"

definition EnsureJob :: "('u, 'w) kube_api \<Rightarrow> op_spec \<Rightarrow> op_cluster \<Rightarrow> 'w \<Rightarrow> (op_error + unit) \<times> 'w" where
  "EnsureJob api s c =
     (let want = SeedInitJob (cl_Namespace c) (cl_Name c) (cl_UID c) s in
      kube_ensure (ka_GetJob api (cl_Namespace c) (om_Name (jb_Meta want))) (ka_CreateJob api want))"

definition jobName :: "op_cluster \<Rightarrow> string" where
  "jobName c =
     (if spec_topology (cl_Spec c) = topoSidecar then sidecarBootJob (cl_Name c)
      else initJobName (cl_Name c))"

definition JobComplete :: "('u, 'w) kube_api \<Rightarrow> op_cluster \<Rightarrow> 'w \<Rightarrow> (op_error + bool) \<times> 'w" where
  "JobComplete api c =
     kbind (ka_GetJob api (cl_Namespace c) (jobName c)) (\<lambda>succeeded. kreturn (succeeded > 0))"

definition JobLogs :: "('u, 'w) kube_api \<Rightarrow> op_cluster \<Rightarrow> 'w \<Rightarrow> (op_error + string) \<times> 'w" where
  "JobLogs api c =
     kbind (ka_ListPods api (cl_Namespace c) (''job-name='' @ jobName c)) (\<lambda>pods.
       case pods of
         [] \<Rightarrow> (\<lambda>w. (Inl (OtherErr ''no init pods''), w))
       | p # _ \<Rightarrow> ka_PodLogs api (cl_Namespace c) (kp_Name p) ''init'')"

definition op_Token :: "('u, 'w) kube_api \<Rightarrow> op_cluster \<Rightarrow> 'w \<Rightarrow> (op_error + string option) \<times> 'w" where
  "op_Token api c =
     ktry (ka_GetSecret api (cl_Namespace c) (tokenSecretName (cl_Name c)))
       (\<lambda>err. case err of NotFoundErr _ \<Rightarrow> kreturn None | OtherErr t \<Rightarrow> (\<lambda>w. (Inl (OtherErr t), w)))
       (\<lambda>data. kreturn (if data ''token'' = '''' then None else Some (data ''token'')))"

definition PutToken :: "('u, 'w) kube_api \<Rightarrow> op_cluster \<Rightarrow> string \<Rightarrow> 'w \<Rightarrow> (op_error + unit) \<times> 'w" where
  "PutToken api c token =
     (let name = tokenSecretName (cl_Name c) in
      ktry (ka_GetSecret api (cl_Namespace c) name)
        (\<lambda>err. case err of
           NotFoundErr _ \<Rightarrow> ka_CreateSecret api (TokenSecret (cl_Namespace c) (cl_Name c) (cl_UID c) token)
         | OtherErr t \<Rightarrow> (\<lambda>w. (Inl (OtherErr t), w)))
        (\<lambda>_. ka_UpdateSecret api (cl_Namespace c) name [(''token'', token)]))"

definition EnsureSeed :: "('u, 'w) kube_api \<Rightarrow> op_spec \<Rightarrow> op_cluster \<Rightarrow> 'w \<Rightarrow> (op_error + unit) \<times> 'w" where
  "EnsureSeed api s c =
     (let want = SeedDeploy (cl_Namespace c) (cl_Name c) (cl_UID c) s in
      kube_ensure (ka_GetDeployment api (cl_Namespace c) (om_Name (de_Meta want))) (ka_CreateDeployment api want))"

definition podReady :: "kube_pod \<Rightarrow> bool" where
  "podReady p =
     (case filter (\<lambda>(n, _). n = ''clusdr'') (kp_ContainerStatuses p) of [] \<Rightarrow> False | (_, r) # _ \<Rightarrow> r)"

definition sidecarPodDNS :: "string \<Rightarrow> op_cluster \<Rightarrow> string" where
  "sidecarPodDNS pod c =
     pod @ dns_suffix (cl_Namespace c) (headlessName (cl_Name c)) @ '':'' @ decimal_int grpcPort"

definition seed_addr :: "kube_pod list \<Rightarrow> op_error + string" where
  "seed_addr pods =
     (case filter (\<lambda>p. kp_HostIP p \<noteq> '''' \<and>
             list_ex (\<lambda>(n, r). n = ''clusdr'' \<and> r) (kp_ContainerStatuses p)) pods of
        [] \<Rightarrow> Inl (OtherErr ''seed pod not ready'')
      | p # _ \<Rightarrow> Inr (kp_HostIP p @ '':'' @ decimal_int grpcPort))"

definition SeedReadyAddr :: "('u, 'w) kube_api \<Rightarrow> op_cluster \<Rightarrow> 'w \<Rightarrow> (op_error + string) \<times> 'w" where
  "SeedReadyAddr api c =
     (if spec_topology (cl_Spec c) = topoSidecar then
        let name = stsName (cl_Name c) @ ''-0'' in
        kbind (ka_GetPod api (cl_Namespace c) name) (\<lambda>p w.
          if \<not> podReady p then (Inl (OtherErr ''sidecar-0 not ready''), w)
          else (Inr (sidecarPodDNS name c), w))
      else
        kbind (ka_ListPods api (cl_Namespace c) (selector (cl_Name c) compSeed))
          (\<lambda>pods w. (seed_addr pods, w)))"

definition EnsureDaemonSet :: "('u, 'w) kube_api \<Rightarrow> op_spec \<Rightarrow> op_cluster \<Rightarrow> 'w \<Rightarrow> (op_error + unit) \<times> 'w" where
  "EnsureDaemonSet api s c =
     (let want = MemberDaemonSet (cl_Namespace c) (cl_Name c) (cl_UID c) s in
      kube_ensure (ka_GetDaemonSet api (cl_Namespace c) (om_Name (da_Meta want))) (ka_CreateDaemonSet api want))"

definition member_pod :: "op_cluster \<Rightarrow> kube_pod \<Rightarrow> pod_addr" where
  "member_pod c p =
     (let pa = \<lparr>pa_Name = kp_Name p, pa_HostIP = kp_HostIP p, pa_NodeName = kp_NodeName p,
                pa_Addr = '''', pa_Ready = podReady p\<rparr> in
      if spec_topology (cl_Spec c) = topoSidecar
      then pa\<lparr>pa_NodeName := kp_Name p, pa_Addr := sidecarPodDNS (kp_Name p) c\<rparr>
      else pa\<lparr>pa_Addr := memberAddr pa\<rparr>)"

definition MemberPods :: "('u, 'w) kube_api \<Rightarrow> op_cluster \<Rightarrow> 'w \<Rightarrow> (op_error + pod_addr list) \<times> 'w" where
  "MemberPods api c =
     (let comp = (if spec_topology (cl_Spec c) = topoSidecar then compSidecar else compMember) in
      kbind (ka_ListPods api (cl_Namespace c) (selector (cl_Name c) comp))
        (\<lambda>pods. kreturn (map (member_pod c) pods)))"

definition PatchStatus ::
  "('u, 'w) kube_api \<Rightarrow> (string \<Rightarrow> string) \<Rightarrow> op_cluster \<Rightarrow> op_status \<Rightarrow> 'w \<Rightarrow> (op_error + unit) \<times> 'w" where
  "PatchStatus api quote c st =
     ka_PatchStatus api (cl_Namespace c) (cl_Name c) (JObj [(''status'', JObj (statusMap quote st))])"

definition EnsurePVC :: "('u, 'w) kube_api \<Rightarrow> op_spec \<Rightarrow> op_cluster \<Rightarrow> 'w \<Rightarrow> (op_error + unit) \<times> 'w" where
  "EnsurePVC api s c =
     (let want = SidecarPVC0 (cl_Namespace c) (cl_Name c) (cl_UID c) in
      kube_ensure (ka_GetPVC api (cl_Namespace c) (om_Name (pv_Meta want))) (ka_CreatePVC api want))"

definition EnsureBootstrapJob ::
  "('u, 'w) kube_api \<Rightarrow> op_spec \<Rightarrow> op_cluster \<Rightarrow> 'w \<Rightarrow> (op_error + unit) \<times> 'w" where
  "EnsureBootstrapJob api s c =
     (let want = SidecarBootstrapJob (cl_Namespace c) (cl_Name c) (cl_UID c) s in
      kube_ensure (ka_GetJob api (cl_Namespace c) (om_Name (jb_Meta want))) (ka_CreateJob api want))"

definition BootstrapReady :: "('u, 'w) kube_api \<Rightarrow> op_cluster \<Rightarrow> 'w \<Rightarrow> (op_error + bool) \<times> 'w" where
  "BootstrapReady api c =
     kbind (ka_ListPods api (cl_Namespace c) (''job-name='' @ sidecarBootJob (cl_Name c)))
       (\<lambda>pods. kreturn (list_ex podReady pods))"

definition JobExists :: "('u, 'w) kube_api \<Rightarrow> op_cluster \<Rightarrow> 'w \<Rightarrow> (op_error + bool) \<times> 'w" where
  "JobExists api c =
     ktry (ka_GetJob api (cl_Namespace c) (sidecarBootJob (cl_Name c)))
       (\<lambda>err. case err of NotFoundErr _ \<Rightarrow> kreturn False | OtherErr t \<Rightarrow> (\<lambda>w. (Inl (OtherErr t), w)))
       (\<lambda>_. kreturn True)"

definition DeleteJob :: "('u, 'w) kube_api \<Rightarrow> op_cluster \<Rightarrow> 'w \<Rightarrow> (op_error + unit) \<times> 'w" where
  "DeleteJob api c =
     ktry (ka_DeleteJob api (cl_Namespace c) (sidecarBootJob (cl_Name c)))
       (\<lambda>err. case err of NotFoundErr _ \<Rightarrow> kreturn () | OtherErr t \<Rightarrow> (\<lambda>w. (Inl (OtherErr t), w)))
       kreturn"

definition EnsureHeadless :: "('u, 'w) kube_api \<Rightarrow> op_spec \<Rightarrow> op_cluster \<Rightarrow> 'w \<Rightarrow> (op_error + unit) \<times> 'w" where
  "EnsureHeadless api s c =
     (let want = HeadlessService (cl_Namespace c) (cl_Name c) (cl_UID c) in
      kube_ensure (ka_GetService api (cl_Namespace c) (om_Name (sv_Meta want))) (ka_CreateService api want))"

definition EnsureStatefulSet ::
  "('u, 'w) kube_api \<Rightarrow> op_spec \<Rightarrow> op_cluster \<Rightarrow> 'w \<Rightarrow> (op_error + unit) \<times> 'w" where
  "EnsureStatefulSet api s c =
     (let want = MemberStatefulSet (cl_Namespace c) (cl_Name c) (cl_UID c) s in
      kube_ensure (ka_GetStatefulSet api (cl_Namespace c) (om_Name (sf_Meta want)))
        (ka_CreateStatefulSet api want))"

text \<open>Kube, as the Platform of the reconciler.\<close>

definition kube_platform :: "('u, 'w) kube_api \<Rightarrow> (string \<Rightarrow> string) \<Rightarrow> 'w platform" where
  "kube_platform api quote =
     \<lparr>pf_ReadyNodes = ReadyNodes api, pf_ClaimSeed = ClaimSeed api, pf_EnsurePrepare = EnsurePrepare api,
      pf_PrepareReady = PrepareReady api, pf_EnsureJob = EnsureJob api, pf_JobComplete = JobComplete api,
      pf_JobLogs = JobLogs api, pf_Token = op_Token api, pf_PutToken = PutToken api,
      pf_EnsureSeed = EnsureSeed api, pf_SeedReadyAddr = SeedReadyAddr api,
      pf_EnsureDaemonSet = EnsureDaemonSet api, pf_MemberPods = MemberPods api,
      pf_PatchStatus = PatchStatus api quote, pf_EnsurePVC = EnsurePVC api,
      pf_EnsureBootstrapJob = EnsureBootstrapJob api, pf_BootstrapReady = BootstrapReady api,
      pf_JobExists = JobExists api, pf_DeleteJob = DeleteJob api, pf_EnsureHeadless = EnsureHeadless api,
      pf_EnsureStatefulSet = EnsureStatefulSet api, pf_ClusterCount = ClusterCount api\<rparr>"

section \<open>The controller\<close>

definition requeue :: int where
  "requeue = 12000000000"

text \<open>The objects that the informer hands over: a cluster, the tombstone of one, or anything else.\<close>

datatype 'u informer_object = Unstructured 'u | Tombstone "'u option" | OtherObject

definition enqueue :: "('u, 'w) kube_api \<Rightarrow> 'u informer_object \<Rightarrow> string option" where
  "enqueue api obj =
     (case (case obj of Unstructured u \<Rightarrow> Some u | Tombstone t \<Rightarrow> t | OtherObject \<Rightarrow> None) of
        None \<Rightarrow> None
      | Some u \<Rightarrow> Some (us_Namespace api u @ ''/'' @ us_Name api u))"

text \<open>\<open>split\<close> is SplitMetaNamespaceKey; the reconciler is an argument.\<close>

definition op_sync ::
  "('u, 'w) kube_api \<Rightarrow> (string \<Rightarrow> op_error + string \<times> string) \<Rightarrow>
   (op_cluster \<Rightarrow> 'w \<Rightarrow> (op_error + unit) \<times> 'w) \<Rightarrow> string \<Rightarrow> 'w \<Rightarrow> (op_error + unit) \<times> 'w" where
  "op_sync api split rec key w =
     (case split key of
        Inl err \<Rightarrow> (Inl err, w)
      | Inr (ns, name) \<Rightarrow>
          ktry (ka_GetCluster api ns name)
            (\<lambda>err. case err of NotFoundErr _ \<Rightarrow> kreturn () | OtherErr t \<Rightarrow> (\<lambda>w. (Inl (OtherErr t), w)))
            (\<lambda>u. case ClusterFrom api (Some u) of Inl err \<Rightarrow> (\<lambda>w. (Inl err, w)) | Inr cl \<Rightarrow> rec cl) w)"

datatype queue_call = AddRateLimited string | Forget string | AddAfter string int | Done string

text \<open>One round of the worker's loop, from the key it got to the calls it makes on the queue.\<close>

definition worker_round ::
  "(string \<Rightarrow> 'w \<Rightarrow> (op_error + unit) \<times> 'w) \<Rightarrow> string \<Rightarrow> 'w \<Rightarrow> queue_call list \<times> 'w" where
  "worker_round sync key w =
     (case sync key w of
        (Inl _, w') \<Rightarrow> ([AddRateLimited key, Done key], w')
      | (Inr _, w') \<Rightarrow> ([Forget key, AddAfter key requeue, Done key], w'))"

text \<open>The worker takes keys from the queue until it is shut down.\<close>

fun op_worker ::
  "(string \<Rightarrow> 'w \<Rightarrow> (op_error + unit) \<times> 'w) \<Rightarrow> string list \<Rightarrow> 'w \<Rightarrow> queue_call list \<times> 'w" where
  "op_worker sync [] w = ([], w)"
| "op_worker sync (key # keys) w =
     (case worker_round sync key w of (calls, w1) \<Rightarrow>
        (case op_worker sync keys w1 of (calls', w2) \<Rightarrow> (calls @ calls', w2)))"

section \<open>One claim per version\<close>

text \<open>
  What the claim relies on. \<open>hist ns name w\<close> is the history of an object: its versions, each with the
  seed of its status. Versions are never used twice, and reads do not take anything out of the history.
  An update that carries a version succeeds only on that version, and unless it leaves the seed as it
  is, it makes a new version. Accessors read what was set.
\<close>

definition kube_history ::
  "('u, 'w) kube_api \<Rightarrow> (string \<Rightarrow> string \<Rightarrow> 'w \<Rightarrow> (string \<times> string) list) \<Rightarrow> bool" where
  "kube_history api hist \<longleftrightarrow>
     (\<forall>ns name w. distinct (map fst (hist ns name w)) \<and>
        prefix (hist ns name w) (hist ns name (snd (ka_ListNodes api w))) \<and>
        prefix (hist ns name w) (hist ns name (snd (ka_GetCluster api ns name w))) \<and>
        (\<forall>u w'. ka_GetCluster api ns name w = (Inr u, w') \<longrightarrow> us_Name api u = name)) \<and>
     (\<forall>ns u w w'. ka_UpdateStatus api ns u w = (Inr (), w') \<longrightarrow> us_ResourceVersion api u \<noteq> '''' \<longrightarrow>
        (\<exists>mid seed v. prefix (hist ns (us_Name api u) w) (mid @ [(us_ResourceVersion api u, seed)]) \<and>
           prefix (mid @ (us_ResourceVersion api u, seed) #
               (if us_StatusString api ''seedNodeName'' u = seed then []
                else [(v, us_StatusString api ''seedNodeName'' u)]))
             (hist ns (us_Name api u) w')))"

definition kube_accessors :: "('u, 'w) kube_api \<Rightarrow> bool" where
  "kube_accessors api \<longleftrightarrow>
     (\<forall>v u. us_Name api (us_SetResourceVersion api v u) = us_Name api u \<and>
        us_ResourceVersion api (us_SetResourceVersion api v u) = v) \<and>
     (\<forall>m u u' n. us_SetStatus api (put_field ''seedNodeName'' (JStr n) m) u = Inr u' \<longrightarrow>
        us_Name api u' = us_Name api u \<and> us_ResourceVersion api u' = us_ResourceVersion api u \<and>
        us_StatusString api ''seedNodeName'' u' = n)"

lemma ClaimSeed_history:
  assumes "kube_history api hist" and "kube_accessors api"
    and "ClaimSeed api c n w = (Inr (), w')" and "cl_ResourceVersion c \<noteq> ''''"
  shows "\<exists>mid seed v.
    prefix (hist (cl_Namespace c) (cl_Name c) w) (mid @ [(cl_ResourceVersion c, seed)]) \<and>
    prefix (mid @ (cl_ResourceVersion c, seed) # (if n = seed then [] else [(v, n)]))
      (hist (cl_Namespace c) (cl_Name c) w')"
proof -
  let ?st = "\<lambda>u. case us_Status api u of None \<Rightarrow> [] | Some m \<Rightarrow> m"
  let ?set = "us_SetResourceVersion api (cl_ResourceVersion c)"
  obtain u0 w1 u where get: "ka_GetCluster api (cl_Namespace c) (cl_Name c) w = (Inr u0, w1)"
    and set: "us_SetStatus api (put_field ''seedNodeName'' (JStr n) (?st (?set u0))) (?set u0) = Inr u"
    and upd: "ka_UpdateStatus api (cl_Namespace c) u w1 = (Inr (), w')"
    using assms(3,4)
    by (auto simp: ClaimSeed_def kbind_def Let_def split: prod.splits sum.splits)
  have name0: "us_Name api u0 = cl_Name c"
    using assms(1) get unfolding kube_history_def by blast
  have pre: "prefix (hist (cl_Namespace c) (cl_Name c) w) (hist (cl_Namespace c) (cl_Name c) w1)"
    using assms(1) get unfolding kube_history_def by (metis snd_conv)
  have u: "us_Name api u = cl_Name c" "us_ResourceVersion api u = cl_ResourceVersion c"
    "us_StatusString api ''seedNodeName'' u = n"
    using assms(2) set name0 unfolding kube_accessors_def by metis+
  obtain mid seed v where mid: "prefix (hist (cl_Namespace c) (cl_Name c) w1) (mid @ [(cl_ResourceVersion c, seed)])"
    "prefix (mid @ (cl_ResourceVersion c, seed) # (if n = seed then [] else [(v, n)]))
       (hist (cl_Namespace c) (cl_Name c) w')"
    using assms(1,4) upd u unfolding kube_history_def by metis
  show ?thesis using mid pre prefix_order.trans by blast
qed

lemma version_passed:
  assumes "distinct (map fst h)" and "prefix (mid @ (v, s) # x # rest) h" and "prefix h (mid' @ [(v, s')])"
    and "distinct (map fst (mid' @ [(v, s')]))"
  shows False
proof -
  obtain r where "mid' @ [(v, s')] = mid @ (v, s) # x # r"
    using prefix_order.trans [OF assms(2,3)] by (auto simp: prefix_def)
  then have "mid' = mid @ (v, s) # butlast (x # r) \<and> (v, s') = last (x # r)"
    by (cases r rule: rev_cases) (auto simp: butlast_append)
  then have "v \<in> fst ` set mid'" by force
  then show False using assms(4) by simp
qed

lemma version_seed:
  assumes "distinct (map fst h)" and "(v, s) \<in> set h0" and "prefix h0 (mid @ [(v, s')])"
    and "prefix (mid @ (v, s') # rest) h"
  shows "s' = s"
proof -
  have "(v, s) \<in> set h" "(v, s') \<in> set h"
    using assms(2,3,4) set_mono_prefix [OF assms(3)] set_mono_prefix [OF assms(4)] by auto
  then show ?thesis using assms(1) eq_key_imp_eq_value by fast
qed

lemma resolveSeed_claims:
  assumes "resolveSeed pf c w = (Inr c', w')" and "sp_SeedNodeName (cl_Spec c') \<noteq> ''''"
    and "sp_SeedNodeName (cl_Spec c') \<noteq> cl_StatusSeed c"
  obtains c1 w1 where "pf_ClaimSeed pf c1 (sp_SeedNodeName (cl_Spec c')) w1 = (Inr (), w')"
    and "w1 = w \<or> w1 = snd (pf_ReadyNodes pf w)"
    and "cl_Namespace c1 = cl_Namespace c" "cl_Name c1 = cl_Name c"
    "cl_ResourceVersion c1 = cl_ResourceVersion c"
  using assms
  by (force simp: resolveSeed_def Let_def kbind_def kreturn_def set_seed_def
      split: if_splits prod.splits sum.splits)

lemma resolveSeed_new:
  assumes "resolveSeed pf c w = (Inr c1, w1)" and "sp_SeedNodeName (cl_Spec c1) \<noteq> ''''"
    and "sp_SeedNodeName (cl_Spec c1) \<noteq> cl_StatusSeed c"
    and "resolveSeed pf c w' = (Inr c2, w2)" and "sp_SeedNodeName (cl_Spec c2) \<noteq> ''''"
  shows "sp_SeedNodeName (cl_Spec c2) \<noteq> cl_StatusSeed c"
  using assms
  by (auto simp: resolveSeed_def Let_def kbind_def kreturn_def set_seed_def
      split: if_splits prod.splits sum.splits)

lemma resolve_history:
  assumes "kube_history api hist" and "kube_accessors api" and "cl_ResourceVersion c \<noteq> ''''"
    and "resolveSeed (kube_platform api quote) c w = (Inr c', w')"
    and "sp_SeedNodeName (cl_Spec c') \<noteq> ''''" and "sp_SeedNodeName (cl_Spec c') \<noteq> cl_StatusSeed c"
  shows "\<exists>mid seed v.
    prefix (hist (cl_Namespace c) (cl_Name c) w) (mid @ [(cl_ResourceVersion c, seed)]) \<and>
    prefix (mid @ (cl_ResourceVersion c, seed) # (if sp_SeedNodeName (cl_Spec c') = seed then []
        else [(v, sp_SeedNodeName (cl_Spec c'))]))
      (hist (cl_Namespace c) (cl_Name c) w')"
proof -
  let ?h = "hist (cl_Namespace c) (cl_Name c)"
  obtain c1 w1 where claim: "ClaimSeed api c1 (sp_SeedNodeName (cl_Spec c')) w1 = (Inr (), w')"
    and w1: "w1 = w \<or> w1 = snd (ReadyNodes api w)"
    and c1: "cl_Namespace c1 = cl_Namespace c" "cl_Name c1 = cl_Name c"
    "cl_ResourceVersion c1 = cl_ResourceVersion c"
    by (rule resolveSeed_claims [OF assms(4-6)]) (simp add: kube_platform_def)
  have nodes: "snd (ReadyNodes api w) = snd (ka_ListNodes api w)"
    by (simp add: ReadyNodes_def kbind_def kreturn_def split: prod.split sum.split)
  have "prefix (?h w) (?h (snd (ka_ListNodes api w)))" using assms(1) unfolding kube_history_def by blast
  with w1 have pre: "prefix (?h w) (?h w1)" unfolding nodes by auto
  from ClaimSeed_history [OF assms(1,2) claim] assms(3) c1
  obtain mid seed v where "prefix (?h w1) (mid @ [(cl_ResourceVersion c, seed)])"
    "prefix (mid @ (cl_ResourceVersion c, seed) # (if sp_SeedNodeName (cl_Spec c') = seed then []
        else [(v, sp_SeedNodeName (cl_Spec c'))])) (?h w')"
    by auto
  with pre show ?thesis using prefix_order.trans by blast
qed

section \<open>Properties\<close>

text \<open>
  C15. A seed is chosen once. Two reconciliations that start from the same version of an object (two
  operators, or one that was interrupted and restarted) do not both go on with a seed that the object
  did not name yet: when the first one has claimed a seed, the second one stops with an error or finds
  no node, whatever happened to the cluster between the two.
\<close>

theorem seed_claimed_once:
  assumes "kube_history api hist" and "kube_accessors api"
    and "cl_ResourceVersion c \<noteq> ''''"
    and "(cl_ResourceVersion c, cl_StatusSeed c) \<in> set (hist (cl_Namespace c) (cl_Name c) w)"
    and "resolveSeed (kube_platform api quote) c w = (Inr c1, w1)"
    and "sp_SeedNodeName (cl_Spec c1) \<noteq> ''''" and "sp_SeedNodeName (cl_Spec c1) \<noteq> cl_StatusSeed c"
    and "prefix (hist (cl_Namespace c) (cl_Name c) w1) (hist (cl_Namespace c) (cl_Name c) w2)"
    and "resolveSeed (kube_platform api quote) c w2 = (r, w3)"
  shows "case r of Inl err \<Rightarrow> True | Inr c2 \<Rightarrow> sp_SeedNodeName (cl_Spec c2) = ''''"
proof (rule ccontr)
  let ?h = "hist (cl_Namespace c) (cl_Name c)"
  let ?v = "cl_ResourceVersion c"
  let ?n = "sp_SeedNodeName (cl_Spec c1)"
  assume "\<not> ?thesis"
  then obtain c2 where r: "r = Inr c2" and c2: "sp_SeedNodeName (cl_Spec c2) \<noteq> ''''" by (cases r) auto
  note run2 = assms(9) [unfolded r]
  note new2 = resolveSeed_new [OF assms(5-7) run2 c2]
  have dist: "distinct (map fst (?h x))" for x using assms(1) unfolding kube_history_def by blast
  obtain mid seed v where m: "prefix (?h w) (mid @ [(?v, seed)])"
    "prefix (mid @ (?v, seed) # (if ?n = seed then [] else [(v, ?n)])) (?h w1)"
    using resolve_history [OF assms(1-3,5-7)] by blast
  have "seed = cl_StatusSeed c" by (rule version_seed [OF dist assms(4) m])
  then have "prefix (mid @ (?v, seed) # (v, ?n) # []) (?h w1)" using m(2) assms(7) by simp
  then have first: "prefix (mid @ (?v, seed) # (v, ?n) # []) (?h w2)"
    using assms(8) by (rule prefix_order.trans)
  obtain mid2 seed2 rest where m2: "prefix (?h w2) (mid2 @ [(?v, seed2)])"
    "prefix (mid2 @ (?v, seed2) # rest) (?h w3)"
    using resolve_history [OF assms(1-3) run2 c2 new2] by blast
  have "prefix (mid2 @ [(?v, seed2)]) (?h w3)" using m2(2) by (auto simp: prefix_def)
  then have "distinct (map fst (mid2 @ [(?v, seed2)]))" using dist [of w3] by (force simp: prefix_def)
  then show False by (rule version_passed [OF dist first m2(1)])
qed

text \<open>
  A small API server for the witness: one object with its history of seeds, whose versions are numbers
  in unary, and two nodes.
\<close>

definition unary :: "nat \<Rightarrow> string" where
  "unary n = replicate n (CHR ''1'')"

definition unary_history :: "string list \<Rightarrow> (string \<times> string) list" where
  "unary_history seeds = zip (map (\<lambda>i. unary (Suc i)) [0..<length seeds]) seeds"

definition refuse :: "'w \<Rightarrow> (op_error + 'a) \<times> 'w" where
  "refuse w = (Inl (OtherErr ''refused''), w)"

definition set_seed_field :: "status_map \<Rightarrow> string \<times> string \<times> string \<Rightarrow> op_error + string \<times> string \<times> string" where
  "set_seed_field m u =
     (case u of (name, v, _) \<Rightarrow>
        (case map_of m ''seedNodeName'' of Some (JStr n) \<Rightarrow> Inr (name, v, n) | _ \<Rightarrow> Inl (OtherErr ''status'')))"

definition small_update :: "string \<times> string \<times> string \<Rightarrow> string list \<Rightarrow> (op_error + unit) \<times> string list" where
  "small_update u seeds =
     (case u of (_, v, n) \<Rightarrow>
        if seeds = [] \<or> v \<noteq> unary (length seeds) then (Inl (OtherErr ''conflict''), seeds)
        else (Inr (), if n = last seeds then seeds else seeds @ [n]))"

definition small_kube :: "(string \<times> string \<times> string, string list) kube_api" where
  "small_kube =
     \<lparr>us_Namespace = (\<lambda>_. ''ns''), us_Name = fst, us_UID = (\<lambda>_. ''uid''), us_Generation = (\<lambda>_. 1),
      us_ResourceVersion = (\<lambda>(_, v, _). v), us_SetResourceVersion = (\<lambda>v (n, _, s). (n, v, s)),
      us_SpecString = (\<lambda>_ _. ''''), us_SpecInt64 = (\<lambda>_ _. Some 3), us_SpecSlice = (\<lambda>_ _. None),
      us_Status = (\<lambda>(_, _, s). Some [(''seedNodeName'', JStr s)]),
      us_StatusString = (\<lambda>_ (_, _, s). s), us_SetStatus = set_seed_field,
      ka_ListNodes = (\<lambda>w. (Inr (map (\<lambda>n. \<lparr>kn_Name = n, kn_Unschedulable = False,
          kn_Conditions = [(''Ready'', ''True'')]\<rparr>) [''node-b'', ''node-a'']), w)),
      ka_GetCluster = (\<lambda>_ name seeds. (Inr (name, unary (length seeds), if seeds = [] then '''' else last seeds), seeds)),
      ka_UpdateStatus = (\<lambda>_. small_update), ka_ListClusters = refuse,
      ka_PatchStatus = (\<lambda>_ _ _. refuse), ka_GetDaemonSet = (\<lambda>_ _. refuse),
      ka_CreateDaemonSet = (\<lambda>_. refuse), ka_GetJob = (\<lambda>_ _. refuse), ka_CreateJob = (\<lambda>_. refuse),
      ka_DeleteJob = (\<lambda>_ _. refuse), ka_GetDeployment = (\<lambda>_ _. refuse),
      ka_CreateDeployment = (\<lambda>_. refuse), ka_GetStatefulSet = (\<lambda>_ _. refuse),
      ka_CreateStatefulSet = (\<lambda>_. refuse), ka_GetService = (\<lambda>_ _. refuse),
      ka_CreateService = (\<lambda>_. refuse), ka_GetPVC = (\<lambda>_ _. refuse), ka_CreatePVC = (\<lambda>_. refuse),
      ka_GetSecret = (\<lambda>_ _. refuse), ka_CreateSecret = (\<lambda>_. refuse),
      ka_UpdateSecret = (\<lambda>_ _ _. refuse), ka_ListPods = (\<lambda>_ _. refuse), ka_GetPod = (\<lambda>_ _. refuse),
      ka_PodLogs = (\<lambda>_ _ _. refuse)\<rparr>"

lemma unary_history_snoc:
  "unary_history (seeds @ [n]) = unary_history seeds @ [(unary (Suc (length seeds)), n)]"
  by (simp add: unary_history_def)

lemma small_history: "kube_history small_kube (\<lambda>_ _. unary_history)"
proof -
  have "distinct (map fst (unary_history seeds))" for seeds
    by (simp add: unary_history_def distinct_map inj_on_def unary_def)
  moreover have "\<exists>mid seed. prefix (unary_history seeds) (mid @ [(v0, seed)]) \<and>
      (n = seed \<longrightarrow> prefix (mid @ [(v0, seed)]) (unary_history seeds')) \<and>
      (n \<noteq> seed \<longrightarrow> (\<exists>v. prefix (mid @ [(v0, seed), (v, n)]) (unary_history seeds')))"
    if upd: "small_update (name, v0, n) seeds = (Inr (), seeds')" for name v0 n seeds seeds'
  proof -
    obtain old s where seeds: "seeds = old @ [s]"
      using upd by (cases seeds rule: rev_cases) (simp_all add: small_update_def)
    then have "v0 = unary (Suc (length old))" "seeds' = (if n = s then seeds else seeds @ [n])"
      using upd by (auto simp: small_update_def split: if_splits)
    then show ?thesis
      unfolding seeds using unary_history_snoc [of "old @ [s]" n]
      by - (rule exI [of _ "unary_history old"], rule exI [of _ s], auto simp: unary_history_snoc)
  qed
  ultimately show ?thesis
    by (simp add: kube_history_def small_kube_def del: prefix_snoc)
qed

lemma small_accessors: "kube_accessors small_kube"
  by (auto simp: kube_accessors_def small_kube_def set_seed_field_def put_field_def)

definition fresh_cluster :: op_cluster where
  "fresh_cluster =
     \<lparr>cl_Namespace = ''ns'', cl_Name = ''demo'', cl_UID = ''uid'', cl_Generation = 1,
      cl_ResourceVersion = ''1'', cl_StatusSeed = '''', cl_Warning = '''',
      cl_Spec = \<lparr>sp_Topology = '''', sp_VoterCount = 3, sp_Image = '''', sp_DataDir = '''',
                 sp_SeedNodeName = '''', sp_Leave = []\<rparr>\<rparr>"

lemma small_run:
  "resolveSeed (kube_platform small_kube (\<lambda>s. s)) fresh_cluster [''''] =
     (Inr ((set_seed ''node-a'' fresh_cluster)\<lparr>cl_StatusSeed := ''node-a''\<rparr>), ['''', ''node-a''])"
  "resolveSeed (kube_platform small_kube (\<lambda>s. s)) fresh_cluster ['''', ''node-a''] =
     (Inl (OtherErr ''conflict''), ['''', ''node-a''])"
  by code_simp+

theorem seed_claimed_once_witness:
  "resolveSeed (kube_platform small_kube (\<lambda>s. s)) fresh_cluster ['''', ''node-a''] =
     (Inl (OtherErr ''conflict''), ['''', ''node-a'']) \<and>
   (case (Inl (OtherErr ''conflict'') :: op_error + op_cluster) of
      Inl err \<Rightarrow> True | Inr c2 \<Rightarrow> sp_SeedNodeName (cl_Spec c2) = '''')"
  by (rule conjI [OF small_run(2)],
      rule seed_claimed_once [OF small_history small_accessors _ _ small_run(1) _ _ _ small_run(2)])
    (simp_all add: fresh_cluster_def set_seed_def unary_history_def unary_def)

end
