(* ===== verification/Operator_Runtime.thy ===== *)
theory Operator_Runtime
  imports Operator_Kube Grpc_Server
begin

text \<open>
  The operator's client of the daemons (internal/operator/runtime.go) and its composition with the
  server's access control (internal/grpcserver/tls.go). Every call is made on a connection without a
  client certificate. Lemmas: against a daemon with TLS every snapshot fails, and a reconciliation
  whose snapshots fail neither joins nor removes a member nor reports that the cluster is ready.
\<close>

section \<open>Runtime\<close>

text \<open>
  The calls on a connection to an address: creating the client, which may refuse the address, and the
  five methods with their error text or response.
\<close>

record 'w runtime_api =
  ra_Dial :: "string \<Rightarrow> string option"
  ra_RequestJoin :: "string \<Rightarrow> string \<Rightarrow> string \<Rightarrow> bool \<Rightarrow> 'w \<Rightarrow> (string + bool \<times> string) \<times> 'w"
  ra_RequestLeave :: "string \<Rightarrow> string \<Rightarrow> 'w \<Rightarrow> (string + bool \<times> string) \<times> 'w"
  ra_ListMembers :: "string \<Rightarrow> 'w \<Rightarrow> (string + pb_member list) \<times> 'w"
  ra_GetLeader :: "string \<Rightarrow> 'w \<Rightarrow> (string + string \<times> string) \<times> 'w"
  ra_Health :: "string \<Rightarrow> 'w \<Rightarrow> (string + health_response) \<times> 'w"

definition runtime_Join ::
  "env \<Rightarrow> 'w runtime_api \<Rightarrow> string \<Rightarrow> string \<Rightarrow> string \<Rightarrow> bool \<Rightarrow> 'w \<Rightarrow> (op_error + unit) \<times> 'w" where
  "runtime_Join e api localAddr seedAddr token observer w =
     (case ra_Dial api localAddr of
        Some err \<Rightarrow> (Inl (OtherErr (''dial joiner '' @ localAddr @ '': '' @ err)), w)
      | None \<Rightarrow>
          (case ra_RequestJoin api localAddr seedAddr token observer w of
             (Inl err, w') \<Rightarrow>
               if Contains (ToLower e err) ''already'' then (Inr (), w') else (Inl (OtherErr err), w')
           | (Inr (joined, msg), w') \<Rightarrow>
               if joined then (Inr (), w')
               else if Contains (ToLower e msg) ''already'' then (Inr (), w')
               else (Inl (OtherErr (''join rejected: '' @ msg)), w')))"

definition snapshot_member :: "pb_member \<Rightarrow> member_status" where
  "snapshot_member m =
     \<lparr>ms_ID = pm_id m, ms_Address = pm_address m, ms_Status = pm_status m,
      ms_Role = (if pm_leader m then ''leader'' else if pm_role m = '''' then ''voter'' else pm_role m)\<rparr>"

definition runtime_Snapshot ::
  "'w runtime_api \<Rightarrow> string \<Rightarrow> 'w \<Rightarrow> (op_error + op_status) \<times> 'w" where
  "runtime_Snapshot api seedAddr w =
     (case ra_Dial api seedAddr of
        Some err \<Rightarrow> (Inl (OtherErr (''dial seed '' @ seedAddr @ '': '' @ err)), w)
      | None \<Rightarrow>
          (case ra_ListMembers api seedAddr w of
             (Inl err, w1) \<Rightarrow> (Inl (OtherErr err), w1)
           | (Inr ms, w1) \<Rightarrow>
               let st = zero_status\<lparr>st_Phase := ''Ready'', st_Members := map snapshot_member ms\<rparr>;
                   (lead, w2) = ra_GetLeader api seedAddr w1;
                   st = (case lead of Inr (nid, _) \<Rightarrow> st\<lparr>st_Leader := nid\<rparr> | Inl _ \<Rightarrow> st);
                   (h, w3) = ra_Health api seedAddr w2;
                   st = (case h of Inr hr \<Rightarrow> st\<lparr>st_ClusterID := hr_cluster_id hr\<rparr> | Inl _ \<Rightarrow> st)
               in (Inr st, w3)))"

definition gone_text :: "env \<Rightarrow> string \<Rightarrow> bool" where
  "gone_text e msg \<longleftrightarrow> Contains (ToLower e msg) ''not found'' \<or> Contains (ToLower e msg) ''already''"

definition runtime_Leave ::
  "env \<Rightarrow> 'w runtime_api \<Rightarrow> string \<Rightarrow> string \<Rightarrow> 'w \<Rightarrow> (op_error + unit) \<times> 'w" where
  "runtime_Leave e api seedAddr nodeID w =
     (if nodeID = '''' then (Inl (OtherErr ''empty leave id''), w)
      else (case ra_Dial api seedAddr of
        Some err \<Rightarrow> (Inl (OtherErr (''dial seed '' @ seedAddr @ '': '' @ err)), w)
      | None \<Rightarrow>
          (case ra_RequestLeave api seedAddr nodeID w of
             (Inl err, w') \<Rightarrow> if gone_text e err then (Inr (), w') else (Inl (OtherErr err), w')
           | (Inr (left, msg), w') \<Rightarrow>
               if left then (Inr (), w')
               else if gone_text e msg then (Inr (), w')
               else (Inl (OtherErr (''leave rejected: '' @ msg)), w'))))"

definition runtime_joiner :: "env \<Rightarrow> 'w runtime_api \<Rightarrow> 'w joiner" where
  "runtime_joiner e api =
     \<lparr>jo_Join = runtime_Join e api, jo_Leave = runtime_Leave e api,
      jo_Snapshot = runtime_Snapshot api\<rparr>"

section \<open>The other end\<close>

text \<open>
  The full names of the methods. The handlers of the daemon at an address are an argument; a call
  reaches them through the interceptors of the server. The connection is a TLS one that carries no
  certificate: the credentials are those of BootstrapTLS. \<open>text\<close> prints a gRPC status.
\<close>

definition method_names :: rpc_names where
  "method_names = \<lparr>rn_Join = ''/clusdr.v1alpha1.JoinService/Join'',
                   rn_Health = ''/clusdr.v1alpha1.HealthService/Health''\<rparr>"

definition RequestJoin_name :: string where
  "RequestJoin_name = ''/clusdr.v1alpha1.ControlService/RequestJoin''"
definition RequestLeave_name :: string where
  "RequestLeave_name = ''/clusdr.v1alpha1.ControlService/RequestLeave''"
definition ListMembers_name :: string where
  "ListMembers_name = ''/clusdr.v1alpha1.MembershipService/ListMembers''"
definition GetLeader_name :: string where
  "GetLeader_name = ''/clusdr.v1alpha1.MembershipService/GetLeader''"

record 'w daemon_handlers =
  dh_RequestJoin :: "string \<Rightarrow> string \<Rightarrow> string \<Rightarrow> bool \<Rightarrow> ('w, bool \<times> string) rpc_handler"
  dh_RequestLeave :: "string \<Rightarrow> string \<Rightarrow> ('w, bool \<times> string) rpc_handler"
  dh_ListMembers :: "string \<Rightarrow> ('w, pb_member list) rpc_handler"
  dh_GetLeader :: "string \<Rightarrow> ('w, string \<times> string) rpc_handler"
  dh_Health :: "string \<Rightarrow> ('w, health_response) rpc_handler"

definition over_tls ::
  "(server_detail rpc_error \<Rightarrow> string) \<Rightarrow> string \<Rightarrow> ('w, 'a) rpc_handler \<Rightarrow> 'w \<Rightarrow> (string + 'a) \<times> 'w" where
  "over_tls text method handler w =
     (case run_chain (server_New True method_names (TLSPeer ([] :: unit list)) method) handler w of
        (Returns x, w') \<Rightarrow> (Inr x, w')
      | (Fails err, w') \<Rightarrow> (Inl (text err), w')
      | (Panic, w') \<Rightarrow> (Inl '''', w'))"

definition tls_daemons ::
  "(server_detail rpc_error \<Rightarrow> string) \<Rightarrow> 'w daemon_handlers \<Rightarrow> 'w runtime_api" where
  "tls_daemons text dh =
     \<lparr>ra_Dial = (\<lambda>_. None),
      ra_RequestJoin = (\<lambda>at seed tok obs. over_tls text RequestJoin_name (dh_RequestJoin dh at seed tok obs)),
      ra_RequestLeave = (\<lambda>at nid. over_tls text RequestLeave_name (dh_RequestLeave dh at nid)),
      ra_ListMembers = (\<lambda>at. over_tls text ListMembers_name (dh_ListMembers dh at)),
      ra_GetLeader = (\<lambda>at. over_tls text GetLeader_name (dh_GetLeader dh at)),
      ra_Health = (\<lambda>at. over_tls text (rn_Health method_names) (dh_Health dh at))\<rparr>"

lemma over_tls_private:
  assumes "\<not> publicRPC method_names method"
  shows "over_tls text method handler w = (Inl (text (Rpc Unauthenticated MtlsRequired)), w)"
  using assms
  by (simp add: over_tls_def run_chain_def server_New_def peerCertInterceptor_def requirePeerCert_def)

lemma names_private:
  "\<not> publicRPC method_names RequestJoin_name" "\<not> publicRPC method_names RequestLeave_name"
  "\<not> publicRPC method_names ListMembers_name" "\<not> publicRPC method_names GetLeader_name"
  by code_simp+

lemma tls_snapshot_fails:
  "runtime_Snapshot (tls_daemons text dh) seed w =
     (Inl (OtherErr (text (Rpc Unauthenticated MtlsRequired))), w)"
  by (simp add: runtime_Snapshot_def tls_daemons_def over_tls_private names_private)

section \<open>A reconciliation without snapshots\<close>

definition idle_rule :: "op_call list \<Rightarrow> op_call \<Rightarrow> bool" where
  "idle_rule pre call \<longleftrightarrow>
     (case call of
        CJoin at seed tok obs r \<Rightarrow> False
      | CLeave seed i r \<Rightarrow> False
      | CPatchStatus c st r \<Rightarrow> st_Phase st = ''Pending'' \<or> st_Phase st = ''Error''
      | _ \<Rightarrow> True)"

lemma safe_failing:
  assumes "\<And>r. rule pre (mk r)" and "\<And>w. \<exists>err w'. m w = (Inl err, w')"
    and "\<And>err. safe rule (pre @ [mk (Inl err)]) (h err)"
  shows "safe rule pre (ktry (logged mk m) h f)"
proof -
  have "ktry (logged mk m) h f = ktry (logged mk m) h (\<lambda>_ w. (Inl (OtherErr ''''), w))"
  proof
    fix w :: "_ \<times> op_call list"
    obtain err w' where "m (fst w) = (Inl err, w')" using assms(2) by blast
    then show "ktry (logged mk m) h f w = ktry (logged mk m) h (\<lambda>_ w. (Inl (OtherErr ''''), w)) w"
      by (simp add: ktry_def logged_def)
  qed
  then show ?thesis by (simp add: safe_try assms(1,3) safe_error)
qed

lemma safe_obeys: "safe rule [] m \<Longrightarrow> obeys rule [] (snd (snd (m (w, []))))"
  by (auto simp: safe_def dest: spec [of _ w])

lemma idle_other [simp]:
  "idle_rule pre (CReadyNodes r1)" "idle_rule pre (CClaimSeed c n r2)"
  "idle_rule pre (CEnsurePrepare sp c r2)" "idle_rule pre (CPrepareReady c r3)"
  "idle_rule pre (CEnsureJob sp c r2)" "idle_rule pre (CJobComplete c r3)"
  "idle_rule pre (CJobLogs c r4)" "idle_rule pre (CToken c r5)" "idle_rule pre (CPutToken c t r2)"
  "idle_rule pre (CEnsureSeed sp c r2)" "idle_rule pre (CSeedReadyAddr c r4)"
  "idle_rule pre (CEnsureDaemonSet sp c r2)" "idle_rule pre (CMemberPods c r6)"
  "idle_rule pre (CEnsurePVC sp c r2)" "idle_rule pre (CEnsureBootstrapJob sp c r2)"
  "idle_rule pre (CBootstrapReady c r3)" "idle_rule pre (CJobExists c r3)"
  "idle_rule pre (CDeleteJob c r2)" "idle_rule pre (CEnsureHeadless sp c r2)"
  "idle_rule pre (CEnsureStatefulSet sp c r2)" "idle_rule pre (CClusterCount r7)"
  "idle_rule pre (CSnapshot s r8)"
  by (simp_all add: idle_rule_def)

lemma idle_report:
  assumes "phase = ''Pending'' \<or> phase = ''Error''"
  shows "safe idle_rule pre (report (traced pf) c phase msg)"
  using assms
  by (auto simp: report_def patchStatus_def Let_def idle_rule_def zero_status_def intro!: safe_logged)

lemma idle_members:
  assumes "\<And>s w. \<exists>err w'. jo_Snapshot jn s w = (Inl err, w')"
  shows "safe idle_rule pre (daemon_members (traced pf) (traced_joiner jn) ks c tok)"
    and "safe idle_rule pre (sidecar_members (traced pf) (traced_joiner jn) ks c tok)"
  unfolding daemon_members_def sidecar_members_def members_failed_def traced_sel traced_joiner_sel
  by (auto intro!: safe_bind safe_failing [OF _ assms] safe_try [where mk = "CSeedReadyAddr c"] idle_report)

lemma idle_reconcile:
  assumes "\<And>s w. \<exists>err w'. jo_Snapshot jn s w = (Inl err, w')"
  shows "safe idle_rule pre (Reconcile (traced pf) (traced_joiner jn) ks c)"
proof -
  note members = idle_members [OF assms]
  have token: "safe idle_rule q (daemon_token (traced pf) c (daemon_members (traced pf) (traced_joiner jn) ks c))"
    for q c
    unfolding daemon_token_def traced_sel
    by (auto split: option.split intro!: safe_bind idle_report members)
  have init: "safe idle_rule q (daemon_init (traced pf) (traced_joiner jn) ks c)" for q c
    unfolding daemon_init_def traced_sel
    by (auto intro!: safe_bind idle_report token)
  have daemon: "safe idle_rule q (reconcileDaemon (traced pf) (traced_joiner jn) ks c)" for q c
    unfolding reconcileDaemon_def resolveSeed_def report_voters_def Let_def
    by (auto simp: kbind_assoc kbind_return set_seed_def split: if_splits
        intro!: safe_bind idle_report init)
  have sidecar: "safe idle_rule q (reconcileSidecar (traced pf) (traced_joiner jn) ks c)" for q c
    unfolding reconcileSidecar_def sidecar_bootstrap_def report_voters_def traced_sel
    by (auto split: option.split intro!: safe_bind idle_report members)
  show ?thesis
    unfolding Reconcile_def noteWarning_def traced_sel kbind_assoc kbind_return
    by (rule safe_bind, simp) (simp add: daemon sidecar idle_report)
qed

section \<open>Properties\<close>

text \<open>
  C16. The operator cannot form a cluster of daemons that serve TLS. Its connections carry no client
  certificate, and reading the members, joining and leaving all require one, so whatever the daemons'
  handlers would do and whatever Kubernetes answers, a reconciliation joins no pod, removes no member,
  and reports only the phases Pending and Error; a join or leave by itself returns the error of the
  missing certificate unless its text happens to read like success.
\<close>

theorem operator_without_certificate:
  "obeys idle_rule [] (snd (snd (Reconcile (traced pf) (traced_joiner (runtime_joiner e (tls_daemons text dh)))
      ks c (w, [])))) \<and>
   runtime_Join e (tls_daemons text dh) at seed tok obs v =
     ((if Contains (ToLower e (text (Rpc Unauthenticated MtlsRequired))) ''already'' then Inr ()
       else Inl (OtherErr (text (Rpc Unauthenticated MtlsRequired)))), v)"
proof
  have "safe idle_rule [] (Reconcile (traced pf) (traced_joiner (runtime_joiner e (tls_daemons text dh))) ks c)"
    by (rule idle_reconcile) (simp add: runtime_joiner_def tls_snapshot_fails)
  then show "obeys idle_rule [] (snd (snd (Reconcile (traced pf)
      (traced_joiner (runtime_joiner e (tls_daemons text dh))) ks c (w, []))))"
    by (rule safe_obeys)
  show "runtime_Join e (tls_daemons text dh) at seed tok obs v =
     ((if Contains (ToLower e (text (Rpc Unauthenticated MtlsRequired))) ''already'' then Inr ()
       else Inl (OtherErr (text (Rpc Unauthenticated MtlsRequired)))), v)"
    by (simp add: runtime_Join_def tls_daemons_def over_tls_private names_private)
qed

end
