(* ===== verification/Pki.thy ===== *)
theory Pki
  imports State_Store Config
begin

text \<open>
  The certificates of the cluster: package pki (internal/pki/pki.go) and the TLS configurations of
  internal/mtls/mtls.go. The cryptography (key generation, X.509, PEM, the random source) is a record
  of functions over the state of the random source; \<open>crypto_laws\<close> names their documented behaviour.
  Lemmas: the material that Generate and IssueNodeCert return gives working TLS configurations, the
  nodes of a cluster accept each other, and a peer without a certificate of the CA key is refused.
\<close>

section \<open>Certificates\<close>

datatype key_usage = KeyUsageCertSign | KeyUsageCRLSign | KeyUsageDigitalSignature
datatype ext_key_usage = ExtKeyUsageServerAuth | ExtKeyUsageClientAuth

record x509 =
  xc_Raw :: string
  xc_SerialNumber :: int
  xc_Organization :: "string list"
  xc_CommonName :: string
  xc_NotBefore :: gotime
  xc_NotAfter :: gotime
  xc_KeyUsage :: "key_usage list"
  xc_ExtKeyUsage :: "ext_key_usage list"
  xc_BasicConstraintsValid :: bool
  xc_IsCA :: bool
  xc_MaxPathLen :: int
  xc_DNSNames :: "string list"

text \<open>
  A key pair is a value of type \<open>'k\<close>, which stands for its public key as well. A pool is the list of
  the certificates added to it. A parsed private key is \<^term>\<open>None\<close> when it is not an ECDSA key.
\<close>

record ('k, 'w) crypto =
  cy_GenerateKey :: "'w \<Rightarrow> (string + 'k) \<times> 'w"
  cy_Int :: "int \<Rightarrow> 'w \<Rightarrow> (string + int) \<times> 'w"
  cy_Read :: "nat \<Rightarrow> 'w \<Rightarrow> (string + nat list) \<times> 'w"
  cy_Create :: "x509 \<Rightarrow> x509 \<Rightarrow> 'k \<Rightarrow> 'k \<Rightarrow> 'w \<Rightarrow> (string + string) \<times> 'w"
  cy_Parse :: "string \<Rightarrow> string + x509"
  cy_MarshalKey :: "'k \<Rightarrow> string + string"
  cy_ParseKey :: "string \<Rightarrow> string + 'k option"
  cy_PemEncode :: "string \<Rightarrow> string \<Rightarrow> string"
  cy_PemDecode :: "string \<Rightarrow> (string \<times> string) option"
  cy_sha256 :: "string \<Rightarrow> string"
  cy_Pool :: "string \<Rightarrow> x509 list"
  cy_KeyPair :: "string \<Rightarrow> string \<Rightarrow> string option"
  cy_Verify :: "x509 list \<Rightarrow> gotime \<Rightarrow> ext_key_usage \<Rightarrow> x509 \<Rightarrow> x509 list \<Rightarrow> string option"

datatype pki_error =
    PkiIDsRequired
  | PkiNodeRequired
  | PkiGenerateKey string
  | PkiSerial string
  | PkiCreate string
  | PkiParse string
  | PkiMarshal string
  | PkiToken string
  | PkiNoCertBlock
  | PkiNoKeyBlock
  | PkiParseKey string
  | PkiNotECDSA

text \<open>A call that uses the random source, and the wrapping of its error.\<close>

definition rbind ::
  "('w \<Rightarrow> ('e + 'a) \<times> 'w) \<Rightarrow> ('a \<Rightarrow> 'w \<Rightarrow> ('e + 'b) \<times> 'w) \<Rightarrow> 'w \<Rightarrow> ('e + 'b) \<times> 'w" where
  "rbind m f w = (case m w of (Inl err, w1) \<Rightarrow> (Inl err, w1) | (Inr a, w1) \<Rightarrow> f a w1)"

definition rwrap :: "('d \<Rightarrow> 'e) \<Rightarrow> ('w \<Rightarrow> ('d + 'a) \<times> 'w) \<Rightarrow> 'w \<Rightarrow> ('e + 'a) \<times> 'w" where
  "rwrap err m w = (case m w of (Inl d, w1) \<Rightarrow> (Inl (err d), w1) | (Inr a, w1) \<Rightarrow> (Inr a, w1))"

definition rlift :: "'e + 'a \<Rightarrow> 'w \<Rightarrow> ('e + 'a) \<times> 'w" where
  "rlift r w = (r, w)"

definition sum_wrap :: "('d \<Rightarrow> 'e) \<Rightarrow> 'd + 'a \<Rightarrow> 'e + 'a" where
  "sum_wrap err r = (case r of Inl d \<Rightarrow> Inl (err d) | Inr a \<Rightarrow> Inr a)"

section \<open>Package pki\<close>

definition caValidity :: duration where "caValidity = 10 * 365 * 24 * Hour"
definition nodeValidity :: duration where "nodeValidity = 365 * 24 * Hour"
definition tokenBytes :: nat where "tokenBytes = 32"
definition Minute :: duration where "Minute = 60 * Second"

definition randomSerial :: "('k, 'w) crypto \<Rightarrow> 'w \<Rightarrow> (pki_error + int) \<times> 'w" where
  "randomSerial cy = rwrap PkiSerial (cy_Int cy (2 ^ 128))"

definition encodePEM :: "('k, 'w) crypto \<Rightarrow> string \<Rightarrow> 'k \<Rightarrow> pki_error + string \<times> string" where
  "encodePEM cy certDER key =
     (let certPEM = cy_PemEncode cy ''CERTIFICATE'' certDER in
      case cy_MarshalKey cy key of
        Inl err \<Rightarrow> Inl (PkiMarshal err)
      | Inr keyBytes \<Rightarrow> Inr (certPEM, cy_PemEncode cy ''PRIVATE KEY'' keyBytes))"

definition HashToken :: "('k, 'w) crypto \<Rightarrow> string \<Rightarrow> string" where
  "HashToken cy token = cy_sha256 cy token"

definition newJoinToken :: "('k, 'w) crypto \<Rightarrow> 'w \<Rightarrow> (pki_error + string \<times> string) \<times> 'w" where
  "newJoinToken cy =
     rbind (rwrap PkiToken (cy_Read cy tokenBytes)) (\<lambda>b.
       let token = hex_bytes b in rlift (Inr (token, HashToken cy token)))"

text \<open>
  A template reads the clock once for both ends of the validity; the code reads it for each of them,
  a moment apart.
\<close>

definition ca_template :: "gotime \<Rightarrow> int \<Rightarrow> string \<Rightarrow> x509" where
  "ca_template now serial clusterID =
     \<lparr>xc_Raw = '''', xc_SerialNumber = serial, xc_Organization = [''clusdr''],
      xc_CommonName = ''clusdr-ca-'' @ clusterID,
      xc_NotBefore = now - Minute, xc_NotAfter = now + caValidity,
      xc_KeyUsage = [KeyUsageCertSign, KeyUsageCRLSign], xc_ExtKeyUsage = [],
      xc_BasicConstraintsValid = True, xc_IsCA = True, xc_MaxPathLen = 1, xc_DNSNames = []\<rparr>"

text \<open>The CA signs itself: the template is its own parent.\<close>

definition generateCA ::
  "('k, 'w) crypto \<Rightarrow> gotime \<Rightarrow> string \<Rightarrow> 'w \<Rightarrow> (pki_error + x509 \<times> 'k \<times> string \<times> string) \<times> 'w" where
  "generateCA cy now clusterID =
     rbind (rwrap PkiGenerateKey (cy_GenerateKey cy)) (\<lambda>key.
     rbind (randomSerial cy) (\<lambda>serial.
       let tmpl = ca_template now serial clusterID in
     rbind (rwrap PkiCreate (cy_Create cy tmpl tmpl key key)) (\<lambda>der.
     rbind (rlift (sum_wrap PkiParse (cy_Parse cy der))) (\<lambda>cert.
     rbind (rlift (encodePEM cy der key)) (\<lambda>(certPEM, keyPEM).
       rlift (Inr (cert, key, certPEM, keyPEM)))))))"

definition node_template :: "gotime \<Rightarrow> int \<Rightarrow> string \<Rightarrow> x509" where
  "node_template now serial nodeID =
     \<lparr>xc_Raw = '''', xc_SerialNumber = serial, xc_Organization = [''clusdr''],
      xc_CommonName = nodeID,
      xc_NotBefore = now - Minute, xc_NotAfter = now + nodeValidity,
      xc_KeyUsage = [KeyUsageDigitalSignature],
      xc_ExtKeyUsage = [ExtKeyUsageServerAuth, ExtKeyUsageClientAuth],
      xc_BasicConstraintsValid = True, xc_IsCA = False, xc_MaxPathLen = 0, xc_DNSNames = [nodeID]\<rparr>"

definition issueNode ::
  "('k, 'w) crypto \<Rightarrow> gotime \<Rightarrow> x509 \<Rightarrow> 'k \<Rightarrow> string \<Rightarrow> 'w \<Rightarrow> (pki_error + string \<times> string) \<times> 'w" where
  "issueNode cy now ca caKey nodeID =
     rbind (rwrap PkiGenerateKey (cy_GenerateKey cy)) (\<lambda>key.
     rbind (randomSerial cy) (\<lambda>serial.
     rbind (rwrap PkiCreate (cy_Create cy (node_template now serial nodeID) ca key caKey)) (\<lambda>der.
       rlift (encodePEM cy der key))))"

text \<open>The bundle has the fields of the record \<^typ>\<open>certs\<close> of the store.\<close>

definition Generate ::
  "('k, 'w) crypto \<Rightarrow> gotime \<Rightarrow> string \<Rightarrow> string \<Rightarrow> 'w \<Rightarrow> (pki_error + certs \<times> string) \<times> 'w" where
  "Generate cy now clusterID nodeID =
     (if clusterID = '''' \<or> nodeID = '''' then rlift (Inl PkiIDsRequired)
      else
        rbind (generateCA cy now clusterID) (\<lambda>(caCert, caKey, caCertPEM, caKeyPEM).
        rbind (issueNode cy now caCert caKey nodeID) (\<lambda>(nodeCertPEM, nodeKeyPEM).
        rbind (newJoinToken cy) (\<lambda>(token, tokenHash).
          rlift (Inr (\<lparr>CACert = caCertPEM, CAKey = caKeyPEM, NodeCert = nodeCertPEM,
                       NodeKey = nodeKeyPEM, JoinTokenHash = tokenHash\<rparr>, token))))))"

definition ParseCertificate :: "('k, 'w) crypto \<Rightarrow> string \<Rightarrow> pki_error + x509" where
  "ParseCertificate cy certPEM =
     (case cy_PemDecode cy certPEM of
        None \<Rightarrow> Inl PkiNoCertBlock
      | Some (ty, bytes) \<Rightarrow>
          if ty \<noteq> ''CERTIFICATE'' then Inl PkiNoCertBlock else sum_wrap PkiParse (cy_Parse cy bytes))"

definition bytes_of :: "string \<Rightarrow> nat list" where
  "bytes_of s = map byte s"

definition Fingerprint :: "('k, 'w) crypto \<Rightarrow> string \<Rightarrow> pki_error + string" where
  "Fingerprint cy certPEM =
     (case ParseCertificate cy certPEM of
        Inl err \<Rightarrow> Inl err
      | Inr cert \<Rightarrow> Inr (''sha256:'' @ hex_bytes (bytes_of (cy_sha256 cy (xc_Raw cert)))))"

definition parseCAKey :: "('k, 'w) crypto \<Rightarrow> string \<Rightarrow> pki_error + 'k" where
  "parseCAKey cy keyPEM =
     (case cy_PemDecode cy keyPEM of
        None \<Rightarrow> Inl PkiNoKeyBlock
      | Some (ty, bytes) \<Rightarrow>
          (case cy_ParseKey cy bytes of
             Inl err \<Rightarrow> Inl (PkiParseKey err)
           | Inr None \<Rightarrow> Inl PkiNotECDSA
           | Inr (Some ec) \<Rightarrow> Inr ec))"

definition IssueNodeCert ::
  "('k, 'w) crypto \<Rightarrow> gotime \<Rightarrow> string \<Rightarrow> string \<Rightarrow> string \<Rightarrow> 'w \<Rightarrow> (pki_error + string \<times> string) \<times> 'w" where
  "IssueNodeCert cy now caCertPEM caKeyPEM nodeID =
     (if nodeID = '''' then rlift (Inl PkiNodeRequired)
      else
        rbind (rlift (ParseCertificate cy caCertPEM)) (\<lambda>ca.
        rbind (rlift (parseCAKey cy caKeyPEM)) (\<lambda>caKey.
          issueNode cy now ca caKey nodeID)))"

section \<open>Package mtls\<close>

datatype mtls_error =
    MtlsKeyPair string
  | MtlsInvalidCA
  | MtlsNilLoader
  | MtlsFile string

datatype verify_error = NoPeerCert | ParsePeer string | ParseIntermediate string | NotSigned string

datatype client_auth = NoClientCert | VerifyClientCertIfGiven

text \<open>
  The fields of tls.Config that the sources set. The certificate is the pair of its PEM texts. The
  check of the peer depends on the time at which it runs.
\<close>

record tls_conf =
  tl_MinVersion :: nat
  tl_Certificate :: "(string \<times> string) option"
  tl_RootCAs :: "x509 list option"
  tl_ClientCAs :: "x509 list option"
  tl_ClientAuth :: client_auth
  tl_InsecureSkipVerify :: bool
  tl_SessionTicketsDisabled :: bool
  tl_VerifyPeerCertificate :: "(gotime \<Rightarrow> string list \<Rightarrow> verify_error option) option"

definition VersionTLS12 :: nat where "VersionTLS12 = 771"

definition zero_conf :: tls_conf where
  "zero_conf =
     \<lparr>tl_MinVersion = 0, tl_Certificate = None, tl_RootCAs = None, tl_ClientCAs = None,
      tl_ClientAuth = NoClientCert, tl_InsecureSkipVerify = False, tl_SessionTicketsDisabled = False,
      tl_VerifyPeerCertificate = None\<rparr>"

definition poolFromPEM :: "('k, 'w) crypto \<Rightarrow> string \<Rightarrow> mtls_error + x509 list" where
  "poolFromPEM cy caPEM = (let pool = cy_Pool cy caPEM in if pool = [] then Inl MtlsInvalidCA else Inr pool)"

fun parse_intermediates :: "('k, 'w) crypto \<Rightarrow> string list \<Rightarrow> verify_error + x509 list" where
  "parse_intermediates cy [] = Inr []"
| "parse_intermediates cy (der # ders) =
     (case cy_Parse cy der of
        Inl err \<Rightarrow> Inl (ParseIntermediate err)
      | Inr c \<Rightarrow>
          (case parse_intermediates cy ders of Inl err \<Rightarrow> Inl err | Inr cs \<Rightarrow> Inr (c # cs)))"

text \<open>Without other usages in the options, Verify asks for the server usage.\<close>

definition verifyPeer ::
  "('k, 'w) crypto \<Rightarrow> x509 list \<Rightarrow> gotime \<Rightarrow> string list \<Rightarrow> verify_error option" where
  "verifyPeer cy roots now raw =
     (case raw of
        [] \<Rightarrow> Some NoPeerCert
      | der # ders \<Rightarrow>
          (case cy_Parse cy der of
             Inl err \<Rightarrow> Some (ParsePeer err)
           | Inr peer \<Rightarrow>
               (case parse_intermediates cy ders of
                  Inl err \<Rightarrow> Some err
                | Inr ics \<Rightarrow>
                    map_option NotSigned (cy_Verify cy roots now ExtKeyUsageServerAuth peer ics))))"

definition ServerTLS :: "('k, 'w) crypto \<Rightarrow> string \<Rightarrow> string \<Rightarrow> string \<Rightarrow> mtls_error + tls_conf" where
  "ServerTLS cy caPEM certPEM keyPEM =
     (case cy_KeyPair cy certPEM keyPEM of
        Some err \<Rightarrow> Inl (MtlsKeyPair err)
      | None \<Rightarrow>
          (case poolFromPEM cy caPEM of
             Inl err \<Rightarrow> Inl err
           | Inr pool \<Rightarrow>
               Inr (zero_conf\<lparr>tl_MinVersion := VersionTLS12, tl_Certificate := Some (certPEM, keyPEM),
                              tl_ClientCAs := Some pool, tl_ClientAuth := VerifyClientCertIfGiven\<rparr>)))"

definition clientConfig :: "('k, 'w) crypto \<Rightarrow> string \<Rightarrow> string \<Rightarrow> string \<Rightarrow> mtls_error + tls_conf" where
  "clientConfig cy caPEM certPEM keyPEM =
     (case poolFromPEM cy caPEM of
        Inl err \<Rightarrow> Inl err
      | Inr pool \<Rightarrow>
          (case cy_KeyPair cy certPEM keyPEM of
             Some err \<Rightarrow> Inl (MtlsKeyPair err)
           | None \<Rightarrow>
               Inr (zero_conf\<lparr>tl_MinVersion := VersionTLS12, tl_Certificate := Some (certPEM, keyPEM),
                              tl_RootCAs := Some pool, tl_InsecureSkipVerify := True,
                              tl_SessionTicketsDisabled := True,
                              tl_VerifyPeerCertificate := Some (verifyPeer cy pool)\<rparr>)))"

text \<open>Transport credentials; \<open>Insecure\<close> also stands for the nil credentials of Dial.\<close>

datatype transport = Insecure | NewTLS tls_conf

definition ClientTLS :: "('k, 'w) crypto \<Rightarrow> string \<Rightarrow> string \<Rightarrow> string \<Rightarrow> mtls_error + transport" where
  "ClientTLS cy caPEM certPEM keyPEM =
     (case clientConfig cy caPEM certPEM keyPEM of Inl err \<Rightarrow> Inl err | Inr cfg \<Rightarrow> Inr (NewTLS cfg))"

definition BootstrapTLS :: transport where
  "BootstrapTLS = NewTLS (zero_conf\<lparr>tl_MinVersion := VersionTLS12, tl_InsecureSkipVerify := True\<rparr>)"

text \<open>
  The loader reads from a world; the reloadable configuration is its outer part and the function that
  each connection calls.
\<close>

type_synonym 'v cert_loader = "'v \<Rightarrow> (mtls_error + string \<times> string \<times> string) \<times> 'v"

record 'v reloadable =
  rl_MinVersion :: nat
  rl_ClientAuth :: client_auth
  rl_GetConfigForClient :: "'v \<Rightarrow> (mtls_error + tls_conf) \<times> 'v"

definition reload_config :: "('k, 'w) crypto \<Rightarrow> 'v cert_loader \<Rightarrow> 'v \<Rightarrow> (mtls_error + tls_conf) \<times> 'v" where
  "reload_config cy load = rbind load (\<lambda>(ca, cert, key). rlift (ServerTLS cy ca cert key))"

definition ReloadableServerTLS ::
  "('k, 'w) crypto \<Rightarrow> 'v cert_loader option \<Rightarrow> 'v \<Rightarrow> (mtls_error + 'v reloadable) \<times> 'v" where
  "ReloadableServerTLS cy load0 =
     (case load0 of
        None \<Rightarrow> rlift (Inl MtlsNilLoader)
      | Some load \<Rightarrow>
          rbind load (\<lambda>(ca, cert, key).
          rbind (rlift (ServerTLS cy ca cert key)) (\<lambda>_.
            rlift (Inr \<lparr>rl_MinVersion = VersionTLS12, rl_ClientAuth = VerifyClientCertIfGiven,
                        rl_GetConfigForClient = reload_config cy load\<rparr>))))"


section \<open>Files\<close>

text \<open>The file system over a world \<open>'v\<close>: the operations of package os, and the joining of paths.\<close>

record 'v filesys =
  fs_MkdirAll :: "string \<Rightarrow> nat \<Rightarrow> 'v \<Rightarrow> string option \<times> 'v"
  fs_WriteFile :: "string \<Rightarrow> string \<Rightarrow> nat \<Rightarrow> 'v \<Rightarrow> string option \<times> 'v"
  fs_ReadFile :: "string \<Rightarrow> 'v \<Rightarrow> read_result"
  fs_Stat :: "string \<Rightarrow> 'v \<Rightarrow> bool"
  fs_Join :: "string \<Rightarrow> string \<Rightarrow> string"

definition CAFile :: string where "CAFile = ''ca.crt''"
definition CertFile :: string where "CertFile = ''node.crt''"
definition KeyFile :: string where "KeyFile = ''node.key''"

lemmas file_defs = CAFile_def CertFile_def KeyFile_def

definition write_some :: "'v filesys \<Rightarrow> string \<Rightarrow> string \<Rightarrow> string \<Rightarrow> nat \<Rightarrow> 'v \<Rightarrow> string option \<times> 'v" where
  "write_some fs dir name data mode v =
     (if data \<noteq> '''' then fs_WriteFile fs (fs_Join fs dir name) data mode v else (None, v))"

definition WriteFiles ::
  "'v filesys \<Rightarrow> string \<Rightarrow> string \<Rightarrow> string \<Rightarrow> string \<Rightarrow> 'v \<Rightarrow> string option \<times> 'v" where
  "WriteFiles fs dir caCert nodeCert nodeKey v =
     (case fs_MkdirAll fs dir 488 v of
        (Some err, v1) \<Rightarrow> (Some err, v1)
      | (None, v1) \<Rightarrow>
          (case write_some fs dir CAFile caCert 420 v1 of
             (Some err, v2) \<Rightarrow> (Some err, v2)
           | (None, v2) \<Rightarrow>
               (case write_some fs dir CertFile nodeCert 420 v2 of
                  (Some err, v3) \<Rightarrow> (Some err, v3)
                | (None, v3) \<Rightarrow> write_some fs dir KeyFile nodeKey 384 v3)))"

definition read_file :: "'v filesys \<Rightarrow> string \<Rightarrow> string \<Rightarrow> 'v \<Rightarrow> string + string" where
  "read_file fs dir name v =
     (case fs_ReadFile fs (fs_Join fs dir name) v of
        FileData data \<Rightarrow> Inr data | FileMissing \<Rightarrow> Inl ''file does not exist'' | FileError err \<Rightarrow> Inl err)"

definition LoadFiles :: "'v filesys \<Rightarrow> string \<Rightarrow> 'v \<Rightarrow> string + string \<times> string \<times> string" where
  "LoadFiles fs dir v =
     (case read_file fs dir CAFile v of
        Inl err \<Rightarrow> Inl err
      | Inr ca \<Rightarrow>
          (case read_file fs dir CertFile v of
             Inl err \<Rightarrow> Inl err
           | Inr cert \<Rightarrow>
               (case read_file fs dir KeyFile v of
                  Inl err \<Rightarrow> Inl err
                | Inr key \<Rightarrow> Inr (ca, cert, key))))"

definition ClientFromDir :: "('k, 'w) crypto \<Rightarrow> 'v filesys \<Rightarrow> string \<Rightarrow> 'v \<Rightarrow> mtls_error + transport" where
  "ClientFromDir cy fs dir v =
     (case LoadFiles fs dir v of
        Inl err \<Rightarrow> Inl (MtlsFile err)
      | Inr (ca, cert, key) \<Rightarrow> ClientTLS cy ca cert key)"

section \<open>Handshakes\<close>

text \<open>
  What package crypto/tls does with these configurations. A client checks the server's chain with the
  standard check \<open>std\<close> unless it is told to skip it, and then calls VerifyPeerCertificate; a resumed
  session, possible only with session tickets, has no check. A server with VerifyClientCertIfGiven
  takes a client without a certificate, and verifies any other for the client usage.
\<close>

definition client_accepts ::
  "tls_conf \<Rightarrow> bool \<Rightarrow> (string list \<Rightarrow> bool) \<Rightarrow> gotime \<Rightarrow> string list \<Rightarrow> bool" where
  "client_accepts cfg resumed std now raw \<longleftrightarrow>
     (resumed \<and> \<not> tl_SessionTicketsDisabled cfg) \<or>
     (tl_InsecureSkipVerify cfg \<or> std raw) \<and>
     (case tl_VerifyPeerCertificate cfg of None \<Rightarrow> True | Some verify \<Rightarrow> verify now raw = None)"

definition server_accepts :: "('k, 'w) crypto \<Rightarrow> tls_conf \<Rightarrow> gotime \<Rightarrow> string list \<Rightarrow> bool" where
  "server_accepts cy cfg now raw \<longleftrightarrow>
     (case tl_ClientAuth cfg of
        NoClientCert \<Rightarrow> True
      | VerifyClientCertIfGiven \<Rightarrow>
          (case parse_intermediates cy raw of
             Inl err \<Rightarrow> False
           | Inr [] \<Rightarrow> True
           | Inr (peer # ics) \<Rightarrow>
               cy_Verify cy (case tl_ClientCAs cfg of None \<Rightarrow> [] | Some pool \<Rightarrow> pool) now
                 ExtKeyUsageClientAuth peer ics = None))"

section \<open>Laws of the cryptography\<close>

text \<open>
  \<open>signer\<close> and \<open>subject\<close> say which key signed an encoded certificate and which key it certifies. Times
  are encoded in whole seconds. Verify accepts a certificate that a CA of the pool signed, while both
  are valid and the usage is one of the certificate; what it accepts has a chain of signatures
  through the given intermediates to a certificate of the pool.
\<close>

definition whole_seconds :: "gotime \<Rightarrow> gotime" where
  "whole_seconds t = t - t mod Second"

definition encodes :: "x509 \<Rightarrow> x509 \<Rightarrow> bool" where
  "encodes c tmpl \<longleftrightarrow>
     xc_CommonName c = xc_CommonName tmpl \<and>
     xc_NotBefore c = whole_seconds (xc_NotBefore tmpl) \<and>
     xc_NotAfter c = whole_seconds (xc_NotAfter tmpl) \<and>
     xc_KeyUsage c = xc_KeyUsage tmpl \<and> xc_ExtKeyUsage c = xc_ExtKeyUsage tmpl \<and>
     xc_BasicConstraintsValid c = xc_BasicConstraintsValid tmpl \<and> xc_IsCA c = xc_IsCA tmpl"

definition valid_at :: "gotime \<Rightarrow> x509 \<Rightarrow> bool" where
  "valid_at now c \<longleftrightarrow> xc_NotBefore c \<le> now \<and> now \<le> xc_NotAfter c"

definition can_sign :: "x509 \<Rightarrow> bool" where
  "can_sign c \<longleftrightarrow> xc_BasicConstraintsValid c \<and> xc_IsCA c \<and> KeyUsageCertSign \<in> set (xc_KeyUsage c)"

inductive chained :: "(string \<Rightarrow> 'k) \<Rightarrow> (string \<Rightarrow> 'k) \<Rightarrow> x509 list \<Rightarrow> x509 list \<Rightarrow> x509 \<Rightarrow> bool"
  for signer subject roots ics where
  in_pool: "c \<in> set roots \<Longrightarrow> chained signer subject roots ics c"
| by_root: "r \<in> set roots \<Longrightarrow> signer (xc_Raw c) = subject (xc_Raw r) \<Longrightarrow> chained signer subject roots ics c"
| by_intermediate:
    "i \<in> set ics \<Longrightarrow> signer (xc_Raw c) = subject (xc_Raw i) \<Longrightarrow>
     chained signer subject roots ics i \<Longrightarrow> chained signer subject roots ics c"

definition create_law :: "(string \<Rightarrow> 'k) \<Rightarrow> (string \<Rightarrow> 'k) \<Rightarrow> ('k, 'w) crypto \<Rightarrow> bool" where
  "create_law signer subject cy \<longleftrightarrow>
     (\<forall>tmpl parent k key w der w'. cy_Create cy tmpl parent k key w = (Inr der, w') \<longrightarrow>
        signer der = key \<and> subject der = k \<and> (\<exists>c. cy_Parse cy der = Inr c \<and> encodes c tmpl))"

definition pem_laws :: "(string \<Rightarrow> 'k) \<Rightarrow> ('k, 'w) crypto \<Rightarrow> bool" where
  "pem_laws subject cy \<longleftrightarrow>
     (\<forall>ty bs. cy_PemDecode cy (cy_PemEncode cy ty bs) = Some (ty, bs)) \<and>
     (\<forall>k bs. cy_MarshalKey cy k = Inr bs \<longrightarrow> cy_ParseKey cy bs = Inr (Some k)) \<and>
     (\<forall>der c. cy_Parse cy der = Inr c \<longrightarrow>
        xc_Raw c = der \<and> cy_Pool cy (cy_PemEncode cy ''CERTIFICATE'' der) = [c]) \<and>
     (\<forall>der c bs. cy_Parse cy der = Inr c \<longrightarrow> cy_ParseKey cy bs = Inr (Some (subject der)) \<longrightarrow>
        cy_KeyPair cy (cy_PemEncode cy ''CERTIFICATE'' der) (cy_PemEncode cy ''PRIVATE KEY'' bs) = None)"

definition verify_law :: "(string \<Rightarrow> 'k) \<Rightarrow> ('k, 'w) crypto \<Rightarrow> bool" where
  "verify_law subject cy \<longleftrightarrow>
     (\<forall>ca tmpl k w der w' c now usage. can_sign ca \<longrightarrow>
        cy_Create cy tmpl ca k (subject (xc_Raw ca)) w = (Inr der, w') \<longrightarrow> cy_Parse cy der = Inr c \<longrightarrow>
        valid_at now ca \<longrightarrow> valid_at now c \<longrightarrow> usage \<in> set (xc_ExtKeyUsage c) \<longrightarrow>
        cy_Verify cy [ca] now usage c [] = None)"

definition chain_law :: "(string \<Rightarrow> 'k) \<Rightarrow> (string \<Rightarrow> 'k) \<Rightarrow> ('k, 'w) crypto \<Rightarrow> bool" where
  "chain_law signer subject cy \<longleftrightarrow>
     (\<forall>roots now usage c ics. cy_Verify cy roots now usage c ics = None \<longrightarrow>
        chained signer subject roots ics c)"

definition crypto_laws :: "(string \<Rightarrow> 'k) \<Rightarrow> (string \<Rightarrow> 'k) \<Rightarrow> ('k, 'w) crypto \<Rightarrow> bool" where
  "crypto_laws signer subject cy \<longleftrightarrow>
     create_law signer subject cy \<and> pem_laws subject cy \<and> verify_law subject cy \<and>
     chain_law signer subject cy"

section \<open>Lemmas\<close>

lemma rbind_Inr: "rbind m f w = (Inr b, w') \<longleftrightarrow> (\<exists>a w1. m w = (Inr a, w1) \<and> f a w1 = (Inr b, w'))"
  by (auto simp: rbind_def split: prod.splits sum.splits)

lemma rwrap_Inr: "rwrap err m w = (Inr a, w') \<longleftrightarrow> m w = (Inr a, w')"
  by (auto simp: rwrap_def split: prod.splits sum.splits)

lemma rlift_Inr: "rlift r w = (Inr a, w') \<longleftrightarrow> r = Inr a \<and> w' = w"
  by (auto simp: rlift_def)

lemma sum_wrap_Inr: "sum_wrap err r = Inr a \<longleftrightarrow> r = Inr a"
  by (cases r) (simp_all add: sum_wrap_def)

lemma encodePEM_Inr:
  "encodePEM cy der key = Inr (certPEM, keyPEM) \<longleftrightarrow>
   (\<exists>bs. cy_MarshalKey cy key = Inr bs \<and> certPEM = cy_PemEncode cy ''CERTIFICATE'' der \<and>
     keyPEM = cy_PemEncode cy ''PRIVATE KEY'' bs)"
  by (auto simp: encodePEM_def split: sum.splits)

lemmas rand_simps = rbind_Inr rwrap_Inr rlift_Inr sum_wrap_Inr encodePEM_Inr

text \<open>The laws one by one.\<close>

lemma laws_pem: "crypto_laws signer subject cy \<Longrightarrow> cy_PemDecode cy (cy_PemEncode cy ty bs) = Some (ty, bs)"
  by (simp add: crypto_laws_def pem_laws_def)

lemma laws_key: "crypto_laws signer subject cy \<Longrightarrow> cy_MarshalKey cy k = Inr bs \<Longrightarrow> cy_ParseKey cy bs = Inr (Some k)"
  by (simp add: crypto_laws_def pem_laws_def)

lemma laws_create:
  "crypto_laws signer subject cy \<Longrightarrow> cy_Create cy tmpl parent k key w = (Inr der, w') \<Longrightarrow>
   signer der = key \<and> subject der = k \<and> (\<exists>c. cy_Parse cy der = Inr c \<and> encodes c tmpl)"
  unfolding crypto_laws_def create_law_def by (elim conjE) blast

lemma laws_parse:
  "crypto_laws signer subject cy \<Longrightarrow> cy_Parse cy der = Inr c \<Longrightarrow>
   xc_Raw c = der \<and> cy_Pool cy (cy_PemEncode cy ''CERTIFICATE'' der) = [c]"
  by (simp add: crypto_laws_def pem_laws_def)

lemma laws_pair:
  "crypto_laws signer subject cy \<Longrightarrow> cy_Parse cy der = Inr c \<Longrightarrow>
   cy_ParseKey cy bs = Inr (Some (subject der)) \<Longrightarrow>
   cy_KeyPair cy (cy_PemEncode cy ''CERTIFICATE'' der) (cy_PemEncode cy ''PRIVATE KEY'' bs) = None"
  unfolding crypto_laws_def pem_laws_def by (elim conjE) blast

lemma laws_verify:
  "crypto_laws signer subject cy \<Longrightarrow> can_sign ca \<Longrightarrow>
   cy_Create cy tmpl ca k (subject (xc_Raw ca)) w = (Inr der, w') \<Longrightarrow> cy_Parse cy der = Inr c \<Longrightarrow>
   valid_at now ca \<Longrightarrow> valid_at now c \<Longrightarrow> usage \<in> set (xc_ExtKeyUsage c) \<Longrightarrow>
   cy_Verify cy [ca] now usage c [] = None"
  unfolding crypto_laws_def verify_law_def by (elim conjE) blast

lemma laws_chain:
  "crypto_laws signer subject cy \<Longrightarrow> cy_Verify cy roots now usage c ics = None \<Longrightarrow>
   chained signer subject roots ics c"
  unfolding crypto_laws_def chain_law_def by (elim conjE) blast

text \<open>The authority of a cluster: its certificate, its key and their texts.\<close>

definition authority ::
  "(string \<Rightarrow> 'k) \<Rightarrow> (string \<Rightarrow> 'k) \<Rightarrow> ('k, 'w) crypto \<Rightarrow> gotime \<Rightarrow> x509 \<Rightarrow> 'k \<Rightarrow> string \<Rightarrow> string \<Rightarrow> bool" where
  "authority signer subject cy now ca k caPEM keyPEM \<longleftrightarrow>
     (\<exists>bs. cy_Parse cy (xc_Raw ca) = Inr ca \<and> subject (xc_Raw ca) = k \<and> signer (xc_Raw ca) = k \<and>
       can_sign ca \<and> xc_NotBefore ca = whole_seconds (now - Minute) \<and>
       xc_NotAfter ca = whole_seconds (now + caValidity) \<and>
       caPEM = cy_PemEncode cy ''CERTIFICATE'' (xc_Raw ca) \<and>
       keyPEM = cy_PemEncode cy ''PRIVATE KEY'' bs \<and> cy_ParseKey cy bs = Inr (Some k))"

text \<open>A certificate that the key of the authority issued to a node, and its texts.\<close>

definition node_issued ::
  "(string \<Rightarrow> 'k) \<Rightarrow> (string \<Rightarrow> 'k) \<Rightarrow> ('k, 'w) crypto \<Rightarrow> gotime \<Rightarrow> x509 \<Rightarrow> 'k \<Rightarrow> string \<Rightarrow> string \<Rightarrow> string \<Rightarrow> string \<Rightarrow> bool" where
  "node_issued signer subject cy now ca k nodeID der certPEM keyPEM \<longleftrightarrow>
     (\<exists>serial key w w' c bs. cy_Create cy (node_template now serial nodeID) ca key k w = (Inr der, w') \<and>
       cy_Parse cy der = Inr c \<and> encodes c (node_template now serial nodeID) \<and> signer der = k \<and>
       subject der = key \<and> certPEM = cy_PemEncode cy ''CERTIFICATE'' der \<and>
       keyPEM = cy_PemEncode cy ''PRIVATE KEY'' bs \<and> cy_ParseKey cy bs = Inr (Some key))"

lemma generateCA_authority:
  assumes laws: "crypto_laws signer subject cy"
    and "generateCA cy now cid w = (Inr (ca, k, caPEM, keyPEM), w')"
  shows "authority signer subject cy now ca k caPEM keyPEM"
proof -
  obtain serial w1 der w2 bs where create:
      "cy_Create cy (ca_template now serial cid) (ca_template now serial cid) k k w1 = (Inr der, w2)"
    and parse: "cy_Parse cy der = Inr ca" and marshal: "cy_MarshalKey cy k = Inr bs"
    and pem: "caPEM = cy_PemEncode cy ''CERTIFICATE'' der" "keyPEM = cy_PemEncode cy ''PRIVATE KEY'' bs"
    using assms(2) by (auto simp: generateCA_def Let_def rand_simps)
  have enc: "signer der = k" "subject der = k" "encodes ca (ca_template now serial cid)"
    using laws_create [OF laws create] parse by auto
  have raw: "xc_Raw ca = der" using laws_parse [OF laws parse] by simp
  have "can_sign ca" "xc_NotBefore ca = whole_seconds (now - Minute)"
    "xc_NotAfter ca = whole_seconds (now + caValidity)"
    using enc(3) by (auto simp: encodes_def can_sign_def ca_template_def)
  then show ?thesis
    unfolding authority_def using parse raw enc pem laws_key [OF laws marshal] by auto
qed

lemma issueNode_issued:
  assumes laws: "crypto_laws signer subject cy"
    and "issueNode cy now ca k nid w = (Inr (certPEM, keyPEM), w')"
  shows "\<exists>der. node_issued signer subject cy now ca k nid der certPEM keyPEM"
proof -
  obtain serial key w1 der w2 bs where create:
      "cy_Create cy (node_template now serial nid) ca key k w1 = (Inr der, w2)"
    and marshal: "cy_MarshalKey cy key = Inr bs"
    and pem: "certPEM = cy_PemEncode cy ''CERTIFICATE'' der" "keyPEM = cy_PemEncode cy ''PRIVATE KEY'' bs"
    using assms(2) by (auto simp: issueNode_def rand_simps)
  show ?thesis
    unfolding node_issued_def using create laws_create [OF laws create] pem laws_key [OF laws marshal] by blast
qed

lemma Generate_parts:
  assumes laws: "crypto_laws signer subject cy" and "Generate cy now cid nid w = (Inr (b, token), w')"
  obtains ca k der bytes where "authority signer subject cy now ca k (CACert b) (CAKey b)"
    and "node_issued signer subject cy now ca k nid der (NodeCert b) (NodeKey b)"
    and "token = hex_bytes bytes" and "JoinTokenHash b = cy_sha256 cy token"
    and "\<exists>w1 w2. cy_Read cy tokenBytes w1 = (Inr bytes, w2)"
proof -
  obtain ca k w1 w2 w3 bytes where gen: "generateCA cy now cid w = (Inr (ca, k, CACert b, CAKey b), w1)"
    and node: "issueNode cy now ca k nid w1 = (Inr (NodeCert b, NodeKey b), w2)"
    and tok: "cy_Read cy tokenBytes w2 = (Inr bytes, w3)" "token = hex_bytes bytes"
      "JoinTokenHash b = cy_sha256 cy token"
    using assms(2)
    by (auto simp: Generate_def newJoinToken_def HashToken_def Let_def rand_simps
        split: if_splits)
  obtain der where "node_issued signer subject cy now ca k nid der (NodeCert b) (NodeKey b)"
    using issueNode_issued [OF laws node] by blast
  then show thesis using that generateCA_authority [OF laws gen] tok by blast
qed

lemma IssueNodeCert_issued:
  assumes laws: "crypto_laws signer subject cy"
    and auth: "authority signer subject cy now0 ca k caPEM caKeyPEM"
    and "IssueNodeCert cy now caPEM caKeyPEM nid w = (Inr (certPEM, keyPEM), w')"
  shows "\<exists>der. node_issued signer subject cy now ca k nid der certPEM keyPEM"
proof -
  have "ParseCertificate cy caPEM = Inr ca" "parseCAKey cy caKeyPEM = Inr k"
    using auth by (auto simp: authority_def ParseCertificate_def parseCAKey_def laws_pem [OF laws] sum_wrap_def)
  then have "issueNode cy now ca k nid w = (Inr (certPEM, keyPEM), w')"
    using assms(3) by (auto simp: IssueNodeCert_def rand_simps split: if_splits)
  then show ?thesis by (rule issueNode_issued [OF laws])
qed


lemma whole_seconds_le: "whole_seconds t \<le> t"
  by (simp add: whole_seconds_def Second_def)

text \<open>With the material of an authority and of a node, both configurations exist.\<close>

lemma authority_pool:
  "crypto_laws signer subject cy \<Longrightarrow> authority signer subject cy now ca k caPEM caKeyPEM \<Longrightarrow>
   poolFromPEM cy caPEM = Inr [ca]"
  by (auto simp: authority_def poolFromPEM_def dest: laws_parse)

lemma node_issued_pair:
  "crypto_laws signer subject cy \<Longrightarrow> node_issued signer subject cy now ca k nid der certPEM keyPEM \<Longrightarrow>
   cy_KeyPair cy certPEM keyPEM = None"
  by (auto simp: node_issued_def intro: laws_pair)

text \<open>A certificate of the authority is accepted for both usages while both certificates are valid.\<close>

lemma node_issued_verify:
  assumes laws: "crypto_laws signer subject cy"
    and auth: "authority signer subject cy now0 ca k caPEM caKeyPEM"
    and iss: "node_issued signer subject cy now ca k nid der certPEM keyPEM"
    and t: "now0 \<le> t" "now \<le> t" "t \<le> whole_seconds (now0 + caValidity)"
      "t \<le> whole_seconds (now + nodeValidity)"
  shows "\<exists>c. cy_Parse cy der = Inr c \<and> (\<forall>usage. cy_Verify cy [ca] t usage c [] = None)"
proof -
  obtain serial key w w' c where create: "cy_Create cy (node_template now serial nid) ca key k w = (Inr der, w')"
    and parse: "cy_Parse cy der = Inr c" and enc: "encodes c (node_template now serial nid)"
    using iss by (auto simp: node_issued_def)
  have ca: "can_sign ca" "subject (xc_Raw ca) = k" using auth by (auto simp: authority_def)
  have start: "whole_seconds (now - Minute) \<le> t" if "now \<le> t" for now
    using that whole_seconds_le [of "now - Minute"] by (simp add: Minute_def Second_def)
  have "valid_at t ca" using auth t(3) start [OF t(1)] by (auto simp: authority_def valid_at_def)
  moreover have "valid_at t c"
    using enc t(4) start [OF t(2)] by (simp add: encodes_def valid_at_def node_template_def)
  moreover have "usage \<in> set (xc_ExtKeyUsage c)" for usage
    using enc by (cases usage) (simp_all add: encodes_def node_template_def)
  moreover have "cy_Create cy (node_template now serial nid) ca key (subject (xc_Raw ca)) w = (Inr der, w')"
    using create ca(2) by simp
  ultimately show ?thesis using laws_verify [OF laws ca(1)] parse by blast
qed

text \<open>What the peer check accepts contains a certificate that the key of the authority signed.\<close>

lemma parse_intermediates_raw:
  "crypto_laws signer subject cy \<Longrightarrow> parse_intermediates cy ders = Inr cs \<Longrightarrow> map xc_Raw cs = ders"
  by (induction ders arbitrary: cs) (auto split: sum.splits dest: laws_parse)

lemma chained_signed:
  assumes "chained signer subject [ca] ics c" and "subject (xc_Raw ca) = k" and "signer (xc_Raw ca) = k"
  shows "\<exists>x \<in> set (c # ics). signer (xc_Raw x) = k"
  using assms(1)
proof (induction rule: chained.induct)
  case (by_intermediate i c)
  then show ?case by auto
qed (use assms(2,3) in auto)

lemma verifyPeer_signed:
  assumes laws: "crypto_laws signer subject cy"
    and auth: "authority signer subject cy now0 ca k caPEM caKeyPEM"
    and ok: "verifyPeer cy [ca] t raw = None"
  shows "\<exists>d \<in> set raw. signer d = k"
proof -
  obtain d ds c ics where raw: "raw = d # ds" and c: "cy_Parse cy d = Inr c"
    and ics: "parse_intermediates cy ds = Inr ics"
    and v: "cy_Verify cy [ca] t ExtKeyUsageServerAuth c ics = None"
    using ok by (auto simp: verifyPeer_def split: list.splits sum.splits)
  have "subject (xc_Raw ca) = k" "signer (xc_Raw ca) = k" using auth by (auto simp: authority_def)
  from chained_signed [OF laws_chain [OF laws v] this]
  have "\<exists>x \<in> set (map xc_Raw (c # ics)). signer x = k" by auto
  then show ?thesis using raw laws_parse [OF laws c] parse_intermediates_raw [OF laws ics] by simp
qed

text \<open>
  The laws of the file system: a successful write is what the file then holds, making a directory
  changes no file, and the three names are different files of a directory.
\<close>

definition fs_laws :: "'v filesys \<Rightarrow> bool" where
  "fs_laws fs \<longleftrightarrow>
     (\<forall>path data mode v v'. fs_WriteFile fs path data mode v = (None, v') \<longrightarrow>
        (\<forall>p. fs_ReadFile fs p v' = (if p = path then FileData data else fs_ReadFile fs p v))) \<and>
     (\<forall>dir mode v v' p. fs_MkdirAll fs dir mode v = (None, v') \<longrightarrow>
        fs_ReadFile fs p v' = fs_ReadFile fs p v) \<and>
     (\<forall>dir. distinct (map (fs_Join fs dir) [CAFile, CertFile, KeyFile]))"

lemma fs_write:
  "fs_laws fs \<Longrightarrow> write_some fs dir name data mode v = (None, v') \<Longrightarrow> data \<noteq> '''' \<Longrightarrow>
   fs_ReadFile fs p v' = (if p = fs_Join fs dir name then FileData data else fs_ReadFile fs p v)"
  unfolding fs_laws_def write_some_def by (elim conjE) simp

lemma WriteFiles_read:
  assumes laws: "fs_laws fs" and ok: "WriteFiles fs dir ca cert key v = (None, v')"
    and ne: "ca \<noteq> ''''" "cert \<noteq> ''''" "key \<noteq> ''''"
  shows "LoadFiles fs dir v' = Inr (ca, cert, key)"
proof -
  obtain v1 v2 v3 where w: "write_some fs dir CAFile ca 420 v1 = (None, v2)"
    "write_some fs dir CertFile cert 420 v2 = (None, v3)" "write_some fs dir KeyFile key 384 v3 = (None, v')"
    using ok by (auto simp: WriteFiles_def split: prod.splits option.splits)
  have "distinct (map (fs_Join fs dir) [CAFile, CertFile, KeyFile])"
    using laws by (simp only: fs_laws_def)
  then show ?thesis
    by (auto simp: LoadFiles_def read_file_def fs_write [OF laws w(1) ne(1)] fs_write [OF laws w(2) ne(2)]
        fs_write [OF laws w(3) ne(3)])
qed

text \<open>
  A server with the reloadable configuration takes each connection with the files as they are then:
  whatever the loader returns at that time decides, not what it returned at the start.
\<close>

lemma reload_current:
  assumes "ReloadableServerTLS cy (Some load) v = (Inr rl, v1)"
  shows "rl_GetConfigForClient rl v2 =
    (case load v2 of (Inl err, v3) \<Rightarrow> (Inl err, v3) | (Inr (ca, cert, key), v3) \<Rightarrow> (ServerTLS cy ca cert key, v3))"
  using assms
  by (auto simp: ReloadableServerTLS_def reload_config_def rbind_def rlift_def split: prod.splits sum.splits)

text \<open>A server with the pool of the authority takes a certificate only with the authority's signature.\<close>

lemma server_accepts_signed:
  assumes laws: "crypto_laws signer subject cy"
    and auth: "authority signer subject cy now0 ca k caPEM caKeyPEM"
    and conf: "tl_ClientAuth sc = VerifyClientCertIfGiven" "tl_ClientCAs sc = Some [ca]"
    and ok: "server_accepts cy sc t raw" and "raw \<noteq> []"
  shows "\<exists>d \<in> set raw. signer d = k"
proof -
  obtain cs where cs: "parse_intermediates cy raw = Inr cs"
    using ok conf by (auto simp: server_accepts_def split: sum.splits)
  have raws: "map xc_Raw cs = raw" by (rule parse_intermediates_raw [OF laws cs])
  with \<open>raw \<noteq> []\<close> obtain c ics where c: "cs = c # ics" by (cases cs) auto
  have v: "cy_Verify cy [ca] t ExtKeyUsageClientAuth c ics = None"
    using ok conf cs c by (simp add: server_accepts_def)
  have "subject (xc_Raw ca) = k" "signer (xc_Raw ca) = k" using auth by (auto simp: authority_def)
  from chained_signed [OF laws_chain [OF laws v] this]
  have "\<exists>x \<in> set (map xc_Raw (c # ics)). signer x = k" by auto
  then show ?thesis unfolding raws [unfolded c] .
qed

text \<open>The configurations of one node, and what they accept.\<close>

lemma issued_configs:
  assumes laws: "crypto_laws signer subject cy"
    and auth: "authority signer subject cy now0 ca k caPEM caKeyPEM"
    and node: "node_issued signer subject cy now ca k nid der cert key"
  obtains cc sc where "clientConfig cy caPEM cert key = Inr cc" and "ServerTLS cy caPEM cert key = Inr sc"
    and "\<And>now' nid' der' cert' key' t resumed std.
      node_issued signer subject cy now' ca k nid' der' cert' key' \<Longrightarrow>
      now0 \<le> t \<Longrightarrow> now' \<le> t \<Longrightarrow> t \<le> whole_seconds (now0 + caValidity) \<Longrightarrow>
      t \<le> whole_seconds (now' + nodeValidity) \<Longrightarrow>
      client_accepts cc resumed std t [der'] \<and> server_accepts cy sc t [der']"
    and "\<And>t resumed std raw. client_accepts cc resumed std t raw \<Longrightarrow> \<exists>d \<in> set raw. signer d = k"
    and "\<And>t raw. server_accepts cy sc t raw \<Longrightarrow> raw \<noteq> [] \<Longrightarrow> \<exists>d \<in> set raw. signer d = k"
proof -
  note pool = authority_pool [OF laws auth] and pair = node_issued_pair [OF laws node]
  obtain cc where cc: "clientConfig cy caPEM cert key = Inr cc"
    "tl_SessionTicketsDisabled cc" "tl_InsecureSkipVerify cc"
    "tl_VerifyPeerCertificate cc = Some (verifyPeer cy [ca])"
    using pair pool by (simp add: clientConfig_def)
  obtain sc where sc: "ServerTLS cy caPEM cert key = Inr sc"
    "tl_ClientAuth sc = VerifyClientCertIfGiven" "tl_ClientCAs sc = Some [ca]"
    using pair pool by (simp add: ServerTLS_def)
  show thesis
  proof (rule that [OF cc(1) sc(1)])
    fix now' nid' der' cert' key' t resumed std
    assume "node_issued signer subject cy now' ca k nid' der' cert' key'" and t: "now0 \<le> t" "now' \<le> t"
      "t \<le> whole_seconds (now0 + caValidity)" "t \<le> whole_seconds (now' + nodeValidity)"
    from node_issued_verify [OF laws auth this]
    show "client_accepts cc resumed std t [der'] \<and> server_accepts cy sc t [der']"
      using cc(2-4) sc(2,3) by (auto simp: client_accepts_def server_accepts_def verifyPeer_def)
  next
    fix t resumed std raw
    assume "client_accepts cc resumed std t raw"
    with cc(2-4) verifyPeer_signed [OF laws auth] show "\<exists>d \<in> set raw. signer d = k"
      by (simp add: client_accepts_def)
  next
    fix t raw
    assume "server_accepts cy sc t raw" "raw \<noteq> []"
    then show "\<exists>d \<in> set raw. signer d = k" by (rule server_accepts_signed [OF laws auth sc(2,3)])
  qed
qed

section \<open>Properties\<close>

text \<open>
  C12. The certificates of a cluster work both ways, and only they do. From the bundle of Generate the
  seed gets a client and a server configuration, and so does every node for which IssueNodeCert makes
  a certificate with the CA of the bundle. As long as the CA and the certificate are valid, the seed's
  certificate is accepted by the client and by the server configuration of the seed and of the node,
  as the peer they dial and as a client, and so is the node's certificate. And whatever chain any of
  these client configurations accepts, at any time, with or without a resumed session and whatever
  the standard check says, and whatever chain with a certificate any of the server configurations
  accepts, contains a certificate signed by the one key that signed both.
\<close>

theorem cluster_certificates:
  assumes laws: "crypto_laws signer subject cy"
    and gen: "Generate cy now0 cid nid0 w0 = (Inr (b, token), w1)"
    and iss: "IssueNodeCert cy now (CACert b) (CAKey b) nid w2 = (Inr (cert, key), w3)"
  shows "\<exists>cc0 sc0 cc1 sc1 der0 der1.
    clientConfig cy (CACert b) (NodeCert b) (NodeKey b) = Inr cc0 \<and>
    ServerTLS cy (CACert b) (NodeCert b) (NodeKey b) = Inr sc0 \<and>
    clientConfig cy (CACert b) cert key = Inr cc1 \<and> ServerTLS cy (CACert b) cert key = Inr sc1 \<and>
    cy_PemDecode cy (NodeCert b) = Some (''CERTIFICATE'', der0) \<and>
    cy_PemDecode cy cert = Some (''CERTIFICATE'', der1) \<and>
    (\<forall>t resumed std. now0 \<le> t \<and> t \<le> whole_seconds (now0 + caValidity) \<and>
       t \<le> whole_seconds (now0 + nodeValidity) \<longrightarrow>
       client_accepts cc0 resumed std t [der0] \<and> server_accepts cy sc0 t [der0] \<and>
       client_accepts cc1 resumed std t [der0] \<and> server_accepts cy sc1 t [der0]) \<and>
    (\<forall>t resumed std. now0 \<le> t \<and> now \<le> t \<and> t \<le> whole_seconds (now0 + caValidity) \<and>
       t \<le> whole_seconds (now + nodeValidity) \<longrightarrow>
       client_accepts cc0 resumed std t [der1] \<and> server_accepts cy sc0 t [der1] \<and>
       client_accepts cc1 resumed std t [der1] \<and> server_accepts cy sc1 t [der1]) \<and>
    signer der0 = signer der1 \<and>
    (\<forall>t resumed std raw. client_accepts cc0 resumed std t raw \<or> client_accepts cc1 resumed std t raw \<longrightarrow>
       (\<exists>d \<in> set raw. signer d = signer der1)) \<and>
    (\<forall>t raw. raw \<noteq> [] \<and> (server_accepts cy sc0 t raw \<or> server_accepts cy sc1 t raw) \<longrightarrow>
       (\<exists>d \<in> set raw. signer d = signer der1))"
proof -
  obtain ca k der0 where auth: "authority signer subject cy now0 ca k (CACert b) (CAKey b)"
    and seed: "node_issued signer subject cy now0 ca k nid0 der0 (NodeCert b) (NodeKey b)"
    using Generate_parts [OF laws gen] by metis
  obtain der1 where node: "node_issued signer subject cy now ca k nid der1 cert key"
    using IssueNodeCert_issued [OF laws auth iss] by blast
  have der0: "cy_PemDecode cy (NodeCert b) = Some (''CERTIFICATE'', der0)" "signer der0 = k"
    using seed laws_pem [OF laws] by (auto simp: node_issued_def)
  have der1: "cy_PemDecode cy cert = Some (''CERTIFICATE'', der1)" "signer der1 = k"
    using node laws_pem [OF laws] by (auto simp: node_issued_def)
  obtain cc0 sc0 where c0: "clientConfig cy (CACert b) (NodeCert b) (NodeKey b) = Inr cc0"
    "ServerTLS cy (CACert b) (NodeCert b) (NodeKey b) = Inr sc0"
    and acc0: "\<And>now' nid' der' cert' key' t resumed std.
      node_issued signer subject cy now' ca k nid' der' cert' key' \<Longrightarrow>
      now0 \<le> t \<Longrightarrow> now' \<le> t \<Longrightarrow> t \<le> whole_seconds (now0 + caValidity) \<Longrightarrow>
      t \<le> whole_seconds (now' + nodeValidity) \<Longrightarrow>
      client_accepts cc0 resumed std t [der'] \<and> server_accepts cy sc0 t [der']"
    and only0: "\<And>t resumed std raw. client_accepts cc0 resumed std t raw \<Longrightarrow> \<exists>d \<in> set raw. signer d = k"
      "\<And>t raw. server_accepts cy sc0 t raw \<Longrightarrow> raw \<noteq> [] \<Longrightarrow> \<exists>d \<in> set raw. signer d = k"
    by (rule issued_configs [OF laws auth seed]) blast
  obtain cc1 sc1 where c1: "clientConfig cy (CACert b) cert key = Inr cc1"
    "ServerTLS cy (CACert b) cert key = Inr sc1"
    and acc1: "\<And>now' nid' der' cert' key' t resumed std.
      node_issued signer subject cy now' ca k nid' der' cert' key' \<Longrightarrow>
      now0 \<le> t \<Longrightarrow> now' \<le> t \<Longrightarrow> t \<le> whole_seconds (now0 + caValidity) \<Longrightarrow>
      t \<le> whole_seconds (now' + nodeValidity) \<Longrightarrow>
      client_accepts cc1 resumed std t [der'] \<and> server_accepts cy sc1 t [der']"
    and only1: "\<And>t resumed std raw. client_accepts cc1 resumed std t raw \<Longrightarrow> \<exists>d \<in> set raw. signer d = k"
      "\<And>t raw. server_accepts cy sc1 t raw \<Longrightarrow> raw \<noteq> [] \<Longrightarrow> \<exists>d \<in> set raw. signer d = k"
    by (rule issued_configs [OF laws auth node]) blast
  have same: "signer der0 = signer der1" using der0(2) der1(2) by simp
  show ?thesis
    by (rule exI [of _ cc0], rule exI [of _ sc0], rule exI [of _ cc1], rule exI [of _ sc1],
        rule exI [of _ der0], rule exI [of _ der1], intro conjI allI impI c0 c1 der0(1) der1(1) same)
      (use acc0 [OF seed] acc1 [OF seed] acc0 [OF node] acc1 [OF node] only0 only1 der1(2) in simp_all,
        blast+)
qed


section \<open>Witnesses\<close>

text \<open>
  A small instance: keys are numbers, drawn from a counter, key 0 is the only one that signs, and an
  encoded certificate spells its kind, its key in unary and its name.
\<close>

definition demo_pem :: "string \<Rightarrow> string \<Rightarrow> string" where
  "demo_pem ty bs = replicate (length ty) (CHR ''x'') @ ''.'' @ ty @ bs"

definition demo_unpem :: "string \<Rightarrow> (string \<times> string) option" where
  "demo_unpem s =
     (let n = length (takeWhile (\<lambda>c. c = CHR ''x'') s); r = drop (Suc n) s in
      if n < length s then Some (take n r, drop n r) else None)"

definition demo_subject :: "string \<Rightarrow> nat" where
  "demo_subject der = length (takeWhile (\<lambda>c. c = CHR ''x'') der)"

definition demo_parse :: "string \<Rightarrow> string + x509" where
  "demo_parse der =
     (case dropWhile (\<lambda>c. c = CHR ''x'') der of
        [] \<Rightarrow> Inl ''malformed''
      | c # name \<Rightarrow>
          if c = CHR ''A'' then Inr ((ca_template 0 7 name)\<lparr>xc_Raw := der\<rparr>)
          else if c = CHR ''N'' then Inr ((node_template 0 7 name)\<lparr>xc_Raw := der\<rparr>)
          else Inl ''malformed'')"

definition demo_create :: "x509 \<Rightarrow> x509 \<Rightarrow> nat \<Rightarrow> nat \<Rightarrow> nat \<Rightarrow> (string + string) \<times> nat" where
  "demo_create tmpl parent k key w =
     (let cn = xc_CommonName tmpl in
      if key = 0 \<and> k = 0 \<and> tmpl = ca_template 0 7 (drop 10 cn) then (Inr (''A'' @ drop 10 cn), w)
      else if key = 0 \<and> tmpl = node_template 0 7 cn then (Inr (replicate k (CHR ''x'') @ ''N'' @ cn), w)
      else (Inl ''unsupported'', w))"

definition demo_crypto :: "(nat, nat) crypto" where
  "demo_crypto =
     \<lparr>cy_GenerateKey = (\<lambda>w. (Inr w, Suc w)), cy_Int = (\<lambda>n w. (Inr 7, w)),
      cy_Read = (\<lambda>n w. (Inr (replicate n 171), w)), cy_Create = demo_create, cy_Parse = demo_parse,
      cy_MarshalKey = (\<lambda>k. Inr (replicate k (CHR ''k''))), cy_ParseKey = (\<lambda>bs. Inr (Some (length bs))),
      cy_PemEncode = demo_pem, cy_PemDecode = demo_unpem, cy_sha256 = (\<lambda>s. take 32 (s @ replicate 32 (CHR ''h''))),
      cy_Pool = (\<lambda>pem. case demo_unpem pem of
         None \<Rightarrow> [] | Some (ty, der) \<Rightarrow> (case demo_parse der of Inl err \<Rightarrow> [] | Inr c \<Rightarrow> [c])),
      cy_KeyPair = (\<lambda>cert key. case (demo_unpem cert, demo_unpem key) of
         (Some (_, der), Some (_, bs)) \<Rightarrow> if demo_subject der = length bs then None else Some ''mismatch''
       | _ \<Rightarrow> Some ''no PEM''),
      cy_Verify = (\<lambda>roots now usage c ics.
         if list_ex (\<lambda>r. demo_subject (xc_Raw r) = 0) roots then None else Some ''unknown authority'')\<rparr>"

lemma takeWhile_replicate_stop [simp]: "\<not> P c \<Longrightarrow> P x \<Longrightarrow> takeWhile P (replicate n x @ c # s) = replicate n x"
  by (induction n) simp_all

lemma dropWhile_replicate_stop [simp]: "\<not> P c \<Longrightarrow> P x \<Longrightarrow> dropWhile P (replicate n x @ c # s) = c # s"
  by (induction n) simp_all

lemma demo_unpem_pem [simp]: "demo_unpem (demo_pem ty bs) = Some (ty, bs)"
  by (simp add: demo_unpem_def demo_pem_def Let_def)

lemma demo_validity [simp]:
  "whole_seconds (- Minute) = - Minute" "whole_seconds caValidity = caValidity"
  "whole_seconds nodeValidity = nodeValidity"
  by (simp_all add: whole_seconds_def Minute_def caValidity_def nodeValidity_def Second_def Hour_def)

lemma demo_create_law: "create_law (\<lambda>der. 0) demo_subject demo_crypto"
  unfolding create_law_def
proof (intro allI impI)
  fix tmpl parent :: x509 and k key w w' :: nat and der
  assume "cy_Create demo_crypto tmpl parent k key w = (Inr der, w')"
  then consider
      (ca) name where "key = 0" "k = 0" "tmpl = ca_template 0 7 name" "der = ''A'' @ name"
    | (node) name where "key = 0" "tmpl = node_template 0 7 name" "der = replicate k (CHR ''x'') @ ''N'' @ name"
    by (auto simp: demo_crypto_def demo_create_def Let_def split: if_splits)
  then show "0 = key \<and> demo_subject der = k \<and> (\<exists>c. cy_Parse demo_crypto der = Inr c \<and> encodes c tmpl)"
  proof cases
    case ca
    then show ?thesis
      by (simp add: demo_crypto_def demo_subject_def demo_parse_def encodes_def ca_template_def)
  next
    case node
    then show ?thesis
      by (simp add: demo_crypto_def demo_subject_def demo_parse_def encodes_def node_template_def)
  qed
qed

lemma demo_parse_raw: "demo_parse der = Inr c \<Longrightarrow> xc_Raw c = der"
  by (auto simp: demo_parse_def split: list.splits if_splits)

lemma demo_laws: "crypto_laws (\<lambda>der. 0) demo_subject demo_crypto"
proof -
  have "pem_laws demo_subject demo_crypto"
    by (auto simp: pem_laws_def demo_crypto_def dest: demo_parse_raw)
  moreover have "verify_law demo_subject demo_crypto"
    by (auto simp: verify_law_def demo_crypto_def demo_create_def Let_def split: if_splits)
  moreover have "chain_law (\<lambda>der. 0) demo_subject demo_crypto"
    by (auto simp: chain_law_def demo_crypto_def list_ex_iff split: if_splits intro: chained.by_root)
  ultimately show ?thesis using demo_create_law by (simp add: crypto_laws_def)
qed

definition demo_bundle :: certs where
  "demo_bundle =
     \<lparr>CACert = demo_pem ''CERTIFICATE'' ''Ac'', CAKey = demo_pem ''PRIVATE KEY'' [],
      NodeCert = demo_pem ''CERTIFICATE'' ''xNseed'', NodeKey = demo_pem ''PRIVATE KEY'' ''k'',
      JoinTokenHash = take 32 (hex_bytes (replicate tokenBytes 171) @ replicate 32 (CHR ''h''))\<rparr>"

lemma demo_generate:
  "Generate demo_crypto 0 ''c'' ''seed'' 0 = (Inr (demo_bundle, hex_bytes (replicate tokenBytes 171)), 2)"
  by (simp add: Generate_def generateCA_def issueNode_def newJoinToken_def HashToken_def rbind_def
      rwrap_def rlift_def sum_wrap_def randomSerial_def encodePEM_def demo_crypto_def demo_create_def
      demo_parse_def demo_bundle_def Let_def ca_template_def node_template_def)

lemma demo_issue:
  "IssueNodeCert demo_crypto 0 (CACert demo_bundle) (CAKey demo_bundle) ''n'' 2 =
   (Inr (demo_pem ''CERTIFICATE'' ''xxNn'', demo_pem ''PRIVATE KEY'' ''kk''), 3)"
  by (simp add: IssueNodeCert_def ParseCertificate_def parseCAKey_def issueNode_def rbind_def
      rwrap_def rlift_def sum_wrap_def randomSerial_def encodePEM_def demo_crypto_def demo_create_def
      demo_parse_def demo_bundle_def Let_def ca_template_def node_template_def eval_nat_numeral)

theorem cluster_certificates_witness:
  "\<exists>cc0 sc0 cc1 sc1.
     clientConfig demo_crypto (CACert demo_bundle) (NodeCert demo_bundle) (NodeKey demo_bundle) = Inr cc0 \<and>
     ServerTLS demo_crypto (CACert demo_bundle) (NodeCert demo_bundle) (NodeKey demo_bundle) = Inr sc0 \<and>
     clientConfig demo_crypto (CACert demo_bundle) (demo_pem ''CERTIFICATE'' ''xxNn'')
       (demo_pem ''PRIVATE KEY'' ''kk'') = Inr cc1 \<and>
     ServerTLS demo_crypto (CACert demo_bundle) (demo_pem ''CERTIFICATE'' ''xxNn'')
       (demo_pem ''PRIVATE KEY'' ''kk'') = Inr sc1 \<and>
     client_accepts cc0 False (\<lambda>raw. False) 0 [''xxNn''] \<and> server_accepts demo_crypto sc0 0 [''xxNn''] \<and>
     client_accepts cc1 False (\<lambda>raw. False) 0 [''xNseed''] \<and> server_accepts demo_crypto sc1 0 [''xNseed'']"
proof -
  note all = cluster_certificates [OF demo_laws demo_generate demo_issue]
  have pem: "cy_PemDecode demo_crypto (demo_pem ''CERTIFICATE'' ''xxNn'') = Some (''CERTIFICATE'', ''xxNn'')"
    "cy_PemDecode demo_crypto (NodeCert demo_bundle) = Some (''CERTIFICATE'', ''xNseed'')"
    by (simp_all add: demo_crypto_def demo_bundle_def)
  have valid: "(0::int) \<le> whole_seconds (0 + caValidity)" "(0::int) \<le> whole_seconds (0 + nodeValidity)"
    by (simp_all add: whole_seconds_def Second_def caValidity_def nodeValidity_def Hour_def)
  from all valid show ?thesis unfolding pem by force
qed

end
