(* ===== verification/Init_Command.thy ===== *)
theory Init_Command
  imports Pki Operator_Reconcile
begin

text \<open>
  The command \<^verbatim>\<open>clusdr init\<close> (cmd/clusdr/init.go) with the opening of the store
  (internal/store/store.go): it writes the configuration, saves the identity, generates the
  certificates and the join token, saves them and prints the token. The command runs over a machine
  with files and databases and over the random source. Lemmas: the operator's parser finds the token
  in the output and the join service of the node accepts exactly it; and what a failure between the
  two saves leaves behind.
\<close>

section \<open>Opening the store\<close>

text \<open>
  A database file has an optional bucket for each name. The library opens a path within a timeout or
  fails, makes buckets, and runs transactions, which all fail when \<open>io_tx_err\<close> is set.
\<close>

record 'b db_file =
  bf_node :: "'b option"
  bf_raft :: "'b option"
  bf_certs :: "'b option"

record ('b, 'v) init_os =
  io_fs :: "'v filesys"
  io_bolt :: "'b bolt"
  io_open_err :: "string \<Rightarrow> duration \<Rightarrow> string option"
  io_bucket :: "string \<Rightarrow> string + 'b"
  io_tx_err :: "string option"

record ('b, 'v) machine =
  mc_files :: 'v
  mc_dbs :: "string \<Rightarrow> 'b db_file"

datatype open_error =
    CreateDir string string
  | OpenDb string string
  | CreateBucket string string
  | OpenTx string

definition dbFileName :: string where "dbFileName = ''state.db''"
definition dbOpenTimeout :: duration where "dbOpenTimeout = 5 * Second"
definition dbBriefTimeout :: duration where "dbBriefTimeout = 200 * Millisecond"

definition bucket_ensure :: "('b, 'v) init_os \<Rightarrow> string \<Rightarrow> 'b option \<Rightarrow> open_error + 'b" where
  "bucket_ensure io name ob =
     (case ob of
        Some b \<Rightarrow> Inr b
      | None \<Rightarrow> (case io_bucket io name of Inl err \<Rightarrow> Inl (CreateBucket name err) | Inr b \<Rightarrow> Inr b))"

definition initBuckets :: "('b, 'v) init_os \<Rightarrow> 'b db_file \<Rightarrow> open_error + 'b \<times> 'b \<times> 'b" where
  "initBuckets io f =
     (case io_tx_err io of
        Some err \<Rightarrow> Inl (OpenTx err)
      | None \<Rightarrow>
          (case bucket_ensure io ''node'' (bf_node f) of
             Inl err \<Rightarrow> Inl err
           | Inr node \<Rightarrow>
               (case bucket_ensure io ''raft'' (bf_raft f) of
                  Inl err \<Rightarrow> Inl err
                | Inr raft \<Rightarrow>
                    (case bucket_ensure io ''certs'' (bf_certs f) of
                       Inl err \<Rightarrow> Inl err
                     | Inr certs \<Rightarrow> Inr (node, raft, certs)))))"

definition db_path :: "('b, 'v) init_os \<Rightarrow> string \<Rightarrow> string" where
  "db_path io dir = fs_Join (io_fs io) dir dbFileName"

definition set_db :: "string \<Rightarrow> 'b db_file \<Rightarrow> ('b, 'v) machine \<Rightarrow> ('b, 'v) machine" where
  "set_db path f m = m\<lparr>mc_dbs := (mc_dbs m)(path := f)\<rparr>"

definition store_open ::
  "('b, 'v) init_os \<Rightarrow> string \<Rightarrow> duration \<Rightarrow> ('b, 'v) machine \<Rightarrow> (open_error + 'b store) \<times> ('b, 'v) machine" where
  "store_open io dir timeout m0 =
     (case fs_MkdirAll (io_fs io) dir 488 (mc_files m0) of
        (Some err, v) \<Rightarrow> (Inl (CreateDir dir err), m0\<lparr>mc_files := v\<rparr>)
      | (None, v) \<Rightarrow>
          let m = m0\<lparr>mc_files := v\<rparr>; path = db_path io dir in
          (case io_open_err io path timeout of
             Some err \<Rightarrow> (Inl (OpenDb path err), m)
           | None \<Rightarrow>
               (case initBuckets io (mc_dbs m path) of
                  Inl err \<Rightarrow> (Inl err, m)
                | Inr (node, raft, certs) \<Rightarrow>
                    (Inr \<lparr>db_err = io_tx_err io, db_node = node, db_certs = certs\<rparr>,
                     set_db path \<lparr>bf_node = Some node, bf_raft = Some raft, bf_certs = Some certs\<rparr> m))))"

definition store_Open ::
  "('b, 'v) init_os \<Rightarrow> string \<Rightarrow> ('b, 'v) machine \<Rightarrow> (open_error + 'b store) \<times> ('b, 'v) machine" where
  "store_Open io dir = store_open io dir dbOpenTimeout"

definition store_OpenBrief ::
  "('b, 'v) init_os \<Rightarrow> string \<Rightarrow> ('b, 'v) machine \<Rightarrow> (open_error + 'b store) \<times> ('b, 'v) machine" where
  "store_OpenBrief io dir = store_open io dir dbBriefTimeout"

text \<open>A transaction is in the file when it has returned.\<close>

definition db_commit :: "('b, 'v) init_os \<Rightarrow> string \<Rightarrow> 'b store \<Rightarrow> ('b, 'v) machine \<Rightarrow> ('b, 'v) machine" where
  "db_commit io dir s m =
     (let path = db_path io dir in
      set_db path ((mc_dbs m path)\<lparr>bf_node := Some (db_node s), bf_certs := Some (db_certs s)\<rparr>) m)"

section \<open>The command\<close>

record init_config =
  ic_Node_ID :: string
  ic_Node_Addr :: string
  ic_Cluster_ID :: string
  ic_Log_Level :: string
  ic_Log_Format :: string

datatype init_cmd_error =
    InitClusterID string
  | InitNodeID string
  | InitMarshal string
  | InitWrite string string
  | InitReload config_error
  | InitOpen open_error
  | InitIdentity store_error
  | InitGenerate pki_error
  | InitCerts store_error
  | InitFiles string
  | InitFingerprint pki_error
  | InitExists string
  | InitStored store_error

text \<open>
  What the process is given: the clock and tables, the home directory, the environment and the YAML
  library.
\<close>

record proc =
  pc_env :: env
  pc_home :: "string option"
  pc_getenv :: "string \<Rightarrow> string"
  pc_marshal :: "init_config \<Rightarrow> string + string"
  pc_unmarshal :: yaml_parser

definition print_lines :: "string list \<Rightarrow> string" where
  "print_lines ls = concat (map (\<lambda>l. l @ [newline]) ls)"

definition load_config :: "proc \<Rightarrow> ('b, 'v) init_os \<Rightarrow> string \<Rightarrow> ('b, 'v) machine \<Rightarrow> config_error + config" where
  "load_config pc io path m =
     LoadFrom (pc_env pc) (pc_home pc) (\<lambda>p. fs_ReadFile (io_fs io) p (mc_files m)) (pc_unmarshal pc) path
       (pc_getenv pc)"

definition alreadyInitialized ::
  "proc \<Rightarrow> ('b, 'v) init_os \<Rightarrow> string \<Rightarrow> ('b, 'v) machine \<Rightarrow> (init_cmd_error + string) \<times> ('b, 'v) machine" where
  "alreadyInitialized pc io path m =
     (case load_config pc io path m of
        Inl err \<Rightarrow> (Inl (InitReload err), m)
      | Inr resolved \<Rightarrow>
          (case store_Open io (dc_Dir (Cf_Data resolved)) m of
             (Inl err, m1) \<Rightarrow> (Inl (InitOpen err), m1)
           | (Inr st, m1) \<Rightarrow>
               (case Identity (io_bolt io) st of
                  Inl NotInitialized \<Rightarrow> (Inl (InitExists path), m1)
                | Inl err \<Rightarrow> (Inl (InitStored err), m1)
                | Inr (nodeID, clusterID) \<Rightarrow>
                    (Inr (print_lines [''already initialized'', '''',
                       ''  cluster id      : '' @ clusterID, ''  node id         : '' @ nodeID,
                       ''  config          : '' @ path,
                       ''  data dir        : '' @ dc_Dir (Cf_Data resolved)]), m1))))"

definition new_uid :: "('k, 'w) crypto \<Rightarrow> (string \<Rightarrow> init_cmd_error) \<Rightarrow> 'w \<Rightarrow> (init_cmd_error + string) \<times> 'w" where
  "new_uid cy err w =
     (case cy_Read cy 16 w of
        (Inl e, w1) \<Rightarrow> (Inl (err e), w1)
      | (Inr b, w1) \<Rightarrow> (Inr (case uid_New (Some b) of Some u \<Rightarrow> u | None \<Rightarrow> ''''), w1))"

definition config_header :: string where
  "config_header =
     print_lines [''# Clusdr configuration'', ''# Generated by '' @ [CHR 39] @ ''clusdr init'' @ [CHR 39],
       ''# See docs/reference/configuration.md for all options.'', '''']"

definition init_output ::
  "string \<Rightarrow> string \<Rightarrow> string \<Rightarrow> string \<Rightarrow> string \<Rightarrow> string \<Rightarrow> string \<Rightarrow> string" where
  "init_output clusterID nodeID path dir caPath fp joinToken =
     print_lines [''cluster initialized'', '''',
       ''  cluster id      : '' @ clusterID,
       ''  node id         : '' @ nodeID,
       ''  config          : '' @ path,
       ''  data dir        : '' @ dir,
       ''  ca cert         : '' @ caPath,
       ''  ca fingerprint  : '' @ fp, '''',
       ''  join token      : '' @ joinToken, '''',
       ''  The join token is shown only once. Store it securely.'', '''',
       ''next steps:'',
       ''  clusdr start --bootstrap        start this node as the first voter'',
       ''  clusdr certs show               inspect the cluster CA'',
       ''  clusdr join --token <token> <addr>'']"

text \<open>From the certificates on: \<open>s\<close> is the open store.\<close>

definition init_certs ::
  "proc \<Rightarrow> ('b, 'v) init_os \<Rightarrow> ('k, 'w) crypto \<Rightarrow> string \<Rightarrow> string \<Rightarrow> string \<Rightarrow> string \<Rightarrow> 'b store \<Rightarrow>
   ('b, 'v) machine \<Rightarrow> 'w \<Rightarrow> (init_cmd_error + string) \<times> ('b, 'v) machine \<times> 'w" where
  "init_certs pc io cy path dir clusterID nodeID s m w =
     (case Generate cy (env_now (pc_env pc)) clusterID nodeID w of
        (Inl err, w1) \<Rightarrow> (Inl (InitGenerate err), m, w1)
      | (Inr (bundle, joinToken), w1) \<Rightarrow>
          (case SaveCerts (io_bolt io) bundle s of
             (Some err, s1) \<Rightarrow> (Inl (InitCerts err), db_commit io dir s1 m, w1)
           | (None, s1) \<Rightarrow>
               let m1 = db_commit io dir s1 m in
               (case WriteFiles (io_fs io) dir (CACert bundle) (NodeCert bundle) (NodeKey bundle) (mc_files m1) of
                  (Some err, v) \<Rightarrow> (Inl (InitFiles err), m1\<lparr>mc_files := v\<rparr>, w1)
                | (None, v) \<Rightarrow>
                    (case Fingerprint cy (CACert bundle) of
                       Inl err \<Rightarrow> (Inl (InitFingerprint err), m1\<lparr>mc_files := v\<rparr>, w1)
                     | Inr fp \<Rightarrow>
                         (Inr (init_output clusterID nodeID path dir (fs_Join (io_fs io) dir CAFile) fp joinToken),
                          m1\<lparr>mc_files := v\<rparr>, w1)))))"

text \<open>From the reloaded configuration on.\<close>

definition init_store ::
  "proc \<Rightarrow> ('b, 'v) init_os \<Rightarrow> ('k, 'w) crypto \<Rightarrow> string \<Rightarrow> string \<Rightarrow> string \<Rightarrow>
   ('b, 'v) machine \<Rightarrow> 'w \<Rightarrow> (init_cmd_error + string) \<times> ('b, 'v) machine \<times> 'w" where
  "init_store pc io cy path clusterID nodeID m w =
     (case load_config pc io path m of
        Inl err \<Rightarrow> (Inl (InitReload err), m, w)
      | Inr resolved \<Rightarrow>
          let dir = dc_Dir (Cf_Data resolved) in
          (case store_Open io dir m of
             (Inl err, m1) \<Rightarrow> (Inl (InitOpen err), m1, w)
           | (Inr st, m1) \<Rightarrow>
               (case SaveIdentity (io_bolt io) nodeID clusterID st of
                  (Some err, s1) \<Rightarrow> (Inl (InitIdentity err), db_commit io dir s1 m1, w)
                | (None, s1) \<Rightarrow>
                    init_certs pc io cy path dir clusterID nodeID s1 (db_commit io dir s1 m1) w)))"

definition run_init ::
  "proc \<Rightarrow> ('b, 'v) init_os \<Rightarrow> ('k, 'w) crypto \<Rightarrow> bool \<Rightarrow> string \<Rightarrow> ('b, 'v) machine \<Rightarrow> 'w \<Rightarrow>
   (init_cmd_error + string) \<times> ('b, 'v) machine \<times> 'w" where
  "run_init pc io cy force path m w =
     (if fs_Stat (io_fs io) path (mc_files m) \<and> \<not> force
      then (case alreadyInitialized pc io path m of (r, m1) \<Rightarrow> (r, m1, w))
      else
        (case new_uid cy InitClusterID w of
           (Inl err, w1) \<Rightarrow> (Inl err, m, w1)
         | (Inr clusterID, w1) \<Rightarrow>
             (case new_uid cy InitNodeID w1 of
                (Inl err, w2) \<Rightarrow> (Inl err, m, w2)
              | (Inr nodeID, w2) \<Rightarrow>
                  (case pc_marshal pc \<lparr>ic_Node_ID = nodeID, ic_Node_Addr = ''0.0.0.0:7947'',
                          ic_Cluster_ID = clusterID, ic_Log_Level = ''info'', ic_Log_Format = ''text''\<rparr> of
                     Inl err \<Rightarrow> (Inl (InitMarshal err), m, w2)
                   | Inr data \<Rightarrow>
                       (case fs_WriteFile (io_fs io) path (config_header @ data) 384 (mc_files m) of
                          (Some err, v) \<Rightarrow> (Inl (InitWrite path err), m\<lparr>mc_files := v\<rparr>, w2)
                        | (None, v) \<Rightarrow>
                            init_store pc io cy path clusterID nodeID (m\<lparr>mc_files := v\<rparr>) w2)))))"


section \<open>Reading the output\<close>

lemma print_lines_simps [simp]:
  "print_lines [] = []" "print_lines (l # ls) = l @ newline # print_lines ls"
  by (simp_all add: print_lines_def)

lemma newline_space [simp]: "re_space newline"
  by (simp add: re_space_def newline_def byte_def)

lemma find_token_rest: "newline \<notin> set l \<Longrightarrow> find_token False (l @ newline # s) = find_token True s"
  by (induction l) auto

lemma find_token_line:
  "newline \<notin> set l \<Longrightarrow>
   find_token True (l @ newline # s) =
     (case match_token (l @ newline # s) of Some tok \<Rightarrow> Some tok | None \<Rightarrow> find_token True s)"
proof (cases l)
  case (Cons a l')
  moreover assume "newline \<notin> set l"
  ultimately have "(a = newline) = False" "newline \<notin> set l'" by auto
  then show ?thesis using Cons by (simp add: find_token_rest split: option.splits)
qed (simp split: option.splits)

text \<open>A line whose first visible character is not j does not match; a blank line is skipped.\<close>

lemma dropWhile_prefix: "dropWhile P l = c # r \<Longrightarrow> dropWhile P (l @ s) = c # r @ s"
  by (induction l) (auto split: if_splits)

lemma match_token_other:
  "dropWhile re_space l = c # r \<Longrightarrow> c \<noteq> CHR ''j'' \<Longrightarrow> match_token (l @ s) = None"
  by (simp add: match_token_def dropWhile_prefix [of re_space l] Let_def)

lemma match_token_blank: "match_token (newline # s) = match_token s"
  by (simp add: match_token_def)

lemma token_line:
  assumes "tok \<noteq> []" and "\<And>c. c \<in> set tok \<Longrightarrow> \<not> re_space c"
  shows "match_token (''  join token      : '' @ tok @ newline # s) = Some tok"
proof -
  have tw: "takeWhile (\<lambda>c. \<not> re_space c) (tok @ newline # s) = tok"
    using assms(2) by (simp add: takeWhile_tail)
  have dw: "dropWhile re_space (tok @ newline # s) = tok @ newline # s"
    using assms by (cases tok) simp_all
  have le: "line_end (newline # s)" by (simp add: line_end_def Let_def)
  have sp: "re_space (CHR '' '')" "\<not> re_space (CHR ''j'')" "\<not> re_space (CHR '':'')"
    by (simp_all add: re_space_def byte_def)
  show ?thesis
    unfolding match_token_def
    by (simp add: sp dw tw le assms(1) Let_def)
qed

lemma line_skip:
  assumes "newline \<notin> set l" and "dropWhile re_space l = c # r" and "c \<noteq> CHR ''j''"
  shows "find_token True (l @ newline # s) = find_token True s"
  using assms by (simp add: find_token_line match_token_other)

lemma blank_skip:
  assumes "dropWhile re_space l = c # r" and "c \<noteq> CHR ''j''"
  shows "find_token True (newline # l @ s) = find_token True (l @ s)"
  using find_token_line [of "[]" "l @ s"] assms by (simp add: match_token_blank match_token_other)

lemma token_found:
  assumes "tok \<noteq> []" and "\<And>c. c \<in> set tok \<Longrightarrow> \<not> re_space c"
  shows "find_token True (newline # ''  join token      : '' @ tok @ newline # s) = Some tok"
  using find_token_line [of "[]" "''  join token      : '' @ tok @ newline # s"] token_line [OF assms]
  by (simp add: match_token_blank)

text \<open>A visible text: no white space, ASCII.\<close>

definition visible :: "string \<Rightarrow> bool" where
  "visible s \<longleftrightarrow> list_all (\<lambda>c. 33 \<le> byte c \<and> byte c < 127) s"

lemma hex_digit_visible: "n < 16 \<Longrightarrow> visible [hex_digit n]"
  by (auto simp: visible_def hex_digit_def chr_of_def byte_def)

lemma hex_bytes_visible: "list_all (\<lambda>b. b < 256) bs \<Longrightarrow> visible (hex_bytes bs)"
proof (induction bs)
  case (Cons b bs)
  then have "b div 16 < 16" "b mod 16 < 16" by auto
  then show ?case
    using Cons hex_digit_visible [of "b div 16"] hex_digit_visible [of "b mod 16"]
    by (simp add: hex_bytes_def hex_byte_def visible_def)
qed (simp add: hex_bytes_def visible_def)

lemma visible_no_space: "visible s \<Longrightarrow> c \<in> set s \<Longrightarrow> \<not> re_space c"
  by (auto simp: visible_def list_all_iff re_space_def)

lemma visible_no_newline: "visible s \<Longrightarrow> newline \<notin> set s"
  using visible_no_space newline_space by blast


definition other_line :: "string \<Rightarrow> bool" where
  "other_line l \<longleftrightarrow>
     newline \<notin> set l \<and> (case dropWhile re_space l of [] \<Rightarrow> False | c # r \<Rightarrow> c \<noteq> CHR ''j'')"

lemma other_line_skip: "other_line l \<Longrightarrow> find_token True (l @ newline # s) = find_token True s"
  by (auto simp: other_line_def intro: line_skip split: list.splits)

lemma blank_other: "other_line l \<Longrightarrow> find_token True (newline # l @ newline # s) = find_token True (l @ newline # s)"
  using blank_skip [of l _ _ "newline # s"] by (auto simp: other_line_def split: list.splits)

lemma newline_char: "newline = CHR 0x0A"
  by code_simp

lemma visible_TrimSpace:
  assumes "visible s"
  shows "TrimSpace s = s"
proof -
  have ns: "\<not> IsSpace (byte c)" if "c \<in> set s" for c
    using assms that by (auto simp: visible_def list_all_iff IsSpace_def)
  have id: "dropWhile (\<lambda>c. IsSpace (byte c)) t = t" if "set t \<subseteq> set s" for t
    using ns that by (cases t) auto
  have "ascii s" using assms by (auto simp: visible_def ascii_def list_all_iff)
  then show ?thesis by (simp add: TrimSpace_ascii id)
qed

lemma init_output_token:
  assumes "newline \<notin> set path" "newline \<notin> set dir" "newline \<notin> set caPath"
    and "visible cid" "visible nid" "visible fp" and "visible tok" "tok \<noteq> []"
  shows "ParseJoinToken (init_output cid nid path dir caPath fp tok) = Some tok"
proof -
  have vis: "newline \<notin> set cid" "newline \<notin> set nid" "newline \<notin> set fp"
    using assms(4-6) visible_no_newline by blast+
  have other: "other_line ''cluster initialized''"
    "other_line (''  cluster id      : '' @ cid)" "other_line (''  node id         : '' @ nid)"
    "other_line (''  config          : '' @ path)" "other_line (''  data dir        : '' @ dir)"
    "other_line (''  ca cert         : '' @ caPath)" "other_line (''  ca fingerprint  : '' @ fp)"
    using assms(1-3) vis
    by (simp_all add: other_line_def re_space_def byte_def newline_char)
  have "find_token True (init_output cid nid path dir caPath fp tok) = Some tok"
    unfolding init_output_def print_lines_simps append_Nil
    unfolding other(1) [THEN other_line_skip] other(2) [THEN blank_other]
      other(2-7) [THEN other_line_skip]
    unfolding append_assoc
    by (rule token_found [OF assms(8) visible_no_space [OF assms(7)]])
  then show ?thesis
    using assms(8) by (simp add: ParseJoinToken_def visible_TrimSpace [OF assms(7)] Let_def)
qed


section \<open>What the store holds afterwards\<close>

lemma SaveCerts_load:
  assumes laws: "bolt_laws bo" and ok: "SaveCerts bo c s = (None, s')"
    and ne: "CACert c \<noteq> ''''" "CAKey c \<noteq> ''''" "NodeCert c \<noteq> ''''" "NodeKey c \<noteq> ''''" "JoinTokenHash c \<noteq> ''''"
  shows "db_node s' = db_node s \<and> db_err s' = None \<and> store_Certs bo s' = (c, None)"
proof -
  let ?ps = "[(keyCACert, CACert c), (keyCAKey, CAKey c), (keyNodeCert, NodeCert c), (keyNodeKey, NodeKey c),
    (keyJoinTokenHash, JoinTokenHash c)]"
  obtain b where err: "db_err s = None" and b: "put_pairs bo ?ps (db_certs s) = Inr b" "s' = s\<lparr>db_certs := b\<rparr>"
    using ok by (auto simp: SaveCerts_def simp del: put_pairs.simps split: option.splits sum.splits)
  have "distinct (map fst ?ps)" by (simp add: key_defs)
  note get = put_pairs_get [OF laws b(1) this]
  show ?thesis using err ne by (simp add: store_Certs_def b(2) Let_def get key_defs)
qed

lemma SaveIdentity_load:
  assumes laws: "bolt_laws bo" and ok: "SaveIdentity bo nid cid s = (None, s')" and ne: "nid \<noteq> ''''" "cid \<noteq> ''''"
  shows "db_err s' = None \<and> db_certs s' = db_certs s \<and> Identity bo s' = Inr (nid, cid)"
proof -
  obtain b1 b2 where err: "db_err s = None" and b: "bo_put bo keyNodeID nid (db_node s) = Inr b1"
    "bo_put bo keyClusterID cid b1 = Inr b2" "s' = s\<lparr>db_node := b2\<rparr>"
    using ok by (auto simp: SaveIdentity_def store_put_def split: option.splits sum.splits)
  have "\<forall>j. bo_get bo j b1 = (if j = keyNodeID then nid else bo_get bo j (db_node s))"
    "\<forall>j. bo_get bo j b2 = (if j = keyClusterID then cid else bo_get bo j b1)"
    using laws b(1,2) unfolding bolt_laws_def by blast+
  then show ?thesis using err b(3) ne by (simp add: Identity_def key_defs)
qed

definition db_holds :: "('b, 'v) init_os \<Rightarrow> string \<Rightarrow> ('b, 'v) machine \<Rightarrow> 'b store \<Rightarrow> bool" where
  "db_holds io dir m s \<longleftrightarrow>
     bf_node (mc_dbs m (db_path io dir)) = Some (db_node s) \<and>
     bf_certs (mc_dbs m (db_path io dir)) = Some (db_certs s)"

lemma db_commit_holds: "db_holds io dir (db_commit io dir s m) s"
  by (simp add: db_holds_def db_commit_def set_db_def Let_def)

lemma db_holds_files: "db_holds io dir (m\<lparr>mc_files := v\<rparr>) s = db_holds io dir m s"
  by (simp add: db_holds_def)

lemma db_commit_files: "mc_files (db_commit io dir s m) = mc_files m"
  by (simp add: db_commit_def set_db_def Let_def)

lemma store_Open_ok:
  assumes "store_Open io dir m = (Inr s, m')"
  shows "db_err s = None \<and> db_holds io dir m' s"
  using assms
  by (auto simp: store_Open_def store_open_def initBuckets_def db_holds_def set_db_def Let_def
      split: prod.splits option.splits sum.splits)

lemma store_Open_again:
  assumes "db_holds io dir m s0" and "store_Open io dir m = (Inr s, m')"
  shows "db_node s = db_node s0 \<and> db_certs s = db_certs s0"
  using assms
  by (auto simp: store_Open_def store_open_def initBuckets_def bucket_ensure_def db_holds_def Let_def
      split: prod.splits option.splits sum.splits)

lemma Identity_cong: "db_err s = db_err t \<Longrightarrow> db_node s = db_node t \<Longrightarrow> Identity bo s = Identity bo t"
  by (cases "db_err t") (simp_all add: Identity_def)

lemma store_Certs_cong: "db_err s = db_err t \<Longrightarrow> db_certs s = db_certs t \<Longrightarrow> store_Certs bo s = store_Certs bo t"
  by (cases "db_err t") (simp_all add: store_Certs_def)

text \<open>What the random source, the hash and the encoding promise about their output.\<close>

definition output_laws :: "('k, 'w) crypto \<Rightarrow> bool" where
  "output_laws cy \<longleftrightarrow>
     (\<forall>n w bs w'. cy_Read cy n w = (Inr bs, w') \<longrightarrow> length bs = n \<and> list_all (\<lambda>b. b < 256) bs) \<and>
     (\<forall>s. length (cy_sha256 cy s) = 32) \<and> (\<forall>ty bs. cy_PemEncode cy ty bs \<noteq> [])"

lemma Generate_output:
  assumes laws: "crypto_laws signer subject cy" and out: "output_laws cy"
    and gen: "Generate cy now cid nid w = (Inr (b, token), w')"
  shows "CACert b \<noteq> '''' \<and> CAKey b \<noteq> '''' \<and> NodeCert b \<noteq> '''' \<and> NodeKey b \<noteq> '''' \<and> JoinTokenHash b \<noteq> ''''"
    and "JoinTokenHash b = cy_sha256 cy token" and "visible token" and "token \<noteq> ''''"
    and "cid \<noteq> ''''" and "nid \<noteq> ''''"
    and "\<exists>tc. ClientTLS cy (CACert b) (NodeCert b) (NodeKey b) = Inr (NewTLS tc)"
proof -
  obtain ca k der bytes where auth: "authority signer subject cy now ca k (CACert b) (CAKey b)"
    and seed: "node_issued signer subject cy now ca k nid der (NodeCert b) (NodeKey b)"
    and tok: "token = hex_bytes bytes" "JoinTokenHash b = cy_sha256 cy token"
    and read: "\<exists>w1 w2. cy_Read cy tokenBytes w1 = (Inr bytes, w2)"
    using Generate_parts [OF laws gen] by metis
  have sha: "length (cy_sha256 cy token) = 32" and pem: "cy_PemEncode cy ty bs \<noteq> []" for ty bs
    using out by (auto simp: output_laws_def)
  have pem': "[] \<noteq> cy_PemEncode cy ty bs" for ty bs using pem [of ty bs] by auto
  have "cy_sha256 cy token \<noteq> []" using sha by auto
  then show "CACert b \<noteq> '''' \<and> CAKey b \<noteq> '''' \<and> NodeCert b \<noteq> '''' \<and> NodeKey b \<noteq> '''' \<and> JoinTokenHash b \<noteq> ''''"
    using auth seed tok by (auto simp: authority_def node_issued_def pem pem')
  show "JoinTokenHash b = cy_sha256 cy token" by (rule tok(2))
  have bytes: "length bytes = 32" "list_all (\<lambda>b. b < 256) bytes"
    using read out unfolding output_laws_def tokenBytes_def by blast+
  show "visible token" using hex_bytes_visible [OF bytes(2)] tok(1) by simp
  show "token \<noteq> ''''" using bytes(1) tok(1) by (cases bytes) (auto simp: hex_bytes_def hex_byte_def)
  show "cid \<noteq> ''''" "nid \<noteq> ''''" using gen by (auto simp: Generate_def rlift_def split: if_splits)
  show "\<exists>tc. ClientTLS cy (CACert b) (NodeCert b) (NodeKey b) = Inr (NewTLS tc)"
    using authority_pool [OF laws auth] node_issued_pair [OF laws seed]
    by (simp add: ClientTLS_def clientConfig_def)
qed

lemma Fingerprint_visible:
  assumes "Fingerprint cy pem = Inr fp"
  shows "visible fp"
proof -
  obtain s where fp: "fp = ''sha256:'' @ hex_bytes (bytes_of s)"
    using assms by (auto simp: Fingerprint_def split: sum.splits)
  have "list_all (\<lambda>b. b < 256) (bytes_of s)" by (simp add: bytes_of_def list_all_iff byte_def)
  from hex_bytes_visible [OF this] show ?thesis by (simp add: fp visible_def byte_def)
qed

lemma new_uid_visible:
  assumes "output_laws cy" and "new_uid cy err w = (Inr u, w')"
  shows "visible u"
proof -
  obtain b where b: "cy_Read cy 16 w = (Inr b, w')" "uid_New (Some b) = Some u"
    using assms(2) by (auto simp: new_uid_def uid_New_def split: prod.splits sum.splits)
  let ?b = "b[6 := b ! 6 mod 16 + 64, 8 := b ! 8 mod 64 + 128]"
  have part: "visible (hex_bytes (take n c))" "visible (hex_bytes (drop i c))"
    "visible (hex_bytes (take n (drop i c)))" if "\<forall>x \<in> set c. x < 256" for c n i
    using that by (auto intro!: hex_bytes_visible simp: list_all_iff dest!: in_set_takeD in_set_dropD)
  have small: "\<forall>x \<in> set b. x < 256"
    using assms(1) b(1) unfolding output_laws_def list_all_iff by blast
  moreover have "b ! 6 mod 16 + 64 < 256" "b ! 8 mod 64 + 128 < 256"
    using mod_less_divisor [of 16 "b ! 6"] mod_less_divisor [of 64 "b ! 8"] by linarith+
  ultimately have "\<forall>x \<in> set ?b. x < 256"
    by (auto dest!: set_update_subset_insert [THEN subsetD])
  note part [OF this] part [OF small]
  then show ?thesis using b(2) by (auto simp: uid_New_def Let_def visible_def byte_def)
qed


lemma store_Open_reads:
  assumes laws: "fs_laws (io_fs io)" and "store_Open io dir m = (Inr s, m')"
  shows "fs_ReadFile (io_fs io) p (mc_files m') = fs_ReadFile (io_fs io) p (mc_files m)"
proof -
  obtain v where "fs_MkdirAll (io_fs io) dir 488 (mc_files m) = (None, v)" "mc_files m' = v"
    using assms(2) by (auto simp: store_Open_def store_open_def set_db_def Let_def
        split: prod.splits option.splits sum.splits)
  then show ?thesis using laws unfolding fs_laws_def by (elim conjE) simp
qed

lemma WriteFiles_other:
  assumes laws: "fs_laws fs" and ok: "WriteFiles fs dir ca cert key v = (None, v')"
    and ne: "ca \<noteq> ''''" "cert \<noteq> ''''" "key \<noteq> ''''"
    and p: "p \<notin> fs_Join fs dir ` {CAFile, CertFile, KeyFile}"
  shows "fs_ReadFile fs p v' = fs_ReadFile fs p v"
proof -
  obtain v1 v2 v3 where mk: "fs_MkdirAll fs dir 488 v = (None, v1)"
    and w: "write_some fs dir CAFile ca 420 v1 = (None, v2)"
    "write_some fs dir CertFile cert 420 v2 = (None, v3)" "write_some fs dir KeyFile key 384 v3 = (None, v')"
    using ok by (auto simp: WriteFiles_def split: prod.splits option.splits)
  have "fs_ReadFile fs p v1 = fs_ReadFile fs p v"
    using laws mk unfolding fs_laws_def by (elim conjE) simp
  then show ?thesis
    using p by (simp add: fs_write [OF laws w(1) ne(1)] fs_write [OF laws w(2) ne(2)] fs_write [OF laws w(3) ne(3)])
qed

lemma load_config_cong:
  "fs_ReadFile (io_fs io) path (mc_files m) = fs_ReadFile (io_fs io) path (mc_files m') \<Longrightarrow>
   load_config pc io path m = load_config pc io path m'"
  by (simp add: load_config_def LoadFrom_def)

lemma new_uid_nonempty: "new_uid cy err w = (Inr u, w') \<Longrightarrow> u \<noteq> ''''"
  by (auto simp: new_uid_def uid_New_def Let_def split: prod.splits sum.splits)

text \<open>A store that was opened can be opened again, when its directory can be made.\<close>

lemma store_Open_reopen:
  assumes "store_Open io dir m = (Inr s, m1)"
    and "fst (fs_MkdirAll (io_fs io) dir 488 (mc_files m')) = None"
    and "bf_raft (mc_dbs m' (db_path io dir)) = bf_raft (mc_dbs m1 (db_path io dir))"
    and "db_holds io dir m' s1"
  shows "\<exists>s' m''. store_Open io dir m' = (Inr s', m'')"
proof -
  have "io_open_err io (db_path io dir) dbOpenTimeout = None" "io_tx_err io = None"
    "\<exists>r. bf_raft (mc_dbs m1 (db_path io dir)) = Some r"
    using assms(1)
    by (auto simp: store_Open_def store_open_def initBuckets_def set_db_def Let_def
        split: prod.splits option.splits sum.splits)
  then show ?thesis
    using assms(2-4)
    by (auto simp: store_Open_def store_open_def initBuckets_def bucket_ensure_def db_holds_def Let_def
        split: prod.splits)
qed

text \<open>A run that initialises: what it drew, opened and saved before the certificates.\<close>

lemma run_init_saved:
  assumes out: "output_laws cy"
    and run: "run_init pc io cy force path m w = (r, m', w')"
    and fresh: "force \<or> \<not> fs_Stat (io_fs io) path (mc_files m)"
    and past: "(\<exists>x. r = Inr x) \<or> (\<exists>x. r = Inl (InitGenerate x))"
  obtains cid nid data v m0 resolved st m1 s1 w2 where "visible cid" and "visible nid"
    and "cid \<noteq> ''''" and "nid \<noteq> ''''"
    and "fs_WriteFile (io_fs io) path (config_header @ data) 384 (mc_files m) = (None, v)"
    and "m0 = m\<lparr>mc_files := v\<rparr>" and "load_config pc io path m0 = Inr resolved"
    and "store_Open io (dc_Dir (Cf_Data resolved)) m0 = (Inr st, m1)"
    and "SaveIdentity (io_bolt io) nid cid st = (None, s1)"
    and "init_certs pc io cy path (dc_Dir (Cf_Data resolved)) cid nid s1
      (db_commit io (dc_Dir (Cf_Data resolved)) s1 m1) w2 = (r, m', w')"
proof -
  obtain cid w1 nid w2 where uid: "new_uid cy InitClusterID w = (Inr cid, w1)"
    "new_uid cy InitNodeID w1 = (Inr nid, w2)"
    using run fresh past
    by (auto simp: run_init_def new_uid_def split: prod.splits sum.splits)
  obtain data v where wrote: "fs_WriteFile (io_fs io) path (config_header @ data) 384 (mc_files m) = (None, v)"
    and rest: "init_store pc io cy path cid nid (m\<lparr>mc_files := v\<rparr>) w2 = (r, m', w')"
    using run fresh past uid
    by (auto simp: run_init_def split: prod.splits sum.splits option.splits)
  obtain resolved st m1 s1 where "load_config pc io path (m\<lparr>mc_files := v\<rparr>) = Inr resolved"
    "store_Open io (dc_Dir (Cf_Data resolved)) (m\<lparr>mc_files := v\<rparr>) = (Inr st, m1)"
    "SaveIdentity (io_bolt io) nid cid st = (None, s1)"
    "init_certs pc io cy path (dc_Dir (Cf_Data resolved)) cid nid s1
      (db_commit io (dc_Dir (Cf_Data resolved)) s1 m1) w2 = (r, m', w')"
    using rest past
    by (auto simp: init_store_def Let_def split: prod.splits sum.splits option.splits)
  with that new_uid_visible [OF out uid(1)] new_uid_visible [OF out uid(2)] uid [THEN new_uid_nonempty] wrote show thesis by blast
qed


section \<open>Properties\<close>

text \<open>
  C13. A successful \<^verbatim>\<open>clusdr init\<close> gives a cluster that can be joined. The configuration it
  wrote names a data directory (the configuration file not being one of the certificate files), whose
  files hold the generated certificates, from which the client credentials load. Whenever the store
  of that directory is opened afterwards, it has the node and cluster ids and the generated
  certificates, and its join service accepts exactly the tokens with the hash of one token. The output
  shows these ids and this token, and if the printed paths have no line breaks, the token is what the
  operator's ParseJoinToken reads from it.
\<close>

theorem init_token_accepted:
  assumes laws: "crypto_laws signer subject cy" "output_laws cy" "bolt_laws (io_bolt io)" "fs_laws (io_fs io)"
    and fresh: "force \<or> \<not> fs_Stat (io_fs io) path (mc_files m)"
    and run: "run_init pc io cy force path m w = (Inr text, m', w')"
  shows "\<exists>resolved dir b token nid cid.
    dir = dc_Dir (Cf_Data resolved) \<and>
    (path \<notin> fs_Join (io_fs io) dir ` {CAFile, CertFile, KeyFile} \<longrightarrow> load_config pc io path m' = Inr resolved) \<and>
    LoadFiles (io_fs io) dir (mc_files m') = Inr (CACert b, NodeCert b, NodeKey b) \<and>
    (\<exists>tc. ClientFromDir cy (io_fs io) dir (mc_files m') = Inr (NewTLS tc)) \<and>
    (\<forall>s m''. store_Open io dir m' = (Inr s, m'') \<longrightarrow>
       Identity (io_bolt io) s = Inr (nid, cid) \<and> store_Certs (io_bolt io) s = (b, None) \<and>
       (\<forall>tok. sec_check (cy_sha256 cy) (io_bolt io) tok s = None \<longleftrightarrow> cy_sha256 cy tok = cy_sha256 cy token)) \<and>
    (\<exists>fp. text = init_output cid nid path dir (fs_Join (io_fs io) dir CAFile) fp token) \<and>
    (newline \<notin> set path \<union> set dir \<union> set (fs_Join (io_fs io) dir CAFile) \<longrightarrow>
       ParseJoinToken text = Some token)"
proof -
  let ?bo = "io_bolt io" and ?fs = "io_fs io"
  obtain cid nid data v m0 resolved st m1 s1 w2 where vis: "visible cid" "visible nid"
    and m0: "m0 = m\<lparr>mc_files := v\<rparr>" and cfg: "load_config pc io path m0 = Inr resolved"
    and opened: "store_Open io (dc_Dir (Cf_Data resolved)) m0 = (Inr st, m1)"
    and ident: "SaveIdentity ?bo nid cid st = (None, s1)"
    and rest: "init_certs pc io cy path (dc_Dir (Cf_Data resolved)) cid nid s1
      (db_commit io (dc_Dir (Cf_Data resolved)) s1 m1) w2 = (Inr text, m', w')"
    by (rule run_init_saved [OF laws(2) run fresh]) (blast, blast)
  define dir where "dir = dc_Dir (Cf_Data resolved)"
  note rest = rest [folded dir_def] and opened = opened [folded dir_def]
  obtain b token w3 s2 v2 fp where gen: "Generate cy (env_now (pc_env pc)) cid nid w2 = (Inr (b, token), w3)"
    and save: "SaveCerts ?bo b s1 = (None, s2)"
    and wrote: "WriteFiles ?fs dir (CACert b) (NodeCert b) (NodeKey b) (mc_files m1) = (None, v2)"
    and fp: "Fingerprint cy (CACert b) = Inr fp"
    and m': "m' = (db_commit io dir s2 (db_commit io dir s1 m1))\<lparr>mc_files := v2\<rparr>"
    and printed: "text = init_output cid nid path dir (fs_Join ?fs dir CAFile) fp token"
    using rest by (auto simp: init_certs_def Let_def db_commit_files split: prod.splits sum.splits option.splits)
  note out = Generate_output [OF laws(1,2) gen]
  have ne: "CACert b \<noteq> ''''" "CAKey b \<noteq> ''''" "NodeCert b \<noteq> ''''" "NodeKey b \<noteq> ''''" "JoinTokenHash b \<noteq> ''''"
    using out(1) by auto
  have files: "mc_files m' = v2" by (simp add: m')
  have load: "LoadFiles ?fs dir (mc_files m') = Inr (CACert b, NodeCert b, NodeKey b)"
    unfolding files by (rule WriteFiles_read [OF laws(4) wrote ne(1,3,4)])
  have again: "load_config pc io path m' = Inr resolved" if "path \<notin> fs_Join ?fs dir ` {CAFile, CertFile, KeyFile}"
    using load_config_cong [of io path m' m0 pc] cfg store_Open_reads [OF laws(4) opened, of path]
      WriteFiles_other [OF laws(4) wrote ne(1,3,4) that] files by simp
  have held: "Identity ?bo s = Inr (nid, cid) \<and> store_Certs ?bo s = (b, None)"
    if "store_Open io dir m' = (Inr s, m'')" for s m''
  proof -
    have "db_holds io dir m' s2" unfolding m' db_holds_files by (rule db_commit_holds)
    note same = store_Open_again [OF this that] store_Open_ok [OF that]
    note id1 = SaveIdentity_load [OF laws(3) ident out(6,5)]
    note certs2 = SaveCerts_load [OF laws(3) save ne]
    show ?thesis
      using Identity_cong [of s s1 ?bo] store_Certs_cong [of s s2 ?bo] same id1 certs2 by simp
  qed
  have check: "sec_check (cy_sha256 cy) ?bo tok s = None \<longleftrightarrow> cy_sha256 cy tok = cy_sha256 cy token"
    if "store_Certs ?bo s = (b, None)" for tok s
    using that ne(5) out(2) by (auto simp: sec_check_def pki_CheckToken_def Let_def)
  have parse: "ParseJoinToken text = Some token"
    if "newline \<notin> set path \<union> set dir \<union> set (fs_Join ?fs dir CAFile)"
    unfolding printed using that vis Fingerprint_visible [OF fp] out(3,4) by (intro init_output_token) auto
  have client: "\<exists>tc. ClientFromDir cy ?fs dir (mc_files m') = Inr (NewTLS tc)"
    using load out(7) by (simp add: ClientFromDir_def)
  show ?thesis
    by (rule exI [of _ resolved], rule exI [of _ dir], rule exI [of _ b], rule exI [of _ token],
        rule exI [of _ nid], rule exI [of _ cid], intro conjI dir_def load client exI [of _ fp] printed)
      (use again held check parse in blast)+
qed


text \<open>
  C39. An init that fails between its two saves leaves a node that looks initialised and is open: on a
  machine without databases, when the generation of the certificates fails after the identity was
  saved, running the same command again reports success (already initialized) instead of finishing
  the work, and the store of the node lets every join token pass, the empty one included.
\<close>

theorem init_interrupted:
  assumes laws: "output_laws cy" "bolt_laws (io_bolt io)" "fs_laws (io_fs io)"
    and stat: "\<forall>p v d. fs_ReadFile (io_fs io) p v = FileData d \<longrightarrow> fs_Stat (io_fs io) p v"
    and mkdir: "\<forall>dir mode v. fst (fs_MkdirAll (io_fs io) dir mode v) = None"
    and bucket: "\<forall>name b k. io_bucket io name = Inr b \<longrightarrow> bo_get (io_bolt io) k b = ''''"
    and none: "\<forall>p. mc_dbs m p = \<lparr>bf_node = None, bf_raft = None, bf_certs = None\<rparr>"
    and fresh: "force \<or> \<not> fs_Stat (io_fs io) path (mc_files m)"
    and run: "run_init pc io cy force path m w = (Inl (InitGenerate err), m', w')"
  shows "\<exists>dir nid cid.
    fst (run_init pc io cy False path m' w') =
      Inr (print_lines [''already initialized'', '''', ''  cluster id      : '' @ cid,
        ''  node id         : '' @ nid, ''  config          : '' @ path, ''  data dir        : '' @ dir]) \<and>
    (\<exists>s m''. store_Open io dir m' = (Inr s, m'')) \<and>
    (\<forall>s m'' tok. store_Open io dir m' = (Inr s, m'') \<longrightarrow>
       sec_check (cy_sha256 cy) (io_bolt io) tok s = None)"
proof -
  let ?bo = "io_bolt io" and ?fs = "io_fs io"
  obtain cid nid data v m0 resolved st m1 s1 w2 where ne: "cid \<noteq> ''''" "nid \<noteq> ''''"
    and wrote: "fs_WriteFile ?fs path (config_header @ data) 384 (mc_files m) = (None, v)"
    and m0: "m0 = m\<lparr>mc_files := v\<rparr>" and cfg: "load_config pc io path m0 = Inr resolved"
    and opened: "store_Open io (dc_Dir (Cf_Data resolved)) m0 = (Inr st, m1)"
    and ident: "SaveIdentity ?bo nid cid st = (None, s1)"
    and rest: "init_certs pc io cy path (dc_Dir (Cf_Data resolved)) cid nid s1
      (db_commit io (dc_Dir (Cf_Data resolved)) s1 m1) w2 = (Inl (InitGenerate err), m', w')"
    by (rule run_init_saved [OF laws(1) run fresh]) (blast, blast)
  define dir where "dir = dc_Dir (Cf_Data resolved)"
  note rest = rest [folded dir_def] and opened = opened [folded dir_def]
  have m': "m' = db_commit io dir s1 m1"
    using rest by (auto simp: init_certs_def Let_def split: prod.splits sum.splits option.splits)
  have read: "fs_ReadFile ?fs p (mc_files m') = fs_ReadFile ?fs p (mc_files m0)" for p
    using store_Open_reads [OF laws(3) opened] by (simp add: m' db_commit_files)
  have "fs_ReadFile ?fs path (mc_files m0) = FileData (config_header @ data)"
    using laws(3) wrote m0 unfolding fs_laws_def by (elim conjE) simp
  then have exists: "fs_Stat ?fs path (mc_files m')" using stat read [of path] by metis
  have again: "load_config pc io path m' = Inr resolved"
    using load_config_cong [of io path m' m0 pc] cfg read by simp
  have holds: "db_holds io dir m' s1" unfolding m' by (rule db_commit_holds)
  have reopen: "\<exists>s m''. store_Open io dir m' = (Inr s, m'')"
    by (rule store_Open_reopen [OF opened _ _ holds])
      (use mkdir in blast, simp add: m' db_commit_def set_db_def Let_def)
  note id1 = SaveIdentity_load [OF laws(2) ident ne(2,1)]
  have "bo_get ?bo k (db_certs st) = ''''" for k
  proof -
    have "\<exists>name. io_bucket io name = Inr (db_certs st)"
      using opened none m0
      by (auto simp: store_Open_def store_open_def initBuckets_def bucket_ensure_def Let_def
          split: prod.splits option.splits sum.splits)
    then show ?thesis using bucket by blast
  qed
  then have open_check: "sec_check (cy_sha256 cy) ?bo tok s = None" and ids: "Identity ?bo s = Inr (nid, cid)"
    if "store_Open io dir m' = (Inr s, m'')" for s m'' tok
    using store_Open_again [OF holds that] store_Open_ok [OF that] id1 Identity_cong [of s s1 ?bo]
    by (simp_all add: sec_check_def store_Certs_def Let_def)
  obtain s m'' where s: "store_Open io dir m' = (Inr s, m'')" using reopen by blast
  have "fst (run_init pc io cy False path m' w') =
      Inr (print_lines [''already initialized'', '''', ''  cluster id      : '' @ cid,
        ''  node id         : '' @ nid, ''  config          : '' @ path, ''  data dir        : '' @ dir])"
    using exists again s ids [OF s] by (simp add: run_init_def alreadyInitialized_def dir_def [symmetric])
  then show ?thesis
    by (intro exI [of _ dir] exI [of _ nid] exI [of _ cid] conjI reopen) (use open_check in blast)+
qed


section \<open>Witnesses\<close>

definition demo_fs :: "(string, string) fmap filesys" where
  "demo_fs =
     \<lparr>fs_MkdirAll = (\<lambda>dir mode v. (None, v)),
      fs_WriteFile = (\<lambda>path data mode v. (None, fmupd path data v)),
      fs_ReadFile = (\<lambda>path v. case fmlookup v path of Some d \<Rightarrow> FileData d | None \<Rightarrow> FileMissing),
      fs_Stat = (\<lambda>path v. fmlookup v path \<noteq> None),
      fs_Join = (\<lambda>dir name. dir @ ''/'' @ name)\<rparr>"

definition demo_os :: "((string, string) fmap, (string, string) fmap) init_os" where
  "demo_os =
     \<lparr>io_fs = demo_fs, io_bolt = map_bolt, io_open_err = (\<lambda>path timeout. None),
      io_bucket = (\<lambda>name. Inr fmempty), io_tx_err = None\<rparr>"

definition demo_proc :: proc where
  "demo_proc =
     \<lparr>pc_env = ascii_env 0, pc_home = Some ''/root'', pc_getenv = (\<lambda>key. ''''),
      pc_marshal = (\<lambda>c. Inr ''''), pc_unmarshal = (\<lambda>data c. Inr c)\<rparr>"

definition demo_machine :: "((string, string) fmap, (string, string) fmap) machine" where
  "demo_machine =
     \<lparr>mc_files = fmempty, mc_dbs = (\<lambda>path. \<lparr>bf_node = None, bf_raft = None, bf_certs = None\<rparr>)\<rparr>"

definition failing_crypto :: "(nat, nat) crypto" where
  "failing_crypto = demo_crypto\<lparr>cy_GenerateKey := (\<lambda>w. (Inl ''no entropy'', w))\<rparr>"

lemma demo_fs_laws: "fs_laws demo_fs"
  by (auto simp: fs_laws_def demo_fs_def file_defs)

lemma demo_output: "output_laws demo_crypto" "output_laws failing_crypto"
  by (auto simp: output_laws_def failing_crypto_def demo_crypto_def demo_pem_def list_all_iff)

lemma demo_os_simps [simp]: "io_fs demo_os = demo_fs" "io_bolt demo_os = map_bolt"
  by (simp_all add: demo_os_def)

lemma demo_stat: "fs_Stat demo_fs ''clusdr.yaml'' (mc_files demo_machine) = False"
  by (simp add: demo_fs_def demo_machine_def)

lemma demo_checked: "\<not> isl (checked (applyEnv (ascii_env 0) (\<lambda>key. '''') (Defaults (Some ''/root''))))"
  by (simp add: applyEnv_def env_steps_def env_string_def envDuration_def envBool_def env_bootstrap_def
      checked_def clampRaft_def Validate_def Defaults_def Let_def Millisecond_def Second_def)

lemma demo_load: "\<exists>c. load_config demo_proc demo_os path m = Inr c"
proof -
  obtain c where "checked (applyEnv (ascii_env 0) (\<lambda>key. '''') (Defaults (Some ''/root''))) = Inr c"
    using demo_checked by (metis sum.collapse(2))
  then show ?thesis
    by (simp add: load_config_def LoadFrom_def demo_proc_def demo_fs_def split: option.splits)
qed

lemma demo_uid: "\<exists>u. new_uid cy err w = (Inr u, w) \<and> u \<noteq> ''''" if "cy_Read cy 16 w = (Inr b, w)"
  using that by (simp add: new_uid_def uid_New_def Let_def)

lemma demo_read: "cy_Read demo_crypto n w = (Inr (replicate n 171), w)" "cy_Read failing_crypto n w = (Inr (replicate n 171), w)"
  by (simp_all add: demo_crypto_def failing_crypto_def)

lemma demo_generated:
  assumes "cid \<noteq> ''''" "nid \<noteq> ''''"
  shows "\<exists>b t w' fp. Generate demo_crypto 0 cid nid 0 = (Inr (b, t), w') \<and> Fingerprint demo_crypto (CACert b) = Inr fp"
  using assms
  by (simp add: Generate_def generateCA_def issueNode_def newJoinToken_def HashToken_def rbind_def
      rwrap_def rlift_def sum_wrap_def randomSerial_def encodePEM_def demo_crypto_def demo_create_def
      demo_parse_def Let_def ca_template_def node_template_def Fingerprint_def ParseCertificate_def)

lemma map_bolt_put [simp]: "bo_put map_bolt k v b = Inr (fmupd k v b)"
  by (simp add: map_bolt_def)

lemma put_pairs_map: "\<exists>b'. put_pairs map_bolt ps b = Inr b'"
  by (induction ps arbitrary: b) (auto simp: store_put_def)

lemma demo_save: "db_err s = None \<Longrightarrow> \<exists>s'. SaveCerts map_bolt c s = (None, s') \<and> db_err s' = None"
  using put_pairs_map [of "[(keyCACert, CACert c), (keyCAKey, CAKey c), (keyNodeCert, NodeCert c),
      (keyNodeKey, NodeKey c), (keyJoinTokenHash, JoinTokenHash c)]" "db_certs s"]
  by (auto simp: SaveCerts_def simp del: put_pairs.simps)

lemma demo_save_id: "db_err s = None \<Longrightarrow> \<exists>s'. SaveIdentity map_bolt nid cid s = (None, s') \<and> db_err s' = None"
  by (simp add: SaveIdentity_def store_put_def)

lemma demo_open: "\<exists>s m'. store_Open demo_os dir m = (Inr s, m') \<and> db_err s = None"
  by (auto simp: store_Open_def store_open_def demo_os_def demo_fs_def initBuckets_def bucket_ensure_def Let_def
      split: sum.splits option.splits)

lemma demo_write: "\<exists>v'. WriteFiles demo_fs dir ca cert key v = (None, v')"
  by (simp add: WriteFiles_def write_some_def demo_fs_def)

text \<open>The run up to the certificates, for both instances.\<close>

lemma demo_prefix:
  assumes "\<And>n w. cy_Read cy n w = (Inr (replicate n 171), w)"
  shows "\<exists>dir cid nid s m'. cid \<noteq> '''' \<and> nid \<noteq> '''' \<and> db_err s = None \<and>
    run_init demo_proc demo_os cy False ''clusdr.yaml'' demo_machine w =
    init_certs demo_proc demo_os cy ''clusdr.yaml'' dir cid nid s m' w"
proof -
  obtain cid nid where u: "new_uid cy InitClusterID w = (Inr cid, w)" "new_uid cy InitNodeID w = (Inr nid, w)"
    and ne: "cid \<noteq> ''''" "nid \<noteq> ''''"
    using demo_uid [OF assms, of InitClusterID w] demo_uid [OF assms, of InitNodeID w] by blast
  obtain v where v: "fs_WriteFile demo_fs ''clusdr.yaml'' (config_header @ '''') 384 (mc_files demo_machine) = (None, v)"
    by (simp add: demo_fs_def)
  let ?m = "demo_machine\<lparr>mc_files := v\<rparr>"
  obtain c where c: "load_config demo_proc demo_os ''clusdr.yaml'' ?m = Inr c" using demo_load by blast
  obtain s m1 where s: "store_Open demo_os (dc_Dir (Cf_Data c)) ?m = (Inr s, m1)" "db_err s = None"
    using demo_open by blast
  obtain s1 where s1: "SaveIdentity map_bolt nid cid s = (None, s1)" "db_err s1 = None"
    using demo_save_id [OF s(2)] by blast
  have "run_init demo_proc demo_os cy False ''clusdr.yaml'' demo_machine w =
      init_store demo_proc demo_os cy ''clusdr.yaml'' cid nid ?m w"
    using u v demo_stat by (simp add: run_init_def) (simp add: demo_proc_def)
  also have "\<dots> = init_certs demo_proc demo_os cy ''clusdr.yaml'' (dc_Dir (Cf_Data c)) cid nid s1
      (db_commit demo_os (dc_Dir (Cf_Data c)) s1 m1) w"
    using c s s1 by (simp add: init_store_def Let_def)
  finally show ?thesis using ne s1(2) by blast
qed

lemma demo_now: "env_now (pc_env demo_proc) = 0"
  by (simp add: demo_proc_def ascii_env_def)

lemma demo_init_runs: "\<exists>out m' w'. run_init demo_proc demo_os demo_crypto False ''clusdr.yaml'' demo_machine 0 = (Inr out, m', w')"
proof -
  obtain dir cid nid s m1 where ne: "cid \<noteq> ''''" "nid \<noteq> ''''" and s: "db_err s = None"
    and run: "run_init demo_proc demo_os demo_crypto False ''clusdr.yaml'' demo_machine 0 =
      init_certs demo_proc demo_os demo_crypto ''clusdr.yaml'' dir cid nid s m1 0"
    using demo_prefix [OF demo_read(1), of 0] by blast
  obtain b t w' fp where gen: "Generate demo_crypto 0 cid nid 0 = (Inr (b, t), w')" "Fingerprint demo_crypto (CACert b) = Inr fp"
    using demo_generated [OF ne] by blast
  obtain s1 where s1: "SaveCerts map_bolt b s = (None, s1)" using demo_save [OF s] by blast
  obtain v where "WriteFiles demo_fs dir (CACert b) (NodeCert b) (NodeKey b) (mc_files (db_commit demo_os dir s1 m1)) = (None, v)"
    using demo_write by blast
  then show ?thesis using gen s1 by (simp add: run init_certs_def demo_now)
qed

lemma demo_init_fails:
  "\<exists>m'. run_init demo_proc demo_os failing_crypto False ''clusdr.yaml'' demo_machine 0 =
     (Inl (InitGenerate (PkiGenerateKey ''no entropy'')), m', 0)"
proof -
  obtain dir cid nid s m1 where ne: "cid \<noteq> ''''" "nid \<noteq> ''''"
    and run: "run_init demo_proc demo_os failing_crypto False ''clusdr.yaml'' demo_machine 0 =
      init_certs demo_proc demo_os failing_crypto ''clusdr.yaml'' dir cid nid s m1 0"
    using demo_prefix [OF demo_read(2), of 0] by blast
  have "Generate failing_crypto 0 cid nid 0 = (Inl (PkiGenerateKey ''no entropy''), 0)"
    using ne by (simp add: Generate_def generateCA_def rbind_def rwrap_def failing_crypto_def)
  then show ?thesis by (simp add: run init_certs_def demo_now)
qed

theorem init_token_accepted_witness:
  "\<exists>out m' w' dir. run_init demo_proc demo_os demo_crypto False ''clusdr.yaml'' demo_machine 0 = (Inr out, m', w') \<and>
     (\<exists>tc. ClientFromDir demo_crypto demo_fs dir (mc_files m') = Inr (NewTLS tc))"
proof -
  obtain out m' w' where run: "run_init demo_proc demo_os demo_crypto False ''clusdr.yaml'' demo_machine 0 = (Inr out, m', w')"
    using demo_init_runs by blast
  have laws: "bolt_laws (io_bolt demo_os)" "fs_laws (io_fs demo_os)"
    and new: "False \<or> \<not> fs_Stat (io_fs demo_os) ''clusdr.yaml'' (mc_files demo_machine)"
    using map_bolt_laws demo_fs_laws demo_stat by simp_all
  obtain dir tc where "ClientFromDir demo_crypto (io_fs demo_os) dir (mc_files m') = Inr (NewTLS tc)"
    using init_token_accepted [OF demo_laws demo_output(1) laws new run] by (elim exE conjE) blast
  then show ?thesis using run by auto
qed

theorem init_interrupted_witness:
  "\<exists>m' dir out. run_init demo_proc demo_os failing_crypto False ''clusdr.yaml'' demo_machine 0 =
       (Inl (InitGenerate (PkiGenerateKey ''no entropy'')), m', 0) \<and>
     fst (run_init demo_proc demo_os failing_crypto False ''clusdr.yaml'' m' 0) = Inr out \<and>
     (\<forall>s m''. store_Open demo_os dir m' = (Inr s, m'') \<longrightarrow>
        sec_check (cy_sha256 failing_crypto) map_bolt '''' s = None)"
proof -
  obtain m' where run: "run_init demo_proc demo_os failing_crypto False ''clusdr.yaml'' demo_machine 0 =
      (Inl (InitGenerate (PkiGenerateKey ''no entropy'')), m', 0)"
    using demo_init_fails by blast
  have laws: "bolt_laws (io_bolt demo_os)" "fs_laws (io_fs demo_os)"
    and stat: "\<forall>p v d. fs_ReadFile (io_fs demo_os) p v = FileData d \<longrightarrow> fs_Stat (io_fs demo_os) p v"
    and mkdir: "\<forall>dir mode v. fst (fs_MkdirAll (io_fs demo_os) dir mode v) = None"
    and bucket: "\<forall>name b k. io_bucket demo_os name = Inr b \<longrightarrow> bo_get (io_bolt demo_os) k b = ''''"
    and none: "\<forall>p. mc_dbs demo_machine p = \<lparr>bf_node = None, bf_raft = None, bf_certs = None\<rparr>"
    and new: "False \<or> \<not> fs_Stat (io_fs demo_os) ''clusdr.yaml'' (mc_files demo_machine)"
    using map_bolt_laws demo_fs_laws demo_stat
    by (simp_all add: demo_fs_def demo_os_def map_bolt_def demo_machine_def split: option.splits)
  note all = init_interrupted [OF demo_output(2) laws stat mkdir bucket none new run]
  then show ?thesis using run unfolding demo_os_simps by (elim exE conjE) blast
qed

end
