(* ===== verification/Sdk_Watch.thy ===== *)
theory Sdk_Watch
  imports Sdk_Client Watch_Service Go_Text Pki
begin

text \<open>
  The rest of the client library: options and environment (sdk/options.go, sdk/clusdr.go), the
  credentials (sdk/tls.go), dialling, the membership calls, Publish and Close, and the watch loop
  that reconnects (sdk/client.go, sdk/watch.go). Cryptography and files are those of theory Pki; gRPC
  connections are functions over a world. Lemmas: a connection is in the clear only when the
  application or the environment asks for it; the SDK's copy of the peer check agrees with the
  daemon's; the server accepts the topics that the client normalised; which cursor a reconnection
  carries, what the application gets, and when the loop ends.
\<close>

section \<open>Options\<close>

record sdk_options =
  so_addr :: string
  so_insecure :: bool
  so_dataDir :: string
  so_holder :: string
  so_requestTimeout :: duration
  so_readyTimeout :: duration

definition sdk_defaultAddr :: string where "sdk_defaultAddr = ''127.0.0.1:7947''"
definition defaultRequestTimeout :: duration where "defaultRequestTimeout = 10 * Second"
definition defaultReadyTimeout :: duration where "defaultReadyTimeout = 10 * Second"

definition defaultOptions :: sdk_options where
  "defaultOptions =
     \<lparr>so_addr = '''', so_insecure = False, so_dataDir = '''', so_holder = '''',
      so_requestTimeout = defaultRequestTimeout, so_readyTimeout = defaultReadyTimeout\<rparr>"

text \<open>The options an application can pass; a nil option is \<^term>\<open>None\<close>.\<close>

datatype sdk_option =
    WithInsecure
  | WithDataDir string
  | WithHolder string
  | WithRequestTimeout duration

fun set_option :: "sdk_option \<Rightarrow> sdk_options \<Rightarrow> sdk_options" where
  "set_option WithInsecure oo = oo\<lparr>so_insecure := True\<rparr>"
| "set_option (WithDataDir dir) oo = oo\<lparr>so_dataDir := dir\<rparr>"
| "set_option (WithHolder i) oo = oo\<lparr>so_holder := TrimSpace i\<rparr>"
| "set_option (WithRequestTimeout d) oo = (if d > 0 then oo\<lparr>so_requestTimeout := d\<rparr> else oo)"

fun options_apply :: "sdk_option option list \<Rightarrow> sdk_options \<Rightarrow> sdk_options" where
  "options_apply [] oo = oo"
| "options_apply (opt # opts) oo =
     options_apply opts (case opt of None \<Rightarrow> oo | Some f \<Rightarrow> set_option f oo)"

definition localAddr :: "(string \<Rightarrow> string) \<Rightarrow> string" where
  "localAddr getenv =
     (let v = TrimSpace (getenv ''CLUSDR_GRPC_ADDR'') in if v \<noteq> '''' then v else sdk_defaultAddr)"

definition envInsecure :: "env \<Rightarrow> (string \<Rightarrow> string) \<Rightarrow> bool" where
  "envInsecure e getenv \<longleftrightarrow>
     (let v = ToLower e (TrimSpace (getenv ''CLUSDR_TLS'')) in
      v = ''disabled'' \<or> v = ''off'' \<or> v = ''false'' \<or> v = ''0'')"

definition envDataDir :: "string option \<Rightarrow> (string \<Rightarrow> string) \<Rightarrow> string" where
  "envDataDir home getenv =
     (let v = TrimSpace (getenv ''CLUSDR_DATA_DIR'') in
      if v \<noteq> '''' then v else case home of None \<Rightarrow> '''' | Some h \<Rightarrow> h @ ''/.clusdr'')"

section \<open>Credentials\<close>

text \<open>
  The host of the application. \<open>sh_regular\<close> says whether a path is a regular file, \<open>sh_rand\<close> is what
  the random source gives for the 16 bytes of a holder id.
\<close>

record ('k, 'w, 'v) sdk_host =
  sh_env :: env
  sh_getenv :: "string \<Rightarrow> string"
  sh_home :: "string option"
  sh_crypto :: "('k, 'w) crypto"
  sh_fs :: "'v filesys"
  sh_files :: 'v
  sh_regular :: "string \<Rightarrow> bool"
  sh_rand :: "string + nat list"

datatype dial_error =
    EmptyAddr
  | PemMissing string
  | ReadPem string
  | InvalidCA
  | ClientPair string
  | DialErr string string
  | HolderErr string
  | NotReady string

definition sdk_caFile :: string where "sdk_caFile = ''ca.crt''"
definition sdk_certFile :: string where "sdk_certFile = ''node.crt''"
definition sdk_keyFile :: string where "sdk_keyFile = ''node.key''"

lemmas sdk_file_defs = sdk_caFile_def sdk_certFile_def sdk_keyFile_def

definition pemFilesPresent :: "('k, 'w, 'v) sdk_host \<Rightarrow> string \<Rightarrow> bool" where
  "pemFilesPresent h dir =
     list_all (\<lambda>name. sh_regular h (fs_Join (sh_fs h) dir name)) [sdk_caFile, sdk_certFile, sdk_keyFile]"

fun sdk_intermediates :: "('k, 'w) crypto \<Rightarrow> string list \<Rightarrow> x509 list \<Rightarrow> verify_error + x509 list" where
  "sdk_intermediates cy [] pool = Inr pool"
| "sdk_intermediates cy (der # ders) pool =
     (case cy_Parse cy der of
        Inl err \<Rightarrow> Inl (ParseIntermediate err)
      | Inr c \<Rightarrow> sdk_intermediates cy ders (pool @ [c]))"

definition sdk_verifyPeer ::
  "('k, 'w) crypto \<Rightarrow> x509 list \<Rightarrow> gotime \<Rightarrow> string list \<Rightarrow> verify_error option" where
  "sdk_verifyPeer cy roots now raw =
     (if raw = [] then Some NoPeerCert
      else case cy_Parse cy (hd raw) of
        Inl err \<Rightarrow> Some (ParsePeer err)
      | Inr peer \<Rightarrow>
          (case (if length raw > 1 then sdk_intermediates cy (tl raw) [] else Inr []) of
             Inl err \<Rightarrow> Some err
           | Inr ics \<Rightarrow>
               (case cy_Verify cy roots now ExtKeyUsageServerAuth peer ics of
                  Some err \<Rightarrow> Some (NotSigned err)
                | None \<Rightarrow> None)))"

definition sdk_clientTLS ::
  "('k, 'w) crypto \<Rightarrow> string \<Rightarrow> string \<Rightarrow> string \<Rightarrow> dial_error + transport" where
  "sdk_clientTLS cy caPEM certPEM keyPEM =
     (let pool = cy_Pool cy caPEM in
      if pool = [] then Inl InvalidCA
      else case cy_KeyPair cy certPEM keyPEM of
        Some err \<Rightarrow> Inl (ClientPair err)
      | None \<Rightarrow>
          Inr (NewTLS (zero_conf\<lparr>tl_MinVersion := VersionTLS12, tl_Certificate := Some (certPEM, keyPEM),
                 tl_RootCAs := Some pool, tl_InsecureSkipVerify := True,
                 tl_SessionTicketsDisabled := True,
                 tl_VerifyPeerCertificate := Some (sdk_verifyPeer cy pool)\<rparr>)))"

definition clientFromDir :: "('k, 'w, 'v) sdk_host \<Rightarrow> string \<Rightarrow> dial_error + transport" where
  "clientFromDir h dir =
     (case read_file (sh_fs h) dir sdk_caFile (sh_files h) of
        Inl err \<Rightarrow> Inl (ReadPem err)
      | Inr ca \<Rightarrow>
          (case read_file (sh_fs h) dir sdk_certFile (sh_files h) of
             Inl err \<Rightarrow> Inl (ReadPem err)
           | Inr certPEM \<Rightarrow>
               (case read_file (sh_fs h) dir sdk_keyFile (sh_files h) of
                  Inl err \<Rightarrow> Inl (ReadPem err)
                | Inr keyPEM \<Rightarrow> sdk_clientTLS (sh_crypto h) ca certPEM keyPEM)))"

definition sdk_dir :: "('k, 'w, 'v) sdk_host \<Rightarrow> sdk_options \<Rightarrow> string" where
  "sdk_dir h oo = (if so_dataDir oo = '''' then envDataDir (sh_home h) (sh_getenv h) else so_dataDir oo)"

definition transportCreds :: "('k, 'w, 'v) sdk_host \<Rightarrow> sdk_options \<Rightarrow> dial_error + transport" where
  "transportCreds h oo =
     (if so_insecure oo then Inr Insecure
      else
        let dir = sdk_dir h oo in
        if dir = '''' \<or> \<not> pemFilesPresent h dir
        then Inl (PemMissing (if dir = '''' then ''(no data dir)'' else dir))
        else clientFromDir h dir)"

section \<open>Dialling\<close>

definition newHolderID :: "('k, 'w, 'v) sdk_host \<Rightarrow> string + string" where
  "newHolderID h = (case sh_rand h of Inl err \<Rightarrow> Inl err | Inr b \<Rightarrow> Inr (''sdk-'' @ hex_bytes b))"

text \<open>The gRPC library over a world: a new connection or an error, its close, and the health call.\<close>

record 'x dialer =
  dl_NewClient :: "string \<Rightarrow> transport \<Rightarrow> 'x \<Rightarrow> string option \<times> 'x"
  dl_Close :: "'x \<Rightarrow> 'x"
  dl_Health :: "'x \<Rightarrow> (unit rpc_error + health_response) \<times> 'x"

datatype dial_result = DialOk sdk_client transport sdk_options | DialRefused dial_error

text \<open>The attempts are those of the context with the ready timeout.\<close>

definition sdk_dial ::
  "('k, 'w, 'v) sdk_host \<Rightarrow> 'x dialer \<Rightarrow> sdk_options \<Rightarrow> attempts \<Rightarrow> 'x \<Rightarrow> dial_result option \<times> 'x" where
  "sdk_dial h dl o0 ats x =
     (if so_addr o0 = '''' then (Some (DialRefused EmptyAddr), x)
      else
        let oo = (if \<not> so_insecure o0 \<and> envInsecure (sh_env h) (sh_getenv h) \<and> so_dataDir o0 = ''''
                  then o0\<lparr>so_insecure := True\<rparr> else o0)
        in (case transportCreds h oo of
              Inl err \<Rightarrow> (Some (DialRefused err), x)
            | Inr creds \<Rightarrow>
                (case dl_NewClient dl (so_addr oo) creds x of
                   (Some err, x1) \<Rightarrow> (Some (DialRefused (DialErr (so_addr oo) err)), x1)
                 | (None, x1) \<Rightarrow>
                     (case (if so_holder oo = '''' then newHolderID h else Inr (so_holder oo)) of
                        Inl err \<Rightarrow> (Some (DialRefused (HolderErr err)), dl_Close dl x1)
                      | Inr holder \<Rightarrow>
                          let c = \<lparr>sc_holder = holder, sc_held = fmempty, sc_leased = fmempty\<rparr> in
                          if so_readyTimeout oo > 0
                          then (case sdk_retry (dl_Health dl) ats x1 of
                                  (None, _, x2) \<Rightarrow> (None, x2)
                                | (Some (RetryOk _), _, x2) \<Rightarrow> (Some (DialOk c creds oo), x2)
                                | (Some _, _, x2) \<Rightarrow> (Some (DialRefused (NotReady (so_addr oo))), dl_Close dl x2))
                          else (Some (DialOk c creds oo), x1)))))"

definition Local ::
  "('k, 'w, 'v) sdk_host \<Rightarrow> 'x dialer \<Rightarrow> sdk_option option list \<Rightarrow> attempts \<Rightarrow> 'x \<Rightarrow> dial_result option \<times> 'x" where
  "Local h dl opts =
     (let o0 = options_apply opts defaultOptions;
          oo = (if so_addr o0 = '''' then o0\<lparr>so_addr := localAddr (sh_getenv h)\<rparr> else o0)
      in sdk_dial h dl oo)"

definition Dial ::
  "('k, 'w, 'v) sdk_host \<Rightarrow> 'x dialer \<Rightarrow> string \<Rightarrow> sdk_option option list \<Rightarrow> attempts \<Rightarrow> 'x \<Rightarrow> dial_result option \<times> 'x" where
  "Dial h dl addr opts = sdk_dial h dl ((options_apply opts defaultOptions)\<lparr>so_addr := addr\<rparr>)"

section \<open>Calls\<close>

text \<open>A context with a deadline keeps it; another one gets the request timeout.\<close>

definition withRPC :: "sdk_options \<Rightarrow> gotime \<Rightarrow> gotime option \<Rightarrow> gotime" where
  "withRPC oo now deadline = (case deadline of Some t \<Rightarrow> t | None \<Rightarrow> now + so_requestTimeout oo)"

datatype 'd call_error = CallRpc "'d rpc_error" | CallCtx ctx_error | CallRejected string

definition call_result :: "('d, 'a) retry_exit \<Rightarrow> 'd call_error + 'a" where
  "call_result r = (case r of RetryOk a \<Rightarrow> Inr a | RetryErr err \<Rightarrow> Inl (CallRpc err)
     | RetryCtx err \<Rightarrow> Inl (CallCtx err))"

record sdk_member =
  sm_ID :: string
  sm_Address :: string
  sm_Status :: string
  sm_Leader :: bool
  sm_Role :: string

definition sdk_member_of :: "pb_member \<Rightarrow> sdk_member" where
  "sdk_member_of m =
     \<lparr>sm_ID = pm_id m, sm_Address = pm_address m, sm_Status = pm_status m, sm_Leader = pm_leader m,
      sm_Role = (if pm_role m = '''' then ''voter'' else pm_role m)\<rparr>"

definition sdk_Members ::
  "('x \<Rightarrow> ('d rpc_error + pb_member list) \<times> 'x) \<Rightarrow> attempts \<Rightarrow> 'x \<Rightarrow>
   ('d call_error + sdk_member list) option \<times> 'x" where
  "sdk_Members list ats x =
     (case sdk_retry list ats x of
        (None, _, x1) \<Rightarrow> (None, x1)
      | (Some r, _, x1) \<Rightarrow>
          (case call_result r of
             Inl err \<Rightarrow> (Some (Inl err), x1)
           | Inr ms \<Rightarrow> (Some (Inr (map sdk_member_of ms)), x1)))"

text \<open>The answer is the id and the address of the leader.\<close>

definition sdk_Leader ::
  "('x \<Rightarrow> ('d rpc_error + string \<times> string) \<times> 'x) \<Rightarrow> attempts \<Rightarrow> 'x \<Rightarrow>
   ('d call_error + sdk_member) option \<times> 'x" where
  "sdk_Leader get ats x =
     (case sdk_retry get ats x of
        (None, _, x1) \<Rightarrow> (None, x1)
      | (Some r, _, x1) \<Rightarrow>
          (case call_result r of
             Inl err \<Rightarrow> (Some (Inl err), x1)
           | Inr (i, addr) \<Rightarrow>
               (Some (Inr \<lparr>sm_ID = i, sm_Address = addr, sm_Status = ''alive'', sm_Leader = True,
                           sm_Role = ''voter''\<rparr>), x1)))"

definition sdk_Publish ::
  "(publish_request \<Rightarrow> 'x \<Rightarrow> ('d rpc_error + publish_response) \<times> 'x) \<Rightarrow> attempts \<Rightarrow> string \<Rightarrow> string \<Rightarrow>
   'x \<Rightarrow> 'd call_error option option \<times> 'x" where
  "sdk_Publish publish ats topic payload x =
     (case sdk_retry (publish \<lparr>pr_topic = topic, pr_payload = payload, pr_event_id = '''', pr_source = '''',
                               pr_relay = False\<rparr>) ats x of
        (None, _, x1) \<Rightarrow> (None, x1)
      | (Some r, _, x1) \<Rightarrow>
          (case call_result r of
             Inl err \<Rightarrow> (Some (Some err), x1)
           | Inr resp \<Rightarrow>
               if \<not> pp_accepted resp then (Some (Some (CallRejected (pp_message resp))), x1)
               else (Some None, x1)))"


text \<open>
  Close: the locks, the leases, then the connection; \<^term>\<open>None\<close> for a client without a connection.
  The iteration orders of the two maps and the attempts of each release are arguments.
\<close>

definition sdk_Close ::
  "'w daemon \<Rightarrow> ('w \<Rightarrow> string option \<times> 'w) option \<Rightarrow> attempts list \<Rightarrow> string list \<Rightarrow> attempts list \<Rightarrow>
   string list \<Rightarrow> sdk_client \<Rightarrow> 'w \<Rightarrow> string option \<times> sdk_client \<times> 'w" where
  "sdk_Close da conn lock_ats lock_order lease_ats lease_order c w =
     (case conn of
        None \<Rightarrow> (None, c, w)
      | Some close \<Rightarrow>
          (case releaseHeld da lock_ats lock_order c w of (c1, w1) \<Rightarrow>
             (case releaseLeases da lease_ats lease_order c1 w1 of (c2, w2) \<Rightarrow>
                (case close w2 of (err, w3) \<Rightarrow> (err, c2, w3)))))"

section \<open>Watch options\<close>

record watch_options =
  wo_topics :: "string list"
  wo_eventTypes :: "string list"

datatype watch_option = WithTopics "string list" | WithEventTypes "string list"

fun set_watch_option :: "watch_option \<Rightarrow> watch_options \<Rightarrow> watch_options" where
  "set_watch_option (WithTopics topics) wo = wo\<lparr>wo_topics := wo_topics wo @ topics\<rparr>"
| "set_watch_option (WithEventTypes types) wo = wo\<lparr>wo_eventTypes := wo_eventTypes wo @ types\<rparr>"

definition maxWatchTopicLen :: nat where "maxWatchTopicLen = 128"

definition validWatchTopic :: "env \<Rightarrow> string \<Rightarrow> topic_error option" where
  "validWatchTopic e topic =
     (if topic = '''' then Some TopicRequired
      else if length topic > maxWatchTopicLen then Some TopicTooLong
      else map_option TopicBadRune
        (find (\<lambda>r. \<not> IsLetter e r \<and> \<not> IsDigit e r \<and> r \<noteq> 46 \<and> r \<noteq> 95 \<and> r \<noteq> 45) (runes topic)))"

text \<open>The loop of normalizeWatchTopics; the keys of the map \<open>seen\<close> are the elements of \<open>out\<close>.\<close>

fun topics_loop :: "env \<Rightarrow> string list \<Rightarrow> string list \<Rightarrow> (string \<times> topic_error) + string list" where
  "topics_loop e [] out = Inr out"
| "topics_loop e (raw # ins) out =
     (let t = TrimPrefix (TrimSpace raw) ''custom.'' in
      if t = '''' then topics_loop e ins out
      else case validWatchTopic e t of
        Some err \<Rightarrow> Inl (raw, err)
      | None \<Rightarrow> if t \<in> set out then topics_loop e ins out else topics_loop e ins (out @ [t]))"

definition normalizeWatchTopics :: "env \<Rightarrow> string list \<Rightarrow> (string \<times> topic_error) + string list" where
  "normalizeWatchTopics e ins = (if ins = [] then Inr [] else topics_loop e ins [])"

fun types_loop :: "string list \<Rightarrow> string list \<Rightarrow> string list" where
  "types_loop [] out = out"
| "types_loop (raw # ins) out =
     (let t = TrimSpace raw in
      if t = '''' then types_loop ins out
      else if t \<in> set out then types_loop ins out else types_loop ins (out @ [t]))"

definition normalizeWatchTypes :: "string list \<Rightarrow> string list" where
  "normalizeWatchTypes ins = (if ins = [] then [] else types_loop ins [])"

fun watch_options_set :: "watch_option option list \<Rightarrow> watch_options \<Rightarrow> watch_options" where
  "watch_options_set [] wo = wo"
| "watch_options_set (opt # opts) wo =
     watch_options_set opts (case opt of None \<Rightarrow> wo | Some f \<Rightarrow> set_watch_option f wo)"

definition applyWatchOptions ::
  "env \<Rightarrow> watch_option option list \<Rightarrow> (string \<times> topic_error) + watch_options" where
  "applyWatchOptions e opts =
     (let wo = watch_options_set opts \<lparr>wo_topics = [], wo_eventTypes = []\<rparr> in
      case normalizeWatchTopics e (wo_topics wo) of
        Inl err \<Rightarrow> Inl err
      | Inr topics \<Rightarrow>
          Inr (wo\<lparr>wo_topics := topics, wo_eventTypes := normalizeWatchTypes (wo_eventTypes wo)\<rparr>))"

section \<open>The watch loop\<close>

record sdk_event =
  sv_Type :: string
  sv_Source :: string
  sv_Payload :: string
  sv_Timestamp :: gotime
  sv_Seq :: u64

definition sdk_event_of :: "watch_response \<Rightarrow> sdk_event" where
  "sdk_event_of resp =
     \<lparr>sv_Type = ws_type resp, sv_Source = ws_source resp, sv_Payload = ws_payload resp,
      sv_Timestamp = UnixMilli (ws_timestamp resp), sv_Seq = ws_seq resp\<rparr>"

text \<open>
  What happens to the loop. A receive gives a message, with the choice of the select that follows
  (\<^term>\<open>True\<close>: the event went to the channel), or an error code with the state of the context. A round
  is the state of the context at its start (\<^term>\<open>True\<close>: ended) and the outcome of the call: an error or
  a stream with its receives. A round whose stream has not failed is the last one; the others say
  whether the sleep after them ran to its end.
\<close>

datatype recv = RecvMsg watch_response bool | RecvErr grpc_code bool

datatype watch_round = OpenErr grpc_code bool bool | OpenOk "recv list" bool

datatype recv_exit = RecvWaiting | RecvReturn | RecvBroken

fun recv_loop :: "recv list \<Rightarrow> u64 \<Rightarrow> recv_exit \<times> u64 \<times> sdk_event list" where
  "recv_loop [] lastSeq = (RecvWaiting, lastSeq, [])"
| "recv_loop (RecvErr code ended # rs) lastSeq =
     (if ended \<or> code = Canceled then (RecvReturn, lastSeq, [])
      else if code = InvalidArgument then (RecvReturn, lastSeq, [])
      else (RecvBroken, lastSeq, []))"
| "recv_loop (RecvMsg resp sent # rs) lastSeq =
     (let lastSeq' = (if ws_seq resp > lastSeq then ws_seq resp else lastSeq) in
      if \<not> sent then (RecvReturn, lastSeq', [])
      else case recv_loop rs lastSeq' of (x, l, evs) \<Rightarrow> (x, l, sdk_event_of resp # evs))"

definition watch_req :: "watch_options \<Rightarrow> u64 \<Rightarrow> watch_request" where
  "watch_req wo seq = \<lparr>wr_event_types = wo_eventTypes wo, wr_topics = wo_topics wo, wr_last_seq = seq\<rparr>"

text \<open>The trace: whether the channel is closed, the requests, the events and the sleeps begun.\<close>

record watch_trace =
  wt_closed :: bool
  wt_reqs :: "watch_request list"
  wt_events :: "sdk_event list"
  wt_sleeps :: "duration list"

definition trace_cons ::
  "watch_request list \<Rightarrow> sdk_event list \<Rightarrow> duration list \<Rightarrow> watch_trace \<Rightarrow> watch_trace" where
  "trace_cons reqs evs sleeps t =
     t\<lparr>wt_reqs := reqs @ wt_reqs t, wt_events := evs @ wt_events t, wt_sleeps := sleeps @ wt_sleeps t\<rparr>"

definition trace_end :: "bool \<Rightarrow> watch_trace" where
  "trace_end closed = \<lparr>wt_closed = closed, wt_reqs = [], wt_events = [], wt_sleeps = []\<rparr>"

fun watchLoop ::
  "watch_options \<Rightarrow> (bool \<times> watch_round) list \<Rightarrow> u64 \<Rightarrow> duration \<Rightarrow> watch_trace" where
  "watchLoop wo [] lastSeq backoff = trace_end False"
| "watchLoop wo ((ended, OpenErr code ended' slept) # rounds) lastSeq backoff =
     (if ended then trace_end True
      else if ended' \<or> code = Canceled \<or> code = InvalidArgument
      then trace_cons [watch_req wo lastSeq] [] [] (trace_end True)
      else if \<not> slept then trace_cons [watch_req wo lastSeq] [] [backoff] (trace_end True)
      else trace_cons [watch_req wo lastSeq] [] [backoff]
             (watchLoop wo rounds lastSeq (nextBackoff backoff)))"
| "watchLoop wo ((ended, OpenOk rs slept) # rounds) lastSeq backoff =
     (if ended then trace_end True
      else let b = 50 * Millisecond in
        (case recv_loop rs lastSeq of
           (RecvWaiting, l, evs) \<Rightarrow> trace_cons [watch_req wo lastSeq] evs [] (trace_end False)
         | (RecvReturn, l, evs) \<Rightarrow> trace_cons [watch_req wo lastSeq] evs [] (trace_end True)
         | (RecvBroken, l, evs) \<Rightarrow>
             if \<not> slept then trace_cons [watch_req wo lastSeq] evs [b] (trace_end True)
             else trace_cons [watch_req wo lastSeq] evs [b]
                    (watchLoop wo rounds l (nextBackoff b))))"

definition sdk_Watch ::
  "env \<Rightarrow> watch_option option list \<Rightarrow> (bool \<times> watch_round) list \<Rightarrow> (string \<times> topic_error) + watch_trace" where
  "sdk_Watch e opts rounds =
     (case applyWatchOptions e opts of
        Inl err \<Rightarrow> Inl err
      | Inr wo \<Rightarrow> Inr (watchLoop wo rounds 0 (50 * Millisecond)))"


section \<open>Lemmas\<close>

text \<open>Credentials: the check of the SDK is the check of the daemon.\<close>

lemma sdk_intermediates_eq:
  "sdk_intermediates cy ders pool =
     (case parse_intermediates cy ders of Inl err \<Rightarrow> Inl err | Inr cs \<Rightarrow> Inr (pool @ cs))"
  by (induction ders arbitrary: pool) (auto split: sum.splits)

lemma sdk_verifyPeer_eq: "sdk_verifyPeer cy roots now raw = verifyPeer cy roots now raw"
proof (cases raw)
  case (Cons der ders)
  then show ?thesis
    by (cases ders)
      (simp_all add: sdk_verifyPeer_def verifyPeer_def sdk_intermediates_eq
        split: sum.splits option.splits del: sdk_intermediates.simps parse_intermediates.simps, simp_all)
qed (simp add: sdk_verifyPeer_def verifyPeer_def)

lemma options_insecure: "so_insecure (options_apply opts oo) \<longleftrightarrow> so_insecure oo \<or> Some WithInsecure \<in> set opts"
proof (induction opts arbitrary: oo)
  case (Cons opt opts)
  show ?case
  proof (cases opt)
    case (Some f)
    then show ?thesis using Cons by (cases f) auto
  qed (use Cons in simp)
qed simp

lemma read_file_Inr: "read_file fs dir name v = Inr data \<longleftrightarrow> fs_ReadFile fs (fs_Join fs dir name) v = FileData data"
  by (cases "fs_ReadFile fs (fs_Join fs dir name) v") (simp_all add: read_file_def)

text \<open>What the files of a directory give.\<close>

lemma clientFromDir_conf:
  assumes "clientFromDir h dir = Inr creds"
  obtains ca cert key cfg where "LoadFiles (sh_fs h) dir (sh_files h) = Inr (ca, cert, key)"
    and "ClientTLS (sh_crypto h) ca cert key = Inr (NewTLS cfg)" and "creds = NewTLS cfg"
proof -
  obtain ca cert key where files: "read_file (sh_fs h) dir sdk_caFile (sh_files h) = Inr ca"
    "read_file (sh_fs h) dir sdk_certFile (sh_files h) = Inr cert"
    "read_file (sh_fs h) dir sdk_keyFile (sh_files h) = Inr key"
    and tls: "sdk_clientTLS (sh_crypto h) ca cert key = Inr creds"
    using assms by (auto simp: clientFromDir_def split: sum.splits)
  have "LoadFiles (sh_fs h) dir (sh_files h) = Inr (ca, cert, key)"
    using files by (simp add: LoadFiles_def file_defs sdk_file_defs)
  moreover have "\<exists>cfg. ClientTLS (sh_crypto h) ca cert key = Inr (NewTLS cfg) \<and> creds = NewTLS cfg"
    using tls
    by (auto simp: sdk_clientTLS_def ClientTLS_def clientConfig_def poolFromPEM_def Let_def
        sdk_verifyPeer_eq [abs_def] split: if_splits option.splits)
  ultimately show thesis using that by blast
qed

lemma dial_creds:
  assumes "sdk_dial h dl o0 ats x = (Some (DialOk c creds oo), x')"
  shows "transportCreds h oo = Inr creds \<and> so_dataDir oo = so_dataDir o0 \<and>
    (so_insecure oo \<longrightarrow> so_insecure o0 \<or> envInsecure (sh_env h) (sh_getenv h) \<and> so_dataDir o0 = '''')"
  using assms
  by (auto simp: sdk_dial_def Let_def split: if_splits sum.splits prod.splits option.splits retry_exit.splits)

text \<open>Watch: the messages that arrive and those that reach the channel, in order.\<close>

fun recv_msgs :: "recv list \<Rightarrow> watch_response list" where
  "recv_msgs (RecvMsg resp sent # rs) = resp # (if sent then recv_msgs rs else [])"
| "recv_msgs _ = []"

fun recv_sent :: "recv list \<Rightarrow> watch_response list" where
  "recv_sent (RecvMsg resp sent # rs) = (if sent then resp # recv_sent rs else [])"
| "recv_sent _ = []"

fun round_msgs :: "watch_round \<Rightarrow> watch_response list" where
  "round_msgs (OpenOk rs slept) = recv_msgs rs"
| "round_msgs (OpenErr code ended slept) = []"

fun round_sent :: "watch_round \<Rightarrow> watch_response list" where
  "round_sent (OpenOk rs slept) = recv_sent rs"
| "round_sent (OpenErr code ended slept) = []"

definition high :: "u64 \<Rightarrow> watch_response list \<Rightarrow> u64" where
  "high l ms = fold max (map ws_seq ms) l"

lemma high_simps [simp]: "high l [] = l" "high l (m # ms) = high (max (ws_seq m) l) ms" "high l (ms @ ns) = high (high l ms) ns"
  by (simp_all add: high_def)

lemma recv_loop_result:
  "recv_loop rs l = (x, l', evs) \<Longrightarrow> l' = high l (recv_msgs rs) \<and> evs = map sdk_event_of (recv_sent rs)"
proof (induction rs arbitrary: l evs)
  case (Cons r rs)
  show ?case
  proof (cases r)
    case (RecvMsg resp sent)
    have "(if ws_seq resp > l then ws_seq resp else l) = max (ws_seq resp) l" by (auto simp: max_def)
    then show ?thesis using Cons RecvMsg by (auto simp: Let_def split: if_splits prod.splits)
  qed (use Cons.prems in \<open>auto split: if_splits\<close>)
qed simp

lemma trace_cons_sel [simp]:
  "wt_closed (trace_cons rq evs sl t) = wt_closed t" "wt_reqs (trace_cons rq evs sl t) = rq @ wt_reqs t"
  "wt_events (trace_cons rq evs sl t) = evs @ wt_events t" "wt_sleeps (trace_cons rq evs sl t) = sl @ wt_sleeps t"
  by (simp_all add: trace_cons_def)

lemma trace_end_sel [simp]:
  "wt_closed (trace_end b) = b" "wt_reqs (trace_end b) = []" "wt_events (trace_end b) = []" "wt_sleeps (trace_end b) = []"
  by (simp_all add: trace_end_def)

lemma nextBackoff_range:
  "50 * Millisecond \<le> b \<Longrightarrow> 50 * Millisecond \<le> nextBackoff b \<and> nextBackoff b \<le> 2 * Second"
  by (simp add: nextBackoff_def Millisecond_def Second_def Let_def)


text \<open>The trace of the loop from any state.\<close>

definition loop_spec :: "watch_options \<Rightarrow> (bool \<times> watch_round) list \<Rightarrow> u64 \<Rightarrow> watch_trace \<Rightarrow> bool" where
  "loop_spec wo rounds l t \<longleftrightarrow>
     length (wt_reqs t) \<le> length rounds \<and>
     (\<forall>i < length (wt_reqs t). wt_reqs t ! i =
        watch_req wo (high l (concat (map (\<lambda>r. round_msgs (snd r)) (take i rounds))))) \<and>
     wt_events t = map sdk_event_of
       (concat (map (\<lambda>r. round_sent (snd r)) (take (length (wt_reqs t)) rounds))) \<and>
     (\<forall>d \<in> set (wt_sleeps t). 50 * Millisecond \<le> d \<and> d \<le> 2 * Second)"

lemma loop_spec_end: "loop_spec wo rounds l (trace_end b)"
  by (simp add: loop_spec_def)

lemma loop_spec_cons:
  assumes "loop_spec wo rounds (high l (round_msgs (snd r))) t"
    and "evs = map sdk_event_of (round_sent (snd r))"
    and "\<forall>d \<in> set sl. 50 * Millisecond \<le> d \<and> d \<le> 2 * Second"
  shows "loop_spec wo (r # rounds) l (trace_cons [watch_req wo l] evs sl t)"
  using assms by (auto simp: loop_spec_def nth_Cons split: nat.splits)

lemma watchLoop_spec:
  "50 * Millisecond \<le> b \<Longrightarrow> b \<le> 2 * Second \<Longrightarrow> loop_spec wo rounds l (watchLoop wo rounds l b)"
proof (induction rounds arbitrary: l b)
  case (Cons r rounds)
  obtain ended x where r: "r = (ended, x)" by (cases r)
  have low: "(50 * Millisecond :: int) \<le> 50 * Millisecond" "50 * Millisecond \<le> 2 * Second"
    by (simp_all add: Millisecond_def Second_def)
  note next_b = nextBackoff_range [OF Cons.prems(1)] and next_low = nextBackoff_range [OF low(1)]
  show ?case
  proof (cases x)
    case (OpenErr code ended' slept)
    then show ?thesis
      using r Cons.prems Cons.IH [of "nextBackoff b" l] next_b
      by (auto simp: loop_spec_end intro!: loop_spec_cons)
  next
    case (OpenOk rs slept)
    obtain y l' evs where rl: "recv_loop rs l = (y, l', evs)" by (cases "recv_loop rs l")
    have res: "l' = high l (recv_msgs rs)" "evs = map sdk_event_of (recv_sent rs)"
      using recv_loop_result [OF rl] by auto
    show ?thesis
      using r OpenOk rl res low Cons.IH [of "nextBackoff (50 * Millisecond)" l'] next_low
      by (cases y) (auto simp: Let_def loop_spec_end intro!: loop_spec_cons)
  qed
qed (simp add: loop_spec_end)

text \<open>
  A round that lets the loop go on: the context lives, the stream or the call fails with another code
  than the two that end the loop, every event was taken, and the sleep ran to its end.
\<close>

fun recv_fails :: "recv list \<Rightarrow> bool" where
  "recv_fails [] = False"
| "recv_fails (RecvMsg resp sent # rs) = (sent \<and> recv_fails rs)"
| "recv_fails (RecvErr code ended # rs) = (\<not> ended \<and> code \<noteq> Canceled \<and> code \<noteq> InvalidArgument)"

fun retried :: "bool \<times> watch_round \<Rightarrow> bool" where
  "retried (ended, OpenErr code ended' slept) =
     (\<not> ended \<and> \<not> ended' \<and> code \<noteq> Canceled \<and> code \<noteq> InvalidArgument \<and> slept)"
| "retried (ended, OpenOk rs slept) = (\<not> ended \<and> recv_fails rs \<and> slept)"

lemma recv_fails_iff: "recv_fails rs \<longleftrightarrow> fst (recv_loop rs l) = RecvBroken"
  by (induction rs arbitrary: l rule: recv_fails.induct) (simp_all add: Let_def split_beta)

lemma recv_fails_broken: "recv_fails rs \<Longrightarrow> \<exists>l' evs. recv_loop rs l = (RecvBroken, l', evs)"
  using recv_fails_iff [of rs l] by (cases "recv_loop rs l") auto

lemma watchLoop_retried:
  "list_all retried rounds \<Longrightarrow>
   length (wt_reqs (watchLoop wo rounds l b)) = length rounds \<and>
   length (wt_sleeps (watchLoop wo rounds l b)) = length rounds \<and> \<not> wt_closed (watchLoop wo rounds l b)"
proof (induction rounds arbitrary: l b)
  case (Cons r rounds)
  obtain ended x where r: "r = (ended, x)" by (cases r)
  show ?case
  proof (cases x)
    case (OpenErr code ended' slept)
    then show ?thesis using Cons r by simp
  next
    case (OpenOk rs slept)
    then have "recv_fails rs" using Cons.prems r by simp
    from recv_fails_broken [OF this] obtain l' evs where "recv_loop rs l = (RecvBroken, l', evs)" by blast
    then show ?thesis using Cons r OpenOk by (simp add: Let_def)
  qed
qed simp

text \<open>Topics: what the normalisation keeps.\<close>

lemma topics_loop_valid:
  "topics_loop e ins out = Inr ts \<Longrightarrow> distinct out \<Longrightarrow> \<forall>t \<in> set out. validWatchTopic e t = None \<Longrightarrow>
   distinct ts \<and> (\<forall>t \<in> set ts. validWatchTopic e t = None) \<and>
   set ts = set out \<union> ((\<lambda>raw. TrimPrefix (TrimSpace raw) ''custom.'') ` set ins - {''''})"
proof (induction ins arbitrary: out)
  case (Cons raw ins)
  define t where "t = TrimPrefix (TrimSpace raw) ''custom.''"
  note step = Cons.prems(1) [unfolded topics_loop.simps Let_def t_def [symmetric]]
  consider (skip) "t = []" | (old) "t \<noteq> []" "validWatchTopic e t = None" "t \<in> set out"
    | (new) "t \<noteq> []" "validWatchTopic e t = None" "t \<notin> set out"
    using step by (cases "validWatchTopic e t") (auto split: if_splits)
  then show ?case
  proof cases
    case skip
    then show ?thesis using Cons.IH [of out] step Cons.prems(2,3) by (auto simp: t_def [symmetric])
  next
    case old
    then show ?thesis using Cons.IH [of out] step Cons.prems(2,3) by (auto simp: t_def [symmetric])
  next
    case new
    then show ?thesis using Cons.IH [of "out @ [t]"] step Cons.prems(2,3) by (auto simp: t_def [symmetric])
  qed
qed simp

lemma validWatchTopic_ValidTopic:
  "validWatchTopic e t = None \<Longrightarrow> \<not> HasPrefix t ''custom.'' \<Longrightarrow> ValidTopic e t = None"
proof -
  assume v: "validWatchTopic e t = None" and p: "\<not> HasPrefix t ''custom.''"
  have "NormalizeTopic t = t" using p by (simp add: NormalizeTopic_def TrimPrefix_def TypeCustomPrefix_def)
  then show ?thesis
    using v by (auto simp: ValidTopic_None_iff validWatchTopic_def isTopicChar_def maxWatchTopicLen_def
        MaxTopicLen_def find_None_iff split: if_splits)
qed


section \<open>Properties\<close>

text \<open>
  C30. The client library never falls back to plaintext: a connection from Local has insecure
  credentials only if the application passed WithInsecure, or the environment disables TLS and the
  options give no data directory. Otherwise the credentials are the daemon's own client credentials
  for the files of that directory, and a connection on them stands, resumed or not and whatever the
  standard check says, only if the peer check against the CA of the directory passes.
\<close>

theorem sdk_connection_secure:
  assumes "Local h dl opts ats x = (Some (DialOk c creds oo), x')"
  shows "(creds = Insecure \<longrightarrow> Some WithInsecure \<in> set opts \<or>
       envInsecure (sh_env h) (sh_getenv h) \<and> so_dataDir (options_apply opts defaultOptions) = '''') \<and>
    (creds \<noteq> Insecure \<longrightarrow> (\<exists>ca cert key cfg pool.
       ClientFromDir (sh_crypto h) (sh_fs h) (sdk_dir h oo) (sh_files h) = Inr creds \<and>
       LoadFiles (sh_fs h) (sdk_dir h oo) (sh_files h) = Inr (ca, cert, key) \<and>
       poolFromPEM (sh_crypto h) ca = Inr pool \<and> creds = NewTLS cfg \<and>
       (\<forall>resumed std now raw. client_accepts cfg resumed std now raw \<longleftrightarrow>
          verifyPeer (sh_crypto h) pool now raw = None)))"
proof -
  let ?o = "options_apply opts defaultOptions"
  obtain o0 where o0: "sdk_dial h dl o0 ats x = (Some (DialOk c creds oo), x')"
    "so_insecure o0 = so_insecure ?o" "so_dataDir o0 = so_dataDir ?o"
    using assms by (auto simp: Local_def Let_def split: if_splits)
  note creds = dial_creds [OF o0(1)]
  have asked: "so_insecure oo \<Longrightarrow> Some WithInsecure \<in> set opts \<or>
      envInsecure (sh_env h) (sh_getenv h) \<and> so_dataDir ?o = ''''"
    using creds o0(2,3) by (auto simp: options_insecure defaultOptions_def)
  show ?thesis
  proof (cases "so_insecure oo")
    case True
    then have "creds = Insecure" using creds by (simp add: transportCreds_def)
    then show ?thesis using asked [OF True] by simp
  next
    case False
    then have "clientFromDir h (sdk_dir h oo) = Inr creds"
      using creds by (auto simp: transportCreds_def Let_def split: if_splits)
    then obtain ca cert key cfg where files: "LoadFiles (sh_fs h) (sdk_dir h oo) (sh_files h) = Inr (ca, cert, key)"
      and tls: "ClientTLS (sh_crypto h) ca cert key = Inr (NewTLS cfg)" and eq: "creds = NewTLS cfg"
      by (rule clientFromDir_conf)
    obtain pool where pool: "poolFromPEM (sh_crypto h) ca = Inr pool" "tl_SessionTicketsDisabled cfg"
      "tl_InsecureSkipVerify cfg" "tl_VerifyPeerCertificate cfg = Some (verifyPeer (sh_crypto h) pool)"
      using tls by (auto simp: ClientTLS_def clientConfig_def split: sum.splits option.splits)
    have "client_accepts cfg resumed std now raw \<longleftrightarrow> verifyPeer (sh_crypto h) pool now raw = None"
      for resumed std now raw
      using pool(2-4) by (simp add: client_accepts_def)
    moreover have "ClientFromDir (sh_crypto h) (sh_fs h) (sdk_dir h oo) (sh_files h) = Inr creds"
      using files tls eq by (simp add: ClientFromDir_def)
    ultimately show ?thesis using files pool(1) eq by auto
  qed
qed

text \<open>
  C31. What a watch asks for and delivers, whatever the network and the context do: each request
  carries the same filter and, as cursor, the highest sequence number received before it; the
  application gets the received messages in order, without loss or repetition by the client (only a
  message that arrives as the context ends is dropped); every sleep is between 50 milliseconds and 2
  seconds. The daemon answers a reconnection at mark \<open>n\<close> with the snapshot and the mark, and announces
  exactly the interval after the cursor as a gap if the cursor is positive and below \<open>n\<close>.
\<close>

theorem watch_cursor:
  assumes "sdk_Watch e opts rounds = Inr t"
  shows "\<exists>wo. applyWatchOptions e opts = Inr wo \<and>
    (\<forall>i < length (wt_reqs t).
       let l = high 0 (concat (map (\<lambda>r. round_msgs (snd r)) (take i rounds))) in
       wt_reqs t ! i = \<lparr>wr_event_types = wo_eventTypes wo, wr_topics = wo_topics wo, wr_last_seq = l\<rparr> \<and>
       (\<forall>e' state n. \<exists>snapshot. openingMsgs e' (wt_reqs t ! i) state n =
          snapshot @ [syncMsg e' n] @ (if 0 < l \<and> l < n then [gapMsg e' (l + 1) n] else []))) \<and>
    wt_events t = map sdk_event_of
      (concat (map (\<lambda>r. round_sent (snd r)) (take (length (wt_reqs t)) rounds))) \<and>
    (\<forall>d \<in> set (wt_sleeps t). 50 * Millisecond \<le> d \<and> d \<le> 2 * Second)"
proof -
  obtain wo where wo: "applyWatchOptions e opts = Inr wo" "t = watchLoop wo rounds 0 (50 * Millisecond)"
    using assms by (auto simp: sdk_Watch_def split: sum.splits)
  have spec: "loop_spec wo rounds 0 t"
    unfolding wo(2) by (rule watchLoop_spec) (simp_all add: Millisecond_def Second_def)
  have answers: "\<exists>snapshot. openingMsgs e' req state n =
      snapshot @ [syncMsg e' n] @
      (if 0 < wr_last_seq req \<and> wr_last_seq req < n then [gapMsg e' (wr_last_seq req + 1) n] else [])"
    for e' req state n
    unfolding openingMsgs_def by (metis (no_types, lifting) append.assoc)
  have each: "let l = high 0 (concat (map (\<lambda>r. round_msgs (snd r)) (take i rounds))) in
      wt_reqs t ! i = \<lparr>wr_event_types = wo_eventTypes wo, wr_topics = wo_topics wo, wr_last_seq = l\<rparr> \<and>
      (\<forall>e' state n. \<exists>snapshot. openingMsgs e' (wt_reqs t ! i) state n =
         snapshot @ [syncMsg e' n] @ (if 0 < l \<and> l < n then [gapMsg e' (l + 1) n] else []))"
    if "i < length (wt_reqs t)" for i
  proof -
    have req: "wt_reqs t ! i = watch_req wo (high 0 (concat (map (\<lambda>r. round_msgs (snd r)) (take i rounds))))"
      using spec that by (simp add: loop_spec_def)
    have "wr_last_seq (wt_reqs t ! i) = high 0 (concat (map (\<lambda>r. round_msgs (snd r)) (take i rounds)))"
      by (simp add: req watch_req_def)
    with req answers [of _ "wt_reqs t ! i"] show ?thesis by (simp only: Let_def watch_req_def) simp
  qed
  show ?thesis
    by (rule exI [of _ wo]) (use wo(1) spec each in \<open>simp add: loop_spec_def\<close>)
qed

text \<open>
  A watch does not give up: as long as its context lives, the application takes the events and
  the calls and streams fail with codes other than Canceled and InvalidArgument, every failure is
  followed by another sleep and then another request, and the channel stays open.
\<close>

theorem watch_reconnects:
  assumes "applyWatchOptions e opts = Inr wo" and "list_all retried rounds"
  shows "\<exists>t. sdk_Watch e opts rounds = Inr t \<and> length (wt_reqs t) = length rounds \<and>
    length (wt_sleeps t) = length rounds \<and> \<not> wt_closed t"
  using assms watchLoop_retried [OF assms(2)] by (simp add: sdk_Watch_def)

text \<open>
  The topics of a watch: the options keep each topic once, without prefix, and the daemon accepts the
  request and forwards the events of each topic, if no topic has a second prefix.
\<close>

lemma watch_topics_accepted:
  assumes "applyWatchOptions e opts = Inr wo" and "\<forall>t \<in> set (wo_topics wo). \<not> HasPrefix t ''custom.''"
  shows "distinct (wo_topics wo) \<and> validateWatchRequest e (watch_req wo l) = None"
proof -
  obtain ins where "normalizeWatchTopics e ins = Inr (wo_topics wo)"
    using assms(1) by (auto simp: applyWatchOptions_def Let_def split: sum.splits)
  then have valid: "distinct (wo_topics wo)" "\<forall>t \<in> set (wo_topics wo). validWatchTopic e t = None"
    using topics_loop_valid [of e ins "[]" "wo_topics wo"]
    by (auto simp: normalizeWatchTopics_def split: if_splits)
  have "validateTopics e ts = None" if "\<forall>t \<in> set ts. ValidTopic e t = None" for ts
    using that by (induction ts) auto
  moreover have "\<forall>t \<in> set (wo_topics wo). ValidTopic e t = None"
    using valid(2) assms(2) validWatchTopic_ValidTopic by blast
  ultimately show ?thesis using valid(1) by (simp add: validateWatchRequest_def watch_req_def)
qed

text \<open>
  After a restart of the daemon its bus counts from zero again, but the cursor of the client does not
  go down: as long as the new bus has not passed the old cursor, a reconnection gets no gap notice,
  whatever was published since the restart.
\<close>

lemma restart_gap_lost:
  assumes "n \<le> wr_last_seq req"
  shows "list_all (\<lambda>m. ws_type m \<noteq> TypeWatchGap) (openingMsgs e req state n)"
proof -
  have "ws_type m \<noteq> TypeWatchGap" if "m \<in> set (snapshotMsgs e req ms)" for m ms
    using that
    by (auto simp: snapshotMsgs_def List.map_filter_def snapshotMsg_def type_defs Let_def split: if_splits)
  then show ?thesis
    using assms by (auto simp: openingMsgs_def leaderMsg_def syncMsg_def type_defs list_all_iff)
qed


text \<open>
  A topic with a doubled prefix and nothing after it passes the check of the client, but the daemon,
  which takes off the second prefix, refuses the request, and the loop ends on that code.
\<close>

lemma double_prefix_refused:
  "applyWatchOptions (ascii_env t) [Some (WithTopics [''custom.custom.''])] =
     Inr \<lparr>wo_topics = [''custom.''], wo_eventTypes = []\<rparr> \<and>
   validateWatchRequest (ascii_env t) (watch_req \<lparr>wo_topics = [''custom.''], wo_eventTypes = []\<rparr> l) =
     Some TopicRequired \<and>
   wt_closed (watchLoop wo [(False, OpenOk [RecvErr InvalidArgument False] True)] 0 (50 * Millisecond))"
proof -
  have "TrimSpace ''custom.custom.'' = ''custom.custom.''"
    by (simp add: TrimSpace_ascii ascii_def byte_def IsSpace_def)
  moreover have "validWatchTopic (ascii_env t) ''custom.'' = None"
    by (simp add: validWatchTopic_def maxWatchTopicLen_def runes_def byte_def IsLetter_def latin1_letter_def)
  ultimately show ?thesis
    by (simp add: applyWatchOptions_def normalizeWatchTopics_def normalizeWatchTypes_def validateWatchRequest_def
        watch_req_def ValidTopic_def NormalizeTopic_def TrimPrefix_def TypeCustomPrefix_def Let_def)
qed

section \<open>Witnesses\<close>

definition tls_host :: "(nat, nat, (string, string) fmap) sdk_host" where
  "tls_host =
     \<lparr>sh_env = ascii_env 0, sh_getenv = (\<lambda>key. ''''), sh_home = None, sh_crypto = demo_crypto,
      sh_fs = \<lparr>fs_MkdirAll = (\<lambda>dir mode v. (None, v)), fs_WriteFile = (\<lambda>path data mode v. (None, fmupd path data v)),
        fs_ReadFile = (\<lambda>path v. case fmlookup v path of Some d \<Rightarrow> FileData d | None \<Rightarrow> FileMissing),
        fs_Stat = (\<lambda>path v. fmlookup v path \<noteq> None), fs_Join = (\<lambda>dir name. dir @ ''/'' @ name)\<rparr>,
      sh_files = fmap_of_list [(''d/ca.crt'', CACert demo_bundle), (''d/node.crt'', NodeCert demo_bundle),
        (''d/node.key'', NodeKey demo_bundle)],
      sh_regular = (\<lambda>path. True), sh_rand = Inr (replicate 16 171)\<rparr>"

definition ready_dialer :: "unit dialer" where
  "ready_dialer =
     \<lparr>dl_NewClient = (\<lambda>addr creds x. (None, x)), dl_Close = (\<lambda>x. x),
      dl_Health = (\<lambda>x. (Inr (Health \<lparr>ni_NodeID = ''seed'', ni_ClusterID = ''c'', ni_Role = ''standalone''\<rparr>), x))\<rparr>"

lemma TrimSpace_Nil [simp]: "TrimSpace [] = []"
  by (simp add: TrimSpace_ascii ascii_def)

lemma tls_host_creds: "\<exists>cfg. clientFromDir tls_host ''d'' = Inr (NewTLS cfg)"
  by (simp add: clientFromDir_def read_file_def tls_host_def sdk_file_defs sdk_clientTLS_def demo_crypto_def
      demo_bundle_def demo_parse_def demo_subject_def fmlookup_of_list Let_def)

lemma tls_host_local:
  "\<exists>c cfg oo. Local tls_host ready_dialer [Some (WithDataDir ''d'')] [(None, True)] () =
     (Some (DialOk c (NewTLS cfg) oo), ())"
proof -
  obtain cfg where "clientFromDir tls_host ''d'' = Inr (NewTLS cfg)" using tls_host_creds by blast
  moreover have "pemFilesPresent tls_host ''d''" "sh_getenv tls_host = (\<lambda>key. '''')"
    "sh_rand tls_host = Inr (replicate 16 171)"
    by (simp_all add: pemFilesPresent_def tls_host_def)
  ultimately show ?thesis
    by (simp add: Local_def defaultOptions_def localAddr_def sdk_defaultAddr_def sdk_dial_def transportCreds_def
        sdk_dir_def ready_dialer_def newHolderID_def sdk_retry_def defaultReadyTimeout_def Second_def Let_def)
qed

theorem sdk_connection_secure_witness:
  "\<exists>c cfg oo. Local tls_host ready_dialer [Some (WithDataDir ''d'')] [(None, True)] () =
       (Some (DialOk c (NewTLS cfg) oo), ()) \<and>
     (\<exists>pool. \<forall>raw. client_accepts cfg False (\<lambda>r. True) 0 raw = (verifyPeer demo_crypto pool 0 raw = None))"
proof -
  obtain c cfg oo where run: "Local tls_host ready_dialer [Some (WithDataDir ''d'')] [(None, True)] () =
      (Some (DialOk c (NewTLS cfg) oo), ())"
    using tls_host_local by blast
  have cy: "sh_crypto tls_host = demo_crypto" by (simp add: tls_host_def)
  note all = sdk_connection_secure [OF run, unfolded cy]
  obtain cfg' pool where "NewTLS cfg = NewTLS cfg'"
    "\<forall>resumed std now raw. client_accepts cfg' resumed std now raw \<longleftrightarrow> verifyPeer demo_crypto pool now raw = None"
    using all by blast
  then show ?thesis using run by (intro exI [of _ c] exI [of _ cfg] exI [of _ oo]) auto
qed

definition demo_rounds :: "(bool \<times> watch_round) list" where
  "demo_rounds =
     [(False, OpenOk [RecvMsg \<lparr>ws_type = ''watch.sync'', ws_source = '''', ws_payload = '''',
                               ws_timestamp = 0, ws_seq = 5\<rparr> True, RecvErr Unavailable False] True),
      (False, OpenErr Unavailable False True)]"

lemma demo_watch: "applyWatchOptions e [] = Inr \<lparr>wo_topics = [], wo_eventTypes = []\<rparr>"
  by (simp add: applyWatchOptions_def normalizeWatchTopics_def normalizeWatchTypes_def Let_def)

lemma demo_trace:
  "sdk_Watch e [] demo_rounds = Inr (watchLoop \<lparr>wo_topics = [], wo_eventTypes = []\<rparr> demo_rounds 0 (50 * Millisecond))"
  by (simp add: sdk_Watch_def demo_watch)

lemma demo_trace_length:
  "length (wt_reqs (watchLoop \<lparr>wo_topics = [], wo_eventTypes = []\<rparr> demo_rounds 0 (50 * Millisecond))) = 2"
  by (simp add: demo_rounds_def Let_def)

theorem watch_cursor_witness:
  "wr_last_seq (wt_reqs (watchLoop \<lparr>wo_topics = [], wo_eventTypes = []\<rparr> demo_rounds 0 (50 * Millisecond)) ! 1) = 5"
proof -
  let ?t = "watchLoop \<lparr>wo_topics = [], wo_eventTypes = []\<rparr> demo_rounds 0 (50 * Millisecond)"
  have one: "1 < length (wt_reqs ?t)" by (simp add: demo_trace_length)
  have "wr_last_seq (wt_reqs ?t ! 1) = high 0 (concat (map (\<lambda>r. round_msgs (snd r)) (take 1 demo_rounds)))"
    using watch_cursor [OF demo_trace [of "ascii_env 0"]] one by (auto simp: Let_def)
  then show ?thesis by (simp add: demo_rounds_def)
qed

theorem watch_reconnects_witness:
  "\<exists>t. sdk_Watch (ascii_env 0) [] demo_rounds = Inr t \<and> length (wt_reqs t) = 2 \<and> \<not> wt_closed t"
proof -
  have "list_all retried demo_rounds" "length demo_rounds = 2" by (simp_all add: demo_rounds_def)
  then show ?thesis using watch_reconnects [OF demo_watch [of "ascii_env 0"], of demo_rounds] by auto
qed

end
