(* ===== verification/Spec2Isabelle.thy ===== *)
theory Spec2Isabelle
  imports Clusdr_Prelude Go_Strings Go_Json Events Fenced_Table Locks Leases Membership Eventbus Command Fsm Replication Raft_Node Watch_Service Event_Service Lock_Service Lease_Service Grpc_Server Join_Service Liveness State_Store Sdk_Client Go_Text Config App_Lifecycle App_Units Operator_Reconcile Operator_Objects Operator_Kube Operator_Runtime Pki Init_Command Sdk_Watch
begin

text \<open>
  \<^bold>\<open>Clusdr, a cluster coordination daemon.\<close> A daemon keeps a member list, a table of named locks and a
  table of named leases. Changes are entries of a Raft log that every daemon applies to the same
  state machine; events of the changes go to an in-process bus and from there to watch streams.
  Daemons serve a gRPC API to local clients and to each other, and a client library wraps it. An
  operator forms clusters of such daemons from objects of a Kubernetes cluster.

  \<^bold>\<open>Conventions.\<close> Go strings and byte slices are lists of characters (bytes), uint64 values are
  64-bit words, int64 values are integers with the wrap-around written out, instants are nanoseconds
  since the zero time of Go. A Go map is a finite map; a range loop takes the iteration order as an
  argument or uses the key order where the result is shown not to depend on it. Errors are
  constructors of datatypes in sums and options. Every call that reads the clock or the Unicode
  tables takes an environment (\<open>env\<close>). Code outside the repository (the Raft library, the database,
  gRPC connections, certificates, peers) is a record of functions over a world type \<open>'w\<close>, and what
  the code relies on is a named predicate over that record (\<open>raft_applies\<close>, \<open>raft_config_logs\<close>,
  \<open>bolt_laws\<close>, \<open>kube_history\<close>, \<open>crypto_laws\<close>, \<open>fs_laws\<close>), for which an instance is given. Loops that wait (a blocked Lock, a watch stream, a
  heartbeat loop, a renewal loop) run over the list of their turns: what the surroundings do at each
  turn is in the list, and the result \<^term>\<open>None\<close> means that the loop is still running when the list
  ends. Statements about such loops hold for every list.

  \<^bold>\<open>Theories.\<close>
  \<^item> Clusdr_Prelude, Go_Strings, Go_Text, Go_Json: integers, time, environment, maps; runes and UTF-8;
    trimming, searching, numbers and durations; the values and texts of encoding/json.
  \<^item> Events (internal/events), Eventbus (internal/eventbus): event types, topics, the bus. The
    bus is modelled at the grain of its atomic operations and its read-write lock, so that publishers
    interleave inside Publish: every channel is bounded, first-in-first-out and gets an event at most
    once; arrivals are in the order of their numbers if publications do not overlap, and need not be
    otherwise. A slow subscriber loses exactly what does not fit, and its drop flag says so.
  \<^item> Fenced_Table: the contract of a table of exclusive grants with fencing tokens, as an abstract
    machine and as the locale \<open>fenced_table\<close>, in which fencing and the uselessness of spent tokens are
    proved once. Locks (internal/locks) and Leases (internal/leases) interpret it with the operations
    of the code, which gives the refinement and the fencing theorems for both tables; their other
    lemmas cover every branch of every operation, the expiry loops and the snapshots.
  \<^item> Membership (internal/membership): the member list, its invariant and its events.
  \<^item> Command, Fsm (internal/consensus/command.go, fsm.go): the log entries and their JSON form, Apply,
    Snapshot, Restore. Replication: several replicas over one log; replicas agree, tokens never go
    back along the log, catching up by snapshot equals replaying, member lists converge.
  \<^item> Raft_Node (internal/consensus/node.go): the wrapper of the Raft library. The applied log is a
    ghost of the library state; \<open>log_reaches\<close> speaks of the states between two of its points, and the
    soundness theorems of the services say what such a state contains.
  \<^item> Watch_Service, Event_Service, Lock_Service, Lease_Service, Grpc_Server, Join_Service
    (internal/grpcserver): the handlers with their guards, forwarding to the leader and error codes. A
    watch stream runs against any interleaving of the steps of the bus.
  \<^item> Liveness (internal/heartbeat, internal/presence): detection of dead nodes.
  \<^item> State_Store (internal/store, internal/app/joinsec.go, the token check of internal/pki): what is
    saved is what is loaded, and a node that joined cannot issue certificates.
  \<^item> Pki (internal/pki, internal/mtls): the CA, the node certificates, the join token, the TLS
    configurations and the files, over the functions of crypto/x509 and crypto/tls with the laws
    \<open>crypto_laws\<close>; the seed and the nodes of a cluster accept each other's certificates and
    no others. Init_Command
    (cmd/clusdr/init.go, the opening of internal/store): the output of init, read by the operator,
    gives the token that the node accepts; what an interrupted init leaves.
  \<^item> Sdk_Client, Sdk_Watch (sdk): retry, held locks and leases, renewal and release; options,
    credentials, dialling, the membership calls, and the watch loop with its cursor, composed with the
    opening messages of Watch_Service.
  \<^item> Config (internal/config): defaults, file and environment, and which of them decides a setting.
  \<^item> App_Lifecycle (internal/app/app.go, lifecycle.go): units are started in order and closed in
    reverse. App_Units (internal/app/units.go): the units themselves; a daemon that starts is complete,
    a restarted node is announced, and a new leader overwrites its advertised address.
  \<^item> Operator_Reconcile, Operator_Objects, Operator_Kube, Operator_Runtime (internal/operator): the
    reconciler over its two interfaces, with the calls of a reconciliation observed as a trace; the
    objects it creates; the interfaces implemented on the Kubernetes API and on the daemons; the
    composition with the access control of the server.

  \<^bold>\<open>Bounds.\<close> Fencing is stated for histories of fewer than 2 to the power 64 operations, the range of
  a token counter. Deadlines are exact for clocks between 1970 and the year 292 million, the range in
  which milliseconds fit an int64.

  \<^bold>\<open>Not modelled.\<close> The generated protobuf code; the command line other than init, entry points and
  examples (flags, one call, printing); the inside of crypto/x509 and crypto/tls, which is what their
  laws say; the benchmark and soak harnesses, which start processes and measure them; the informer of the operator
  and the Kubernetes API itself. Listeners, files and goroutines of the daemon are parameters of its
  units. An operation of the tables and of the member list, which holds one mutex throughout, is one
  step, and interleavings are sequences of such steps; the operations of the bus, which do not hold
  their lock throughout, are split into the steps that can interleave. Where a handler publishes on the
  bus as part of a larger definition (PublishEvent), it does so by the whole call.
\<close>

end
